(* ===== verification/Prelude.thy ===== *)
theory Prelude
  imports Main "HOL-Library.Word"
begin

text \<open>
  Shared vocabulary of the development: machine integers with the casts the Rust code
  writes (\<open>as i64\<close>, \<open>as u64\<close>, saturating arithmetic), decimal printing and parsing,
  the state-and-error monad in which database code is written, loops over it, SQL
  updates as maps over row lists, and the interface of an enumeration stored as text.
\<close>

named_theorems run_simps \<open>evaluation rules of the state-and-error monad\<close>

section \<open>Machine integers\<close>

text \<open>
  A \<open>u64\<close> is a natural number and an \<open>i64\<close> an integer; the conversions between them,
  which the code applies at every database boundary, wrap as the machine does.
\<close>

type_synonym u64 = nat
type_synonym i64 = int
type_synonym bytes = "8 word list"

definition is_u64 :: "nat \<Rightarrow> bool" where
  "is_u64 n \<longleftrightarrow> n < 2 ^ 64"

definition is_i64 :: "int \<Rightarrow> bool" where
  "is_i64 i \<longleftrightarrow> - (2 ^ 63) \<le> i \<and> i < 2 ^ 63"

definition i64_of_u64 :: "nat \<Rightarrow> int" where
  "i64_of_u64 n = (let m = int n mod 2 ^ 64 in if m < 2 ^ 63 then m else m - 2 ^ 64)"

definition u64_of_i64 :: "int \<Rightarrow> nat" where
  "u64_of_i64 i = nat (i mod 2 ^ 64)"

definition u64_saturating_add :: "nat \<Rightarrow> nat \<Rightarrow> nat" where
  "u64_saturating_add a b = min (a + b) (2 ^ 64 - 1)"

definition u64_saturating_sub :: "nat \<Rightarrow> nat \<Rightarrow> nat" where
  "u64_saturating_sub a b = (if a < b then 0 else a - b)"

lemma u64_saturating_sub_eq [simp]: "u64_saturating_sub a b = a - b"
  by (simp add: u64_saturating_sub_def)

lemma i64_of_u64_range: "is_i64 (i64_of_u64 n)"
proof -
  define m where "m = int n mod 2 ^ 64"
  have "0 \<le> m" "m < 2 ^ 64"
    by (simp_all add: m_def)
  then show ?thesis
    unfolding is_i64_def i64_of_u64_def m_def [symmetric] Let_def by auto
qed

lemma i64_of_u64_small: "n < 2 ^ 63 \<Longrightarrow> i64_of_u64 n = int n"
  by (simp add: i64_of_u64_def Let_def)

lemma i64_of_u64_0 [simp]: "i64_of_u64 0 = 0"
  by (simp add: i64_of_u64_def)

lemma u64_of_i64_range: "is_u64 (u64_of_i64 i)"
  by (simp add: is_u64_def u64_of_i64_def nat_less_iff)

lemma u64_of_i64_nonneg: "0 \<le> i \<Longrightarrow> is_i64 i \<Longrightarrow> u64_of_i64 i = nat i"
  by (simp add: u64_of_i64_def is_i64_def)

lemma u64_of_i64_of_u64: "is_u64 n \<Longrightarrow> u64_of_i64 (i64_of_u64 n) = n"
proof (cases "n < 2 ^ 63")
  case True
  then show ?thesis
    by (simp add: i64_of_u64_small u64_of_i64_def)
next
  case False
  assume "is_u64 n"
  then have "int n mod 2 ^ 64 = int n" by (simp add: is_u64_def)
  moreover from False have "\<not> int n < 2 ^ 63" by simp
  ultimately have "i64_of_u64 n = int n - 2 ^ 64"
    by (simp add: i64_of_u64_def)
  moreover have "(int n - 2 ^ 64) mod 2 ^ 64 = int n mod 2 ^ 64"
    by (simp only: minus_mod_self2)
  ultimately show ?thesis
    using \<open>int n mod 2 ^ 64 = int n\<close> by (simp add: u64_of_i64_def)
qed

lemma i64_of_u64_of_i64: "is_i64 i \<Longrightarrow> i64_of_u64 (u64_of_i64 i) = i"
proof (cases "0 \<le> i")
  case True
  assume "is_i64 i"
  with True show ?thesis
    by (simp add: u64_of_i64_nonneg i64_of_u64_def is_i64_def)
next
  case False
  assume i: "is_i64 i"
  have "i mod 2 ^ 64 = (i + 2 ^ 64) mod 2 ^ 64" by (simp only: mod_add_self2)
  also have "\<dots> = i + 2 ^ 64"
    using i False by (intro mod_pos_pos_trivial) (simp_all add: is_i64_def)
  finally have m: "i mod 2 ^ 64 = i + 2 ^ 64" .
  have nn: "int (u64_of_i64 i) = i + 2 ^ 64"
    unfolding u64_of_i64_def m using i by (simp add: is_i64_def)
  have "\<not> i + 2 ^ 64 < 2 ^ 63" using i by (simp add: is_i64_def)
  moreover have "(i + 2 ^ 64) mod 2 ^ 64 = i + 2 ^ 64"
    using i False by (intro mod_pos_pos_trivial) (simp_all add: is_i64_def)
  ultimately show ?thesis
    unfolding i64_of_u64_def nn Let_def by simp
qed

lemma i64_of_u64_inject: "is_u64 a \<Longrightarrow> is_u64 b \<Longrightarrow> i64_of_u64 a = i64_of_u64 b \<longleftrightarrow> a = b"
  by (metis u64_of_i64_of_u64)

text \<open>The written-out cast is the two's complement reading of the 64-bit word.\<close>

lemma i64_of_u64_word: "i64_of_u64 n = sint (word_of_nat n :: 64 word)"
proof -
  define m where "m = int n mod 2 ^ 64"
  have m: "0 \<le> m" "m < 2 ^ 64"
    by (simp_all add: m_def)
  have "sint (word_of_nat n :: 64 word) = signed_take_bit 63 (int n)"
    by (simp add: sint_sbintrunc' signed_of_nat)
  also have "\<dots> = (int n + 2 ^ 63) mod 2 ^ 64 - 2 ^ 63"
    by (simp add: signed_take_bit_eq_take_bit_shift take_bit_eq_mod)
  also have "(int n + 2 ^ 63) mod 2 ^ 64 = (m + 2 ^ 63) mod 2 ^ 64"
    unfolding m_def by (rule mod_add_left_eq [symmetric])
  also have "\<dots> - 2 ^ 63 = (if m < 2 ^ 63 then m else m - 2 ^ 64)"
  proof (cases "m < 2 ^ 63")
    case True
    with m show ?thesis by simp
  next
    case False
    have "(m + 2 ^ 63) mod 2 ^ 64 = (m + 2 ^ 63 - 2 ^ 64) mod 2 ^ 64"
      by (simp only: minus_mod_self2)
    also have "\<dots> = m + 2 ^ 63 - 2 ^ 64"
      using m False by (intro mod_pos_pos_trivial) simp_all
    finally show ?thesis using False by simp
  qed
  finally show ?thesis
    by (simp add: i64_of_u64_def m_def Let_def)
qed

section \<open>Decimal text\<close>

text \<open>
  The decimal form of an unsigned integer (its \<open>Display\<close>) and \<open>str::parse::<u64>\<close>,
  which accepts one leading plus sign, wants at least one digit, and fails on a
  character that is no digit and on overflow.
\<close>

definition digit_char :: "nat \<Rightarrow> char" where
  "digit_char d = char_of (48 + d)"

definition char_digit :: "char \<Rightarrow> nat option" where
  "char_digit c = (let n = of_char c :: nat in if 48 \<le> n \<and> n \<le> 57 then Some (n - 48) else None)"

fun show_nat :: "nat \<Rightarrow> string" where
  "show_nat n = (if n < 10 then [digit_char n] else show_nat (n div 10) @ [digit_char (n mod 10)])"

declare show_nat.simps [simp del]

fun parse_digits :: "nat \<Rightarrow> string \<Rightarrow> nat option" where
  "parse_digits acc [] = Some acc"
| "parse_digits acc (c # cs) =
     (case char_digit c of
        None \<Rightarrow> None
      | Some d \<Rightarrow> if is_u64 (acc * 10 + d) then parse_digits (acc * 10 + d) cs else None)"

definition parse_u64 :: "string \<Rightarrow> nat option" where
  "parse_u64 s =
     (let t = (case s of c # cs \<Rightarrow> if c = CHR ''+'' then cs else s | [] \<Rightarrow> [])
      in if t = [] then None else parse_digits 0 t)"

definition show_int :: "int \<Rightarrow> string" where
  "show_int i = (if i < 0 then ''-'' @ show_nat (nat (- i)) else show_nat (nat i))"

lemma char_digit_digit_char [simp]: "d < 10 \<Longrightarrow> char_digit (digit_char d) = Some d"
  by (simp add: char_digit_def digit_char_def)

lemma digit_char_not_plus: "d < 10 \<Longrightarrow> digit_char d \<noteq> CHR ''+''"
proof
  assume "d < 10" "digit_char d = CHR ''+''"
  then have "char_digit (CHR ''+'') = Some d"
    by (metis char_digit_digit_char)
  then show False by (simp add: char_digit_def)
qed

lemma show_nat_nonempty [simp]: "show_nat n \<noteq> []"
  by (subst show_nat.simps) simp

lemma hd_show_nat: "\<exists>d < 10. hd (show_nat n) = digit_char d"
proof (induction n rule: show_nat.induct)
  case (1 n)
  show ?case
  proof (cases "n < 10")
    case True
    then show ?thesis by (subst show_nat.simps) auto
  next
    case False
    with "1.IH" show ?thesis by (subst show_nat.simps) simp
  qed
qed

lemma parse_digits_append:
  "parse_digits acc (xs @ ys) = Option.bind (parse_digits acc xs) (\<lambda>a. parse_digits a ys)"
  by (induction xs arbitrary: acc) (auto split: option.splits)

lemma parse_digits_show_nat: "is_u64 n \<Longrightarrow> parse_digits 0 (show_nat n) = Some n"
proof (induction n rule: show_nat.induct)
  case (1 n)
  show ?case
  proof (cases "n < 10")
    case True
    with "1.prems" show ?thesis by (subst show_nat.simps) simp
  next
    case False
    have "is_u64 (n div 10)"
      using "1.prems" div_le_dividend [of n 10] by (simp add: is_u64_def)
    with "1.IH" False have "parse_digits 0 (show_nat (n div 10)) = Some (n div 10)"
      by simp
    with False "1.prems" show ?thesis
      by (subst show_nat.simps) (simp add: parse_digits_append)
  qed
qed

lemma parse_u64_show_nat: "is_u64 n \<Longrightarrow> parse_u64 (show_nat n) = Some n"
proof -
  assume n: "is_u64 n"
  obtain c cs where s: "show_nat n = c # cs"
    by (cases "show_nat n") simp_all
  with hd_show_nat [of n] have "c \<noteq> CHR ''+''"
    using digit_char_not_plus by auto
  then show ?thesis
    using parse_digits_show_nat [OF n] by (simp add: parse_u64_def s)
qed

end
