(* ===== verification/Effects.thy ===== *)
theory Effects
  imports Prelude
begin

text \<open>
  The state-and-error monad: a computation takes the state of the database and returns
  an error or a value, together with the state it leaves behind. Statements executed one
  by one keep their effects when a later one fails; \<open>transact\<close> restores the state at an
  error, as a SQLite transaction dropped without \<open>commit\<close> does. SQL \<open>UPDATE\<close>, \<open>SELECT\<close>,
  \<open>ORDER BY\<close> and \<open>SUM\<close> are list operations on the rows of a table. The locale
  \<open>text_codec\<close> is the contract between an enumeration and the text column that stores it.
\<close>

section \<open>Computations\<close>

type_synonym ('s, 'e, 'a) run = "'s \<Rightarrow> ('e + 'a) \<times> 's"

definition ret :: "'a \<Rightarrow> ('s, 'e, 'a) run" where
  "ret a = (\<lambda>s. (Inr a, s))"

definition throw :: "'e \<Rightarrow> ('s, 'e, 'a) run" where
  "throw e = (\<lambda>s. (Inl e, s))"

definition bindM :: "('s, 'e, 'a) run \<Rightarrow> ('a \<Rightarrow> ('s, 'e, 'b) run) \<Rightarrow> ('s, 'e, 'b) run" where
  "bindM m f = (\<lambda>s. case m s of (r, s') \<Rightarrow> (case r of Inl e \<Rightarrow> (Inl e, s') | Inr a \<Rightarrow> f a s'))"

definition seqM :: "('s, 'e, 'a) run \<Rightarrow> ('s, 'e, 'b) run \<Rightarrow> ('s, 'e, 'b) run" where
  "seqM m n = bindM m (\<lambda>_. n)"

definition gets :: "('s \<Rightarrow> 'a) \<Rightarrow> ('s, 'e, 'a) run" where
  "gets f = (\<lambda>s. (Inr (f s), s))"

definition query :: "('s \<Rightarrow> 'e + 'a) \<Rightarrow> ('s, 'e, 'a) run" where
  "query f = (\<lambda>s. (f s, s))"

definition modify :: "('s \<Rightarrow> 's) \<Rightarrow> ('s, 'e, unit) run" where
  "modify f = (\<lambda>s. (Inr (), f s))"

definition statement :: "('s \<Rightarrow> 'e + 'a \<times> 's) \<Rightarrow> ('s, 'e, 'a) run" where
  \<comment> \<open>one SQL statement: it fails without an effect or returns and changes the state\<close>
  "statement f = (\<lambda>s. case f s of Inl e \<Rightarrow> (Inl e, s) | Inr (a, s') \<Rightarrow> (Inr a, s'))"

definition whenM :: "bool \<Rightarrow> ('s, 'e, unit) run \<Rightarrow> ('s, 'e, unit) run" where
  "whenM b m = (if b then m else ret ())"

definition lift_result :: "'e + 'a \<Rightarrow> ('s, 'e, 'a) run" where
  "lift_result r = (\<lambda>s. (r, s))"

definition transact :: "('s, 'e, 'a) run \<Rightarrow> ('s, 'e, 'a) run" where
  "transact m = (\<lambda>s. case m s of (r, s') \<Rightarrow> (case r of Inl e \<Rightarrow> (Inl e, s) | Inr a \<Rightarrow> (Inr a, s')))"

definition map_error :: "('e \<Rightarrow> 'f) \<Rightarrow> ('s, 'e, 'a) run \<Rightarrow> ('s, 'f, 'a) run" where
  "map_error h m = (\<lambda>s. case m s of (r, s') \<Rightarrow> (case r of Inl e \<Rightarrow> (Inl (h e), s') | Inr a \<Rightarrow> (Inr a, s')))"

fun forM :: "'x list \<Rightarrow> ('x \<Rightarrow> ('s, 'e, unit) run) \<Rightarrow> ('s, 'e, unit) run" where
  "forM [] f = ret ()"
| "forM (x # xs) f = seqM (f x) (forM xs f)"

fun foldM :: "('b \<Rightarrow> 'x \<Rightarrow> ('s, 'e, 'b) run) \<Rightarrow> 'b \<Rightarrow> 'x list \<Rightarrow> ('s, 'e, 'b) run" where
  "foldM f b [] = ret b"
| "foldM f b (x # xs) = bindM (f b x) (\<lambda>b'. foldM f b' xs)"

fun fold_result :: "('s \<Rightarrow> 'x \<Rightarrow> 'e + 's) \<Rightarrow> 's \<Rightarrow> 'x list \<Rightarrow> 'e + 's" where
  "fold_result f s [] = Inr s"
| "fold_result f s (x # xs) = (case f s x of Inl e \<Rightarrow> Inl e | Inr s' \<Rightarrow> fold_result f s' xs)"

definition ignore_error :: "('s, 'e, 'a) run \<Rightarrow> ('s, 'f, unit) run" where
  \<comment> \<open>\<open>if let Err(e) = ..\<close> with a log line only\<close>
  "ignore_error m = (\<lambda>s. (Inr (), snd (m s)))"

definition on_error :: "('s, 'e, 'a) run \<Rightarrow> ('s, 'e, unit) run \<Rightarrow> ('s, 'e, 'a) run" where
  \<comment> \<open>\<open>inspect_err\<close> with a clean-up: the error of \<open>m\<close> is returned, not that of the clean-up\<close>
  "on_error m cleanup = (\<lambda>s. case m s of (r, s') \<Rightarrow>
     (case r of Inl e \<Rightarrow> (Inl e, snd (cleanup s')) | Inr a \<Rightarrow> (Inr a, s')))"

fun mapM :: "('x \<Rightarrow> 'e + 'y) \<Rightarrow> 'x list \<Rightarrow> 'e + 'y list" where
  \<comment> \<open>\<open>collect::<Result<Vec<_>, _>>\<close>: the first error, or all the values\<close>
  "mapM f [] = Inr []"
| "mapM f (x # xs) = (case f x of Inl e \<Rightarrow> Inl e
     | Inr y \<Rightarrow> (case mapM f xs of Inl e \<Rightarrow> Inl e | Inr ys \<Rightarrow> Inr (y # ys)))"

subsection \<open>Evaluation and inversion\<close>

lemmas [run_simps] = ret_def throw_def gets_def query_def modify_def lift_result_def whenM_def

lemma bindM_ok_iff:
  "bindM m f s = (Inr b, s') \<longleftrightarrow> (\<exists>a s1. m s = (Inr a, s1) \<and> f a s1 = (Inr b, s'))"
  by (auto simp: bindM_def split: prod.splits sum.splits)

lemma seqM_ok_iff:
  "seqM m n s = (Inr b, s') \<longleftrightarrow> (\<exists>a s1. m s = (Inr a, s1) \<and> n s1 = (Inr b, s'))"
  by (simp add: seqM_def bindM_ok_iff)

lemma statement_ok_iff: "statement f s = (Inr a, s') \<longleftrightarrow> f s = Inr (a, s')"
  by (auto simp: statement_def split: sum.splits)

lemma transact_ok_iff: "transact m s = (Inr a, s') \<longleftrightarrow> m s = (Inr a, s')"
  by (auto simp: transact_def split: prod.splits sum.splits)

lemma transact_error: "transact m s = (Inl e, s') \<Longrightarrow> s' = s"
  by (auto simp: transact_def split: prod.splits sum.splits)

lemma map_error_ok_iff: "map_error h m s = (Inr a, s') \<longleftrightarrow> m s = (Inr a, s')"
  by (auto simp: map_error_def split: prod.splits sum.splits)

lemma ret_ok_iff: "ret a s = (Inr b, s') \<longleftrightarrow> b = a \<and> s' = s"
  by (auto simp: ret_def)

lemma throw_ok_iff [simp]: "throw e s = (Inr b, s') \<longleftrightarrow> False"
  by (simp add: throw_def)

lemma gets_ok_iff: "gets f s = (Inr b, s') \<longleftrightarrow> b = f s \<and> s' = s"
  by (auto simp: gets_def)

lemma query_ok_iff: "query f s = (Inr b, s') \<longleftrightarrow> f s = Inr b \<and> s' = s"
  by (auto simp: query_def)

lemma modify_ok_iff: "modify f s = (Inr b, s') \<longleftrightarrow> s' = f s"
  by (auto simp: modify_def)

lemma lift_result_ok_iff: "lift_result r s = (Inr b, s') \<longleftrightarrow> r = Inr b \<and> s' = s"
  by (auto simp: lift_result_def)

lemma whenM_ok_iff:
  "whenM b m s = (Inr u, s') \<longleftrightarrow> (if b then m s = (Inr (), s') else s' = s)"
  by (auto simp: whenM_def ret_def)

lemmas ok_simps = bindM_ok_iff seqM_ok_iff statement_ok_iff transact_ok_iff map_error_ok_iff
  ret_ok_iff gets_ok_iff query_ok_iff modify_ok_iff lift_result_ok_iff whenM_ok_iff

lemma bindM_Inr [run_simps]: "m s = (Inr a, s1) \<Longrightarrow> bindM m f s = f a s1"
  by (simp add: bindM_def)

lemma bindM_Inl [run_simps]: "m s = (Inl e, s1) \<Longrightarrow> bindM m f s = (Inl e, s1)"
  by (simp add: bindM_def)

lemma seqM_Inr [run_simps]: "m s = (Inr a, s1) \<Longrightarrow> seqM m n s = n s1"
  by (simp add: seqM_def bindM_def)

lemma seqM_Inl [run_simps]: "m s = (Inl e, s1) \<Longrightarrow> seqM m n s = (Inl e, s1)"
  by (simp add: seqM_def bindM_def)

subsection \<open>Relations between the states before and after a successful run\<close>

text \<open>
  \<open>on_ok R m\<close>: whenever \<open>m\<close> succeeds, \<open>R\<close> relates the state before, the result and the
  state after. A loop whose body keeps a reflexive and transitive relation keeps it.
\<close>

definition on_ok :: "('s \<Rightarrow> 's \<Rightarrow> bool) \<Rightarrow> ('s, 'e, 'a) run \<Rightarrow> bool" where
  "on_ok R m \<longleftrightarrow> (\<forall>s a s'. m s = (Inr a, s') \<longrightarrow> R s s')"

lemma on_okD: "on_ok R m \<Longrightarrow> m s = (Inr a, s') \<Longrightarrow> R s s'"
  by (auto simp: on_ok_def)

lemma forM_ok_rel:
  assumes "\<And>s. R s s" and "\<And>s t u. R s t \<Longrightarrow> R t u \<Longrightarrow> R s u"
    and "\<And>x s a s'. x \<in> set xs \<Longrightarrow> f x s = (Inr a, s') \<Longrightarrow> R s s'"
  shows "forM xs f s = (Inr u, s') \<Longrightarrow> R s s'"
  using assms(3)
proof (induction xs arbitrary: s)
  case Nil
  then show ?case using assms(1) by (simp add: ret_ok_iff)
next
  case (Cons x xs)
  then obtain a s1 where "f x s = (Inr a, s1)" and rest: "forM xs f s1 = (Inr u, s')"
    by (auto simp: seqM_ok_iff)
  then have "R s s1" using Cons.prems(2) by (meson list.set_intros(1))
  moreover have "R s1 s'" using Cons.IH [OF rest] Cons.prems(2) by (meson list.set_intros(2))
  ultimately show ?case using assms(2) by blast
qed

lemma foldM_ok_rel:
  assumes "\<And>s. R s s" and "\<And>s t u. R s t \<Longrightarrow> R t u \<Longrightarrow> R s u"
    and "\<And>b x s a s'. x \<in> set xs \<Longrightarrow> f b x s = (Inr a, s') \<Longrightarrow> R s s'"
  shows "foldM f b xs s = (Inr b', s') \<Longrightarrow> R s s'"
  using assms(3)
proof (induction xs arbitrary: b s)
  case Nil
  then show ?case using assms(1) by (simp add: ret_ok_iff)
next
  case (Cons x xs)
  then obtain a s1 where "f b x s = (Inr a, s1)" and rest: "foldM f a xs s1 = (Inr b', s')"
    by (auto simp: bindM_ok_iff)
  then have "R s s1" using Cons.prems(2) by (meson list.set_intros(1))
  moreover have "R s1 s'" using Cons.IH [OF rest] Cons.prems(2) by (meson list.set_intros(2))
  ultimately show ?case using assms(2) by blast
qed

lemma forM_sum:
  fixes \<mu> :: "'s \<Rightarrow> int"
  assumes "\<And>x s u s'. x \<in> set xs \<Longrightarrow> f x s = (Inr u, s') \<Longrightarrow> \<mu> s' = \<mu> s + g x"
  shows "forM xs f s = (Inr u, s') \<Longrightarrow> \<mu> s' = \<mu> s + (\<Sum>x\<leftarrow>xs. g x)"
  using assms
proof (induction xs arbitrary: s)
  case Nil
  then show ?case by (simp add: ret_ok_iff)
next
  case (Cons x xs)
  then obtain a s1 where x: "f x s = (Inr a, s1)" and rest: "forM xs f s1 = (Inr u, s')"
    by (auto simp: seqM_ok_iff)
  have "\<mu> s' = \<mu> s1 + (\<Sum>x\<leftarrow>xs. g x)"
    using Cons.IH [OF rest] Cons.prems(2) by (meson list.set_intros(2))
  moreover have "\<mu> s1 = \<mu> s + g x"
    using Cons.prems(2) x by (meson list.set_intros(1))
  ultimately show ?case by simp
qed

lemma mapM_source: "mapM f xs = Inr ys \<Longrightarrow> y \<in> set ys \<Longrightarrow> \<exists>x \<in> set xs. f x = Inr y"
  by (induction xs arbitrary: ys) (auto split: sum.splits)

subsection \<open>Every run, failed or not\<close>

definition always :: "('s \<Rightarrow> 's \<Rightarrow> bool) \<Rightarrow> ('s, 'e, 'a) run \<Rightarrow> bool" where
  "always R m \<longleftrightarrow> (\<forall>s. R s (snd (m s)))"

lemma alwaysD: "always R m \<Longrightarrow> m s = (r, s') \<Longrightarrow> R s s'"
  unfolding always_def by (metis snd_conv)

lemma on_error_ok_iff: "on_error m c s = (Inr a, s') \<longleftrightarrow> m s = (Inr a, s')"
  by (auto simp: on_error_def split: prod.splits sum.splits)

lemma ignore_error_ok_iff: "ignore_error m s = (r, s') \<longleftrightarrow> r = Inr () \<and> s' = snd (m s)"
  by (auto simp: ignore_error_def)

lemma always_trivial [intro]:
  assumes "\<And>s. R s s"
  shows "always R (ret a)" "always R (throw e)" "always R (gets f)" "always R (query g)"
    "always R (lift_result r)"
  using assms by (simp_all add: always_def ret_def throw_def gets_def query_def lift_result_def)

lemma always_map_error [simp]: "always R (map_error h m) = always R m"
proof -
  have "snd (map_error h m s) = snd (m s)" for s
    by (simp add: map_error_def split: prod.split sum.split)
  then show ?thesis by (simp add: always_def)
qed

lemma always_bind:
  assumes "always R m" "\<And>a. always S (f a)" "\<And>s. S s s" "\<And>s t u. R s t \<Longrightarrow> S t u \<Longrightarrow> Q s u"
  shows "always Q (bindM m f)"
  unfolding always_def
proof
  fix s
  obtain r s1 where m: "m s = (r, s1)" by (cases "m s")
  with assms(1) have "R s s1" by (metis always_def snd_conv)
  moreover have "S s1 (snd (bindM m f s))"
    using m assms(2,3) by (cases r) (simp_all add: bindM_def always_def)
  ultimately show "Q s (snd (bindM m f s))" by (rule assms(4))
qed

lemma always_seq:
  assumes "always R m" "always S n" "\<And>s. S s s" "\<And>s t u. R s t \<Longrightarrow> S t u \<Longrightarrow> Q s u"
  shows "always Q (seqM m n)"
  unfolding seqM_def by (rule always_bind [OF assms(1) assms(2) assms(3,4)])

lemma always_foldM:
  assumes "\<And>s. R s s" "\<And>s t u. R s t \<Longrightarrow> R t u \<Longrightarrow> R s u"
    and "\<And>b x. x \<in> set xs \<Longrightarrow> always R (f b x)"
  shows "always R (foldM f b xs)"
  using assms(3)
proof (induction xs arbitrary: b)
  case Nil
  then show ?case using assms(1) by (auto simp: always_def ret_def)
next
  case (Cons x xs)
  have "always R (f b x)" "\<And>b'. always R (foldM f b' xs)"
    using Cons.prems Cons.IH by simp_all
  then have "always R (bindM (f b x) (\<lambda>b'. foldM f b' xs))"
    by (rule always_bind [where R = R and S = R]) (rule assms(1), rule assms(2))
  then show ?case by simp
qed

lemma always_modify: "always R (modify f) \<longleftrightarrow> (\<forall>s. R s (f s))"
  by (simp add: always_def modify_def)

lemma always_statement:
  "(\<And>s a s'. f s = Inr (a, s') \<Longrightarrow> R s s') \<Longrightarrow> (\<And>s. R s s) \<Longrightarrow> always R (statement f)"
  by (auto simp: always_def statement_def split: sum.split)

lemma always_lift:
  assumes "\<And>a. always R (f a)" "\<And>s. R s s"
  shows "always R (bindM (lift_result r) f)"
  by (rule always_bind [where R = "(=)", OF _ assms]) auto

subsection \<open>Invariants of the state\<close>

text \<open>\<open>preserves P m\<close>: a run, failed or not, that starts in a state with \<open>P\<close> ends in one.\<close>

definition preserves :: "('s \<Rightarrow> bool) \<Rightarrow> ('s, 'e, 'a) run \<Rightarrow> bool" where
  "preserves P m \<longleftrightarrow> always (\<lambda>s s'. P s \<longrightarrow> P s') m"

lemma preserves_trivial:
  "preserves P (ret a)" "preserves P (throw e)" "preserves P (gets f)" "preserves P (lift_result r)"
  by (auto simp: preserves_def)

lemma preserves_bind: "preserves P m \<Longrightarrow> (\<And>a. preserves P (f a)) \<Longrightarrow> preserves P (bindM m f)"
  unfolding preserves_def
  by (rule always_bind [where R = "\<lambda>s s'. P s \<longrightarrow> P s'" and S = "\<lambda>s s'. P s \<longrightarrow> P s'"]) auto

lemma preserves_seq: "preserves P m \<Longrightarrow> preserves P n \<Longrightarrow> preserves P (seqM m n)"
  unfolding seqM_def by (rule preserves_bind)

lemma preserves_forM: "(\<And>x. preserves P (f x)) \<Longrightarrow> preserves P (forM xs f)"
  by (induction xs) (simp_all add: preserves_trivial preserves_seq)

lemma preserves_when: "preserves P m \<Longrightarrow> preserves P (whenM b m)"
  by (simp add: whenM_def preserves_trivial)

lemma preserves_map_error: "preserves P m \<Longrightarrow> preserves P (map_error h m)"
  by (simp add: preserves_def)

lemma preserves_modify: "(\<And>s. P s \<Longrightarrow> P (f s)) \<Longrightarrow> preserves P (modify f)"
  by (simp add: preserves_def always_modify)

lemma preserves_apart: "(\<And>s. P (snd (m s)) = P s) \<Longrightarrow> preserves P m"
  by (simp add: preserves_def always_def)

lemma preserves_cases:
  "preserves P m \<Longrightarrow> preserves P n \<Longrightarrow> preserves P (if b then m else n)"
  "preserves P m \<Longrightarrow> (\<And>x. preserves P (f x)) \<Longrightarrow> preserves P (case v of None \<Rightarrow> m | Some x \<Rightarrow> f x)"
  "(\<And>x. preserves P (g x)) \<Longrightarrow> (\<And>x. preserves P (f x)) \<Longrightarrow> preserves P (case w of Inl x \<Rightarrow> g x | Inr x \<Rightarrow> f x)"
  by (auto split: option.split sum.split)

lemmas preserves_rules = preserves_trivial preserves_bind preserves_seq preserves_forM
  preserves_when preserves_map_error preserves_cases

lemma preservesD: "preserves P m \<Longrightarrow> m s = (r, s') \<Longrightarrow> P s \<Longrightarrow> P s'"
  unfolding preserves_def by (auto dest: alwaysD)

section \<open>SQL on row lists\<close>

definition update_where :: "('r \<Rightarrow> bool) \<Rightarrow> ('r \<Rightarrow> 'r) \<Rightarrow> 'r list \<Rightarrow> 'r list" where
  "update_where P f rows = map (\<lambda>r. if P r then f r else r) rows"

definition first_row :: "('r \<Rightarrow> bool) \<Rightarrow> 'r list \<Rightarrow> 'r option" where
  "first_row P rows = List.find P rows"

definition sort_desc :: "('r \<Rightarrow> int) \<Rightarrow> 'r list \<Rightarrow> 'r list" where
  "sort_desc k rows = sort_key (\<lambda>r. - k r) rows"

definition page :: "int \<Rightarrow> int \<Rightarrow> 'r list \<Rightarrow> 'r list" where
  \<comment> \<open>\<open>LIMIT l OFFSET o\<close>: a negative limit means no limit, a negative offset none\<close>
  "page limit offset rows =
     (let rest = drop (nat offset) rows in if limit < 0 then rest else take (nat limit) rest)"

fun sum_from :: "int \<Rightarrow> int list \<Rightarrow> int option" where
  "sum_from acc [] = Some acc"
| "sum_from acc (x # xs) = (if is_i64 (acc + x) then sum_from (acc + x) xs else None)"

definition sql_sum :: "int list \<Rightarrow> int option option" where
  \<comment> \<open>\<open>SUM\<close> of integers: \<open>None\<close> is SQLite's integer overflow error, \<open>Some None\<close> is NULL\<close>
  "sql_sum xs = (if xs = [] then Some None else map_option Some (sum_from 0 xs))"

lemma update_where_Nil [simp]: "update_where P f [] = []"
  by (simp add: update_where_def)

lemma update_where_Cons [simp]:
  "update_where P f (r # rs) = (if P r then f r else r) # update_where P f rs"
  by (simp add: update_where_def)

lemma length_update_where [simp]: "length (update_where P f rows) = length rows"
  by (simp add: update_where_def)

lemma in_set_update_where:
  "x \<in> set (update_where P f rows) \<longleftrightarrow> (\<exists>r \<in> set rows. x = (if P r then f r else r))"
  by (auto simp: update_where_def)

lemma update_where_cases:
  "x \<in> set (update_where P f rows) \<Longrightarrow>
     (\<exists>r \<in> set rows. P r \<and> x = f r) \<or> (x \<in> set rows \<and> \<not> P x)"
  by (auto simp: in_set_update_where split: if_splits)

lemma update_where_kept: "r \<in> set rows \<Longrightarrow> \<not> P r \<Longrightarrow> r \<in> set (update_where P f rows)"
  by (force simp: in_set_update_where)

lemma map_update_where:
  "(\<And>r. P r \<Longrightarrow> g (f r) = g r) \<Longrightarrow> map g (update_where P f rows) = map g rows"
  by (induction rows) auto

lemma filter_update_where:
  "(\<And>r. P r \<Longrightarrow> Q (f r) = Q r) \<Longrightarrow>
     filter Q (update_where P f rows) = update_where P f (filter Q rows)"
  by (induction rows) auto

lemma update_where_cong_filter:
  "(\<And>r. Q r \<Longrightarrow> \<not> P r) \<Longrightarrow> update_where P f (filter Q rows) = filter Q rows"
  by (induction rows) auto

lemma update_where_id: "(\<And>r. r \<in> set rows \<Longrightarrow> \<not> P r) \<Longrightarrow> update_where P f rows = rows"
  by (induction rows) auto

lemma first_row_Some: "first_row P rows = Some r \<Longrightarrow> r \<in> set rows \<and> P r"
  by (auto simp: first_row_def find_Some_iff)

lemma first_row_None: "first_row P rows = None \<longleftrightarrow> (\<forall>r \<in> set rows. \<not> P r)"
  by (auto simp: first_row_def find_None_iff)

lemma set_sort_desc [simp]: "set (sort_desc k rows) = set rows"
  by (simp add: sort_desc_def)

lemma hd_sort_desc_max:
  assumes "r \<in> set rows"
  shows "k r \<le> k (hd (sort_desc k rows))"
proof -
  from assms have ne: "sort_desc k rows \<noteq> []" using set_sort_desc [of k rows] by force
  have "sorted (map (\<lambda>r. - k r) (sort_desc k rows))" by (simp add: sort_desc_def)
  moreover from assms have "r \<in> set (sort_desc k rows)" by simp
  ultimately show ?thesis using ne by (cases "sort_desc k rows") auto
qed

lemma sum_from_nonneg:
  assumes "\<forall>x \<in> set xs. 0 \<le> x" and "0 \<le> acc" and "is_i64 (acc + sum_list xs)"
  shows "sum_from acc xs = Some (acc + sum_list xs)"
  using assms
proof (induction xs arbitrary: acc)
  case Nil
  then show ?case by simp
next
  case (Cons x xs)
  then have "0 \<le> sum_list xs" by (simp add: sum_list_nonneg)
  with Cons.prems have "is_i64 (acc + x)" by (auto simp: is_i64_def)
  with Cons show ?case by (simp add: add.assoc)
qed

lemma sql_sum_nonneg:
  "\<forall>x \<in> set xs. 0 \<le> x \<Longrightarrow> is_i64 (sum_list xs) \<Longrightarrow>
     sql_sum xs = Some (if xs = [] then None else Some (sum_list xs))"
  using sum_from_nonneg [of xs 0] by (simp add: sql_sum_def)

section \<open>Enumerations stored as text\<close>

locale text_codec =
  fixes to_text :: "'a \<Rightarrow> string" and of_text :: "string \<Rightarrow> string + 'a"
  assumes of_text_to_text: "of_text (to_text x) = Inr x"
    and of_text_sound: "of_text s = Inr x \<Longrightarrow> s = to_text x"
begin

lemma to_text_inject: "to_text x = to_text y \<longleftrightarrow> x = y"
  by (metis of_text_to_text sum.inject(2))

lemma of_text_ok_iff: "of_text s = Inr x \<longleftrightarrow> s = to_text x"
  using of_text_to_text of_text_sound by blast

lemma of_text_rejects_iff: "(\<exists>e. of_text s = Inl e) \<longleftrightarrow> s \<notin> range to_text"
  by (metis of_text_ok_iff rangeE rangeI sum.exhaust_sel Inl_Inr_False sum.collapse(1) sum.collapse(2))

end

end
