(* ===== verification/Models.thy ===== *)
theory Models
  imports Effects
begin

text \<open>
  The data model: \<open>minotari/src/models\<close>, the error type of \<open>db/error.rs\<close>, the wallet
  output as the scanning code observes it, and the status enumerations with the text
  forms their columns hold. Each enumeration's \<open>Display\<close> and \<open>FromStr\<close> are translated
  as they are written; the interpretations of \<open>text_codec\<close> show that they are inverse.
\<close>

section \<open>Errors\<close>

datatype sqlite_error =
    ConstraintViolation
  | IntegerOverflow
  | ExecuteReturnedResults
  | QueryReturnedNoRows
  | IntegralValueOutOfRange

datatype wallet_error =
    ConnectionError
  | Rusqlite sqlite_error
  | Migration
  | SerdeJson
  | SerdeRusqlite
  | Io
  | Crypt string
  | Decoding string
  | InvalidInput string
  | DuplicateEntry string
  | DecryptionFailed string
  | Unexpected string

section \<open>Statuses\<close>

datatype output_status = Unspent | Locked | Spent

fun output_status_text :: "output_status \<Rightarrow> string" where
  "output_status_text Unspent = ''UNSPENT''"
| "output_status_text Locked = ''LOCKED''"
| "output_status_text Spent = ''SPENT''"

definition output_status_of :: "string \<Rightarrow> string + output_status" where
  "output_status_of s =
     (if s = ''UNSPENT'' then Inr Unspent
      else if s = ''LOCKED'' then Inr Locked
      else if s = ''SPENT'' then Inr Spent
      else Inl (''Invalid OutputStatus: '' @ s))"

datatype pending_status = Pending | Completed | Cancelled | Expired

fun pending_status_text :: "pending_status \<Rightarrow> string" where
  "pending_status_text Pending = ''PENDING''"
| "pending_status_text Completed = ''COMPLETED''"
| "pending_status_text Cancelled = ''CANCELLED''"
| "pending_status_text Expired = ''EXPIRED''"

definition pending_status_of :: "string \<Rightarrow> string + pending_status" where
  "pending_status_of s =
     (if s = ''PENDING'' then Inr Pending
      else if s = ''COMPLETED'' then Inr Completed
      else if s = ''CANCELLED'' then Inr Cancelled
      else if s = ''EXPIRED'' then Inr Expired
      else Inl (''Invalid PendingTransactionStatus: '' @ s))"

datatype completed_status =
    TxCompleted
  | TxBroadcast
  | MinedUnconfirmed
  | MinedConfirmed
  | TxRejected
  | TxCanceled

fun completed_status_text :: "completed_status \<Rightarrow> string" where
  "completed_status_text TxCompleted = ''completed''"
| "completed_status_text TxBroadcast = ''broadcast''"
| "completed_status_text MinedUnconfirmed = ''mined_unconfirmed''"
| "completed_status_text MinedConfirmed = ''mined_confirmed''"
| "completed_status_text TxRejected = ''rejected''"
| "completed_status_text TxCanceled = ''canceled''"

definition completed_status_of :: "string \<Rightarrow> string + completed_status" where
  "completed_status_of s =
     (if s = ''completed'' then Inr TxCompleted
      else if s = ''broadcast'' then Inr TxBroadcast
      else if s = ''mined_unconfirmed'' then Inr MinedUnconfirmed
      else if s = ''mined_confirmed'' then Inr MinedConfirmed
      else if s = ''rejected'' then Inr TxRejected
      else if s = ''canceled'' then Inr TxCanceled
      else Inl (''Unknown status: '' @ s))"

datatype webhook_status = HookPending | HookSuccess | HookFailed | HookPermanentFailure

fun webhook_status_text :: "webhook_status \<Rightarrow> string" where
  "webhook_status_text HookPending = ''pending''"
| "webhook_status_text HookSuccess = ''success''"
| "webhook_status_text HookFailed = ''failed''"
| "webhook_status_text HookPermanentFailure = ''permanent_failure''"

definition webhook_status_of :: "string \<Rightarrow> string + webhook_status" where
  "webhook_status_of s =
     (if s = ''pending'' then Inr HookPending
      else if s = ''success'' then Inr HookSuccess
      else if s = ''failed'' then Inr HookFailed
      else if s = ''permanent_failure'' then Inr HookPermanentFailure
      else Inl (''Invalid webhook status: '' @ s))"

interpretation output_codec: text_codec output_status_text output_status_of
proof
  show "output_status_of (output_status_text x) = Inr x" for x
    by (cases x) (simp_all add: output_status_of_def)
  show "output_status_of s = Inr x \<Longrightarrow> s = output_status_text x" for s x
    by (auto simp: output_status_of_def split: if_splits)
qed

interpretation pending_codec: text_codec pending_status_text pending_status_of
proof
  show "pending_status_of (pending_status_text x) = Inr x" for x
    by (cases x) (simp_all add: pending_status_of_def)
  show "pending_status_of s = Inr x \<Longrightarrow> s = pending_status_text x" for s x
    by (auto simp: pending_status_of_def split: if_splits)
qed

interpretation completed_codec: text_codec completed_status_text completed_status_of
proof
  show "completed_status_of (completed_status_text x) = Inr x" for x
    by (cases x) (simp_all add: completed_status_of_def)
  show "completed_status_of s = Inr x \<Longrightarrow> s = completed_status_text x" for s x
    by (auto simp: completed_status_of_def split: if_splits)
qed

interpretation webhook_codec: text_codec webhook_status_text webhook_status_of
proof
  show "webhook_status_of (webhook_status_text x) = Inr x" for x
    by (cases x) (simp_all add: webhook_status_of_def)
  show "webhook_status_of s = Inr x \<Longrightarrow> s = webhook_status_text x" for s x
    by (auto simp: webhook_status_of_def split: if_splits)
qed

text \<open>The status texts stay folded in proofs; only their injectivity is used.\<close>

lemmas codec_inject [simp] = output_codec.to_text_inject pending_codec.to_text_inject
  completed_codec.to_text_inject webhook_codec.to_text_inject

declare output_status_text.simps [simp del] pending_status_text.simps [simp del]
  completed_status_text.simps [simp del] webhook_status_text.simps [simp del]

lemmas status_texts = output_status_text.simps pending_status_text.simps
  completed_status_text.simps webhook_status_text.simps

section \<open>Wallet outputs\<close>

text \<open>
  A \<open>WalletOutput\<close> and its payment id belong to a library of the Tari node; the code
  reads them through accessors only, and the records hold what the accessors return.
\<close>

record payment_info =
  pi_memo :: bytes                        \<comment> \<open>\<open>get_payment_id()\<close>\<close>
  pi_fee :: "u64 option"                  \<comment> \<open>\<open>get_fee()\<close>\<close>
  pi_amount :: "u64 option"               \<comment> \<open>\<open>get_amount()\<close>\<close>
  pi_recipient :: "string option"         \<comment> \<open>\<open>get_recipient_address()\<close>, in base58\<close>
  pi_sender :: "string option"            \<comment> \<open>\<open>get_sender_address()\<close>, in base58\<close>
  pi_details :: "(string \<times> u64) option"   \<comment> \<open>sender and amount of \<open>get_transaction_info_details()\<close>\<close>
  pi_sent_hashes :: "bytes list option"   \<comment> \<open>\<open>get_sent_hashes()\<close>\<close>

record wallet_output =
  wo_value :: u64
  wo_hash :: bytes                        \<comment> \<open>\<open>output_hash()\<close>\<close>
  wo_is_burned :: bool
  wo_is_coinbase :: bool
  wo_coinbase_extra :: bytes
  wo_payment :: payment_info

section \<open>Events and balance changes\<close>

datatype wallet_event_type =
    BlockRolledBack u64 bytes
  | OutputDetected bytes u64 bytes "string option" "string option"
  | OutputConfirmed bytes u64 u64 "string option" "string option"
  | OutputRolledBack bytes u64 u64
  | PendingTransactionCancelled string string
  | TransactionBroadcast u64 bytes
  | TransactionUnconfirmed u64 u64 u64
  | TransactionConfirmed u64 u64 u64
  | TransactionRejected u64 string
  | TransactionReorged u64 u64

fun to_key_string :: "wallet_event_type \<Rightarrow> string" where
  "to_key_string (BlockRolledBack _ _) = ''BlockRolledBack''"
| "to_key_string (OutputDetected _ _ _ _ _) = ''OutputDetected''"
| "to_key_string (OutputConfirmed _ _ _ _ _) = ''OutputConfirmed''"
| "to_key_string (OutputRolledBack _ _ _) = ''OutputRolledBack''"
| "to_key_string (PendingTransactionCancelled _ _) = ''PendingTransactionCancelled''"
| "to_key_string (TransactionBroadcast _ _) = ''TransactionBroadcast''"
| "to_key_string (TransactionUnconfirmed _ _ _) = ''TransactionUnconfirmed''"
| "to_key_string (TransactionConfirmed _ _ _) = ''TransactionConfirmed''"
| "to_key_string (TransactionRejected _ _) = ''TransactionRejected''"
| "to_key_string (TransactionReorged _ _) = ''TransactionReorged''"

record wallet_event =
  we_id :: i64
  we_account :: i64
  we_type :: wallet_event_type
  we_description :: string

record balance_change =
  bc_account :: i64
  bc_output :: "i64 option"
  bc_input :: "i64 option"
  bc_description :: string
  bc_credit :: u64
  bc_debit :: u64
  bc_date :: i64
  bc_height :: u64
  bc_recipient :: "string option"
  bc_sender :: "string option"
  bc_memo_parsed :: "string option"
  bc_memo_hex :: "string option"
  bc_claimed_fee :: "u64 option"
  bc_claimed_amount :: "u64 option"
  bc_is_reversal :: bool
  bc_reversal_of :: "i64 option"
  bc_is_reversed :: bool

definition is_credit :: "balance_change \<Rightarrow> bool" where
  "is_credit bc \<longleftrightarrow> bc_credit bc > 0"

definition is_debit :: "balance_change \<Rightarrow> bool" where
  "is_debit bc \<longleftrightarrow> bc_debit bc > 0"

record scanned_tip_block =
  stb_id :: i64
  stb_account :: i64
  stb_height :: u64
  stb_hash :: bytes

end
