(* ===== verification/Display_Types.thy ===== *)
theory Display_Types
  imports Models
begin

text \<open>
  Displayed transactions: the structs of \<open>displayed_transaction_processor/types.rs\<close> and
  the builder of \<open>builder.rs\<close>. The parameter \<open>payref_of\<close> stands for
  \<open>generate_payment_reference\<close> of the Tari libraries.
\<close>

datatype transaction_direction = Incoming | Outgoing

datatype transaction_source = Transfer | Coinbase | OneSided | UnknownSource

datatype display_status =
    DPending
  | DUnconfirmed
  | DConfirmed
  | DCancelled
  | DReorganized
  | DRejected

datatype output_type = StandardOutput | CoinbaseOutput

text \<open>\<open>format!("{:?}", status).to_lowercase()\<close>, the text of the \<open>status\<close> column.\<close>

fun display_status_text :: "display_status \<Rightarrow> string" where
  "display_status_text DPending = ''pending''"
| "display_status_text DUnconfirmed = ''unconfirmed''"
| "display_status_text DConfirmed = ''confirmed''"
| "display_status_text DCancelled = ''cancelled''"
| "display_status_text DReorganized = ''reorganized''"
| "display_status_text DRejected = ''rejected''"

fun direction_text :: "transaction_direction \<Rightarrow> string" where
  "direction_text Incoming = ''incoming''"
| "direction_text Outgoing = ''outgoing''"

fun source_text :: "transaction_source \<Rightarrow> string" where
  "source_text Transfer = ''transfer''"
| "source_text Coinbase = ''coinbase''"
| "source_text OneSided = ''onesided''"
| "source_text UnknownSource = ''unknown''"

fun direction_label :: "transaction_direction \<Rightarrow> string" where
  "direction_label Incoming = ''Received''"
| "direction_label Outgoing = ''Sent''"

fun source_label :: "transaction_source \<Rightarrow> string" where
  "source_label Transfer = ''Transfer''"
| "source_label Coinbase = ''Mining Reward''"
| "source_label OneSided = ''One-sided Payment''"
| "source_label UnknownSource = ''Transaction''"

fun display_status_label :: "display_status \<Rightarrow> string" where
  "display_status_label DPending = ''Pending''"
| "display_status_label DUnconfirmed = ''Unconfirmed''"
| "display_status_label DConfirmed = ''Confirmed''"
| "display_status_label DCancelled = ''Cancelled''"
| "display_status_label DReorganized = ''Reorganized''"
| "display_status_label DRejected = ''Rejected''"

lemma display_status_text_inject [simp]:
  "display_status_text a = display_status_text b \<longleftrightarrow> a = b"
  by (cases a; cases b) simp_all

lemma direction_text_inject [simp]: "direction_text a = direction_text b \<longleftrightarrow> a = b"
  by (cases a; cases b) simp_all

declare display_status_text.simps [simp del]

record blockchain_info =
  bi_height :: u64
  bi_timestamp :: i64
  bi_confirmations :: u64
  bi_hash :: bytes

record transaction_input =
  ti_hash :: bytes
  ti_amount :: u64
  ti_matched :: i64
  ti_block :: bytes

record transaction_output =
  to_hash :: bytes
  to_amount :: u64
  to_status :: output_status
  to_height :: u64
  to_block :: bytes
  to_type :: output_type
  to_is_change :: bool

record transaction_details =
  td_account :: i64
  td_credit :: u64
  td_debit :: u64
  td_inputs :: "transaction_input list"
  td_outputs :: "transaction_output list"
  td_output_type :: "output_type option"
  td_coinbase_extra :: "bytes option"
  td_memo_hex :: "string option"
  td_sent_hashes :: "bytes list"
  td_sent_payrefs :: "bytes list"

record displayed_transaction =
  dt_id :: u64
  dt_direction :: transaction_direction
  dt_source :: transaction_source
  dt_status :: display_status
  dt_amount :: u64
  dt_message :: "string option"
  dt_counterparty :: "string option"
  dt_blockchain :: blockchain_info
  dt_fee :: "u64 option"
  dt_details :: transaction_details

section \<open>The builder\<close>

datatype processor_error =
    ParseError string
  | MissingError string
  | ProcessorDb wallet_error

record tx_builder =
  tb_account :: "i64 option"
  tb_direction :: "transaction_direction option"
  tb_source :: "transaction_source option"
  tb_status :: "display_status option"
  tb_amount :: "u64 option"
  tb_message :: "string option"
  tb_counterparty :: "string option"
  tb_height :: "u64 option"
  tb_hash :: "bytes option"
  tb_timestamp :: "i64 option"
  tb_confirmations :: "u64 option"
  tb_fee :: "u64 option"
  tb_credit :: u64
  tb_debit :: u64
  tb_inputs :: "transaction_input list"
  tb_outputs :: "transaction_output list"
  tb_output_type :: "output_type option"
  tb_coinbase_extra :: "bytes option"
  tb_memo_hex :: "string option"
  tb_sent_hashes :: "bytes list"

definition new_builder :: tx_builder where
  "new_builder = \<lparr>tb_account = None, tb_direction = None, tb_source = None, tb_status = None,
     tb_amount = None, tb_message = None, tb_counterparty = None, tb_height = None,
     tb_hash = None, tb_timestamp = None, tb_confirmations = None, tb_fee = None,
     tb_credit = 0, tb_debit = 0, tb_inputs = [], tb_outputs = [], tb_output_type = None,
     tb_coinbase_extra = None, tb_memo_hex = None, tb_sent_hashes = []\<rparr>"

definition builder_account_id :: "i64 \<Rightarrow> tx_builder \<Rightarrow> tx_builder" where
  "builder_account_id i b = b\<lparr>tb_account := Some i\<rparr>"

definition builder_direction :: "transaction_direction \<Rightarrow> tx_builder \<Rightarrow> tx_builder" where
  "builder_direction direction b = b\<lparr>tb_direction := Some direction\<rparr>"

definition builder_source :: "transaction_source \<Rightarrow> tx_builder \<Rightarrow> tx_builder" where
  "builder_source source b = b\<lparr>tb_source := Some source\<rparr>"

definition builder_status :: "display_status \<Rightarrow> tx_builder \<Rightarrow> tx_builder" where
  "builder_status status b = b\<lparr>tb_status := Some status\<rparr>"

definition builder_message :: "string option \<Rightarrow> tx_builder \<Rightarrow> tx_builder" where
  "builder_message message b = b\<lparr>tb_message := message\<rparr>"

definition builder_counterparty :: "string option \<Rightarrow> tx_builder \<Rightarrow> tx_builder" where
  "builder_counterparty address b = b\<lparr>tb_counterparty := address\<rparr>"

definition builder_fee :: "u64 option \<Rightarrow> tx_builder \<Rightarrow> tx_builder" where
  "builder_fee fee b = b\<lparr>tb_fee := fee\<rparr>"

definition builder_inputs :: "transaction_input list \<Rightarrow> tx_builder \<Rightarrow> tx_builder" where
  "builder_inputs ins b = b\<lparr>tb_inputs := ins\<rparr>"

definition builder_outputs :: "transaction_output list \<Rightarrow> tx_builder \<Rightarrow> tx_builder" where
  "builder_outputs outs b = b\<lparr>tb_outputs := outs\<rparr>"

definition builder_output_type :: "output_type option \<Rightarrow> tx_builder \<Rightarrow> tx_builder" where
  "builder_output_type ty b = b\<lparr>tb_output_type := ty\<rparr>"

definition builder_coinbase_extra :: "bytes option \<Rightarrow> tx_builder \<Rightarrow> tx_builder" where
  "builder_coinbase_extra extra b = b\<lparr>tb_coinbase_extra := extra\<rparr>"

definition builder_memo_hex :: "string option \<Rightarrow> tx_builder \<Rightarrow> tx_builder" where
  "builder_memo_hex hex b = b\<lparr>tb_memo_hex := hex\<rparr>"

definition builder_sent_hashes :: "bytes list \<Rightarrow> tx_builder \<Rightarrow> tx_builder" where
  "builder_sent_hashes hashes b = b\<lparr>tb_sent_hashes := hashes\<rparr>"

definition credits_and_debits :: "u64 \<Rightarrow> u64 \<Rightarrow> tx_builder \<Rightarrow> tx_builder" where
  "credits_and_debits credit debit b =
     (let b' = b\<lparr>tb_credit := credit, tb_debit := debit\<rparr>
      in if debit > 0
         then b'\<lparr>tb_amount := Some (u64_saturating_sub debit credit), tb_direction := Some Outgoing\<rparr>
         else b'\<lparr>tb_amount := Some credit, tb_direction := Some Incoming\<rparr>)"

definition with_blockchain_info :: "u64 \<Rightarrow> bytes \<Rightarrow> i64 \<Rightarrow> u64 \<Rightarrow> tx_builder \<Rightarrow> tx_builder" where
  "with_blockchain_info height hash timestamp confirmations b =
     b\<lparr>tb_height := Some height, tb_timestamp := Some timestamp,
       tb_confirmations := Some confirmations, tb_hash := Some hash\<rparr>"

definition opt_or :: "'a \<Rightarrow> 'a option \<Rightarrow> 'a" where
  "opt_or d x = (case x of None \<Rightarrow> d | Some v \<Rightarrow> v)"

lemma opt_or_simps [simp]: "opt_or d None = d" "opt_or d (Some v) = v"
  by (simp_all add: opt_or_def)

definition zero_hash :: bytes where
  "zero_hash = replicate 32 0"

definition build_transaction ::
  "(bytes \<Rightarrow> bytes \<Rightarrow> bytes) \<Rightarrow> u64 \<Rightarrow> tx_builder \<Rightarrow> processor_error + displayed_transaction" where
  "build_transaction payref_of tx_id b =
     (case tb_amount b of
        None \<Rightarrow> Inl (ParseError ''amount is required'')
      | Some amount \<Rightarrow>
        (case tb_direction b of
           None \<Rightarrow> Inl (ParseError ''direction is required'')
         | Some direction \<Rightarrow>
           (let fee = (case direction of Outgoing \<Rightarrow> tb_fee b | Incoming \<Rightarrow> None);
                payrefs = (case tb_hash b of None \<Rightarrow> []
                           | Some block_hash \<Rightarrow> map (payref_of block_hash) (tb_sent_hashes b))
            in Inr \<lparr>dt_id = tx_id, dt_direction = direction,
                 dt_source = opt_or UnknownSource (tb_source b),
                 dt_status = opt_or DPending (tb_status b),
                 dt_amount = amount, dt_message = tb_message b,
                 dt_counterparty = tb_counterparty b,
                 dt_blockchain = \<lparr>bi_height = opt_or 0 (tb_height b),
                   bi_timestamp = opt_or 0 (tb_timestamp b),
                   bi_confirmations = opt_or 0 (tb_confirmations b),
                   bi_hash = opt_or zero_hash (tb_hash b)\<rparr>,
                 dt_fee = fee,
                 dt_details = \<lparr>td_account = opt_or 0 (tb_account b), td_credit = tb_credit b,
                   td_debit = tb_debit b, td_inputs = tb_inputs b, td_outputs = tb_outputs b,
                   td_output_type = tb_output_type b, td_coinbase_extra = tb_coinbase_extra b,
                   td_memo_hex = tb_memo_hex b, td_sent_hashes = tb_sent_hashes b,
                   td_sent_payrefs = payrefs\<rparr>\<rparr>)))"

text \<open>
  Credits and debits are all a transaction needs; the fee is shown on an outgoing one only.
\<close>

lemma built_from_credits_and_debits:
  "\<exists>tx. build_transaction payref_of i (builder_fee fee (credits_and_debits credit debit b)) = Inr tx \<and>
     dt_direction tx = (if debit > 0 then Outgoing else Incoming) \<and>
     dt_fee tx = (if debit > 0 then fee else None)"
  by (simp add: build_transaction_def builder_fee_def credits_and_debits_def Let_def)

end
