(* ===== verification/Store.thy ===== *)
theory Store
  imports Display_Types
begin

text \<open>
  The SQLite database as a value: one record per table row, with the columns of the
  migrations, and the whole database as one record of row lists. Rows stand in the order
  of their row ids, which is the order SQLite visits a table without an index. A table
  with an \<open>AUTOINCREMENT\<close> key carries the last id it gave out. A column that holds JSON
  is the value the text decodes to, or \<open>None\<close> for text that does not decode. Time stamps
  are seconds. Enumerations are stored as the text their \<open>Display\<close> writes.
\<close>

section \<open>Rows\<close>

record output_row =
  o_id :: i64
  o_account :: i64
  o_tx_id :: i64
  o_hash :: bytes
  o_block :: bytes
  o_height :: i64
  o_value :: i64
  o_created :: i64
  o_json :: "wallet_output option"
  o_timestamp :: i64
  o_confirmed_height :: "i64 option"
  o_confirmed_hash :: "bytes option"
  o_memo_parsed :: "string option"
  o_memo_hex :: "string option"
  o_status :: string
  o_locked_at :: "i64 option"
  o_locked_by :: "string option"
  o_deleted_at :: "i64 option"
  o_deleted_height :: "i64 option"
  o_payref :: "string option"
  o_is_burn :: bool

record input_row =
  in_id :: i64
  in_account :: i64
  in_output :: i64
  in_block :: bytes
  in_height :: i64
  in_timestamp :: i64
  in_created :: i64
  in_deleted_at :: "i64 option"
  in_deleted_height :: "i64 option"

record change_row =
  ch_id :: i64
  ch_account :: i64
  ch_output :: "i64 option"
  ch_input :: "i64 option"
  ch_description :: string
  ch_credit :: i64
  ch_debit :: i64
  ch_date :: i64
  ch_height :: i64
  ch_recipient :: "string option"
  ch_sender :: "string option"
  ch_memo_parsed :: "string option"
  ch_memo_hex :: "string option"
  ch_claimed_fee :: "i64 option"
  ch_claimed_amount :: "i64 option"
  ch_is_reversal :: bool
  ch_reversal_of :: "i64 option"
  ch_is_reversed :: bool

record tip_row =
  tip_id :: i64
  tip_account :: i64
  tip_height :: i64
  tip_hash :: bytes
  tip_created :: i64

record pending_row =
  p_id :: string
  p_account :: i64
  p_key :: string
  p_status :: string
  p_requires_change :: bool
  p_total_value :: i64
  p_fee_without_change :: i64
  p_fee_with_change :: i64
  p_expires_at :: i64
  p_created :: i64

record completed_row =
  c_id :: i64
  c_account :: i64
  c_pending_id :: string
  c_status :: string
  c_rejected_reason :: "string option"
  c_kernel_excess :: bytes
  c_sent_payref :: "string option"
  c_sent_hash :: "string option"
  c_mined_height :: "i64 option"
  c_mined_block :: "bytes option"
  c_confirmation_height :: "i64 option"
  c_attempts :: int
  c_serialized :: bytes
  c_created :: i64
  c_updated :: i64

record displayed_row =
  d_id :: string
  d_account :: i64
  d_direction :: string
  d_source :: string
  d_status :: string
  d_amount :: i64
  d_height :: i64
  d_timestamp :: i64
  d_json :: "displayed_transaction option"
  d_payref :: "string option"
  d_created :: i64
  d_updated :: i64

record event_row =
  e_id :: i64
  e_account :: i64
  e_type :: string
  e_description :: string
  e_data :: "wallet_event_type option"
  e_created :: i64

record webhook_row =
  w_id :: i64
  w_event :: "i64 option"
  w_type :: string
  w_payload :: string
  w_url :: string
  w_status :: string
  w_attempts :: int
  w_next_retry :: i64
  w_created :: i64
  w_error :: "string option"

record payref_row =
  ph_id :: i64
  ph_account :: i64
  ph_tx :: i64
  ph_payref :: string
  ph_hash :: "string option"
  ph_created :: i64

record burn_row =
  bp_id :: i64
  bp_account :: i64
  bp_hash :: bytes
  bp_commitment :: bytes
  bp_claim_key :: string
  bp_ownership_nonce :: bytes
  bp_ownership_sig :: bytes
  bp_kernel_excess :: bytes
  bp_kernel_nonce :: bytes
  bp_kernel_sig :: bytes
  bp_offset_key :: bytes
  bp_encrypted :: bytes
  bp_value :: i64
  bp_kernel_fee :: i64
  bp_lock_height :: i64
  bp_status :: string
  bp_created :: i64
  bp_updated :: i64

record account_row =
  a_id :: i64
  a_name :: string
  a_fingerprint :: bytes
  a_encrypted :: bytes
  a_nonce :: bytes
  a_salt :: bytes
  a_birthday :: i64

section \<open>The database\<close>

record db =
  accounts :: "account_row list"
  outputs :: "output_row list"
  inputs :: "input_row list"
  changes :: "change_row list"
  tips :: "tip_row list"
  pendings :: "pending_row list"
  completeds :: "completed_row list"
  displayeds :: "displayed_row list"
  events :: "event_row list"
  webhooks :: "webhook_row list"
  payrefs :: "payref_row list"
  burns :: "burn_row list"
  accounts_seq :: i64
  outputs_seq :: i64
  inputs_seq :: i64
  changes_seq :: i64
  tips_seq :: i64
  events_seq :: i64
  webhooks_seq :: i64
  payrefs_seq :: i64
  burns_seq :: i64

type_synonym 'a dbm = "(db, wallet_error, 'a) run"

definition empty_db :: db where
  "empty_db = \<lparr>accounts = [], outputs = [], inputs = [], changes = [], tips = [],
     pendings = [], completeds = [], displayeds = [], events = [], webhooks = [],
     payrefs = [], burns = [], accounts_seq = 0, outputs_seq = 0, inputs_seq = 0,
     changes_seq = 0, tips_seq = 0, events_seq = 0, webhooks_seq = 0, payrefs_seq = 0,
     burns_seq = 0\<rparr>"

definition account_exists :: "db \<Rightarrow> i64 \<Rightarrow> bool" where
  "account_exists d a \<longleftrightarrow> (\<exists>r \<in> set (accounts d). a_id r = a)"

abbreviation constraint_violation :: wallet_error where
  "constraint_violation \<equiv> Rusqlite ConstraintViolation"

section \<open>What the code calls and does not define\<close>

text \<open>
  The functions of other crates that the modelled code calls, and the clock. They are
  fields of one record that every definition using them takes as its first argument.
\<close>

record externals =
  x_payref :: "bytes \<Rightarrow> bytes \<Rightarrow> bytes"      \<comment> \<open>\<open>generate_payment_reference(block, output)\<close>\<close>
  x_tx_id :: "bytes \<Rightarrow> bytes \<Rightarrow> u64"         \<comment> \<open>\<open>TxId::new_deterministic(view_key, output)\<close>\<close>
  x_from_timestamp :: "i64 \<Rightarrow> i64 option"   \<comment> \<open>\<open>DateTime::from_timestamp(secs, 0)\<close>\<close>
  x_now :: i64                              \<comment> \<open>\<open>Utc::now()\<close>, \<open>CURRENT_TIMESTAMP\<close>\<close>
  x_hex :: "bytes \<Rightarrow> string"                \<comment> \<open>\<open>hex::encode\<close>\<close>
  x_unhex :: "string \<Rightarrow> bytes option"        \<comment> \<open>\<open>hex::decode\<close>\<close>
  x_utf8_lossy :: "bytes \<Rightarrow> string"         \<comment> \<open>\<open>String::from_utf8_lossy\<close>\<close>
  x_payrefs_json :: "bytes list \<Rightarrow> string"  \<comment> \<open>\<open>serde_json::to_string\<close> of payment references\<close>
  x_parse_payrefs :: "string \<Rightarrow> string list option"
                                            \<comment> \<open>\<open>serde_json::from_str::<Vec<String>>\<close>\<close>
  x_payload_json :: "i64 \<Rightarrow> wallet_event_type \<Rightarrow> u64 \<times> u64 \<times> u64 \<Rightarrow> i64 \<Rightarrow> string"
                                            \<comment> \<open>the JSON of a webhook payload\<close>
  x_size_error :: string                    \<comment> \<open>the text of \<open>FixedHash\<close>'s size error\<close>

definition fixed_hash_of :: "bytes \<Rightarrow> bytes option" where
  \<comment> \<open>\<open>FixedHash::try_from\<close> a slice: it takes exactly 32 bytes\<close>
  "fixed_hash_of b = (if length b = 32 then Some b else None)"

end
