(* ===== verification/Ledger.thy ===== *)
theory Ledger
  imports Store
begin

text \<open>
  The balance change ledger, \<open>minotari/src/db/balance_changes.rs\<close>: insertion with the
  casts and the foreign keys of the table, the two listings, the aggregates, the search
  for the change a reversal undoes, and the reversal mark. \<open>booked\<close> is what the ledger
  says an account holds; the lemmas give the effect of every operation on it.
\<close>

section \<open>Operations\<close>

definition reference_ok :: "('r \<Rightarrow> i64) \<Rightarrow> 'r list \<Rightarrow> i64 option \<Rightarrow> bool" where
  "reference_ok key rows x = (case x of None \<Rightarrow> True | Some v \<Rightarrow> \<exists>r \<in> set rows. key r = v)"

definition change_row_of :: "i64 \<Rightarrow> balance_change \<Rightarrow> change_row" where
  "change_row_of i bc = \<lparr>ch_id = i, ch_account = bc_account bc, ch_output = bc_output bc,
     ch_input = bc_input bc, ch_description = bc_description bc,
     ch_credit = i64_of_u64 (bc_credit bc), ch_debit = i64_of_u64 (bc_debit bc),
     ch_date = bc_date bc, ch_height = i64_of_u64 (bc_height bc),
     ch_recipient = bc_recipient bc, ch_sender = bc_sender bc,
     ch_memo_parsed = bc_memo_parsed bc, ch_memo_hex = bc_memo_hex bc,
     ch_claimed_fee = map_option i64_of_u64 (bc_claimed_fee bc),
     ch_claimed_amount = map_option i64_of_u64 (bc_claimed_amount bc),
     ch_is_reversal = bc_is_reversal bc, ch_reversal_of = bc_reversal_of bc,
     ch_is_reversed = bc_is_reversed bc\<rparr>"

definition change_references_ok :: "db \<Rightarrow> balance_change \<Rightarrow> bool" where
  "change_references_ok d bc \<longleftrightarrow>
     account_exists d (bc_account bc) \<and>
     reference_ok o_id (outputs d) (bc_output bc) \<and>
     reference_ok in_id (inputs d) (bc_input bc) \<and>
     reference_ok ch_id (changes d) (bc_reversal_of bc)"

definition insert_balance_change :: "balance_change \<Rightarrow> i64 dbm" where
  "insert_balance_change bc = statement (\<lambda>d.
     if \<not> change_references_ok d bc then Inl constraint_violation
     else let i = changes_seq d + 1
          in Inr (i, d\<lparr>changes := changes d @ [change_row_of i bc], changes_seq := i\<rparr>))"

definition u64_column :: "i64 \<Rightarrow> wallet_error + u64" where
  \<comment> \<open>reading an INTEGER column into a \<open>u64\<close> field: a negative value does not deserialize\<close>
  "u64_column i = (if i < 0 then Inl SerdeRusqlite else Inr (nat i))"

definition u64_column_opt :: "i64 option \<Rightarrow> wallet_error + u64 option" where
  "u64_column_opt x = (case x of None \<Rightarrow> Inr None
     | Some i \<Rightarrow> if i < 0 then Inl SerdeRusqlite else Inr (Some (nat i)))"

definition balance_change_of_row :: "change_row \<Rightarrow> wallet_error + balance_change" where
  "balance_change_of_row r =
     (case (u64_column (ch_credit r), u64_column (ch_debit r), u64_column (ch_height r),
            u64_column_opt (ch_claimed_fee r), u64_column_opt (ch_claimed_amount r)) of
        (Inr credit, Inr debit, Inr height, Inr fee, Inr amount) \<Rightarrow>
          Inr \<lparr>bc_account = ch_account r, bc_output = ch_output r, bc_input = ch_input r,
            bc_description = ch_description r, bc_credit = credit, bc_debit = debit,
            bc_date = ch_date r, bc_height = height, bc_recipient = ch_recipient r,
            bc_sender = ch_sender r, bc_memo_parsed = ch_memo_parsed r,
            bc_memo_hex = ch_memo_hex r, bc_claimed_fee = fee, bc_claimed_amount = amount,
            bc_is_reversal = ch_is_reversal r, bc_reversal_of = ch_reversal_of r,
            bc_is_reversed = ch_is_reversed r\<rparr>
      | _ \<Rightarrow> Inl SerdeRusqlite)"

definition by_height_then_id :: "change_row list \<Rightarrow> change_row list" where
  \<comment> \<open>\<open>ORDER BY effective_height ASC, id ASC\<close>\<close>
  "by_height_then_id rows = sort_key ch_height (sort_key ch_id rows)"

definition get_all_balance_changes_by_account_id :: "i64 \<Rightarrow> balance_change list dbm" where
  "get_all_balance_changes_by_account_id a = query (\<lambda>d.
     mapM balance_change_of_row
       (by_height_then_id (filter (\<lambda>r. ch_account r = a) (changes d))))"

definition change_active :: "change_row \<Rightarrow> bool" where
  "change_active r \<longleftrightarrow> \<not> ch_is_reversed r \<and> \<not> ch_is_reversal r"

definition get_all_active_balance_changes_by_account_id :: "i64 \<Rightarrow> balance_change list dbm" where
  "get_all_active_balance_changes_by_account_id a = query (\<lambda>d.
     mapM balance_change_of_row
       (by_height_then_id (filter (\<lambda>r. ch_account r = a \<and> change_active r) (changes d))))"

record balance_aggregates =
  ag_credits :: "i64 option"
  ag_debits :: "i64 option"
  ag_max_height :: "i64 option"
  ag_max_date :: "i64 option"

definition sql_max :: "int list \<Rightarrow> int option" where
  "sql_max xs = (if xs = [] then None else Some (Max (set xs)))"

definition get_balance_aggregates_for_account :: "i64 \<Rightarrow> balance_aggregates dbm" where
  "get_balance_aggregates_for_account a = query (\<lambda>d.
     let rows = filter (\<lambda>r. ch_account r = a) (changes d)
     in case (sql_sum (map ch_credit rows), sql_sum (map ch_debit rows)) of
          (Some c, Some b) \<Rightarrow> Inr \<lparr>ag_credits = c, ag_debits = b,
             ag_max_height = sql_max (map ch_height rows),
             ag_max_date = sql_max (map ch_date rows)\<rparr>
        | _ \<Rightarrow> Inl SerdeRusqlite)"

definition last_id_where :: "(change_row \<Rightarrow> bool) \<Rightarrow> db \<Rightarrow> i64 option" where
  \<comment> \<open>\<open>ORDER BY id DESC LIMIT 1\<close>\<close>
  "last_id_where P d = (case sort_desc ch_id (filter P (changes d)) of
      [] \<Rightarrow> None | r # _ \<Rightarrow> Some (ch_id r))"

definition get_balance_change_id_by_output :: "i64 \<Rightarrow> i64 option dbm" where
  "get_balance_change_id_by_output oid =
     gets (last_id_where (\<lambda>r. ch_output r = Some oid \<and> change_active r))"

definition get_balance_change_id_by_input :: "i64 \<Rightarrow> i64 option dbm" where
  "get_balance_change_id_by_input iid =
     gets (last_id_where (\<lambda>r. ch_input r = Some iid \<and> change_active r))"

definition mark_balance_change_as_reversed :: "i64 \<Rightarrow> unit dbm" where
  "mark_balance_change_as_reversed i = modify (\<lambda>d.
     d\<lparr>changes := update_where (\<lambda>r. ch_id r = i) (\<lambda>r. r\<lparr>ch_is_reversed := True\<rparr>) (changes d)\<rparr>)"

section \<open>The booked balance\<close>

definition net :: "change_row \<Rightarrow> int" where
  "net r = ch_credit r - ch_debit r"

definition booked :: "db \<Rightarrow> i64 \<Rightarrow> int" where
  "booked d a = (\<Sum>r \<leftarrow> filter (\<lambda>r. ch_account r = a) (changes d). net r)"

lemma booked_append:
  "booked (d\<lparr>changes := changes d @ [r], changes_seq := n\<rparr>) a =
     booked d a + (if ch_account r = a then net r else 0)"
  by (simp add: booked_def)

lemma booked_cong: "changes d' = changes d \<Longrightarrow> booked d' a = booked d a"
  by (simp add: booked_def)

lemma booked_mark_reversed:
  "booked (d\<lparr>changes := update_where P (\<lambda>r. r\<lparr>ch_is_reversed := True\<rparr>) (changes d)\<rparr>) a = booked d a"
proof -
  have "map net (filter (\<lambda>r. ch_account r = a) (update_where P (\<lambda>r. r\<lparr>ch_is_reversed := True\<rparr>) rows))
      = map net (filter (\<lambda>r. ch_account r = a) rows)" for rows
    by (induction rows) (simp_all add: net_def)
  then show ?thesis by (simp add: booked_def)
qed

lemma net_change_row_of:
  "net (change_row_of i bc) = i64_of_u64 (bc_credit bc) - i64_of_u64 (bc_debit bc)"
  by (simp add: net_def change_row_of_def)

section \<open>What the operations change\<close>

text \<open>\<open>ledger_only d d'\<close>: the two databases differ in the ledger at most.\<close>

definition ledger_only :: "db \<Rightarrow> db \<Rightarrow> bool" where
  "ledger_only d d' \<longleftrightarrow> (\<exists>cs n. d' = d\<lparr>changes := cs, changes_seq := n\<rparr>)"

lemma ledger_only_refl [simp]: "ledger_only d d"
  unfolding ledger_only_def by (rule exI [of _ "changes d"], rule exI [of _ "changes_seq d"]) simp

lemma ledger_only_update: "ledger_only d (d\<lparr>changes := cs, changes_seq := n\<rparr>)"
  unfolding ledger_only_def by (rule exI [of _ cs], rule exI [of _ n]) simp

lemma ledger_only_trans: "ledger_only d d1 \<Longrightarrow> ledger_only d1 d2 \<Longrightarrow> ledger_only d d2"
  unfolding ledger_only_def by fastforce

lemma ledger_only_fields:
  assumes "ledger_only d d'"
  shows "outputs d' = outputs d" "inputs d' = inputs d" "accounts d' = accounts d"
    "tips d' = tips d" "pendings d' = pendings d" "completeds d' = completeds d"
    "displayeds d' = displayeds d" "events d' = events d" "webhooks d' = webhooks d"
    "outputs_seq d' = outputs_seq d" "inputs_seq d' = inputs_seq d"
  using assms by (auto simp: ledger_only_def)

lemma insert_balance_change_ok_iff:
  "insert_balance_change bc d = (Inr i, d') \<longleftrightarrow>
     change_references_ok d bc \<and> i = changes_seq d + 1 \<and>
     d' = d\<lparr>changes := changes d @ [change_row_of i bc], changes_seq := i\<rparr>"
  by (auto simp: insert_balance_change_def statement_ok_iff Let_def split: if_splits)

lemma insert_balance_change_ledger_only:
  "insert_balance_change bc d = (Inr i, d') \<Longrightarrow> ledger_only d d'"
  by (auto simp: insert_balance_change_ok_iff ledger_only_def)

lemma insert_balance_change_booked:
  "insert_balance_change bc d = (Inr i, d') \<Longrightarrow>
     booked d' a = booked d a +
       (if bc_account bc = a then i64_of_u64 (bc_credit bc) - i64_of_u64 (bc_debit bc) else 0)"
  by (auto simp: insert_balance_change_ok_iff booked_append net_change_row_of)
    (simp_all add: change_row_of_def)

lemma mark_reversed_ok_iff:
  "mark_balance_change_as_reversed i d = (Inr u, d') \<longleftrightarrow>
     d' = d\<lparr>changes := update_where (\<lambda>r. ch_id r = i) (\<lambda>r. r\<lparr>ch_is_reversed := True\<rparr>) (changes d)\<rparr>"
  by (simp add: mark_balance_change_as_reversed_def modify_ok_iff)

lemma mark_reversed_ledger_only:
  "mark_balance_change_as_reversed i d = (Inr u, d') \<Longrightarrow> ledger_only d d'"
  unfolding mark_reversed_ok_iff ledger_only_def
  by (rule exI [of _ "changes d'"], rule exI [of _ "changes_seq d"]) simp

lemma mark_reversed_booked:
  "mark_balance_change_as_reversed i d = (Inr u, d') \<Longrightarrow> booked d' a = booked d a"
  by (simp add: mark_reversed_ok_iff booked_mark_reversed)

text \<open>Every change that goes in comes out: the row decodes to the change that was stored.\<close>

definition change_in_range :: "balance_change \<Rightarrow> bool" where
  "change_in_range bc \<longleftrightarrow>
     bc_credit bc < 2 ^ 63 \<and> bc_debit bc < 2 ^ 63 \<and> bc_height bc < 2 ^ 63 \<and>
     pred_option (\<lambda>n. n < 2 ^ 63) (bc_claimed_fee bc) \<and>
     pred_option (\<lambda>n. n < 2 ^ 63) (bc_claimed_amount bc)"

lemma balance_change_of_row_of:
  "change_in_range bc \<Longrightarrow> balance_change_of_row (change_row_of i bc) = Inr bc"
  by (cases "bc_claimed_fee bc"; cases "bc_claimed_amount bc")
    (simp_all add: change_in_range_def balance_change_of_row_def change_row_of_def
      u64_column_def u64_column_opt_def i64_of_u64_small)

lemma last_id_where_Some:
  assumes "last_id_where P d = Some i"
  shows "\<exists>r \<in> set (changes d). P r \<and> ch_id r = i \<and> (\<forall>r' \<in> set (changes d). P r' \<longrightarrow> ch_id r' \<le> i)"
proof -
  let ?rows = "sort_desc ch_id (filter P (changes d))"
  from assms obtain r rs where r: "?rows = r # rs" "ch_id r = i"
    by (auto simp: last_id_where_def split: list.splits)
  then have "r \<in> set (filter P (changes d))"
    by (metis list.set_intros(1) set_sort_desc)
  moreover have "ch_id r' \<le> i" if "r' \<in> set (changes d)" "P r'" for r'
    using hd_sort_desc_max [of r' "filter P (changes d)" ch_id] that r by simp
  ultimately show ?thesis using r by auto
qed

lemma last_id_where_None:
  "last_id_where P d = None \<longleftrightarrow> (\<forall>r \<in> set (changes d). \<not> P r)"
proof -
  have "last_id_where P d = None \<longleftrightarrow> sort_desc ch_id (filter P (changes d)) = []"
    by (simp add: last_id_where_def split: list.splits)
  also have "\<dots> \<longleftrightarrow> set (filter P (changes d)) = {}"
    by (metis set_empty set_sort_desc)
  finally show ?thesis by auto
qed

end
