(* ===== verification/Outputs.thy ===== *)
theory Outputs
  imports Ledger
begin

text \<open>
  The outputs table, \<open>minotari/src/db/outputs.rs\<close>: insertion under the unique indexes on
  the hash and the transaction id of active rows, lookups, confirmation, locking, the
  totals, and the soft deletion of a reorganisation with its reversing balance changes.
\<close>

section \<open>Insertion and lookup\<close>

definition o_active :: "output_row \<Rightarrow> bool" where
  "o_active r \<longleftrightarrow> o_deleted_at r = None"

definition insert_output ::
  "externals \<Rightarrow> i64 \<Rightarrow> bytes \<Rightarrow> bytes \<Rightarrow> wallet_output \<Rightarrow> u64 \<Rightarrow> bytes \<Rightarrow> u64 \<Rightarrow>
     string option \<Rightarrow> string option \<Rightarrow> bytes \<Rightarrow> bool \<Rightarrow> i64 dbm" where
  "insert_output X account_id view_key output_hash output block_height block_hash mined_timestamp
       memo_parsed memo_hex payment_reference is_burn =
     (let tx_id = i64_of_u64 (x_tx_id X view_key (wo_hash output))
      in case x_from_timestamp X (i64_of_u64 mined_timestamp) of
           None \<Rightarrow> throw (Decoding (''Invalid mined timestamp: '' @ show_nat mined_timestamp))
         | Some ts \<Rightarrow> statement (\<lambda>d.
             if \<not> account_exists d account_id \<or>
                (\<exists>r \<in> set (outputs d). o_active r \<and> (o_hash r = output_hash \<or> o_tx_id r = tx_id))
             then Inl constraint_violation
             else let i = outputs_seq d + 1
               in Inr (i, d\<lparr>outputs := outputs d @ [\<lparr>o_id = i, o_account = account_id,
                    o_tx_id = tx_id, o_hash = output_hash, o_block = block_hash,
                    o_height = i64_of_u64 block_height, o_value = i64_of_u64 (wo_value output),
                    o_created = x_now X, o_json = Some output, o_timestamp = ts,
                    o_confirmed_height = None, o_confirmed_hash = None,
                    o_memo_parsed = memo_parsed, o_memo_hex = memo_hex,
                    o_status = output_status_text Unspent, o_locked_at = None,
                    o_locked_by = None, o_deleted_at = None, o_deleted_height = None,
                    o_payref = Some (x_hex X payment_reference), o_is_burn = is_burn\<rparr>],
                    outputs_seq := i\<rparr>)))"

definition output_info :: "output_row option \<Rightarrow> wallet_error + (i64 \<times> u64 \<times> wallet_output) option" where
  \<comment> \<open>the tail shared by the two lookups: deserialize the row that was found\<close>
  "output_info row = (case row of None \<Rightarrow> Inr None
     | Some r \<Rightarrow> (case o_json r of None \<Rightarrow> Inl SerdeJson
         | Some output \<Rightarrow> Inr (Some (o_id r, u64_of_i64 (o_tx_id r), output))))"

definition get_output_info_by_hash :: "bytes \<Rightarrow> (i64 \<times> u64 \<times> wallet_output) option dbm" where
  "get_output_info_by_hash h = query (\<lambda>d.
     output_info (first_row (\<lambda>r. o_hash r = h \<and> o_active r) (outputs d)))"

definition get_output_info_by_hash_for_account ::
  "i64 \<Rightarrow> bytes \<Rightarrow> (i64 \<times> u64 \<times> wallet_output) option dbm" where
  "get_output_info_by_hash_for_account a h = query (\<lambda>d.
     output_info (first_row (\<lambda>r. o_account r = a \<and> o_hash r = h \<and> o_active r) (outputs d)))"

definition get_output_by_id :: "i64 \<Rightarrow> output_row option dbm" where
  "get_output_by_id i = gets (\<lambda>d. first_row (\<lambda>r. o_id r = i) (outputs d))"

definition to_wallet_output :: "output_row \<Rightarrow> wallet_error + wallet_output" where
  "to_wallet_output r = (case o_json r of None \<Rightarrow> Inl SerdeJson | Some output \<Rightarrow> Inr output)"

section \<open>Confirmation\<close>

definition get_unconfirmed_outputs :: "i64 \<Rightarrow> u64 \<Rightarrow> u64 \<Rightarrow> output_row list dbm" where
  "get_unconfirmed_outputs a current_height confirmation_blocks = gets (\<lambda>d.
     let min_height = i64_of_u64 (u64_saturating_sub current_height confirmation_blocks)
     in filter (\<lambda>r. o_account r = a \<and> o_height r \<le> min_height \<and>
                    o_confirmed_height r = None \<and> o_active r) (outputs d))"

definition mark_output_confirmed :: "bytes \<Rightarrow> u64 \<Rightarrow> bytes \<Rightarrow> unit dbm" where
  "mark_output_confirmed h confirmed_height confirmed_hash = modify (\<lambda>d.
     d\<lparr>outputs := update_where (\<lambda>r. o_hash r = h)
         (\<lambda>r. r\<lparr>o_confirmed_height := Some (i64_of_u64 confirmed_height),
               o_confirmed_hash := Some confirmed_hash\<rparr>) (outputs d)\<rparr>)"

section \<open>Status and locks\<close>

definition update_output_status :: "i64 \<Rightarrow> output_status \<Rightarrow> unit dbm" where
  "update_output_status i st = modify (\<lambda>d.
     d\<lparr>outputs := update_where (\<lambda>r. o_id r = i) (\<lambda>r. r\<lparr>o_status := output_status_text st\<rparr>)
         (outputs d)\<rparr>)"

definition lock_output :: "i64 \<Rightarrow> string \<Rightarrow> i64 \<Rightarrow> unit dbm" where
  "lock_output i request_id at = modify (\<lambda>d.
     d\<lparr>outputs := update_where (\<lambda>r. o_id r = i \<and> o_status r = output_status_text Unspent)
         (\<lambda>r. r\<lparr>o_status := output_status_text Locked, o_locked_by := Some request_id,
               o_locked_at := Some at\<rparr>) (outputs d)\<rparr>)"

definition unlock_outputs_for_request :: "string \<Rightarrow> unit dbm" where
  "unlock_outputs_for_request request_id = modify (\<lambda>d.
     d\<lparr>outputs := update_where
         (\<lambda>r. o_locked_by r = Some request_id \<and> o_status r = output_status_text Locked)
         (\<lambda>r. r\<lparr>o_status := output_status_text Unspent, o_locked_at := None,
               o_locked_by := None\<rparr>) (outputs d)\<rparr>)"

record db_wallet_output =
  dw_id :: i64
  dw_tx_id :: u64
  dw_output :: wallet_output

definition wallet_output_of_row :: "output_row \<Rightarrow> wallet_error + db_wallet_output" where
  "wallet_output_of_row r = (case o_json r of None \<Rightarrow> Inl SerdeJson
     | Some output \<Rightarrow> Inr \<lparr>dw_id = o_id r, dw_tx_id = u64_of_i64 (o_tx_id r), dw_output = output\<rparr>)"

definition spendable :: "i64 \<Rightarrow> i64 \<Rightarrow> output_row \<Rightarrow> bool" where
  "spendable a min_height r \<longleftrightarrow> o_account r = a \<and> o_status r = output_status_text Unspent \<and>
     o_height r \<le> min_height \<and> o_active r \<and> \<not> o_is_burn r"

definition fetch_unspent_outputs :: "i64 \<Rightarrow> u64 \<Rightarrow> db_wallet_output list dbm" where
  "fetch_unspent_outputs a min_height = query (\<lambda>d.
     mapM wallet_output_of_row
       (sort_desc o_value (filter (spendable a (i64_of_u64 min_height)) (outputs d))))"

definition fetch_outputs_by_lock_request_id :: "string \<Rightarrow> db_wallet_output list dbm" where
  "fetch_outputs_by_lock_request_id request_id = query (\<lambda>d.
     mapM wallet_output_of_row (filter (\<lambda>r. o_locked_by r = Some request_id) (outputs d)))"

section \<open>Totals\<close>

definition sum_or_zero :: "int list \<Rightarrow> wallet_error + int" where
  \<comment> \<open>\<open>COALESCE(SUM(x), 0)\<close>\<close>
  "sum_or_zero xs = (case sql_sum xs of None \<Rightarrow> Inl (Rusqlite IntegerOverflow)
     | Some s \<Rightarrow> Inr (case s of None \<Rightarrow> 0 | Some t \<Rightarrow> t))"

definition countable_output :: "i64 \<Rightarrow> output_row \<Rightarrow> bool" where
  "countable_output a r \<longleftrightarrow> o_account r = a \<and> o_active r \<and> \<not> o_is_burn r"

definition get_output_totals_for_account :: "i64 \<Rightarrow> (u64 \<times> u64 \<times> u64) dbm" where
  "get_output_totals_for_account a = query (\<lambda>d.
     let rows = filter (countable_output a) (outputs d);
         locked = (\<lambda>r. o_status r = output_status_text Locked);
         unconfirmed = (\<lambda>r. o_confirmed_height r = None)
     in case (sum_or_zero (map (\<lambda>r. if locked r then o_value r else 0) rows),
              sum_or_zero (map (\<lambda>r. if unconfirmed r then o_value r else 0) rows),
              sum_or_zero (map (\<lambda>r. if locked r \<and> unconfirmed r then o_value r else 0) rows)) of
          (Inr l, Inr u, Inr b) \<Rightarrow> Inr (u64_of_i64 l, u64_of_i64 u, u64_of_i64 b)
        | _ \<Rightarrow> Inl SerdeRusqlite)"

definition get_total_unspent_balance :: "i64 \<Rightarrow> u64 dbm" where
  "get_total_unspent_balance a = query (\<lambda>d.
     case sum_or_zero (map o_value (filter (\<lambda>r. o_account r = a \<and>
            o_status r = output_status_text Unspent \<and> o_active r \<and> \<not> o_is_burn r) (outputs d))) of
       Inl e \<Rightarrow> Inl e
     | Inr t \<Rightarrow> if t < 0 then Inl (Rusqlite IntegralValueOutOfRange) else Inr (nat t))"

section \<open>Reorganisation\<close>

definition from_height :: "i64 \<Rightarrow> u64 \<Rightarrow> output_row \<Rightarrow> bool" where
  "from_height a height r \<longleftrightarrow> o_account r = a \<and> o_height r \<ge> i64_of_u64 height \<and> o_active r"

definition get_active_outputs_from_height :: "i64 \<Rightarrow> u64 \<Rightarrow> output_row list dbm" where
  "get_active_outputs_from_height a height = gets (\<lambda>d. filter (from_height a height) (outputs d))"

definition output_reversal :: "externals \<Rightarrow> i64 \<Rightarrow> u64 \<Rightarrow> i64 \<Rightarrow> i64 \<Rightarrow> i64 option \<Rightarrow> balance_change" where
  "output_reversal X account_id height oid v original =
     \<lparr>bc_account = account_id, bc_output = Some oid, bc_input = None,
      bc_description = ''Reversal: Output found in blockchain scan (reorg at height '' @
        show_nat height @ '')'',
      bc_credit = 0, bc_debit = u64_of_i64 v, bc_date = x_now X, bc_height = height,
      bc_recipient = None, bc_sender = None, bc_memo_parsed = None, bc_memo_hex = None,
      bc_claimed_fee = None, bc_claimed_amount = None, bc_is_reversal = True,
      bc_reversal_of = original, bc_is_reversed = False\<rparr>"

definition mark_if_found :: "i64 option \<Rightarrow> unit dbm" where
  "mark_if_found original = (case original of None \<Rightarrow> ret ()
     | Some i \<Rightarrow> mark_balance_change_as_reversed i)"

definition reverse_output :: "externals \<Rightarrow> i64 \<Rightarrow> u64 \<Rightarrow> output_row \<Rightarrow> unit dbm" where
  "reverse_output X a height r =
     bindM (get_balance_change_id_by_output (o_id r)) (\<lambda>original.
     seqM (mark_if_found original)
     (bindM (insert_balance_change (output_reversal X a height (o_id r) (o_value r) original)) (\<lambda>_.
      ret ())))"

definition soft_delete_outputs_from_height :: "externals \<Rightarrow> i64 \<Rightarrow> u64 \<Rightarrow> unit dbm" where
  "soft_delete_outputs_from_height X a height =
     bindM (gets (\<lambda>d. filter (from_height a height) (outputs d))) (\<lambda>outputs_to_delete.
     seqM (forM outputs_to_delete (reverse_output X a height))
     (modify (\<lambda>d. d\<lparr>outputs := update_where (from_height a height)
        (\<lambda>r. r\<lparr>o_deleted_at := Some (x_now X), o_deleted_height := Some (i64_of_u64 height),
              o_payref := None\<rparr>) (outputs d)\<rparr>)))"

end
