(* ===== verification/Inputs.thy ===== *)
theory Inputs
  imports Outputs
begin

text \<open>
  The inputs table, \<open>minotari/src/db/inputs.rs\<close>: the insertion that ignores a conflict
  with the unique index on the active row of an output and reads the row back, and the
  soft deletion of a reorganisation, which credits the spent value back.
\<close>

definition in_active :: "input_row \<Rightarrow> bool" where
  "in_active r \<longleftrightarrow> in_deleted_at r = None"

definition get_input_by_id :: "i64 \<Rightarrow> input_row option dbm" where
  "get_input_by_id i = gets (\<lambda>d. first_row (\<lambda>r. in_id r = i) (inputs d))"

definition insert_or_ignore_input ::
  "externals \<Rightarrow> i64 \<Rightarrow> i64 \<Rightarrow> u64 \<Rightarrow> bytes \<Rightarrow> i64 \<Rightarrow> unit dbm" where
  "insert_or_ignore_input X account_id output_id height block_hash ts = statement (\<lambda>d.
     if \<exists>r \<in> set (inputs d). in_active r \<and> in_output r = output_id then Inr ((), d)
     else if \<not> account_exists d account_id \<or> \<not> (\<exists>r \<in> set (outputs d). o_id r = output_id)
     then Inl constraint_violation
     else let i = inputs_seq d + 1
       in Inr ((), d\<lparr>inputs := inputs d @ [\<lparr>in_id = i, in_account = account_id,
            in_output = output_id, in_block = block_hash, in_height = i64_of_u64 height,
            in_timestamp = ts, in_created = x_now X, in_deleted_at = None,
            in_deleted_height = None\<rparr>], inputs_seq := i\<rparr>))"

definition active_input_of :: "i64 \<Rightarrow> db \<Rightarrow> wallet_error + i64" where
  "active_input_of output_id d =
     (case first_row (\<lambda>r. in_output r = output_id \<and> in_active r) (inputs d) of
        None \<Rightarrow> Inl (Rusqlite QueryReturnedNoRows) | Some r \<Rightarrow> Inr (in_id r))"

definition insert_input :: "externals \<Rightarrow> i64 \<Rightarrow> i64 \<Rightarrow> u64 \<Rightarrow> bytes \<Rightarrow> u64 \<Rightarrow> i64 dbm" where
  "insert_input X account_id output_id height block_hash mined_timestamp =
     (case x_from_timestamp X (i64_of_u64 mined_timestamp) of
        None \<Rightarrow> throw (Decoding (''Invalid mined timestamp: '' @ show_nat mined_timestamp))
      | Some ts \<Rightarrow> seqM (insert_or_ignore_input X account_id output_id height block_hash ts)
          (query (active_input_of output_id)))"

section \<open>Reorganisation\<close>

definition in_from_height :: "i64 \<Rightarrow> u64 \<Rightarrow> input_row \<Rightarrow> bool" where
  "in_from_height a height r \<longleftrightarrow> in_account r = a \<and> in_height r \<ge> i64_of_u64 height \<and> in_active r"

definition inputs_to_delete :: "i64 \<Rightarrow> u64 \<Rightarrow> db \<Rightarrow> (i64 \<times> i64 \<times> i64) list" where
  \<comment> \<open>input id, output id and output value of the join with the outputs table\<close>
  "inputs_to_delete a height d =
     concat (map (\<lambda>i. map (\<lambda>r. (in_id i, o_id r, o_value r))
                        (filter (\<lambda>r. o_id r = in_output i) (outputs d)))
       (filter (in_from_height a height) (inputs d)))"

definition input_reversal ::
  "externals \<Rightarrow> i64 \<Rightarrow> u64 \<Rightarrow> i64 \<Rightarrow> i64 \<Rightarrow> i64 \<Rightarrow> i64 option \<Rightarrow> balance_change" where
  "input_reversal X account_id height iid oid v original =
     \<lparr>bc_account = account_id, bc_output = Some oid, bc_input = Some iid,
      bc_description = ''Reversal: Input spent as input (reorg at height '' @
        show_nat height @ '')'',
      bc_credit = u64_of_i64 v, bc_debit = 0, bc_date = x_now X, bc_height = height,
      bc_recipient = None, bc_sender = None, bc_memo_parsed = None, bc_memo_hex = None,
      bc_claimed_fee = None, bc_claimed_amount = None, bc_is_reversal = True,
      bc_reversal_of = original, bc_is_reversed = False\<rparr>"

definition reverse_input :: "externals \<Rightarrow> i64 \<Rightarrow> u64 \<Rightarrow> i64 \<times> i64 \<times> i64 \<Rightarrow> unit dbm" where
  "reverse_input X a height row = (case row of (iid, oid, v) \<Rightarrow>
     bindM (get_balance_change_id_by_input iid) (\<lambda>original.
     seqM (mark_if_found original)
     (bindM (insert_balance_change (input_reversal X a height iid oid v original)) (\<lambda>_. ret ()))))"

definition soft_delete_inputs_from_height :: "externals \<Rightarrow> i64 \<Rightarrow> u64 \<Rightarrow> unit dbm" where
  "soft_delete_inputs_from_height X a height =
     bindM (gets (inputs_to_delete a height)) (\<lambda>rows.
     seqM (forM rows (reverse_input X a height))
     (modify (\<lambda>d. d\<lparr>inputs := update_where (in_from_height a height)
        (\<lambda>r. r\<lparr>in_deleted_at := Some (x_now X), in_deleted_height := Some (i64_of_u64 height)\<rparr>)
        (inputs d)\<rparr>)))"

end
