(* ===== verification/Holdings.thy ===== *)
theory Holdings
  imports Inputs
begin

text \<open>
  The abstract view of an account: what its unspent outputs are worth. \<open>held\<close> is the
  value of the active outputs less the value of the outputs that active inputs spend;
  \<open>store_ok\<close> is the well-formedness of the two tables the operations keep. The lemmas
  give the effect of each table operation on \<open>held\<close>, on \<open>booked\<close> and on \<open>store_ok\<close>.
\<close>

named_theorems effects \<open>effect of an operation on the booked and the held balance\<close>

section \<open>The abstraction\<close>

definition output_value :: "db \<Rightarrow> i64 \<Rightarrow> int" where
  "output_value d oid = (\<Sum>r \<leftarrow> filter (\<lambda>r. o_id r = oid) (outputs d). o_value r)"

definition received_sum :: "db \<Rightarrow> i64 \<Rightarrow> int" where
  "received_sum d a = (\<Sum>r \<leftarrow> filter (\<lambda>r. o_account r = a \<and> o_active r) (outputs d). o_value r)"

definition spent_sum :: "db \<Rightarrow> i64 \<Rightarrow> int" where
  "spent_sum d a =
     (\<Sum>i \<leftarrow> filter (\<lambda>i. in_account i = a \<and> in_active i) (inputs d). output_value d (in_output i))"

definition held :: "db \<Rightarrow> i64 \<Rightarrow> int" where
  "held d a = received_sum d a - spent_sum d a"

definition balanced :: "db \<Rightarrow> i64 \<Rightarrow> bool" where
  "balanced d a \<longleftrightarrow> booked d a = held d a"

section \<open>Well-formed tables\<close>

definition row_value_ok :: "output_row \<Rightarrow> bool" where
  "row_value_ok r \<longleftrightarrow> is_i64 (o_value r) \<and>
     (case o_json r of None \<Rightarrow> True | Some output \<Rightarrow> o_value r = i64_of_u64 (wo_value output))"

lemma row_value_ok_iff:
  "row_value_ok r \<longleftrightarrow> is_i64 (o_value r) \<and>
     (\<forall>output. o_json r = Some output \<longrightarrow> o_value r = i64_of_u64 (wo_value output))"
  by (simp add: row_value_ok_def split: option.split)

definition outputs_ok :: "db \<Rightarrow> bool" where
  "outputs_ok d \<longleftrightarrow> distinct (map o_id (outputs d)) \<and>
     (\<forall>r \<in> set (outputs d). o_id r \<le> outputs_seq d \<and> row_value_ok r)"

definition inputs_ok :: "db \<Rightarrow> bool" where
  "inputs_ok d \<longleftrightarrow> distinct (map in_id (inputs d)) \<and>
     (\<forall>i \<in> set (inputs d). in_id i \<le> inputs_seq d \<and>
        (\<exists>r \<in> set (outputs d). o_id r = in_output i \<and> o_account r = in_account i))"

definition store_ok :: "db \<Rightarrow> bool" where
  "store_ok d \<longleftrightarrow> outputs_ok d \<and> inputs_ok d"

lemma held_cong:
  "outputs d' = outputs d \<Longrightarrow> inputs d' = inputs d \<Longrightarrow> held d' a = held d a"
  by (simp add: held_def received_sum_def spent_sum_def output_value_def)

lemma store_ok_cong:
  assumes "outputs d' = outputs d" "inputs d' = inputs d"
    "outputs_seq d' = outputs_seq d" "inputs_seq d' = inputs_seq d"
  shows "store_ok d' = store_ok d"
  using assms by (simp add: store_ok_def outputs_ok_def inputs_ok_def)

lemma ledger_only_held: "ledger_only d d' \<Longrightarrow> held d' a = held d a"
  by (rule held_cong) (auto dest: ledger_only_fields)

lemma ledger_only_store_ok: "ledger_only d d' \<Longrightarrow> store_ok d' = store_ok d"
  by (rule store_ok_cong) (auto dest: ledger_only_fields)

lemma output_value_row:
  assumes "outputs_ok d" "r \<in> set (outputs d)"
  shows "output_value d (o_id r) = o_value r"
proof -
  from assms have d: "distinct (map o_id (outputs d))" by (simp add: outputs_ok_def)
  have "(\<Sum>x \<leftarrow> filter (\<lambda>x. o_id x = o_id r) rows. o_value x) = o_value r"
    if "distinct (map o_id rows)" "r \<in> set rows" for rows
    using that
  proof (induction rows)
    case Nil
    then show ?case by simp
  next
    case (Cons x xs)
    show ?case
    proof (cases "x = r")
      case True
      with Cons.prems have "filter (\<lambda>y. o_id y = o_id r) xs = []"
        by (auto simp: filter_empty_conv image_iff)
      with True show ?thesis by simp
    next
      case False
      with Cons.prems have "o_id x \<noteq> o_id r" by auto
      with False Cons show ?thesis by simp
    qed
  qed
  with d assms(2) show ?thesis by (simp add: output_value_def)
qed

section \<open>Updates that keep identity and value\<close>

text \<open>
  An update of the outputs table that keeps the id, the account, the value, the decoded
  output and the deletion mark of every row changes neither balance nor well-formedness.
\<close>

definition value_preserving :: "(output_row \<Rightarrow> output_row) \<Rightarrow> bool" where
  "value_preserving f \<longleftrightarrow> (\<forall>r. o_id (f r) = o_id r \<and> o_account (f r) = o_account r \<and>
     o_value (f r) = o_value r \<and> o_json (f r) = o_json r \<and> o_deleted_at (f r) = o_deleted_at r)"

lemma sum_update_where:
  assumes "\<And>r. P (f r) = P r" "\<And>r. v (f r) = (v r :: int)"
  shows "(\<Sum>r \<leftarrow> filter P (update_where Q f rows). v r) = (\<Sum>r \<leftarrow> filter P rows. v r)"
  by (induction rows) (simp_all add: assms)

lemma output_value_update_where:
  assumes "\<And>r. o_id (f r) = o_id r" "\<And>r. o_value (f r) = o_value r"
  shows "output_value (d\<lparr>outputs := update_where Q f (outputs d)\<rparr>) oid = output_value d oid"
  unfolding output_value_def by (simp add: assms sum_update_where)

lemma held_update_where:
  "value_preserving f \<Longrightarrow> held (d\<lparr>outputs := update_where Q f (outputs d)\<rparr>) a = held d a"
  by (simp add: held_def received_sum_def spent_sum_def output_value_update_where
      value_preserving_def o_active_def sum_update_where)

lemma store_ok_update_outputs:
  assumes f: "\<And>r. o_id (f r) = o_id r" "\<And>r. o_account (f r) = o_account r"
    "\<And>r. o_value (f r) = o_value r" "\<And>r. o_json (f r) = o_json r"
    and ok: "store_ok d"
  shows "store_ok (d\<lparr>outputs := update_where Q f (outputs d)\<rparr>)"
proof -
  let ?rows = "update_where Q f (outputs d)"
  have ids: "map o_id ?rows = map o_id (outputs d)"
    by (rule map_update_where) (simp add: f)
  have "outputs_ok (d\<lparr>outputs := ?rows\<rparr>)"
    using ok ids by (auto simp: store_ok_def outputs_ok_def in_set_update_where f row_value_ok_iff
        split: if_splits)
  moreover have "inputs_ok (d\<lparr>outputs := ?rows\<rparr>)"
  proof -
    have "\<exists>x \<in> set ?rows. o_id x = in_output i \<and> o_account x = in_account i"
      if "i \<in> set (inputs d)" for i
    proof -
      from ok that obtain r where r: "r \<in> set (outputs d)" "o_id r = in_output i"
        "o_account r = in_account i"
        by (auto simp: store_ok_def inputs_ok_def)
      then have "(if Q r then f r else r) \<in> set ?rows"
        by (auto simp: in_set_update_where)
      with r show ?thesis using f by (metis (full_types))
    qed
    with ok show ?thesis by (auto simp: store_ok_def inputs_ok_def)
  qed
  ultimately show ?thesis by (simp add: store_ok_def)
qed

lemma store_ok_value_preserving:
  "value_preserving f \<Longrightarrow> store_ok d \<Longrightarrow> store_ok (d\<lparr>outputs := update_where Q f (outputs d)\<rparr>)"
  by (rule store_ok_update_outputs) (auto simp: value_preserving_def)

lemma booked_outputs [simp]: "booked (d\<lparr>outputs := rows\<rparr>) a = booked d a"
  by (rule booked_cong) simp

lemma booked_inputs [simp]: "booked (d\<lparr>inputs := rows\<rparr>) a = booked d a"
  by (rule booked_cong) simp

text \<open>The three operations that change only the status or the confirmation of outputs.\<close>

lemma value_preserving_ops:
  "value_preserving (\<lambda>r. r\<lparr>o_status := st\<rparr>)"
  "value_preserving (\<lambda>r. r\<lparr>o_confirmed_height := ch, o_confirmed_hash := cb\<rparr>)"
  "value_preserving (\<lambda>r. r\<lparr>o_status := st, o_locked_by := lb, o_locked_at := la\<rparr>)"
  "value_preserving (\<lambda>r. r\<lparr>o_status := st, o_locked_at := la, o_locked_by := lb\<rparr>)"
  by (simp_all add: value_preserving_def)

definition quiet :: "db \<Rightarrow> db \<Rightarrow> bool" where
  \<comment> \<open>neither balance of any account moves, and well-formed tables stay so\<close>
  "quiet d d' \<longleftrightarrow> (\<forall>a. booked d' a = booked d a \<and> held d' a = held d a) \<and>
     (store_ok d \<longrightarrow> store_ok d')"

lemma quiet_refl [simp]: "quiet d d"
  by (simp add: quiet_def)

lemma quiet_trans: "quiet d d1 \<Longrightarrow> quiet d1 d2 \<Longrightarrow> quiet d d2"
  by (simp add: quiet_def)

lemma quiet_balanced: "quiet d d' \<Longrightarrow> balanced d' a = balanced d a"
  by (simp add: quiet_def balanced_def)

lemma quiet_update_where:
  "value_preserving f \<Longrightarrow> quiet d (d\<lparr>outputs := update_where Q f (outputs d)\<rparr>)"
  by (simp add: quiet_def held_update_where store_ok_value_preserving)

lemma quiet_other_tables:
  assumes "outputs d' = outputs d" "inputs d' = inputs d" "changes d' = changes d"
    "outputs_seq d' = outputs_seq d" "inputs_seq d' = inputs_seq d"
  shows "quiet d d'"
  unfolding quiet_def
  using booked_cong [OF assms(3)] held_cong [OF assms(1,2)] store_ok_cong [OF assms(1,2,4,5)]
  by simp

lemma quiet_output_ops:
  "update_output_status i st d = (Inr u, d') \<Longrightarrow> quiet d d'"
  "mark_output_confirmed h ch cb d = (Inr u, d') \<Longrightarrow> quiet d d'"
  "lock_output i req at d = (Inr u, d') \<Longrightarrow> quiet d d'"
  "unlock_outputs_for_request req d = (Inr u, d') \<Longrightarrow> quiet d d'"
  by (simp_all add: update_output_status_def mark_output_confirmed_def lock_output_def
      unlock_outputs_for_request_def modify_ok_iff quiet_update_where value_preserving_ops)

section \<open>Receiving an output\<close>

lemma insert_output_ok_iff:
  "insert_output X a vk h out bh bb mt mp mh pr burn d = (Inr i, d') \<longleftrightarrow>
     (\<exists>ts. x_from_timestamp X (i64_of_u64 mt) = Some ts \<and> account_exists d a \<and>
        (\<forall>r \<in> set (outputs d). o_active r \<longrightarrow>
           o_hash r \<noteq> h \<and> o_tx_id r \<noteq> i64_of_u64 (x_tx_id X vk (wo_hash out))) \<and>
        i = outputs_seq d + 1 \<and>
        d' = d\<lparr>outputs := outputs d @ [\<lparr>o_id = i, o_account = a,
             o_tx_id = i64_of_u64 (x_tx_id X vk (wo_hash out)), o_hash = h, o_block = bb,
             o_height = i64_of_u64 bh, o_value = i64_of_u64 (wo_value out),
             o_created = x_now X, o_json = Some out, o_timestamp = ts,
             o_confirmed_height = None, o_confirmed_hash = None, o_memo_parsed = mp,
             o_memo_hex = mh, o_status = output_status_text Unspent, o_locked_at = None,
             o_locked_by = None, o_deleted_at = None, o_deleted_height = None,
             o_payref = Some (x_hex X pr), o_is_burn = burn\<rparr>], outputs_seq := i\<rparr>)"
  by (auto simp: insert_output_def Let_def statement_ok_iff split: option.splits if_splits)

lemma append_output_effect:
  assumes ok: "store_ok d" and id: "o_id r = outputs_seq d + 1" and act: "o_active r"
    and v: "row_value_ok r"
  defines "d' \<equiv> d\<lparr>outputs := outputs d @ [r], outputs_seq := outputs_seq d + 1\<rparr>"
  shows "held d' b = held d b + (if b = o_account r then o_value r else 0)" and "store_ok d'"
    and "booked d' b = booked d b"
proof -
  have fresh: "o_id x \<noteq> o_id r" if "x \<in> set (outputs d)" for x
    using ok that id by (force simp: store_ok_def outputs_ok_def)
  have ref: "in_output i \<noteq> o_id r" if "i \<in> set (inputs d)" for i
    using ok that fresh unfolding store_ok_def inputs_ok_def by metis
  have "output_value d' (in_output i) = output_value d (in_output i)" if "i \<in> set (inputs d)" for i
    using ref [OF that] by (simp add: output_value_def d'_def)
  then have "spent_sum d' b = spent_sum d b"
    unfolding spent_sum_def d'_def by (intro arg_cong [where f = sum_list] map_cong) auto
  moreover have "received_sum d' b = received_sum d b + (if b = o_account r then o_value r else 0)"
    using act by (simp add: received_sum_def d'_def)
  ultimately show "held d' b = held d b + (if b = o_account r then o_value r else 0)"
    by (simp add: held_def)
  show "booked d' b = booked d b" by (rule booked_cong) (simp add: d'_def)
  show "store_ok d'"
    using ok fresh id v unfolding store_ok_def outputs_ok_def inputs_ok_def d'_def
    by (fastforce simp: image_iff)
qed

lemma insert_output_effect:
  assumes "insert_output X a vk h out bh bb mt mp mh pr burn d = (Inr i, d')" "store_ok d"
  shows "held d' b = held d b + (if b = a then i64_of_u64 (wo_value out) else 0)"
    and "store_ok d'" and "booked d' b = booked d b"
  using assms append_output_effect
  by (auto simp: insert_output_ok_iff o_active_def row_value_ok_iff i64_of_u64_range)

section \<open>Spending an output\<close>

lemma append_input_effect:
  assumes ok: "store_ok d" and id: "in_id i = inputs_seq d + 1" and act: "in_active i"
    and r: "r \<in> set (outputs d)" "in_output i = o_id r" "in_account i = o_account r"
  defines "d' \<equiv> d\<lparr>inputs := inputs d @ [i], inputs_seq := inputs_seq d + 1\<rparr>"
  shows "held d' b = held d b - (if b = o_account r then o_value r else 0)" and "store_ok d'"
    and "booked d' b = booked d b"
proof -
  have ov: "output_value d' x = output_value d x" for x
    by (simp add: output_value_def d'_def)
  have "output_value d (in_output i) = o_value r"
    using ok r output_value_row by (simp add: store_ok_def)
  then have "spent_sum d' b = spent_sum d b + (if b = o_account r then o_value r else 0)"
    using act r by (simp add: spent_sum_def ov) (simp add: d'_def)
  then show "held d' b = held d b - (if b = o_account r then o_value r else 0)"
    by (simp add: held_def received_sum_def d'_def)
  show "booked d' b = booked d b" by (rule booked_cong) (simp add: d'_def)
  show "store_ok d'"
    using ok id r unfolding store_ok_def outputs_ok_def inputs_ok_def d'_def
    by (fastforce simp: image_iff)
qed

section \<open>Rolling back\<close>

lemma mark_if_found_effect:
  assumes "mark_if_found x d = (Inr u, d')"
  shows "ledger_only d d'" and "booked d' b = booked d b"
  using assms mark_reversed_ledger_only mark_reversed_booked
  by (auto simp: mark_if_found_def ret_ok_iff split: option.splits)

lemma reverse_output_effect:
  assumes run: "reverse_output X a h r d = (Inr u, d')" and v: "is_i64 (o_value r)"
  shows "ledger_only d d'" and "booked d' b = booked d b + (if b = a then - o_value r else 0)"
proof -
  from run obtain w d1 i orig where m: "mark_if_found orig d = (Inr w, d1)"
    and ins: "insert_balance_change (output_reversal X a h (o_id r) (o_value r) orig) d1 = (Inr i, d')"
    by (auto simp: reverse_output_def get_balance_change_id_by_output_def ok_simps)
  show "ledger_only d d'"
    using mark_if_found_effect(1) [OF m] insert_balance_change_ledger_only [OF ins]
    by (rule ledger_only_trans)
  show "booked d' b = booked d b + (if b = a then - o_value r else 0)"
    using insert_balance_change_booked [OF ins, of b] mark_if_found_effect(2) [OF m, of b]
    by (simp add: output_reversal_def i64_of_u64_of_i64 [OF v])
qed

lemma reverse_input_effect:
  assumes run: "reverse_input X a h (iid, oid, v) d = (Inr u, d')" and v: "is_i64 v"
  shows "ledger_only d d'" and "booked d' b = booked d b + (if b = a then v else 0)"
proof -
  from run obtain w d1 i orig where m: "mark_if_found orig d = (Inr w, d1)"
    and ins: "insert_balance_change (input_reversal X a h iid oid v orig) d1 = (Inr i, d')"
    by (auto simp: reverse_input_def get_balance_change_id_by_input_def ok_simps)
  show "ledger_only d d'"
    using mark_if_found_effect(1) [OF m] insert_balance_change_ledger_only [OF ins]
    by (rule ledger_only_trans)
  show "booked d' b = booked d b + (if b = a then v else 0)"
    using insert_balance_change_booked [OF ins, of b] mark_if_found_effect(2) [OF m, of b]
    by (simp add: input_reversal_def i64_of_u64_of_i64 [OF v])
qed

lemma forM_ledger_only:
  assumes "\<And>x d u d'. x \<in> set xs \<Longrightarrow> f x d = (Inr u, d') \<Longrightarrow> ledger_only d d'"
  shows "forM xs f d = (Inr u, d') \<Longrightarrow> ledger_only d d'"
  by (rule forM_ok_rel [where R = ledger_only]) (auto intro: ledger_only_trans assms)

lemma sum_deactivate:
  assumes "\<And>r. F r \<Longrightarrow> A r" "\<And>r. F r \<Longrightarrow> \<not> A (f r)"
  shows "(\<Sum>r \<leftarrow> filter A (update_where F f rows). v r) =
     (\<Sum>r \<leftarrow> filter A rows. v r) - (\<Sum>r \<leftarrow> filter F rows. (v r :: int))"
  by (induction rows) (auto simp: assms)

lemma sum_untouched:
  assumes "\<And>r. F r \<Longrightarrow> \<not> A r" "\<And>r. F r \<Longrightarrow> \<not> A (f r)"
  shows "(\<Sum>r \<leftarrow> filter A (update_where F f rows). v r) = (\<Sum>r \<leftarrow> filter A rows. (v r :: int))"
  by (induction rows) (auto simp: assms)

lemma sum_list_if: "(\<Sum>x \<leftarrow> xs. if c then - v x else 0) = (if c then - (\<Sum>x \<leftarrow> xs. v x) else (0 :: int))"
  by (cases c; induction xs) simp_all

lemma sum_list_if': "(\<Sum>x \<leftarrow> xs. if c then v x else 0) = (if c then (\<Sum>x \<leftarrow> xs. v x) else (0 :: int))"
  by (cases c; induction xs) simp_all

lemma received_sum_soft_delete:
  assumes "\<And>r. o_account (f r) = o_account r" "\<And>r. \<not> o_active (f r)"
  shows "received_sum (d\<lparr>outputs := update_where (from_height a h) f (outputs d)\<rparr>) b =
     received_sum d b - (if b = a then (\<Sum>r \<leftarrow> filter (from_height a h) (outputs d). o_value r) else 0)"
proof (cases "b = a")
  case True
  have "(\<Sum>r \<leftarrow> filter (\<lambda>r. o_account r = a \<and> o_active r) (update_where (from_height a h) f rows). o_value r)
      = (\<Sum>r \<leftarrow> filter (\<lambda>r. o_account r = a \<and> o_active r) rows. o_value r)
        - (\<Sum>r \<leftarrow> filter (from_height a h) rows. o_value r)" for rows
    by (rule sum_deactivate) (auto simp: from_height_def assms)
  with True show ?thesis by (simp add: received_sum_def)
next
  case False
  have "(\<Sum>r \<leftarrow> filter (\<lambda>r. o_account r = b \<and> o_active r) (update_where (from_height a h) f rows). o_value r)
      = (\<Sum>r \<leftarrow> filter (\<lambda>r. o_account r = b \<and> o_active r) rows. o_value r)" for rows
    using False by (intro sum_untouched) (auto simp: from_height_def assms)
  with False show ?thesis by (simp add: received_sum_def)
qed

lemma soft_delete_outputs_effect:
  assumes run: "soft_delete_outputs_from_height X a h d = (Inr u, d')" and ok: "store_ok d"
  shows "booked d' b - held d' b = booked d b - held d b" and "store_ok d'"
proof -
  let ?del = "filter (from_height a h) (outputs d)"
  let ?f = "\<lambda>r. r\<lparr>o_deleted_at := Some (x_now X), o_deleted_height := Some (i64_of_u64 h), o_payref := None\<rparr>"
  from run obtain w d1 where loop: "forM ?del (reverse_output X a h) d = (Inr w, d1)"
    and d': "d' = d1\<lparr>outputs := update_where (from_height a h) ?f (outputs d1)\<rparr>"
    by (auto simp: soft_delete_outputs_from_height_def ok_simps)
  have v: "is_i64 (o_value r)" if "r \<in> set ?del" for r
    using that ok by (auto simp: store_ok_def outputs_ok_def row_value_ok_iff)
  have lo: "ledger_only d d1"
    by (rule forM_ledger_only [OF _ loop]) (blast intro: reverse_output_effect(1) v)
  then have outs: "outputs d1 = outputs d" by (rule ledger_only_fields)
  have "booked d1 b = booked d b + (\<Sum>r \<leftarrow> ?del. if b = a then - o_value r else 0)"
    by (rule forM_sum [where \<mu> = "\<lambda>d. booked d b", OF _ loop]) (rule reverse_output_effect(2), assumption, rule v)
  then have "booked d' b = booked d b - (if b = a then (\<Sum>r \<leftarrow> ?del. o_value r) else 0)"
    by (simp add: d' sum_list_if)
  moreover have "received_sum d' b = received_sum d1 b - (if b = a then (\<Sum>r \<leftarrow> ?del. o_value r) else 0)"
    unfolding d' outs [symmetric] by (rule received_sum_soft_delete) (simp_all add: o_active_def)
  moreover have "spent_sum d' b = spent_sum d1 b"
    unfolding d' spent_sum_def by (simp add: output_value_update_where)
  ultimately show "booked d' b - held d' b = booked d b - held d b"
    using ledger_only_held [OF lo, of b] by (simp add: held_def)
  show "store_ok d'"
    unfolding d' using ok ledger_only_store_ok [OF lo]
    by (intro store_ok_update_outputs) simp_all
qed

lemma spent_sum_soft_delete:
  assumes "\<And>i. in_account (f i) = in_account i" "\<And>i. \<not> in_active (f i)"
  shows "spent_sum (d\<lparr>inputs := update_where (in_from_height a h) f (inputs d)\<rparr>) b =
     spent_sum d b - (if b = a
       then (\<Sum>i \<leftarrow> filter (in_from_height a h) (inputs d). output_value d (in_output i)) else 0)"
proof -
  let ?v = "\<lambda>i. output_value d (in_output i)"
  have ov: "output_value (d\<lparr>inputs := rows\<rparr>) = output_value d" for rows
    by (rule ext) (simp add: output_value_def)
  show ?thesis
  proof (cases "b = a")
    case True
    have "(\<Sum>i \<leftarrow> filter (\<lambda>i. in_account i = a \<and> in_active i) (update_where (in_from_height a h) f rows). ?v i)
        = (\<Sum>i \<leftarrow> filter (\<lambda>i. in_account i = a \<and> in_active i) rows. ?v i)
          - (\<Sum>i \<leftarrow> filter (in_from_height a h) rows. ?v i)" for rows
      by (rule sum_deactivate) (auto simp: in_from_height_def assms)
    with True show ?thesis by (simp add: spent_sum_def ov)
  next
    case False
    have "(\<Sum>i \<leftarrow> filter (\<lambda>i. in_account i = b \<and> in_active i) (update_where (in_from_height a h) f rows). ?v i)
        = (\<Sum>i \<leftarrow> filter (\<lambda>i. in_account i = b \<and> in_active i) rows. ?v i)" for rows
      using False by (intro sum_untouched) (auto simp: in_from_height_def assms)
    with False show ?thesis by (simp add: spent_sum_def ov)
  qed
qed

lemma inputs_to_delete_sum:
  "(\<Sum>(i, oid, v) \<leftarrow> inputs_to_delete a h d. v) =
     (\<Sum>i \<leftarrow> filter (in_from_height a h) (inputs d). output_value d (in_output i))"
proof -
  have "(\<Sum>(i, oid, v) \<leftarrow> concat (map (\<lambda>i. map (\<lambda>r. (in_id i, o_id r, o_value r))
            (filter (\<lambda>r. o_id r = in_output i) (outputs d))) spent). v) =
        (\<Sum>i \<leftarrow> spent. output_value d (in_output i))" for spent :: "input_row list"
    by (induction spent) (simp_all add: output_value_def comp_def)
  then show ?thesis by (simp add: inputs_to_delete_def)
qed

lemma inputs_to_delete_value:
  "(iid, oid, v) \<in> set (inputs_to_delete a h d) \<Longrightarrow> store_ok d \<Longrightarrow> is_i64 v"
  by (auto simp: inputs_to_delete_def store_ok_def outputs_ok_def row_value_ok_iff)

lemma store_ok_update_inputs:
  assumes "\<And>i. in_id (f i) = in_id i" "\<And>i. in_output (f i) = in_output i"
    "\<And>i. in_account (f i) = in_account i" "store_ok d"
  shows "store_ok (d\<lparr>inputs := update_where Q f (inputs d)\<rparr>)"
proof -
  have "map in_id (update_where Q f (inputs d)) = map in_id (inputs d)"
    by (rule map_update_where) (simp add: assms)
  with assms show ?thesis
    by (auto simp: store_ok_def outputs_ok_def inputs_ok_def in_set_update_where)
qed

lemma soft_delete_inputs_effect:
  assumes run: "soft_delete_inputs_from_height X a h d = (Inr u, d')" and ok: "store_ok d"
  shows "booked d' b - held d' b = booked d b - held d b" and "store_ok d'"
proof -
  let ?rows = "inputs_to_delete a h d"
  let ?S = "\<Sum>i \<leftarrow> filter (in_from_height a h) (inputs d). output_value d (in_output i)"
  let ?f = "\<lambda>i. i\<lparr>in_deleted_at := Some (x_now X), in_deleted_height := Some (i64_of_u64 h)\<rparr>"
  from run obtain w d1 where loop: "forM ?rows (reverse_input X a h) d = (Inr w, d1)"
    and d': "d' = d1\<lparr>inputs := update_where (in_from_height a h) ?f (inputs d1)\<rparr>"
    by (auto simp: soft_delete_inputs_from_height_def ok_simps)
  have step: "ledger_only s s' \<and> booked s' b = booked s b + (case x of (i, oid, v) \<Rightarrow> if b = a then v else 0)"
    if "x \<in> set ?rows" "reverse_input X a h x s = (Inr w, s')" for x s w s'
  proof -
    obtain i oid v where x: "x = (i, oid, v)" by (cases x)
    with that inputs_to_delete_value [OF _ ok] have "is_i64 v" by blast
    with that x reverse_input_effect show ?thesis by auto
  qed
  have lo: "ledger_only d d1"
    by (rule forM_ledger_only [OF _ loop]) (use step in blast)
  have "booked d1 b = booked d b + (\<Sum>x \<leftarrow> ?rows. case x of (i, oid, v) \<Rightarrow> if b = a then v else 0)"
    by (rule forM_sum [where \<mu> = "\<lambda>d. booked d b", OF _ loop]) (use step in blast)
  also have "(\<Sum>x \<leftarrow> ?rows. case x of (i, oid, v) \<Rightarrow> if b = a then v else 0) = (if b = a then ?S else 0)"
    using sum_list_if' [of "b = a" "\<lambda>(i, oid, v). v" ?rows] inputs_to_delete_sum [of a h d]
    by (simp add: split_def)
  finally have bk: "booked d' b = booked d b + (if b = a then ?S else 0)" by (simp add: d')
  have "spent_sum d' b = spent_sum d1 b - (if b = a then (\<Sum>i \<leftarrow> filter (in_from_height a h) (inputs d1).
      output_value d1 (in_output i)) else 0)"
    unfolding d' by (rule spent_sum_soft_delete) (simp_all add: in_active_def)
  also have "(\<Sum>i \<leftarrow> filter (in_from_height a h) (inputs d1). output_value d1 (in_output i)) = ?S"
    using ledger_only_fields [OF lo] by (simp add: output_value_def)
  finally have "spent_sum d' b = spent_sum d1 b - (if b = a then ?S else 0)" .
  moreover have "received_sum d' b = received_sum d1 b" by (simp add: d' received_sum_def)
  ultimately show "booked d' b - held d' b = booked d b - held d b"
    using bk ledger_only_held [OF lo, of b] by (simp add: held_def)
  show "store_ok d'"
    unfolding d' using ok ledger_only_store_ok [OF lo]
    by (intro store_ok_update_inputs) simp_all
qed

end
