(* ===== verification/Tip_Blocks.thy ===== *)
theory Tip_Blocks
  imports Store
begin

text \<open>
  The scanned tip blocks, \<open>minotari/src/db/scanned_tip_blocks.rs\<close>: the record of which
  block of which hash an account has scanned, from which reorganisations are detected,
  and its pruning to the recent blocks and the checkpoints at the pruning interval.
\<close>

definition recent_blocks_to_keep :: u64 where
  "recent_blocks_to_keep = 1000"

definition old_blocks_pruning_interval :: u64 where
  "old_blocks_pruning_interval = 500"

record latest_scanned_block =
  lsb_height :: u64
  lsb_hash :: bytes
  lsb_scanned_at :: i64

definition tips_desc :: "i64 \<Rightarrow> db \<Rightarrow> tip_row list" where
  "tips_desc a d = sort_desc tip_height (filter (\<lambda>r. tip_account r = a) (tips d))"

definition scanned_tip_block_of_row :: "tip_row \<Rightarrow> wallet_error + scanned_tip_block" where
  \<comment> \<open>the height column is read into a \<open>u64\<close> field\<close>
  "scanned_tip_block_of_row r = (if tip_height r < 0 then Inl SerdeRusqlite
     else Inr \<lparr>stb_id = tip_id r, stb_account = tip_account r,
            stb_height = nat (tip_height r), stb_hash = tip_hash r\<rparr>)"

definition get_scanned_tip_blocks_by_account :: "i64 \<Rightarrow> scanned_tip_block list dbm" where
  "get_scanned_tip_blocks_by_account a = query (\<lambda>d. mapM scanned_tip_block_of_row (tips_desc a d))"

definition get_latest_scanned_tip_block_by_account :: "i64 \<Rightarrow> scanned_tip_block option dbm" where
  "get_latest_scanned_tip_block_by_account a = gets (\<lambda>d.
     case tips_desc a d of [] \<Rightarrow> None
     | r # _ \<Rightarrow> Some \<lparr>stb_id = tip_id r, stb_account = tip_account r,
                   stb_height = u64_of_i64 (tip_height r), stb_hash = tip_hash r\<rparr>)"

definition get_latest_scanned_block_with_timestamp :: "i64 \<Rightarrow> latest_scanned_block option dbm" where
  "get_latest_scanned_block_with_timestamp a = gets (\<lambda>d.
     case tips_desc a d of [] \<Rightarrow> None
     | r # _ \<Rightarrow> Some \<lparr>lsb_height = u64_of_i64 (tip_height r), lsb_hash = tip_hash r,
                   lsb_scanned_at = tip_created r\<rparr>)"

definition insert_scanned_tip_block :: "externals \<Rightarrow> i64 \<Rightarrow> i64 \<Rightarrow> bytes \<Rightarrow> unit dbm" where
  \<comment> \<open>\<open>INSERT OR IGNORE\<close> under the unique index on account, height and hash\<close>
  "insert_scanned_tip_block X a height hash = statement (\<lambda>d.
     if \<exists>r \<in> set (tips d). tip_account r = a \<and> tip_height r = height \<and> tip_hash r = hash
     then Inr ((), d)
     else if \<not> account_exists d a then Inl constraint_violation
     else let i = tips_seq d + 1
       in Inr ((), d\<lparr>tips := tips d @ [\<lparr>tip_id = i, tip_account = a, tip_height = height,
            tip_hash = hash, tip_created = x_now X\<rparr>], tips_seq := i\<rparr>))"

definition delete_scanned_tip_blocks_from_height :: "i64 \<Rightarrow> u64 \<Rightarrow> unit dbm" where
  "delete_scanned_tip_blocks_from_height a height = modify (\<lambda>d.
     d\<lparr>tips := filter (\<lambda>r. \<not> (tip_account r = a \<and> tip_height r \<ge> i64_of_u64 height)) (tips d)\<rparr>)"

definition prunable :: "i64 \<Rightarrow> u64 \<Rightarrow> tip_row \<Rightarrow> bool" where
  "prunable a current_tip_height r \<longleftrightarrow>
     (let min_height = i64_of_u64 (u64_saturating_sub current_tip_height recent_blocks_to_keep);
          interval = i64_of_u64 old_blocks_pruning_interval
      in tip_account r = a \<and> tip_height r < min_height \<and> tip_height r \<ge> 0 \<and>
         tip_height r mod interval \<noteq> 0)"

definition prune_scanned_tip_blocks :: "i64 \<Rightarrow> u64 \<Rightarrow> unit dbm" where
  "prune_scanned_tip_blocks a current_tip_height = modify (\<lambda>d.
     d\<lparr>tips := filter (\<lambda>r. \<not> prunable a current_tip_height r) (tips d)\<rparr>)"

section \<open>Properties of the table operations\<close>

lemma tips_desc_set [simp]: "set (tips_desc a d) = {r \<in> set (tips d). tip_account r = a}"
  by (auto simp: tips_desc_def)

lemma tips_desc_sorted: "sorted_wrt (\<lambda>x y. tip_height y \<le> tip_height x) (tips_desc a d)"
proof -
  have "sorted (map (\<lambda>r. - tip_height r) (tips_desc a d))"
    by (simp add: tips_desc_def sort_desc_def)
  then show ?thesis by (simp add: sorted_map)
qed

lemma prune_ok_iff:
  "prune_scanned_tip_blocks a h d = (Inr u, d') \<longleftrightarrow>
     d' = d\<lparr>tips := filter (\<lambda>r. \<not> prunable a h r) (tips d)\<rparr>"
  by (simp add: prune_scanned_tip_blocks_def modify_ok_iff)

lemma prune_keeps_recent:
  assumes "prune_scanned_tip_blocks a h d = (Inr u, d')" "h < 2 ^ 63" "r \<in> set (tips d)"
    and "int h \<le> tip_height r + 1000"
  shows "r \<in> set (tips d')"
  using assms
  by (auto simp: prune_ok_iff prunable_def Let_def recent_blocks_to_keep_def i64_of_u64_small)

lemma insert_tip_ok:
  "insert_scanned_tip_block X a h hash d = (Inr u, d') \<Longrightarrow>
     d' = d \<or> (\<exists>r. d' = d\<lparr>tips := tips d @ [r], tips_seq := tips_seq d + 1\<rparr> \<and>
       tip_account r = a \<and> tip_height r = h \<and> tip_hash r = hash)"
  by (auto simp: insert_scanned_tip_block_def statement_ok_iff Let_def split: if_splits)

end
