(* ===== verification/Accounts.thy ===== *)
theory Accounts
  imports Outputs "HOL-Library.List_Lexorder" "HOL-Library.Char_ord"
begin

text \<open>
  Accounts and balances, \<open>minotari/src/db/accounts.rs\<close>: lookup, renaming, deletion with
  the foreign keys that refer to the account, and the balance computed from the ledger
  aggregates and the output totals. Creation takes the encrypted wallet as a parameter:
  the key handling and the cipher belong to other crates.
\<close>

definition create_account ::
  "string \<Rightarrow> bytes \<Rightarrow> bytes \<times> bytes \<times> bytes \<Rightarrow> i64 \<Rightarrow> unit dbm" where
  "create_account name fingerprint encrypted birthday = statement (\<lambda>d.
     if \<exists>r \<in> set (accounts d). a_name r = name \<or> a_fingerprint r = fingerprint
     then Inl constraint_violation
     else let i = accounts_seq d + 1
       in Inr ((), d\<lparr>accounts := accounts d @ [\<lparr>a_id = i, a_name = name,
            a_fingerprint = fingerprint, a_encrypted = fst encrypted,
            a_nonce = fst (snd encrypted), a_salt = snd (snd encrypted),
            a_birthday = birthday\<rparr>], accounts_seq := i\<rparr>))"

definition get_account_by_name :: "string \<Rightarrow> account_row option dbm" where
  "get_account_by_name name = gets (\<lambda>d. first_row (\<lambda>r. a_name r = name) (accounts d))"

definition get_accounts :: "string option \<Rightarrow> account_row list dbm" where
  "get_accounts name = gets (\<lambda>d. sort_key a_name (filter (\<lambda>r. case name of None \<Rightarrow> True
     | Some n \<Rightarrow> a_name r = n) (accounts d)))"

record account_balance =
  ab_total :: u64
  ab_available :: u64
  ab_locked :: u64
  ab_unconfirmed :: u64
  ab_total_credits :: "u64 option"
  ab_total_debits :: "u64 option"
  ab_max_height :: "i64 option"
  ab_max_date :: "i64 option"

definition get_balance :: "i64 \<Rightarrow> account_balance dbm" where
  "get_balance account_id =
     bindM (get_balance_aggregates_for_account account_id) (\<lambda>history_agg.
     bindM (get_output_totals_for_account account_id)
       (\<lambda>(locked_amount, unconfirmed_amount, locked_and_unconfirmed_amount).
     (let total_credits = u64_of_i64 (opt_or 0 (ag_credits history_agg));
          total_debits = u64_of_i64 (opt_or 0 (ag_debits history_agg));
          total_balance = u64_saturating_sub total_credits total_debits;
          unavailable_balance = u64_saturating_sub
            (u64_saturating_add locked_amount unconfirmed_amount) locked_and_unconfirmed_amount;
          available_balance = u64_saturating_sub total_balance unavailable_balance
      in ret \<lparr>ab_total = total_balance, ab_available = available_balance,
           ab_locked = locked_amount, ab_unconfirmed = unconfirmed_amount,
           ab_total_credits = Some total_credits, ab_total_debits = Some total_debits,
           ab_max_height = ag_max_height history_agg, ab_max_date = ag_max_date history_agg\<rparr>)))"

section \<open>Deletion and renaming\<close>

definition keep_other :: "('r \<Rightarrow> i64) \<Rightarrow> i64 \<Rightarrow> 'r list \<Rightarrow> 'r list" where
  "keep_other acc a rows = filter (\<lambda>r. acc r \<noteq> a) rows"

definition clear_account_tables :: "i64 \<Rightarrow> db \<Rightarrow> db" where
  \<comment> \<open>the \<open>DELETE\<close> statements over \<open>tables_to_clear\<close>, in the order of the array; children come
     before parents, and \<open>webhook_queue.event_id\<close> is \<open>ON DELETE SET NULL\<close>\<close>
  "clear_account_tables a d =
     d\<lparr>changes := keep_other ch_account a (changes d),
       inputs := keep_other in_account a (inputs d),
       outputs := keep_other o_account a (outputs d),
       completeds := keep_other c_account a (completeds d),
       pendings := keep_other p_account a (pendings d),
       tips := keep_other tip_account a (tips d),
       events := keep_other e_account a (events d),
       webhooks := update_where (\<lambda>w. \<exists>e \<in> set (events d). e_account e = a \<and> w_event w = Some (e_id e))
         (\<lambda>w. w\<lparr>w_event := None\<rparr>) (webhooks d),
       displayeds := keep_other d_account a (displayeds d)\<rparr>"

definition account_referenced :: "db \<Rightarrow> i64 \<Rightarrow> bool" where
  \<comment> \<open>a row of a table with a foreign key to \<open>accounts\<close> still names the account\<close>
  "account_referenced d a \<longleftrightarrow>
     (\<exists>r \<in> set (changes d). ch_account r = a) \<or> (\<exists>r \<in> set (inputs d). in_account r = a) \<or>
     (\<exists>r \<in> set (outputs d). o_account r = a) \<or> (\<exists>r \<in> set (completeds d). c_account r = a) \<or>
     (\<exists>r \<in> set (pendings d). p_account r = a) \<or> (\<exists>r \<in> set (tips d). tip_account r = a) \<or>
     (\<exists>r \<in> set (events d). e_account r = a) \<or> (\<exists>r \<in> set (payrefs d). ph_account r = a) \<or>
     (\<exists>r \<in> set (burns d). bp_account r = a)"

definition delete_account_row :: "i64 \<Rightarrow> unit dbm" where
  "delete_account_row a = statement (\<lambda>d.
     if account_exists d a \<and> account_referenced d a then Inl constraint_violation
     else Inr ((), d\<lparr>accounts := filter (\<lambda>r. a_id r \<noteq> a) (accounts d)\<rparr>))"

definition delete_account :: "string \<Rightarrow> unit dbm" where
  "delete_account name =
     bindM (get_account_by_name name) (\<lambda>found.
       case found of
         None \<Rightarrow> throw (InvalidInput (''Account '' @ [CHR 0x27] @ name @ [CHR 0x27] @ '' not found''))
       | Some account \<Rightarrow>
           seqM (modify (clear_account_tables (a_id account))) (delete_account_row (a_id account)))"

definition delete_wallet :: "string \<Rightarrow> unit dbm" where
  "delete_wallet name = transact (delete_account name)"

definition name_taken :: "string \<Rightarrow> wallet_error" where
  "name_taken n = InvalidInput (''An account with the name '' @ [CHR 0x27] @ n @ [CHR 0x27] @
     '' already exists'')"

definition update_account_name :: "string \<Rightarrow> string \<Rightarrow> unit dbm" where
  "update_account_name current_name new_name =
     bindM (get_account_by_name new_name) (\<lambda>taken.
       if taken \<noteq> None then throw (name_taken new_name)
       else statement (\<lambda>d.
         if \<exists>r \<in> set (accounts d). a_name r = new_name \<and> current_name \<noteq> new_name \<and>
              (\<exists>s \<in> set (accounts d). a_name s = current_name)
         then Inl (name_taken new_name)
         else if \<not> (\<exists>r \<in> set (accounts d). a_name r = current_name)
         then Inl (InvalidInput (''Account '' @ [CHR 0x27] @ current_name @ [CHR 0x27] @
                ('' not found'')))
         else Inr ((), d\<lparr>accounts := update_where (\<lambda>r. a_name r = current_name)
                (\<lambda>r. r\<lparr>a_name := new_name\<rparr>) (accounts d)\<rparr>)))"

end
