(* ===== verification/Events.thy ===== *)
theory Events
  imports Store
begin

text \<open>The event log, \<open>minotari/src/db/events.rs\<close>: append and the paginated listing.\<close>

definition insert_wallet_event :: "externals \<Rightarrow> i64 \<Rightarrow> wallet_event \<Rightarrow> i64 dbm" where
  "insert_wallet_event X account_id event = statement (\<lambda>d.
     if \<not> account_exists d account_id then Inl constraint_violation
     else let i = events_seq d + 1
       in Inr (i, d\<lparr>events := events d @ [\<lparr>e_id = i, e_account = account_id,
            e_type = to_key_string (we_type event), e_description = we_description event,
            e_data = Some (we_type event), e_created = x_now X\<rparr>], events_seq := i\<rparr>))"

definition newest_first :: "event_row list \<Rightarrow> event_row list" where
  \<comment> \<open>\<open>ORDER BY created_at DESC, id DESC\<close>\<close>
  "newest_first rows = sort_desc e_created (sort_desc e_id rows)"

definition get_events_by_account_id :: "i64 \<Rightarrow> i64 \<Rightarrow> i64 \<Rightarrow> event_row list dbm" where
  "get_events_by_account_id a limit offset = gets (\<lambda>d.
     page limit offset (newest_first (filter (\<lambda>r. e_account r = a) (events d))))"

lemma insert_wallet_event_ok_iff:
  "insert_wallet_event X a ev d = (Inr i, d') \<longleftrightarrow>
     account_exists d a \<and> i = events_seq d + 1 \<and>
     d' = d\<lparr>events := events d @ [\<lparr>e_id = i, e_account = a, e_type = to_key_string (we_type ev),
       e_description = we_description ev, e_data = Some (we_type ev), e_created = x_now X\<rparr>],
       events_seq := i\<rparr>"
  by (auto simp: insert_wallet_event_def statement_ok_iff Let_def split: if_splits)

end
