(* ===== verification/Webhooks.thy ===== *)
theory Webhooks
  imports Accounts Events
begin

text \<open>
  Webhooks: the queue table (\<open>db/webhooks.rs\<close>), the trigger that filters an event and
  enqueues it with a balance snapshot (\<open>webhooks/utils.rs\<close>), and the delivery worker with
  its exponential backoff (\<open>webhooks/worker.rs\<close>). The HTTP delivery (theory
  Webhook_Delivery) and the random jitter are arguments.
\<close>

section \<open>The queue\<close>

definition enqueue_webhook ::
  "externals \<Rightarrow> i64 option \<Rightarrow> string \<Rightarrow> string \<Rightarrow> string \<Rightarrow> i64 dbm" where
  "enqueue_webhook X event_id event_type payload target_url = statement (\<lambda>d.
     if \<not> reference_ok e_id (events d) event_id then Inl constraint_violation
     else let i = webhooks_seq d + 1
       in Inr (i, d\<lparr>webhooks := webhooks d @ [\<lparr>w_id = i, w_event = event_id, w_type = event_type,
            w_payload = payload, w_url = target_url, w_status = webhook_status_text HookPending,
            w_attempts = 0, w_next_retry = x_now X, w_created = x_now X, w_error = None\<rparr>],
            webhooks_seq := i\<rparr>))"

record webhook_item =
  wi_id :: i64
  wi_event :: "i64 option"
  wi_type :: string
  wi_payload :: string
  wi_url :: string
  wi_status :: webhook_status
  wi_attempts :: int
  wi_next_retry :: i64
  wi_created :: i64
  wi_error :: "string option"

definition webhook_item_of_row :: "webhook_row \<Rightarrow> webhook_item" where
  "webhook_item_of_row r = \<lparr>wi_id = w_id r, wi_event = w_event r, wi_type = w_type r,
     wi_payload = w_payload r, wi_url = w_url r,
     wi_status = (case webhook_status_of (w_status r) of Inl _ \<Rightarrow> HookFailed | Inr s \<Rightarrow> s),
     wi_attempts = w_attempts r, wi_next_retry = w_next_retry r, wi_created = w_created r,
     wi_error = w_error r\<rparr>"

definition webhook_due :: "i64 \<Rightarrow> webhook_row \<Rightarrow> bool" where
  "webhook_due now r \<longleftrightarrow>
     (w_status r = webhook_status_text HookPending \<or> w_status r = webhook_status_text HookFailed) \<and>
     w_next_retry r \<le> now"

definition fetch_due_webhooks :: "externals \<Rightarrow> i64 \<Rightarrow> webhook_item list dbm" where
  "fetch_due_webhooks X limit = gets (\<lambda>d.
     map webhook_item_of_row
       (page limit 0 (sort_key w_next_retry (filter (webhook_due (x_now X)) (webhooks d)))))"

definition update_webhook_status ::
  "i64 \<Rightarrow> webhook_status \<Rightarrow> int \<Rightarrow> i64 \<Rightarrow> string option \<Rightarrow> unit dbm" where
  "update_webhook_status i status attempt_count next_retry_at last_error = modify (\<lambda>d.
     d\<lparr>webhooks := update_where (\<lambda>r. w_id r = i)
        (\<lambda>r. r\<lparr>w_status := webhook_status_text status, w_attempts := attempt_count,
              w_next_retry := next_retry_at, w_error := last_error\<rparr>) (webhooks d)\<rparr>)"

definition delete_webhooks_older_than :: "i64 \<Rightarrow> nat dbm" where
  "delete_webhooks_older_than timestamp = (\<lambda>d.
     (Inr (length (filter (\<lambda>r. w_created r < timestamp) (webhooks d))),
      d\<lparr>webhooks := filter (\<lambda>r. \<not> w_created r < timestamp) (webhooks d)\<rparr>))"

section \<open>The trigger\<close>

record webhook_config =
  wc_url :: string
  wc_only_types :: "string list option"

definition event_selected :: "webhook_config \<Rightarrow> wallet_event_type \<Rightarrow> bool" where
  "event_selected config ty = (case wc_only_types config of
      None \<Rightarrow> True | Some allowed \<Rightarrow> allowed = [] \<or> to_key_string ty \<in> set allowed)"

definition trigger_webhook_with_balance ::
  "externals \<Rightarrow> i64 \<Rightarrow> i64 \<Rightarrow> wallet_event \<Rightarrow> webhook_config \<Rightarrow> unit dbm" where
  "trigger_webhook_with_balance X account_id event_id event config =
     (if \<not> event_selected config (we_type event) then ret ()
      else bindM (get_balance account_id) (\<lambda>balance.
        let snapshot = (ab_available balance, ab_unconfirmed balance, ab_locked balance);
            payload = x_payload_json X event_id (we_type event) snapshot (x_now X)
        in bindM (enqueue_webhook X (Some event_id) (to_key_string (we_type event)) payload
             (wc_url config)) (\<lambda>_. ret ())))"

definition trigger_all ::
  "externals \<Rightarrow> i64 \<Rightarrow> webhook_config option \<Rightarrow> (i64 \<times> wallet_event) list \<Rightarrow> unit dbm" where
  \<comment> \<open>the loop over the generated events that every caller runs under \<open>if let Some(config)\<close>\<close>
  "trigger_all X account_id config generated = (case config of None \<Rightarrow> ret ()
     | Some c \<Rightarrow> forM generated (\<lambda>(event_id, event).
         trigger_webhook_with_balance X account_id event_id event c))"

section \<open>The delivery worker\<close>

datatype delivery_result =
    DeliverySuccess
  | RetryableFailure string
  | PermanentFailure string

definition webhook_batch_size :: i64 where
  "webhook_batch_size = 10"

definition max_attempts :: int where
  "max_attempts = 10"

definition max_age :: u64 where
  "max_age = 24 * 60 * 60"

definition backoff_cap :: "int \<Rightarrow> u64" where
  "backoff_cap attempt = min (30 * 4 ^ nat (attempt - 1)) max_age"

definition backoff_jitter_range :: "int \<Rightarrow> u64" where
  "backoff_jitter_range attempt = backoff_cap attempt div 10"

definition calculate_backoff :: "i64 \<Rightarrow> u64 \<Rightarrow> bool \<Rightarrow> int \<Rightarrow> i64 \<times> bool" where
  \<comment> \<open>\<open>jitter\<close> is the draw from \<open>0..=jitter_range\<close>, \<open>up\<close> the fair coin\<close>
  "calculate_backoff now jitter up attempt =
     (if attempt \<ge> max_attempts then (now, True)
      else let capped = backoff_cap attempt;
               final_seconds = (if up then capped + jitter else u64_saturating_sub capped jitter)
           in (now + int final_seconds, False))"

definition item_outcome ::
  "i64 \<Rightarrow> u64 \<Rightarrow> bool \<Rightarrow> delivery_result \<Rightarrow> webhook_item \<Rightarrow> webhook_status \<times> i64 \<times> string option" where
  "item_outcome now jitter up result item =
     (case result of
        DeliverySuccess \<Rightarrow> (HookSuccess, wi_next_retry item, None)
      | PermanentFailure msg \<Rightarrow> (HookPermanentFailure, wi_next_retry item, Some msg)
      | RetryableFailure msg \<Rightarrow>
          (case calculate_backoff now jitter up (wi_attempts item + 1) of
             (next_retry, stop_retrying) \<Rightarrow>
               (if stop_retrying then HookPermanentFailure else HookFailed, next_retry, Some msg)))"

definition process_item ::
  "externals \<Rightarrow> (webhook_item \<Rightarrow> delivery_result) \<Rightarrow> (webhook_item \<Rightarrow> u64 \<times> bool) \<Rightarrow>
     webhook_item \<Rightarrow> unit dbm" where
  "process_item X send draw item =
     (case item_outcome (x_now X) (fst (draw item)) (snd (draw item)) (send item) item of
        (new_status, next_retry, error_msg) \<Rightarrow>
          update_webhook_status (wi_id item) new_status (wi_attempts item + 1) next_retry error_msg)"

definition process_batch ::
  "externals \<Rightarrow> (webhook_item \<Rightarrow> delivery_result) \<Rightarrow> (webhook_item \<Rightarrow> u64 \<times> bool) \<Rightarrow> unit dbm" where
  "process_batch X send draw =
     bindM (fetch_due_webhooks X webhook_batch_size) (\<lambda>items. forM items (process_item X send draw))"

end
