(* ===== verification/Burn_Proofs.thy ===== *)
theory Burn_Proofs
  imports Store
begin

text \<open>
  Burn proofs, \<open>minotari/src/db/burn_proofs.rs\<close>: one record per burnt output, created when
  the burn transaction is broadcast and completed when its claim proof is written.
\<close>

definition burn_status_pending_merkle :: string where
  "burn_status_pending_merkle = ''pending_merkle''"

definition burn_status_complete :: string where
  "burn_status_complete = ''complete''"

record new_burn_proof =
  nb_account :: i64
  nb_hash :: bytes
  nb_commitment :: bytes
  nb_claim_key :: string
  nb_ownership_nonce :: bytes
  nb_ownership_sig :: bytes
  nb_kernel_excess :: bytes
  nb_kernel_nonce :: bytes
  nb_kernel_sig :: bytes
  nb_offset_key :: bytes
  nb_encrypted :: bytes
  nb_value :: u64
  nb_kernel_fee :: u64
  nb_lock_height :: u64

definition insert_burn_proof :: "externals \<Rightarrow> new_burn_proof \<Rightarrow> i64 dbm" where
  "insert_burn_proof X p = statement (\<lambda>d.
     if \<not> account_exists d (nb_account p) \<or> (\<exists>r \<in> set (burns d). bp_hash r = nb_hash p)
     then Inl constraint_violation
     else let i = burns_seq d + 1
       in Inr (i, d\<lparr>burns := burns d @ [\<lparr>bp_id = i, bp_account = nb_account p, bp_hash = nb_hash p,
            bp_commitment = nb_commitment p, bp_claim_key = nb_claim_key p,
            bp_ownership_nonce = nb_ownership_nonce p, bp_ownership_sig = nb_ownership_sig p,
            bp_kernel_excess = nb_kernel_excess p, bp_kernel_nonce = nb_kernel_nonce p,
            bp_kernel_sig = nb_kernel_sig p, bp_offset_key = nb_offset_key p,
            bp_encrypted = nb_encrypted p, bp_value = i64_of_u64 (nb_value p),
            bp_kernel_fee = i64_of_u64 (nb_kernel_fee p),
            bp_lock_height = i64_of_u64 (nb_lock_height p),
            bp_status = burn_status_pending_merkle, bp_created = x_now X,
            bp_updated = x_now X\<rparr>], burns_seq := i\<rparr>))"

definition get_burn_proof_by_output_hash :: "bytes \<Rightarrow> burn_row option dbm" where
  "get_burn_proof_by_output_hash h = gets (\<lambda>d. first_row (\<lambda>r. bp_hash r = h) (burns d))"

definition get_pending_burn_proofs :: "burn_row list dbm" where
  "get_pending_burn_proofs = gets (\<lambda>d.
     sort_key bp_created (filter (\<lambda>r. bp_status r = burn_status_pending_merkle) (burns d)))"

definition mark_burn_proof_complete :: "externals \<Rightarrow> i64 \<Rightarrow> unit dbm" where
  "mark_burn_proof_complete X i = modify (\<lambda>d.
     d\<lparr>burns := update_where (\<lambda>r. bp_id r = i)
        (\<lambda>r. r\<lparr>bp_status := burn_status_complete, bp_updated := x_now X\<rparr>) (burns d)\<rparr>)"

end
