(* ===== verification/Displayed_Txs.thy ===== *)
theory Displayed_Txs
  imports Holdings
begin

text \<open>
  The displayed transactions table, \<open>minotari/src/db/displayed_transactions.rs\<close>: the
  user-facing transactions, stored as JSON beside the columns the queries filter by. A row
  whose JSON does not decode is skipped by the listings. The timestamp column holds a
  formatted text that orders as the seconds do.
\<close>

section \<open>Storing\<close>

definition displayed_row_of :: "externals \<Rightarrow> displayed_transaction \<Rightarrow> displayed_row" where
  "displayed_row_of X tx = \<lparr>d_id = show_nat (dt_id tx), d_account = td_account (dt_details tx),
     d_direction = direction_text (dt_direction tx), d_source = source_text (dt_source tx),
     d_status = display_status_text (dt_status tx), d_amount = i64_of_u64 (dt_amount tx),
     d_height = i64_of_u64 (bi_height (dt_blockchain tx)),
     d_timestamp = bi_timestamp (dt_blockchain tx), d_json = Some tx,
     d_payref = Some (x_payrefs_json X (td_sent_payrefs (dt_details tx))),
     d_created = x_now X, d_updated = x_now X\<rparr>"

definition insert_displayed_transaction :: "externals \<Rightarrow> displayed_transaction \<Rightarrow> unit dbm" where
  "insert_displayed_transaction X tx = modify (\<lambda>d.
     let new = displayed_row_of X tx
     in if \<exists>r \<in> set (displayeds d). d_id r = d_id new
        then d\<lparr>displayeds := update_where (\<lambda>r. d_id r = d_id new)
               (\<lambda>r. r\<lparr>d_status := d_status new, d_json := d_json new, d_payref := d_payref new,
                     d_updated := d_updated new\<rparr>) (displayeds d)\<rparr>
        else d\<lparr>displayeds := displayeds d @ [new]\<rparr>)"

definition update_displayed :: "string \<Rightarrow> (displayed_row \<Rightarrow> displayed_row) \<Rightarrow> bool dbm" where
  \<comment> \<open>\<open>UPDATE .. WHERE id = :id\<close> and whether a row was affected\<close>
  "update_displayed i f = statement (\<lambda>d.
     Inr (\<exists>r \<in> set (displayeds d). d_id r = i,
       d\<lparr>displayeds := update_where (\<lambda>r. d_id r = i) f (displayeds d)\<rparr>))"

definition set_status_and_json ::
  "externals \<Rightarrow> display_status \<Rightarrow> displayed_transaction \<Rightarrow> displayed_row \<Rightarrow> displayed_row" where
  "set_status_and_json X status tx r =
     r\<lparr>d_status := display_status_text status, d_json := Some tx, d_updated := x_now X\<rparr>"

definition update_displayed_transaction_status ::
  "externals \<Rightarrow> string \<Rightarrow> display_status \<Rightarrow> displayed_transaction \<Rightarrow> bool dbm" where
  "update_displayed_transaction_status X i status tx =
     update_displayed i (set_status_and_json X status tx)"

definition update_displayed_transaction_confirmations ::
  "externals \<Rightarrow> displayed_transaction \<Rightarrow> bool dbm" where
  "update_displayed_transaction_confirmations X tx =
     update_displayed (show_nat (dt_id tx)) (set_status_and_json X (dt_status tx) tx)"

definition update_displayed_transaction_mined :: "externals \<Rightarrow> displayed_transaction \<Rightarrow> bool dbm" where
  "update_displayed_transaction_mined X tx = update_displayed (show_nat (dt_id tx))
     (\<lambda>r. r\<lparr>d_status := display_status_text (dt_status tx),
           d_height := i64_of_u64 (bi_height (dt_blockchain tx)), d_json := Some tx,
           d_payref := Some (x_payrefs_json X (td_sent_payrefs (dt_details tx))),
           d_updated := x_now X\<rparr>)"

section \<open>Listings\<close>

definition decoded :: "displayed_row list \<Rightarrow> displayed_transaction list" where
  \<comment> \<open>\<open>process_json_rows\<close>: the rows that decode\<close>
  "decoded rows = List.map_filter d_json rows"

definition by_height_and_time :: "displayed_row list \<Rightarrow> displayed_row list" where
  \<comment> \<open>\<open>ORDER BY block_height DESC, timestamp DESC\<close>\<close>
  "by_height_and_time rows = sort_desc d_height (sort_desc d_timestamp rows)"

definition list_displayed :: "(displayed_row \<Rightarrow> bool) \<Rightarrow> displayed_transaction list dbm" where
  "list_displayed P = gets (\<lambda>d. decoded (by_height_and_time (filter P (displayeds d))))"

definition get_displayed_transactions_by_account :: "i64 \<Rightarrow> displayed_transaction list dbm" where
  "get_displayed_transactions_by_account a = list_displayed (\<lambda>r. d_account r = a)"

definition get_displayed_transactions_by_status ::
  "i64 \<Rightarrow> display_status \<Rightarrow> displayed_transaction list dbm" where
  "get_displayed_transactions_by_status a status =
     list_displayed (\<lambda>r. d_account r = a \<and> d_status r = display_status_text status)"

definition get_displayed_transactions_from_height :: "i64 \<Rightarrow> u64 \<Rightarrow> displayed_transaction list dbm" where
  "get_displayed_transactions_from_height a height =
     list_displayed (\<lambda>r. d_account r = a \<and> d_height r \<ge> i64_of_u64 height)"

definition get_displayed_transactions_excluding_reorged :: "i64 \<Rightarrow> displayed_transaction list dbm" where
  "get_displayed_transactions_excluding_reorged a =
     list_displayed (\<lambda>r. d_account r = a \<and> d_status r \<noteq> display_status_text DReorganized)"

definition get_displayed_transactions_paginated ::
  "i64 \<Rightarrow> i64 \<Rightarrow> i64 \<Rightarrow> displayed_transaction list dbm" where
  "get_displayed_transactions_paginated a limit offset = gets (\<lambda>d. decoded
     (page limit offset (by_height_and_time (filter (\<lambda>r. d_account r = a) (displayeds d)))))"

definition get_displayed_transaction_by_id :: "string \<Rightarrow> displayed_transaction option dbm" where
  "get_displayed_transaction_by_id i = gets (\<lambda>d.
     Option.bind (first_row (\<lambda>r. d_id r = i) (displayeds d)) d_json)"

definition needs_confirmation :: "i64 \<Rightarrow> displayed_row \<Rightarrow> bool" where
  "needs_confirmation a r \<longleftrightarrow> d_account r = a \<and>
     (d_status r = display_status_text DPending \<or> d_status r = display_status_text DUnconfirmed)"

definition get_displayed_transactions_needing_confirmation_update ::
  "i64 \<Rightarrow> displayed_transaction list dbm" where
  "get_displayed_transactions_needing_confirmation_update a = gets (\<lambda>d.
     decoded (filter (needs_confirmation a) (displayeds d)))"

definition mentions_hash :: "bytes \<Rightarrow> displayed_transaction \<Rightarrow> bool" where
  "mentions_hash h tx \<longleftrightarrow> h \<in> set (td_sent_hashes (dt_details tx)) \<or>
     (\<exists>i \<in> set (td_inputs (dt_details tx)). ti_hash i = h)"

definition find_pending_outbound_by_output_hash ::
  "i64 \<Rightarrow> bytes \<Rightarrow> displayed_transaction option dbm" where
  "find_pending_outbound_by_output_hash a h = gets (\<lambda>d.
     List.find (mentions_hash h) (decoded (filter (\<lambda>r. d_account r = a \<and>
       d_status r = display_status_text DPending \<and> d_direction r = direction_text Outgoing)
       (displayeds d))))"

text \<open>SQLite's \<open>LIKE\<close>: percent and underscore are wildcards, ASCII letters match in both cases.\<close>

definition ascii_lower :: "char \<Rightarrow> char" where
  "ascii_lower c = (let n = of_char c :: nat in if 65 \<le> n \<and> n \<le> 90 then char_of (n + 32) else c)"

fun like :: "string \<Rightarrow> string \<Rightarrow> bool" where
  "like [] s = (s = [])"
| "like (c # p) [] = (c = CHR ''%'' \<and> like p [])"
| "like (c # p) (x # s) =
     (if c = CHR ''%'' then like p (x # s) \<or> like (c # p) s
      else (c = CHR ''_'' \<or> ascii_lower c = ascii_lower x) \<and> like p s)"

definition get_displayed_transactions_by_payref ::
  "i64 \<Rightarrow> string \<Rightarrow> displayed_transaction list dbm" where
  "get_displayed_transactions_by_payref a payref = list_displayed (\<lambda>r. d_account r = a \<and>
     (case d_payref r of None \<Rightarrow> False | Some t \<Rightarrow> like (''%'' @ payref @ ''%'') t))"

section \<open>Reorganisation and rejection\<close>

definition mark_one_reorganized ::
  "externals \<Rightarrow> displayed_row \<Rightarrow> displayed_transaction option dbm" where
  \<comment> \<open>the body of the two loops: skip a row that does not decode\<close>
  "mark_one_reorganized X row = (case d_json row of None \<Rightarrow> ret None
     | Some tx \<Rightarrow> (let tx' = tx\<lparr>dt_status := DReorganized\<rparr>
         in bindM (update_displayed (d_id row) (set_status_and_json X DReorganized tx'))
              (\<lambda>_. ret (Some tx'))))"

definition mark_displayed_transactions_reorganized :: "externals \<Rightarrow> i64 \<Rightarrow> u64 \<Rightarrow> u64 dbm" where
  "mark_displayed_transactions_reorganized X a height =
     bindM (gets (\<lambda>d. filter (\<lambda>r. d_account r = a \<and> d_height r \<ge> i64_of_u64 height) (displayeds d)))
       (\<lambda>rows. foldM (\<lambda>n row. bindM (mark_one_reorganized X row)
          (\<lambda>marked. ret (case marked of None \<Rightarrow> n | Some _ \<Rightarrow> n + 1))) 0 rows)"

definition reorganizable :: "i64 \<Rightarrow> u64 \<Rightarrow> displayed_row \<Rightarrow> bool" where
  "reorganizable a height r \<longleftrightarrow> d_account r = a \<and> d_height r \<ge> i64_of_u64 height \<and>
     d_status r \<noteq> display_status_text DReorganized"

definition mark_displayed_transactions_reorganized_and_return ::
  "externals \<Rightarrow> i64 \<Rightarrow> u64 \<Rightarrow> displayed_transaction list dbm" where
  "mark_displayed_transactions_reorganized_and_return X a height =
     bindM (gets (\<lambda>d. filter (reorganizable a height) (displayeds d)))
       (\<lambda>rows. foldM (\<lambda>acc row. bindM (mark_one_reorganized X row)
          (\<lambda>marked. ret (case marked of None \<Rightarrow> acc | Some tx \<Rightarrow> acc @ [tx]))) [] rows)"

definition mark_displayed_transaction_rejected ::
  "externals \<Rightarrow> u64 \<Rightarrow> displayed_transaction option dbm" where
  "mark_displayed_transaction_rejected X tx_id =
     bindM (gets (\<lambda>d. first_row (\<lambda>r. d_id r = show_nat tx_id) (displayeds d))) (\<lambda>found.
       case found of
         None \<Rightarrow> ret None
       | Some row \<Rightarrow> (case d_json row of
             None \<Rightarrow> throw SerdeJson
           | Some tx \<Rightarrow> (let tx' = tx\<lparr>dt_status := DRejected\<rparr>
               in bindM (update_displayed (show_nat tx_id) (set_status_and_json X DRejected tx'))
                    (\<lambda>_. ret (Some tx')))))"

section \<open>Lemmas\<close>

lemma quiet_displayeds: "quiet d (d\<lparr>displayeds := rows\<rparr>)"
  by (rule quiet_other_tables) simp_all

lemma insert_displayed_quiet: "insert_displayed_transaction X tx d = (Inr u, d') \<Longrightarrow> quiet d d'"
  by (auto simp: insert_displayed_transaction_def modify_ok_iff Let_def quiet_displayeds)

lemma update_displayed_ok_iff:
  "update_displayed i f d = (Inr b, d') \<longleftrightarrow>
     b = (\<exists>r \<in> set (displayeds d). d_id r = i) \<and>
     d' = d\<lparr>displayeds := update_where (\<lambda>r. d_id r = i) f (displayeds d)\<rparr>"
  by (auto simp: update_displayed_def statement_ok_iff)

lemma update_displayed_quiet: "update_displayed i f d = (Inr b, d') \<Longrightarrow> quiet d d'"
  by (simp add: update_displayed_ok_iff quiet_displayeds)

lemma update_displayed_quiet_ops:
  "update_displayed_transaction_mined X tx d = (Inr b, d') \<Longrightarrow> quiet d d'"
  "update_displayed_transaction_confirmations X tx d = (Inr b, d') \<Longrightarrow> quiet d d'"
  "update_displayed_transaction_status X i st tx d = (Inr b, d') \<Longrightarrow> quiet d d'"
  by (simp_all add: update_displayed_transaction_mined_def update_displayed_quiet
      update_displayed_transaction_confirmations_def update_displayed_transaction_status_def)

lemma mark_one_reorganized_quiet: "mark_one_reorganized X row d = (Inr r, d') \<Longrightarrow> quiet d d'"
  by (auto simp: mark_one_reorganized_def ok_simps Let_def split: option.splits
      dest: update_displayed_quiet)

lemma mark_reorganized_quiet:
  "mark_displayed_transactions_reorganized_and_return X a h d = (Inr txs, d') \<Longrightarrow> quiet d d'"
  unfolding mark_displayed_transactions_reorganized_and_return_def
  by (auto simp: bindM_ok_iff gets_ok_iff ret_ok_iff dest: mark_one_reorganized_quiet
      intro: quiet_trans elim!: foldM_ok_rel [of quiet, rotated 3])

lemma mark_rejected_quiet:
  "mark_displayed_transaction_rejected X i d = (Inr r, d') \<Longrightarrow> quiet d d'"
  by (auto simp: mark_displayed_transaction_rejected_def ok_simps Let_def split: option.splits
      dest: update_displayed_quiet)

end
