(* ===== verification/Subset_Search.thy ===== *)
theory Subset_Search
  imports Prelude
begin

text \<open>
  The subset search that matches spent inputs to the outputs of one transaction:
  \<open>backtrack_subset\<close> and \<open>solve_back_track\<close> of
  \<open>displayed_transaction_processor/processor.rs\<close>. The search mutates an assignment vector;
  the model carries it as an argument and a result. The lemmas show that the search is
  sound and complete for the subset sum problem it solves.
\<close>

section \<open>The search\<close>

text \<open>\<open>fn back_track\<close>: whether a selection was found, and the assignment vector it leaves.\<close>

function back_track ::
  "nat list \<Rightarrow> nat list \<Rightarrow> bool list \<Rightarrow> nat \<Rightarrow> nat \<Rightarrow> nat \<Rightarrow> bool \<times> bool list" where
  "back_track vals suffix assignment step current target =
     (if current = target then (True, assignment)
      else if step \<ge> length vals then (False, assignment)
      else if step + 1 \<ge> length suffix then (False, assignment)
      else if current + suffix ! (step + 1) + vals ! step < target then (False, assignment)
      else if current > target then (False, assignment)
      else if length assignment \<le> step then (False, assignment)
      else
        let taken = (if current + vals ! step \<le> target
              then back_track vals suffix (assignment[step := True]) (step + 1)
                     (current + vals ! step) target
              else (False, assignment))
        in if fst taken then taken
           else back_track vals suffix ((snd taken)[step := False]) (step + 1) current target)"
  by pat_completeness auto

termination by (relation "measure (\<lambda>(vals, suffix, assignment, step, current, target). length vals - step)") auto

declare back_track.simps [simp del]

definition suffix_sums :: "nat list \<Rightarrow> nat list" where
  "suffix_sums vals = map (\<lambda>i. sum_list (drop i vals)) [0..<length vals + 1]"

definition collect_candidates :: "nat list \<Rightarrow> nat list \<Rightarrow> nat \<Rightarrow> nat list option" where
  \<comment> \<open>the loop over the pool, which returns \<open>None\<close> at an index out of range\<close>
  "collect_candidates pool nums target =
     (if \<exists>i \<in> set pool. i \<ge> length nums then None
      else Some (filter (\<lambda>i. nums ! i \<le> target) pool))"

definition backtrack_subset :: "nat list \<Rightarrow> nat list \<Rightarrow> nat \<Rightarrow> nat list option" where
  "backtrack_subset pool nums target =
     (case collect_candidates pool nums target of
        None \<Rightarrow> None
      | Some found \<Rightarrow>
          (let candidates = sort_key (\<lambda>i. - int (nums ! i)) found;
               vals = map (\<lambda>i. nums ! i) candidates;
               suffix = suffix_sums vals
           in if hd suffix < target then None
              else (case back_track vals suffix (replicate (length vals) False) 0 0 target of
                  (found, assignment) \<Rightarrow>
                    if found then Some (map fst (filter snd (zip candidates assignment)))
                    else None)))"

fun solve_targets ::
  "nat list \<Rightarrow> nat list \<Rightarrow> (nat \<times> nat) list \<Rightarrow> (nat \<times> nat list) list" where
  \<comment> \<open>the loop of \<open>solve_back_track\<close>: \<open>remaining\<close> shrinks by the indices of each solution\<close>
  "solve_targets nums remaining [] = []"
| "solve_targets nums remaining ((target, output_idx) # rest) =
     (let used = (case backtrack_subset remaining nums target of None \<Rightarrow> [] | Some u \<Rightarrow> u)
      in (output_idx, used) # solve_targets nums (filter (\<lambda>i. i \<notin> set used) remaining) rest)"

definition solve_back_track :: "nat list \<Rightarrow> (nat \<times> nat) list \<Rightarrow> (nat \<times> nat list) list" where
  \<comment> \<open>the values of the inputs, and the targets with the index of their output\<close>
  "solve_back_track values targets =
     solve_targets (sort values) [0..<length values] (sort_key fst targets)"

section \<open>Soundness and completeness\<close>

definition picked :: "bool list \<Rightarrow> nat list \<Rightarrow> nat" where
  "picked bs vs = (\<Sum>(b, v) \<leftarrow> zip bs vs. if b then v else 0)"

lemma picked_simps [simp]:
  "picked [] vs = 0" "picked bs [] = 0"
  "picked (b # bs) (v # vs) = (if b then v else 0) + picked bs vs"
  by (simp_all add: picked_def)

lemma picked_none: "\<forall>b \<in> set bs. \<not> b \<Longrightarrow> picked bs vs = 0"
  by (induction bs vs rule: list_induct2') auto

lemma picked_le: "picked bs vs \<le> sum_list vs"
  by (induction bs vs rule: list_induct2') simp_all

definition reachable_sum :: "nat list \<Rightarrow> nat \<Rightarrow> nat \<Rightarrow> bool" where
  "reachable_sum vs current target \<longleftrightarrow> (\<exists>bs. length bs = length vs \<and> current + picked bs vs = target)"

lemma reachable_Nil [simp]: "reachable_sum [] c t \<longleftrightarrow> c = t"
  by (simp add: reachable_sum_def)

lemma reachable_Cons:
  "reachable_sum (v # vs) c t \<longleftrightarrow> reachable_sum vs (c + v) t \<or> reachable_sum vs c t"
proof
  assume "reachable_sum (v # vs) c t"
  then obtain b bs where "length bs = length vs" "c + picked (b # bs) (v # vs) = t"
    by (auto simp: reachable_sum_def length_Suc_conv)
  then show "reachable_sum vs (c + v) t \<or> reachable_sum vs c t"
    by (cases b) (auto simp: reachable_sum_def add.assoc)
next
  assume "reachable_sum vs (c + v) t \<or> reachable_sum vs c t"
  then show "reachable_sum (v # vs) c t"
  proof
    assume "reachable_sum vs (c + v) t"
    then obtain bs where "length bs = length vs" "c + v + picked bs vs = t"
      by (auto simp: reachable_sum_def)
    then show ?thesis
      unfolding reachable_sum_def by (intro exI [of _ "True # bs"]) simp
  next
    assume "reachable_sum vs c t"
    then obtain bs where "length bs = length vs" "c + picked bs vs = t"
      by (auto simp: reachable_sum_def)
    then show ?thesis
      unfolding reachable_sum_def by (intro exI [of _ "False # bs"]) simp
  qed
qed

lemma reachable_here: "reachable_sum vs c c"
  unfolding reachable_sum_def
  by (intro exI [of _ "replicate (length vs) False"]) (simp add: picked_none)

lemma reachable_bounds: "reachable_sum vs c t \<Longrightarrow> c \<le> t \<and> t \<le> c + sum_list vs"
  using picked_le by (auto simp: reachable_sum_def)

lemma suffix_sums_nth: "i \<le> length vals \<Longrightarrow> suffix_sums vals ! i = sum_list (drop i vals)"
  by (simp add: suffix_sums_def del: upt_Suc)

lemma length_suffix_sums [simp]: "length (suffix_sums vals) = length vals + 1"
  by (simp add: suffix_sums_def)

text \<open>
  What one call does: it succeeds exactly if the target is reachable with the values from
  \<open>step\<close> on, it leaves the assignment before \<open>step\<close> alone, on success the rest of the
  assignment is a selection that reaches the target, and on failure it is all false.
\<close>

definition search_result :: "nat list \<Rightarrow> bool list \<Rightarrow> nat \<Rightarrow> nat \<Rightarrow> nat \<Rightarrow> bool \<times> bool list \<Rightarrow> bool" where
  "search_result vals asg k c t r \<longleftrightarrow>
     fst r = reachable_sum (drop k vals) c t \<and>
     length (snd r) = length asg \<and> take k (snd r) = take k asg \<and>
     (if fst r then c + picked (drop k (snd r)) (drop k vals) = t
      else \<forall>b \<in> set (drop k (snd r)). \<not> b)"

lemma back_track_search:
  assumes "length asg = length vals" "\<forall>b \<in> set (drop k asg). \<not> b" "k \<le> length vals"
  shows "search_result vals asg k c t (back_track vals (suffix_sums vals) asg k c t)"
  using assms
proof (induction "length vals - k" arbitrary: asg k c)
  case 0
  then have "drop k vals = []" "drop k asg = []" by simp_all
  with 0 show ?case by (subst back_track.simps) (auto simp: search_result_def)
next
  case (Suc n)
  let ?bt = "back_track vals (suffix_sums vals)"
  have k: "k < length vals" and n: "n = length vals - (k + 1)" using Suc by simp_all
  have drop: "drop k vals = vals ! k # drop (k + 1) vals" using k by (simp add: Cons_nth_drop_Suc)
  have dropa: "drop k a = a ! k # drop (k + 1) a" if "length a = length vals" for a :: "bool list"
    using k that by (simp add: Cons_nth_drop_Suc)
  have suf: "suffix_sums vals ! (k + 1) = sum_list (drop (k + 1) vals)"
    using k by (intro suffix_sums_nth) simp
  have down: "search_result vals a k c t (?bt (a[k := b]) (k + 1) (if b then c + vals ! k else c) t)"
    if a: "length a = length vals" "\<forall>b \<in> set (drop (k + 1) a). \<not> b"
      and here: "if b then reachable_sum (drop (k + 1) vals) (c + vals ! k) t
                 else \<not> reachable_sum (drop (k + 1) vals) (c + vals ! k) t" for a b
  proof -
    let ?r = "?bt (a[k := b]) (k + 1) (if b then c + vals ! k else c) t"
    have r: "search_result vals (a[k := b]) (k + 1) (if b then c + vals ! k else c) t ?r"
      using Suc.hyps(1) [OF n, of "a[k := b]"] a k by simp
    then have len: "length (snd ?r) = length vals" using a by (simp add: search_result_def)
    have nth: "snd ?r ! k = b"
    proof -
      have "snd ?r ! k = take (k + 1) (snd ?r) ! k" by simp
      also have "\<dots> = take (k + 1) (a[k := b]) ! k" using r by (simp add: search_result_def)
      also have "\<dots> = b" using k a by simp
      finally show ?thesis .
    qed
    have tk: "take k (snd ?r) = take k a"
    proof -
      have "take k (take (k + 1) (snd ?r)) = take k (take (k + 1) (a[k := b]))"
        using r by (simp add: search_result_def)
      then show ?thesis by simp
    qed
    show ?thesis
      using r here a len nth tk
      by (cases b) (auto simp: search_result_def drop dropa reachable_Cons)
  qed
  have step: "search_result vals asg k c t (let taken = (if c + vals ! k \<le> t
      then ?bt (asg[k := True]) (k + 1) (c + vals ! k) t else (False, asg))
    in if fst taken then taken else ?bt ((snd taken)[k := False]) (k + 1) c t)"
  proof (cases "c + vals ! k \<le> t")
    case True
    let ?taken = "?bt (asg[k := True]) (k + 1) (c + vals ! k) t"
    have r: "search_result vals (asg[k := True]) (k + 1) (c + vals ! k) t ?taken"
      using Suc.hyps(1) [OF n, of "asg[k := True]"] Suc.prems k by (auto simp: dropa)
    show ?thesis
    proof (cases "fst ?taken")
      case found: True
      with down [of asg True] r Suc.prems True show ?thesis
        by (auto simp: search_result_def dropa)
    next
      case False
      have len: "length (snd ?taken) = length vals" using r Suc.prems by (simp add: search_result_def)
      have "take k (take (k + 1) (snd ?taken)) = take k (take (k + 1) (asg[k := True]))"
        using r by (simp add: search_result_def)
      then have tk: "take k (snd ?taken) = take k asg" by simp
      have none: "\<not> reachable_sum (drop (k + 1) vals) (c + vals ! k) t"
        and rest: "\<forall>b \<in> set (drop (k + 1) (snd ?taken)). \<not> b"
        using r False by (auto simp: search_result_def)
      have "search_result vals (snd ?taken) k c t (?bt ((snd ?taken)[k := False]) (k + 1) c t)"
        using down [OF len rest, of False] none by simp
      then have "search_result vals asg k c t (?bt ((snd ?taken)[k := False]) (k + 1) c t)"
        unfolding search_result_def tk len Suc.prems(1) .
      with True False show ?thesis by simp
    qed
  next
    case False
    then have "\<not> reachable_sum (drop (k + 1) vals) (c + vals ! k) t"
      using reachable_bounds by fastforce
    with down [of asg False] False Suc.prems show ?thesis by (auto simp: dropa)
  qed
  have none: "search_result vals asg k c t (False, asg)"
    if "\<not> reachable_sum (drop k vals) c t"
    using that Suc.prems by (simp add: search_result_def)
  have low: "\<not> reachable_sum (drop k vals) c t"
    if "c + sum_list (drop (k + 1) vals) + vals ! k < t"
    using that reachable_bounds [of "drop k vals" c t] by (auto simp: drop)
  have high: "\<not> reachable_sum (drop k vals) c t" if "t < c"
    using that reachable_bounds [of "drop k vals" c t] by auto
  have found: "search_result vals asg k c t (True, asg)" if "c = t"
    using that Suc.prems by (simp add: search_result_def reachable_here picked_none)
  show ?case
    using k Suc.prems(1) step none low high found
    by (subst back_track.simps) (simp add: suf [simplified])
qed

text \<open>The selected indices of a candidate list.\<close>

lemma picked_map_zip:
  "length bs = length xs \<Longrightarrow> picked bs (map f xs) = (\<Sum>x \<leftarrow> map fst (filter snd (zip xs bs)). f x)"
  by (induction bs xs rule: list_induct2) simp_all

lemma set_selected: "set (map fst (filter snd (zip xs bs))) \<subseteq> set xs"
  by (auto dest: set_zip_leftD)

lemma distinct_selected: "distinct xs \<Longrightarrow> distinct (map fst (filter snd (zip xs bs)))"
  by (induction xs bs rule: list_induct2') (auto dest: set_zip_leftD)

lemma backtrack_subset_Some:
  assumes "backtrack_subset pool nums target = Some used" "distinct pool"
  shows "set used \<subseteq> set pool \<and> distinct used \<and> (\<Sum>i \<leftarrow> used. nums ! i) = target \<and>
    (\<forall>i \<in> set used. i < length nums)"
proof -
  obtain found where found: "collect_candidates pool nums target = Some found"
    using assms(1) by (auto simp: backtrack_subset_def split: option.splits)
  define cs where "cs = sort_key (\<lambda>i. - int (nums ! i)) found"
  define vals where "vals = map (\<lambda>i. nums ! i) cs"
  define r where "r = back_track vals (suffix_sums vals) (replicate (length vals) False) 0 0 target"
  have r: "search_result vals (replicate (length vals) False) 0 0 target r"
    unfolding r_def by (rule back_track_search) simp_all
  from assms(1) found have ok: "fst r" and used: "used = map fst (filter snd (zip cs (snd r)))"
    by (simp_all add: backtrack_subset_def Let_def cs_def [symmetric] vals_def [symmetric]
        r_def [symmetric] split: if_splits prod.splits)
  have len: "length (snd r) = length cs" using r by (simp add: search_result_def vals_def)
  have pool: "set cs \<subseteq> set pool" "distinct cs" "\<forall>i \<in> set pool. i < length nums"
    using found assms(2) by (auto simp: collect_candidates_def cs_def split: if_splits)
  have "picked (snd r) vals = target" using r ok by (simp add: search_result_def)
  then have "(\<Sum>i \<leftarrow> used. nums ! i) = target"
    using picked_map_zip [of "snd r" cs "\<lambda>i. nums ! i"] len by (simp add: vals_def used)
  moreover have "set used \<subseteq> set pool" using set_selected [of cs "snd r"] pool used by auto
  moreover have "distinct used" using distinct_selected pool(2) used by blast
  ultimately show ?thesis using pool(3) by blast
qed

lemma picked_of_set:
  assumes "distinct cs" "S \<subseteq> set cs"
  shows "picked (map (\<lambda>i. i \<in> S) cs) (map f cs) = (\<Sum>i \<in> S. f i)"
proof -
  have "picked (map (\<lambda>i. i \<in> S) cs) (map f cs) = (\<Sum>i \<leftarrow> cs. if i \<in> S then f i else 0)"
    by (induction cs) simp_all
  also have "\<dots> = (\<Sum>i \<in> set cs. if i \<in> S then f i else 0)"
    using assms(1) by (rule sum_list_distinct_conv_sum_set)
  also have "\<dots> = (\<Sum>i \<in> S. f i)"
    using assms(2) by (simp add: sum.inter_restrict [symmetric] Int_absorb1)
  finally show ?thesis .
qed

lemma hd_suffix_sums: "hd (suffix_sums vals) = sum_list vals"
  by (simp add: suffix_sums_def hd_map del: upt_Suc)

lemma backtrack_subset_None:
  assumes "backtrack_subset pool nums target = None" "distinct pool"
    and "\<forall>i \<in> set pool. i < length nums" "S \<subseteq> set pool"
  shows "(\<Sum>i \<in> S. nums ! i) \<noteq> target"
proof
  assume sum: "(\<Sum>i \<in> S. nums ! i) = target"
  define found where "found = filter (\<lambda>i. nums ! i \<le> target) pool"
  define cs where "cs = sort_key (\<lambda>i. - int (nums ! i)) found"
  define vals where "vals = map (\<lambda>i. nums ! i) cs"
  have fin: "finite S" using assms(4) finite_subset by auto
  have le: "nums ! i \<le> target" if "i \<in> S" for i
    using sum fin that member_le_sum [of i S "\<lambda>i. nums ! i"] by simp
  then have S: "S \<subseteq> set cs" using assms(4) by (auto simp: cs_def found_def)
  have dist: "distinct cs" using assms(2) by (simp add: cs_def found_def)
  have "picked (map (\<lambda>i. i \<in> S) cs) vals = target"
    using picked_of_set [OF dist S, of "\<lambda>i. nums ! i"] sum by (simp add: vals_def)
  then have reach: "reachable_sum vals 0 target"
    unfolding reachable_sum_def by (intro exI [of _ "map (\<lambda>i. i \<in> S) cs"]) (simp add: vals_def)
  have coll: "collect_candidates pool nums target = Some found"
    using assms(3) by (auto simp: collect_candidates_def found_def)
  have "\<not> hd (suffix_sums vals) < target"
    using reachable_bounds [OF reach] by (simp add: hd_suffix_sums)
  moreover have "fst (back_track vals (suffix_sums vals) (replicate (length vals) False) 0 0 target)"
    using back_track_search [of "replicate (length vals) False" vals 0 0 target] reach
    by (simp add: search_result_def)
  ultimately show False
    using assms(1) coll
    by (simp add: backtrack_subset_def Let_def cs_def [symmetric] vals_def [symmetric]
        split: prod.splits)
qed

lemma solve_targets_ok:
  assumes "distinct remaining" "\<forall>i \<in> set remaining. i < length nums"
  shows "distinct (concat (map snd (solve_targets nums remaining targets))) \<and>
     set (concat (map snd (solve_targets nums remaining targets))) \<subseteq> set remaining \<and>
     list_all2 (\<lambda>(t, i) (j, used). j = i \<and> (used = [] \<or> (\<Sum>k \<leftarrow> used. nums ! k) = t))
       targets (solve_targets nums remaining targets)"
  using assms
proof (induction targets arbitrary: remaining)
  case Nil
  then show ?case by simp
next
  case (Cons x targets)
  obtain t i where x: "x = (t, i)" by (cases x)
  define used where "used = (case backtrack_subset remaining nums t of None \<Rightarrow> [] | Some u \<Rightarrow> u)"
  have used: "set used \<subseteq> set remaining" "distinct used" "used = [] \<or> (\<Sum>k \<leftarrow> used. nums ! k) = t"
    using backtrack_subset_Some [of remaining nums t] Cons.prems
    by (cases "backtrack_subset remaining nums t"; auto simp: used_def)+
  let ?rem = "filter (\<lambda>i. i \<notin> set used) remaining"
  have "distinct ?rem" "\<forall>i \<in> set ?rem. i < length nums" using Cons.prems by auto
  note rest = Cons.IH [OF this]
  have "solve_targets nums remaining (x # targets) = (i, used) # solve_targets nums ?rem targets"
    by (simp add: x used_def Let_def)
  with used rest x show ?case by auto
qed

section \<open>Properties\<close>

text \<open>
  C9: \<open>backtrack_subset\<close> decides the subset sum problem: a result is a set of different
  pool indices whose values add up to the target, and \<open>None\<close> means no subset of the pool
  adds up to it. The pruning loses no solution.
\<close>

theorem backtrack_subset_decides:
  assumes "distinct pool" "\<forall>i \<in> set pool. i < length nums"
  shows "case backtrack_subset pool nums target of
      Some used \<Rightarrow> set used \<subseteq> set pool \<and> distinct used \<and> (\<Sum>i \<in> set used. nums ! i) = target
    | None \<Rightarrow> \<forall>S \<subseteq> set pool. (\<Sum>i \<in> S. nums ! i) \<noteq> target"
proof (cases "backtrack_subset pool nums target")
  case None
  then show ?thesis using backtrack_subset_None [OF None assms] by simp
next
  case (Some used)
  with backtrack_subset_Some [OF Some assms(1)] show ?thesis
    using sum_list_distinct_conv_sum_set [of used "\<lambda>i. nums ! i"] by simp
qed

theorem backtrack_subset_decides_witness:
  "backtrack_subset [0, 1, 2, 3] [3, 5, 8, 20] 13 = Some [2, 1] \<and>
   backtrack_subset [0, 1, 2, 3] [3, 5, 8, 20] 12 = None \<and>
   (\<Sum>i \<in> {0, 1, 2}. [3, 5, 8, 20] ! i) \<noteq> (12 :: nat)"
proof -
  have none: "backtrack_subset [0, 1, 2, 3] [3, 5, 8, 20] 12 = None" by code_simp
  moreover have "backtrack_subset [0, 1, 2, 3] [3, 5, 8, 20] 13 = Some [2, 1]" by code_simp
  moreover have "\<forall>S \<subseteq> {0, 1, 2, 3}. (\<Sum>i \<in> S. [3, 5, 8, 20] ! i) \<noteq> (12 :: nat)"
    using backtrack_subset_decides [of "[0, 1, 2, 3]" "[3, 5, 8, 20]" 12] none by simp
  then have "(\<Sum>i \<in> {0, 1, 2}. [3, 5, 8, 20] ! i) \<noteq> (12 :: nat)"
    by (elim allE [of _ "{0, 1, 2}"]) simp
  ultimately show ?thesis by (intro conjI)
qed

text \<open>
  C10: \<open>solve_back_track\<close> answers every target once, in ascending order of the targets; no
  input is used by two solutions, and every solution that is not empty adds up to its
  target.
\<close>

theorem solve_back_track_disjoint:
  "distinct (concat (map snd (solve_back_track values targets))) \<and>
   set (concat (map snd (solve_back_track values targets))) \<subseteq> {0..<length values} \<and>
   list_all2 (\<lambda>(t, i) (j, used). j = i \<and> (used = [] \<or> (\<Sum>k \<leftarrow> used. sort values ! k) = t))
     (sort_key fst targets) (solve_back_track values targets)"
  using solve_targets_ok [of "[0..<length values]" "sort values" "sort_key fst targets"]
  by (simp add: solve_back_track_def)

end
