(* ===== verification/Samples.thy ===== *)
theory Samples
  imports Store
begin

text \<open>
  Concrete instances for the witnesses: an instance of the functions of other crates, an
  output, its row, and a database with one account. Every property with a hypothesis is
  applied to a state built from these.
\<close>

definition sample_X :: externals where
  "sample_X = \<lparr>x_payref = (\<lambda>block out. block @ out),
     x_tx_id = (\<lambda>key out. sum_list (map unat out)),
     x_from_timestamp = (\<lambda>secs. if 0 \<le> secs then Some secs else None), x_now = 1000,
     x_hex = map (\<lambda>b. char_of (unat b)), x_unhex = (\<lambda>s. Some (map (\<lambda>c. word_of_nat (of_char c)) s)),
     x_utf8_lossy = map (\<lambda>b. char_of (unat b)),
     x_payrefs_json = (\<lambda>ps. concat (map (map (\<lambda>b. char_of (unat b))) ps)),
     x_parse_payrefs = (\<lambda>s. Some [s]),
     x_payload_json = (\<lambda>i ty snapshot now. to_key_string ty),
     x_size_error = ''Invalid size''\<rparr>"

definition sample_payment :: payment_info where
  "sample_payment = \<lparr>pi_memo = [], pi_fee = None, pi_amount = None, pi_recipient = None,
     pi_sender = None, pi_details = None, pi_sent_hashes = None\<rparr>"

definition sample_output :: "bytes \<Rightarrow> u64 \<Rightarrow> wallet_output" where
  "sample_output h v = \<lparr>wo_value = v, wo_hash = h, wo_is_burned = False, wo_is_coinbase = False,
     wo_coinbase_extra = [], wo_payment = sample_payment\<rparr>"

definition sample_row :: "i64 \<Rightarrow> bytes \<Rightarrow> u64 \<Rightarrow> i64 \<Rightarrow> output_row" where
  "sample_row i h v height = \<lparr>o_id = i, o_account = 1, o_tx_id = i, o_hash = h, o_block = [9],
     o_height = height, o_value = int v, o_created = 0, o_json = Some (sample_output h v),
     o_timestamp = 0, o_confirmed_height = None, o_confirmed_hash = None, o_memo_parsed = None,
     o_memo_hex = None, o_status = output_status_text Unspent, o_locked_at = None,
     o_locked_by = None, o_deleted_at = None, o_deleted_height = None, o_payref = None,
     o_is_burn = False\<rparr>"

definition sample_account :: account_row where
  "sample_account = \<lparr>a_id = 1, a_name = ''main'', a_fingerprint = [1], a_encrypted = [],
     a_nonce = [], a_salt = [], a_birthday = 0\<rparr>"

definition account_db :: db where
  "account_db = empty_db\<lparr>accounts := [sample_account], accounts_seq := 1\<rparr>"

definition two_outputs_db :: db where
  \<comment> \<open>the account has scanned to height 10 and owns two unspent outputs of 60 and 50\<close>
  "two_outputs_db = account_db\<lparr>outputs := [sample_row 1 [1] 60 3, sample_row 2 [2] 50 4],
     outputs_seq := 2,
     tips := [\<lparr>tip_id = 1, tip_account = 1, tip_height = 10, tip_hash = [9], tip_created = 0\<rparr>],
     tips_seq := 1\<rparr>"

text \<open>Reading a computed run: its result and the state it leaves.\<close>

definition succeeds_with :: "('e + 'a) \<times> 's \<Rightarrow> ('a \<Rightarrow> 's \<Rightarrow> bool) \<Rightarrow> bool" where
  "succeeds_with run P = (case run of (r, s) \<Rightarrow> (case r of Inl _ \<Rightarrow> False | Inr a \<Rightarrow> P a s))"

definition chooses_with :: "('e + 'b + 'a) \<times> 's \<Rightarrow> ('a \<Rightarrow> 's \<Rightarrow> bool) \<Rightarrow> bool" where
  "chooses_with run P = (case run of (r, s) \<Rightarrow> (case r of Inl _ \<Rightarrow> False
     | Inr x \<Rightarrow> (case x of Inl _ \<Rightarrow> False | Inr a \<Rightarrow> P a s)))"

lemma succeeds_with_iff: "succeeds_with run P \<longleftrightarrow> (\<exists>a s. run = (Inr a, s) \<and> P a s)"
  by (auto simp: succeeds_with_def split: prod.splits sum.splits)

lemma chooses_with_iff: "chooses_with run P \<longleftrightarrow> (\<exists>a s. run = (Inr (Inr a), s) \<and> P a s)"
  by (auto simp: chooses_with_def split: prod.splits sum.splits)

lemmas with_iffs = succeeds_with_iff chooses_with_iff

end
