(* ===== verification/Display_Processor.thy ===== *)
theory Display_Processor
  imports Displayed_Txs Inputs Subset_Search Samples "HOL-Library.Multiset"
begin

text \<open>
  From balance changes to displayed transactions: the accumulator of one block
  (\<open>scan/block_event_accumulator.rs\<close>) and the \<open>DisplayedTransactionProcessor\<close>
  (\<open>displayed_transaction_processor/processor.rs\<close>), which updates the transactions a block
  concerns, makes transactions of coinbases and received outputs, matches spent inputs to
  outputs by subset sums and makes transactions of what stays unmatched. A hash map is an
  association list in insertion order; the code does not rely on the order of its values.
\<close>

section \<open>The block accumulator\<close>

record detected_output =
  do_height :: u64
  do_block :: bytes
  do_output :: wallet_output

record spent_input =
  si_output_id :: i64
  si_block :: bytes
  si_height :: u64
  si_output :: wallet_output

record accumulator =
  acc_account :: i64
  acc_height :: u64
  acc_hash :: bytes
  acc_debits :: "(balance_change \<times> spent_input) list"
  acc_credits :: "(balance_change \<times> detected_output) list"

definition new_accumulator :: "i64 \<Rightarrow> u64 \<Rightarrow> bytes \<Rightarrow> accumulator" where
  "new_accumulator account_id height block_hash = \<lparr>acc_account = account_id, acc_height = height,
     acc_hash = block_hash, acc_debits = [], acc_credits = []\<rparr>"

definition total_changes :: "accumulator \<Rightarrow> nat" where
  "total_changes acc = length (acc_debits acc) + length (acc_credits acc)"

definition add_debit_change :: "balance_change \<Rightarrow> spent_input \<Rightarrow> accumulator \<Rightarrow> accumulator" where
  "add_debit_change change input acc = acc\<lparr>acc_debits := acc_debits acc @ [(change, input)]\<rparr>"

definition add_credit_change :: "balance_change \<Rightarrow> detected_output \<Rightarrow> accumulator \<Rightarrow> accumulator" where
  "add_credit_change change output acc = acc\<lparr>acc_credits := acc_credits acc @ [(change, output)]\<rparr>"

definition acc_is_empty :: "accumulator \<Rightarrow> bool" where
  "acc_is_empty acc \<longleftrightarrow> acc_debits acc = [] \<and> acc_credits acc = []"

record change_summary =
  cs_credit :: u64
  cs_debit :: u64
  cs_description :: string

record block_event =
  ev_account :: i64
  ev_height :: u64
  ev_hash :: bytes
  ev_outputs :: "detected_output list"
  ev_inputs :: "spent_input list"
  ev_changes :: "change_summary list"

definition summary_of :: "balance_change \<Rightarrow> change_summary" where
  "summary_of bc = \<lparr>cs_credit = bc_credit bc, cs_debit = bc_debit bc,
     cs_description = bc_description bc\<rparr>"

definition into_event :: "accumulator \<Rightarrow> block_event" where
  "into_event acc = \<lparr>ev_account = acc_account acc, ev_height = acc_height acc,
     ev_hash = acc_hash acc, ev_outputs = map snd (acc_credits acc),
     ev_inputs = map snd (acc_debits acc),
     ev_changes = map (\<lambda>c. summary_of (fst c)) (acc_credits acc) @
                  map (\<lambda>c. summary_of (fst c)) (acc_debits acc)\<rparr>"

record memo_info =
  memo_parsed :: "string option"
  memo_hex :: "string option"

definition memo_of_output :: "externals \<Rightarrow> wallet_output \<Rightarrow> memo_info" where
  "memo_of_output X output = (let memo_bytes = pi_memo (wo_payment output)
     in if memo_bytes = [] then \<lparr>memo_parsed = None, memo_hex = None\<rparr>
        else \<lparr>memo_parsed = Some (x_utf8_lossy X memo_bytes),
              memo_hex = Some (x_hex X memo_bytes)\<rparr>)"

section \<open>The processor\<close>

record processor =
  pr_tip :: u64
  pr_confirmations :: u64
  pr_view_key :: bytes

definition calculate_status_and_confirmations :: "processor \<Rightarrow> u64 \<Rightarrow> display_status \<times> u64" where
  "calculate_status_and_confirmations p mined_height =
     (let confirmations = u64_saturating_sub (pr_tip p) mined_height
      in (if confirmations \<ge> pr_confirmations p then DConfirmed else DUnconfirmed, confirmations))"

definition remined :: "processor \<Rightarrow> u64 \<Rightarrow> i64 \<Rightarrow> displayed_transaction \<Rightarrow> displayed_transaction" where
  \<comment> \<open>the update of a transaction the block concerns, the same for an output and an input\<close>
  "remined p height date tx =
     (let confirmations = u64_saturating_sub (pr_tip p) height
      in tx\<lparr>dt_blockchain := (dt_blockchain tx)\<lparr>bi_height := height, bi_timestamp := date,
              bi_confirmations := confirmations\<rparr>,
            dt_status := (if confirmations \<ge> pr_confirmations p then DConfirmed else DUnconfirmed)\<rparr>)"

definition has_output :: "bytes \<Rightarrow> displayed_transaction \<Rightarrow> bool" where
  "has_output h tx \<longleftrightarrow> (\<exists>o' \<in> set (td_outputs (dt_details tx)). to_hash o' = h)"

definition has_input :: "bytes \<Rightarrow> displayed_transaction \<Rightarrow> bool" where
  "has_input h tx \<longleftrightarrow> (\<exists>i \<in> set (td_inputs (dt_details tx)). ti_hash i = h)"

definition map_insert :: "'k \<Rightarrow> 'v \<Rightarrow> ('k \<times> 'v) list \<Rightarrow> ('k \<times> 'v) list" where
  "map_insert k v m = (if k \<in> fst ` set m then map (\<lambda>(k', v'). if k' = k then (k, v) else (k', v')) m
     else m @ [(k, v)])"

definition match_credit ::
  "processor \<Rightarrow> displayed_transaction list \<Rightarrow> (u64 \<times> displayed_transaction) list \<times> (balance_change \<times> detected_output) list \<Rightarrow>
     balance_change \<times> detected_output \<Rightarrow> (u64 \<times> displayed_transaction) list \<times> (balance_change \<times> detected_output) list" where
  "match_credit p current st change = (case change of (bc, output) \<Rightarrow>
     (case List.find (has_output (wo_hash (do_output output))) current of
        Some tx \<Rightarrow> (map_insert (dt_id tx) (remined p (do_height output) (bc_date bc) tx) (fst st), snd st)
      | None \<Rightarrow> (fst st, snd st @ [change])))"

definition match_debit ::
  "processor \<Rightarrow> displayed_transaction list \<Rightarrow> (u64 \<times> displayed_transaction) list \<times> (balance_change \<times> spent_input) list \<Rightarrow>
     balance_change \<times> spent_input \<Rightarrow> (u64 \<times> displayed_transaction) list \<times> (balance_change \<times> spent_input) list" where
  "match_debit p current st change = (case change of (bc, input) \<Rightarrow>
     (case List.find (has_input (wo_hash (si_output input))) current of
        Some tx \<Rightarrow> (map_insert (dt_id tx) (remined p (si_height input) (bc_date bc) tx) (fst st), snd st)
      | None \<Rightarrow> (fst st, snd st @ [change])))"

definition display_id :: "externals \<Rightarrow> processor \<Rightarrow> wallet_output \<Rightarrow> u64" where
  "display_id X p output = x_tx_id X (pr_view_key p) (wo_hash output)"

definition output_entry :: "output_type \<Rightarrow> detected_output \<Rightarrow> transaction_output" where
  "output_entry ty output = \<lparr>to_hash = wo_hash (do_output output),
     to_amount = wo_value (do_output output), to_status = Unspent, to_height = do_height output,
     to_block = do_block output, to_type = ty, to_is_change = False\<rparr>"

definition input_entry :: "spent_input \<Rightarrow> transaction_input" where
  "input_entry input = \<lparr>ti_hash = wo_hash (si_output input), ti_amount = wo_value (si_output input),
     ti_matched = si_output_id input, ti_block = si_block input\<rparr>"

definition output_builder ::
  "externals \<Rightarrow> processor \<Rightarrow> accumulator \<Rightarrow> transaction_source \<Rightarrow> output_type \<Rightarrow>
     balance_change \<Rightarrow> detected_output \<Rightarrow> tx_builder" where
  \<comment> \<open>the fields every transaction made from a detected output has\<close>
  "output_builder X p acc src ty bc output =
     (let (status, confirmations) = calculate_status_and_confirmations p (do_height output);
          memo = memo_of_output X (do_output output)
      in with_blockchain_info (acc_height acc) (do_block output) (bc_date bc) confirmations
           (new_builder\<lparr>tb_account := Some (acc_account acc), tb_source := Some src,
              tb_status := Some status, tb_message := memo_parsed memo, tb_memo_hex := memo_hex memo,
              tb_outputs := [output_entry ty output], tb_output_type := Some ty\<rparr>))"

definition coinbase_transaction ::
  "externals \<Rightarrow> processor \<Rightarrow> accumulator \<Rightarrow> balance_change \<times> detected_output \<Rightarrow>
     processor_error + displayed_transaction" where
  "coinbase_transaction X p acc change = (case change of (bc, output) \<Rightarrow>
     build_transaction (x_payref X) (display_id X p (do_output output))
       (credits_and_debits (bc_credit bc) 0
         ((output_builder X p acc Coinbase CoinbaseOutput bc output)
            \<lparr>tb_coinbase_extra := Some (wo_coinbase_extra (do_output output))\<rparr>)))"

definition received_transaction ::
  "externals \<Rightarrow> processor \<Rightarrow> accumulator \<Rightarrow> balance_change \<times> detected_output \<Rightarrow>
     processor_error + displayed_transaction" where
  \<comment> \<open>a received output, and also an output that no input matches\<close>
  "received_transaction X p acc change = (case change of (bc, output) \<Rightarrow>
     let pay = wo_payment (do_output output)
     in build_transaction (x_payref X) (display_id X p (do_output output))
       (credits_and_debits (bc_credit bc) 0
         ((output_builder X p acc Transfer StandardOutput bc output)
            \<lparr>tb_counterparty := pi_sender pay, tb_fee := pi_fee pay,
             tb_sent_hashes := opt_or [] (pi_sent_hashes pay)\<rparr>)))"

definition sent_transaction ::
  "externals \<Rightarrow> processor \<Rightarrow> accumulator \<Rightarrow> balance_change \<times> detected_output \<Rightarrow>
     (balance_change \<times> spent_input) list \<Rightarrow> processor_error + displayed_transaction" where
  \<comment> \<open>a change output together with the inputs that sum up to it\<close>
  "sent_transaction X p acc change used = (case change of (bc, output) \<Rightarrow>
     let pay = wo_payment (do_output output)
     in build_transaction (x_payref X) (display_id X p (do_output output))
       (credits_and_debits (bc_credit bc) (\<Sum>i \<leftarrow> used. wo_value (si_output (snd i)))
         ((output_builder X p acc Transfer StandardOutput bc output)
            \<lparr>tb_counterparty := pi_sender pay, tb_fee := pi_fee pay,
             tb_sent_hashes := opt_or [] (pi_sent_hashes pay),
             tb_inputs := map (\<lambda>i. input_entry (snd i)) used\<rparr>)))"

definition unmatched_input_transaction ::
  "externals \<Rightarrow> processor \<Rightarrow> accumulator \<Rightarrow> balance_change \<times> spent_input \<Rightarrow>
     processor_error + displayed_transaction" where
  "unmatched_input_transaction X p acc change = (case change of (bc, input) \<Rightarrow>
     let (status, confirmations) = calculate_status_and_confirmations p (si_height input)
     in build_transaction (x_payref X) (display_id X p (si_output input))
       (with_blockchain_info (acc_height acc) (si_block input) (bc_date bc) confirmations
         (credits_and_debits 0 (bc_debit bc)
           (new_builder\<lparr>tb_account := Some (acc_account acc), tb_source := Some Transfer,
              tb_status := Some status, tb_inputs := [input_entry input]\<rparr>))))"

definition nth_or :: "'e \<Rightarrow> 'a list \<Rightarrow> nat \<Rightarrow> 'e + 'a" where
  "nth_or e xs i = (if i < length xs then Inr (xs ! i) else Inl e)"

definition handle_unmatched_inputs_outputs ::
  "externals \<Rightarrow> processor \<Rightarrow> accumulator \<Rightarrow> (balance_change \<times> spent_input) list \<Rightarrow>
     (balance_change \<times> detected_output) list \<Rightarrow> nat list \<Rightarrow>
     processor_error + displayed_transaction list" where
  "handle_unmatched_inputs_outputs X p acc ins outs unmatched =
     (case mapM (\<lambda>i. case nth_or (MissingError ''Output index out of bounds'') outs i of
            Inl e \<Rightarrow> Inl e | Inr change \<Rightarrow> received_transaction X p acc change) unmatched of
        Inl e \<Rightarrow> Inl e
      | Inr results \<Rightarrow>
          (case mapM (unmatched_input_transaction X p acc) ins of
             Inl e \<Rightarrow> Inl e | Inr others \<Rightarrow> Inr (results @ others)))"

section \<open>Matching inputs to outputs\<close>

definition total_send :: "u64 \<Rightarrow> wallet_output \<Rightarrow> u64" where
  "total_send amount output = amount + wo_value output + opt_or 0 (pi_fee (wo_payment output))"

definition change_targets :: "(balance_change \<times> detected_output) list \<Rightarrow> (u64 \<times> nat) list" where
  "change_targets outs = List.map_filter (\<lambda>(i, c).
     map_option (\<lambda>(sender, amount). (total_send amount (do_output (snd c)), i))
       (pi_details (wo_payment (do_output (snd c))))) (enumerate 0 outs)"

definition without_details :: "(balance_change \<times> detected_output) list \<Rightarrow> nat list" where
  "without_details outs = List.map_filter (\<lambda>(i, c).
     if pi_details (wo_payment (do_output (snd c))) = None then Some i else None) (enumerate 0 outs)"

fun remove_at :: "nat \<Rightarrow> 'a list \<Rightarrow> 'a list" where
  "remove_at i [] = []"
| "remove_at 0 (x # xs) = xs"
| "remove_at (Suc i) (x # xs) = x # remove_at i xs"

record match_state =
  ms_result :: "displayed_transaction list"
  ms_used :: "nat list"
  ms_unmatched :: "nat list"

definition match_solution ::
  "externals \<Rightarrow> processor \<Rightarrow> accumulator \<Rightarrow> (balance_change \<times> spent_input) list \<Rightarrow>
     (balance_change \<times> detected_output) list \<Rightarrow> match_state \<Rightarrow> nat \<times> nat list \<Rightarrow>
     processor_error + match_state" where
  "match_solution X p acc ins outs st solution = (case solution of (output_index, indices) \<Rightarrow>
     (case mapM (nth_or (MissingError ''Input index out of bounds'') ins) indices of
        Inl e \<Rightarrow> Inl e
      | Inr used \<Rightarrow>
        (case nth_or (MissingError ''Output index out of bounds'') outs output_index of
           Inl e \<Rightarrow> Inl e
         | Inr change \<Rightarrow>
           (case pi_details (wo_payment (do_output (snd change))) of
              None \<Rightarrow> Inl (MissingError ''Missing Output details'')
            | Some (sender, amount) \<Rightarrow>
              if total_send amount (do_output (snd change)) \<noteq> (\<Sum>i \<leftarrow> used. wo_value (si_output (snd i)))
              then Inr (st\<lparr>ms_unmatched := ms_unmatched st @ [output_index]\<rparr>)
              else (case sent_transaction X p acc change used of
                  Inl e \<Rightarrow> Inl e
                | Inr tx \<Rightarrow> Inr (st\<lparr>ms_result := ms_result st @ [tx],
                                  ms_used := ms_used st @ indices\<rparr>))))))"

definition search_inputs ::
  "externals \<Rightarrow> processor \<Rightarrow> accumulator \<Rightarrow> (balance_change \<times> spent_input) list \<Rightarrow>
     (balance_change \<times> detected_output) list \<Rightarrow> processor_error + displayed_transaction list" where
  "search_inputs X p acc ins outs =
     (let solutions = solve_back_track (map (\<lambda>i. wo_value (si_output (snd i))) ins) (change_targets outs)
      in case fold_result (match_solution X p acc ins outs)
           \<lparr>ms_result = [], ms_used = [], ms_unmatched = without_details outs\<rparr> solutions of
           Inl e \<Rightarrow> Inl e
         | Inr st \<Rightarrow>
             (let remaining = foldl (\<lambda>xs i. remove_at i xs) ins (rev (sort (ms_used st)))
              in case handle_unmatched_inputs_outputs X p acc remaining outs (ms_unmatched st) of
                   Inl e \<Rightarrow> Inl e
                 | Inr others \<Rightarrow> Inr (ms_result st @ others)))"

definition create_new_updated_display_transactions ::
  "externals \<Rightarrow> processor \<Rightarrow> accumulator \<Rightarrow> displayed_transaction list \<Rightarrow>
     processor_error + displayed_transaction list \<times> displayed_transaction list" where
  \<comment> \<open>the updated and the new transactions\<close>
  "create_new_updated_display_transactions X p acc current =
     (let (updated1, new_credit) = foldl (match_credit p current) ([], []) (acc_credits acc);
          (updated, new_debit) = foldl (match_debit p current) (updated1, []) (acc_debits acc);
          by_value = sort_key (\<lambda>c. wo_value (si_output (snd c))) new_debit;
          coinbases = rev (filter (\<lambda>c. wo_is_coinbase (do_output (snd c))) new_credit);
          others = filter (\<lambda>c. \<not> wo_is_coinbase (do_output (snd c))) new_credit;
          received = rev (filter (\<lambda>c. pi_details (wo_payment (do_output (snd c))) = None) others);
          change_outs = filter (\<lambda>c. pi_details (wo_payment (do_output (snd c))) \<noteq> None) others
      in case mapM (coinbase_transaction X p acc) coinbases of
           Inl e \<Rightarrow> Inl e
         | Inr txs1 \<Rightarrow> (case mapM (received_transaction X p acc) received of
             Inl e \<Rightarrow> Inl e
           | Inr txs2 \<Rightarrow> (case search_inputs X p acc by_value change_outs of
               Inl e \<Rightarrow> Inl e
             | Inr txs3 \<Rightarrow> Inr (map snd updated, txs1 @ txs2 @ txs3))))"

definition create_new_updated_display_transactions_for_height ::
  "externals \<Rightarrow> processor \<Rightarrow> accumulator \<Rightarrow>
     (db, processor_error, displayed_transaction list \<times> displayed_transaction list) run" where
  "create_new_updated_display_transactions_for_height X p acc =
     bindM (map_error ProcessorDb
       (get_displayed_transactions_from_height (acc_account acc) (acc_height acc))) (\<lambda>current.
     bindM (map_error ProcessorDb
       (get_displayed_transactions_by_status (acc_account acc) DPending)) (\<lambda>pending.
     let extra = filter (\<lambda>tx. dt_id tx \<notin> dt_id ` set current) pending
     in lift_result (create_new_updated_display_transactions X p acc (current @ extra))))"

section \<open>Reprocessing everything stored\<close>

definition require :: "string \<Rightarrow> 'a option \<Rightarrow> (db, processor_error, 'a) run" where
  "require msg x = (case x of None \<Rightarrow> throw (MissingError msg) | Some a \<Rightarrow> ret a)"

definition parse_hash :: "externals \<Rightarrow> bytes \<Rightarrow> (db, processor_error, bytes) run" where
  "parse_hash X b = (case fixed_hash_of b of
      None \<Rightarrow> throw (ParseError (x_size_error X)) | Some h \<Rightarrow> ret h)"

definition add_stored_change ::
  "externals \<Rightarrow> accumulator \<Rightarrow> balance_change \<Rightarrow> (db, processor_error, accumulator) run" where
  "add_stored_change X acc bc =
     (if is_debit bc then
        bindM (require ''Debit balance change has no associated input'' (bc_input bc)) (\<lambda>iid.
        bindM (map_error ProcessorDb (get_input_by_id iid)) (\<lambda>found.
        bindM (require ''Debit balance change has no associated input'' found) (\<lambda>input.
        bindM (map_error ProcessorDb (get_output_by_id (in_output input))) (\<lambda>out_row.
        bindM (require (''Ouput does not exist: '' @ show_int (in_output input)) out_row) (\<lambda>row.
        bindM (parse_hash X (in_block input)) (\<lambda>hash.
        bindM (map_error ProcessorDb (lift_result (to_wallet_output row))) (\<lambda>output.
          ret (add_debit_change bc \<lparr>si_output_id = in_id input, si_block = hash,
                 si_height = u64_of_i64 (in_height input), si_output = output\<rparr> acc))))))))
      else
        bindM (require ''Credit balance change has no associated input'' (bc_output bc)) (\<lambda>oid.
        bindM (map_error ProcessorDb (get_output_by_id oid)) (\<lambda>found.
        bindM (require ''Credit balance change has no associated input'' found) (\<lambda>row.
        bindM (parse_hash X (o_block row)) (\<lambda>hash.
        bindM (map_error ProcessorDb (lift_result (to_wallet_output row))) (\<lambda>output.
          ret (add_credit_change bc \<lparr>do_height = u64_of_i64 (o_height row), do_block = hash,
                 do_output = output\<rparr> acc)))))))"

fun group_by_height :: "balance_change list \<Rightarrow> (u64 \<times> balance_change list) list" where
  "group_by_height [] = []"
| "group_by_height (bc # bcs) =
     (bc_height bc, bc # filter (\<lambda>c. bc_height c = bc_height bc) bcs) #
       group_by_height (filter (\<lambda>c. bc_height c \<noteq> bc_height bc) bcs)"

definition process_height ::
  "externals \<Rightarrow> processor \<Rightarrow> i64 \<Rightarrow> displayed_transaction list \<times> displayed_transaction list \<Rightarrow>
     u64 \<times> balance_change list \<Rightarrow>
     (db, processor_error, displayed_transaction list \<times> displayed_transaction list) run" where
  "process_height X p a found block_changes =
     bindM (foldM (add_stored_change X) (new_accumulator a (fst block_changes) []) (snd block_changes)) (\<lambda>acc.
     bindM (create_new_updated_display_transactions_for_height X p acc) (\<lambda>(upd, new).
       ret (fst found @ upd, snd found @ new)))"

definition process_all_stored_with_conn ::
  "externals \<Rightarrow> processor \<Rightarrow> i64 \<Rightarrow>
     (db, processor_error, displayed_transaction list \<times> displayed_transaction list) run" where
  "process_all_stored_with_conn X p a =
     bindM (map_error ProcessorDb (get_all_active_balance_changes_by_account_id a)) (\<lambda>changes.
       if changes = [] then ret ([], [])
       else foldM (process_height X p a) ([], []) (group_by_height changes))"

section \<open>Every input and output is shown once\<close>

definition shown_inputs :: "displayed_transaction list \<Rightarrow> transaction_input list" where
  "shown_inputs txs = concat (map (\<lambda>tx. td_inputs (dt_details tx)) txs)"

definition shown_outputs :: "displayed_transaction list \<Rightarrow> transaction_output list" where
  "shown_outputs txs = concat (map (\<lambda>tx. td_outputs (dt_details tx)) txs)"

lemma shown_simps [simp]:
  "shown_inputs [] = []" "shown_outputs [] = []"
  "shown_inputs (tx # txs) = td_inputs (dt_details tx) @ shown_inputs txs"
  "shown_outputs (tx # txs) = td_outputs (dt_details tx) @ shown_outputs txs"
  "shown_inputs (txs @ txs') = shown_inputs txs @ shown_inputs txs'"
  "shown_outputs (txs @ txs') = shown_outputs txs @ shown_outputs txs'"
  by (simp_all add: shown_inputs_def shown_outputs_def)

lemma built_details:
  "build_transaction f i b = Inr tx \<Longrightarrow>
     td_inputs (dt_details tx) = tb_inputs b \<and> td_outputs (dt_details tx) = tb_outputs b \<and>
     dt_id tx = i \<and> dt_status tx = opt_or DPending (tb_status b)"
  by (auto simp: build_transaction_def Let_def split: option.splits)

lemma builder_fields [simp]:
  "tb_inputs (credits_and_debits c v b) = tb_inputs b"
  "tb_outputs (credits_and_debits c v b) = tb_outputs b"
  "tb_status (credits_and_debits c v b) = tb_status b"
  "tb_inputs (with_blockchain_info h k t n b) = tb_inputs b"
  "tb_outputs (with_blockchain_info h k t n b) = tb_outputs b"
  "tb_status (with_blockchain_info h k t n b) = tb_status b"
  "tb_inputs new_builder = []" "tb_outputs new_builder = []"
  by (simp_all add: credits_and_debits_def with_blockchain_info_def new_builder_def Let_def)

lemma output_builder_fields [simp]:
  "tb_inputs (output_builder X p acc src ty bc o') = []"
  "tb_outputs (output_builder X p acc src ty bc o') = [output_entry ty o']"
  "tb_status (output_builder X p acc src ty bc o') =
     Some (fst (calculate_status_and_confirmations p (do_height o')))"
  by (simp_all add: output_builder_def Let_def split_def)

lemma coinbase_shows:
  "coinbase_transaction X p acc c = Inr tx \<Longrightarrow>
     td_inputs (dt_details tx) = [] \<and> td_outputs (dt_details tx) = [output_entry CoinbaseOutput (snd c)]"
  by (auto simp: coinbase_transaction_def split: prod.splits dest!: built_details)

lemma received_shows:
  "received_transaction X p acc c = Inr tx \<Longrightarrow>
     td_inputs (dt_details tx) = [] \<and> td_outputs (dt_details tx) = [output_entry StandardOutput (snd c)]"
  by (auto simp: received_transaction_def Let_def split: prod.splits dest!: built_details)

lemma sent_shows:
  "sent_transaction X p acc c used = Inr tx \<Longrightarrow>
     td_inputs (dt_details tx) = map (\<lambda>i. input_entry (snd i)) used \<and>
     td_outputs (dt_details tx) = [output_entry StandardOutput (snd c)]"
  by (auto simp: sent_transaction_def Let_def split: prod.splits dest!: built_details)

lemma unmatched_input_shows:
  "unmatched_input_transaction X p acc c = Inr tx \<Longrightarrow>
     td_inputs (dt_details tx) = [input_entry (snd c)] \<and> td_outputs (dt_details tx) = []"
  by (auto simp: unmatched_input_transaction_def Let_def split: prod.splits dest!: built_details)

lemma mapM_shows:
  assumes "\<And>x tx. f x = Inr tx \<Longrightarrow> td_inputs (dt_details tx) = g x \<and> td_outputs (dt_details tx) = h x"
  shows "mapM f xs = Inr txs \<Longrightarrow>
     shown_inputs txs = concat (map g xs) \<and> shown_outputs txs = concat (map h xs)"
  by (induction xs arbitrary: txs) (auto split: sum.splits dest: assms)

lemma mapM_nth_or:
  "mapM (nth_or e xs) is = Inr ys \<Longrightarrow> ys = map ((!) xs) is \<and> (\<forall>i \<in> set is. i < length xs)"
  by (induction "is" arbitrary: ys) (auto simp: nth_or_def split: sum.splits if_splits)

subsection \<open>Removing the used inputs\<close>

lemma remove_at_eq: "remove_at i xs = take i xs @ drop (Suc i) xs"
  by (induction i xs rule: remove_at.induct) simp_all

lemma mset_remove_at: "i < length xs \<Longrightarrow> add_mset (xs ! i) (mset (remove_at i xs)) = mset xs"
  by (metis remove_at_eq id_take_nth_drop mset.simps(2) mset_append union_mset_add_mset_right)

lemma remove_all_desc:
  assumes "sorted_wrt (>) is" "\<forall>i \<in> set is. i < length xs"
  shows "mset (foldl (\<lambda>xs i. remove_at i xs) xs is) + mset (map ((!) xs) is) = mset xs"
  using assms
proof (induction "is" arbitrary: xs)
  case Nil
  then show ?case by simp
next
  case (Cons i "is")
  let ?ys = "remove_at i xs"
  have nth: "?ys ! j = xs ! j" if "j \<in> set is" for j
    using Cons.prems that by (auto simp: remove_at_eq nth_append)
  have "\<forall>j \<in> set is. j < length ?ys"
    using Cons.prems by (auto simp: remove_at_eq)
  with Cons have "mset (foldl (\<lambda>xs i. remove_at i xs) ?ys is) + mset (map ((!) ?ys) is) = mset ?ys"
    by simp
  moreover have "map ((!) ?ys) is = map ((!) xs) is" using nth by simp
  ultimately show ?case using mset_remove_at [of i xs] Cons.prems by simp
qed

lemma remove_used:
  assumes "distinct used" "\<forall>i \<in> set used. i < length xs"
  shows "mset (foldl (\<lambda>xs i. remove_at i xs) xs (rev (sort used))) + mset (map ((!) xs) used) = mset xs"
proof -
  have "sorted_wrt (<) (sort used)" using assms(1) by (simp add: strict_sorted_iff)
  then have "sorted_wrt (>) (rev (sort used))" by (simp add: sorted_wrt_rev)
  from remove_all_desc [OF this, of xs] assms(2) show ?thesis
    by (simp add: mset_map [symmetric] del: mset_map) (simp add: mset_map)
qed

subsection \<open>Conservation\<close>

definition match_ok ::
  "(balance_change \<times> spent_input) list \<Rightarrow> (balance_change \<times> detected_output) list \<Rightarrow> nat list \<Rightarrow>
     nat list \<Rightarrow> match_state \<Rightarrow> bool" where
  \<comment> \<open>the loop invariant: \<open>is\<close> are the input indices, \<open>os\<close> the output indices seen so far\<close>
  "match_ok ins outs is os st \<longleftrightarrow>
     mset (ms_used st) \<subseteq># mset is \<and> (\<forall>i \<in> set (ms_used st). i < length ins) \<and>
     shown_inputs (ms_result st) = map (\<lambda>i. input_entry (snd (ins ! i))) (ms_used st) \<and>
     (\<exists>matched. mset os = mset matched + mset (ms_unmatched st) \<and>
        (\<forall>i \<in> set os. i < length outs) \<and>
        shown_outputs (ms_result st) = map (\<lambda>i. output_entry StandardOutput (snd (outs ! i))) matched)"

lemma match_solution_ok:
  assumes "match_solution X p acc ins outs st (j, used) = Inr st'" "match_ok ins outs is os st"
  shows "match_ok ins outs (is @ used) (os @ [j]) st'"
proof -
  from assms(1) obtain us where us: "mapM (nth_or (MissingError ''Input index out of bounds'') ins) used = Inr us"
    by (auto simp: match_solution_def split: sum.splits)
  note us = mapM_nth_or [OF us] us
  from assms(1) us have j: "j < length outs"
    by (auto simp: match_solution_def nth_or_def split: if_splits)
  from assms(2) obtain matched where m: "mset os = mset matched + mset (ms_unmatched st)"
    "\<forall>i \<in> set os. i < length outs"
    "shown_outputs (ms_result st) = map (\<lambda>i. output_entry StandardOutput (snd (outs ! i))) matched"
    by (auto simp: match_ok_def)
  from assms(1) us j consider
      (skip) "st' = st\<lparr>ms_unmatched := ms_unmatched st @ [j]\<rparr>"
    | (hit) tx where "sent_transaction X p acc (outs ! j) us = Inr tx"
        "st' = st\<lparr>ms_result := ms_result st @ [tx], ms_used := ms_used st @ used\<rparr>"
    by (auto simp: match_solution_def nth_or_def split: option.splits if_splits sum.splits)
  then show ?thesis
  proof cases
    case skip
    have "mset (ms_used st) \<subseteq># mset is + mset used"
      using assms(2) by (simp add: match_ok_def subset_mset.add_increasing2)
    with skip m assms(2) j show ?thesis
      by (auto simp: match_ok_def)
  next
    case hit
    have "mset (os @ [j]) = mset (matched @ [j]) + mset (ms_unmatched st')"
      using hit m by simp
    moreover have "shown_outputs (ms_result st') =
        map (\<lambda>i. output_entry StandardOutput (snd (outs ! i))) (matched @ [j])"
      using hit m sent_shows [OF hit(1)] by simp
    moreover have "shown_inputs (ms_result st') = map (\<lambda>i. input_entry (snd (ins ! i))) (ms_used st')"
      using hit assms(2) sent_shows [OF hit(1)] us(1) by (simp add: match_ok_def)
    moreover have "mset (ms_used st') \<subseteq># mset (is @ used)"
      using hit assms(2) by (simp add: match_ok_def subset_mset.add_right_mono)
    moreover have "\<forall>i \<in> set (ms_used st'). i < length ins"
      using hit us assms(2) by (auto simp: match_ok_def)
    moreover have "\<forall>i \<in> set (os @ [j]). i < length outs" using m j by auto
    ultimately show ?thesis
      unfolding match_ok_def by blast
  qed
qed

lemma fold_match_ok:
  "fold_result (match_solution X p acc ins outs) st sols = Inr st' \<Longrightarrow> match_ok ins outs is os st \<Longrightarrow>
     match_ok ins outs (is @ concat (map snd sols)) (os @ map fst sols) st'"
proof (induction sols arbitrary: st "is" os)
  case Nil
  then show ?case by simp
next
  case (Cons sol sols)
  obtain j used where sol: "sol = (j, used)" by (cases sol)
  with Cons.prems obtain st1 where st1: "match_solution X p acc ins outs st (j, used) = Inr st1"
    "fold_result (match_solution X p acc ins outs) st1 sols = Inr st'"
    by (auto split: sum.splits)
  from Cons.IH [OF st1(2) match_solution_ok [OF st1(1) Cons.prems(2)]] show ?case
    by (simp add: sol)
qed

lemma handle_unmatched_shows:
  assumes "handle_unmatched_inputs_outputs X p acc ins outs unmatched = Inr txs"
    and "\<forall>i \<in> set unmatched. i < length outs"
  shows "shown_inputs txs = map (\<lambda>i. input_entry (snd i)) ins \<and>
     shown_outputs txs = map (\<lambda>i. output_entry StandardOutput (snd (outs ! i))) unmatched"
proof -
  let ?f = "\<lambda>i. case nth_or (MissingError ''Output index out of bounds'') outs i of
            Inl e \<Rightarrow> Inl e | Inr change \<Rightarrow> received_transaction X p acc change"
  from assms(1) obtain t1 t2 where t1: "mapM ?f unmatched = Inr t1"
    and t2: "mapM (unmatched_input_transaction X p acc) ins = Inr t2" and txs: "txs = t1 @ t2"
    by (auto simp: handle_unmatched_inputs_outputs_def split: sum.splits)
  have "shown_inputs t1 = concat (map (\<lambda>i. []) unmatched) \<and>
      shown_outputs t1 = concat (map (\<lambda>i. [output_entry StandardOutput (snd (outs ! i))]) unmatched)"
    by (rule mapM_shows [OF _ t1])
      (auto simp: nth_or_def split: if_splits dest: received_shows)
  moreover have "shown_inputs t2 = concat (map (\<lambda>c. [input_entry (snd c)]) ins) \<and>
      shown_outputs t2 = concat (map (\<lambda>c. []) ins)"
    by (rule mapM_shows [OF _ t2]) (rule unmatched_input_shows)
  moreover have "concat (map (\<lambda>x. [f x]) xs) = map f xs" "concat (map (\<lambda>x. []) xs) = []"
    for f :: "'a \<Rightarrow> 'b" and xs :: "'a list"
    by (induction xs) simp_all
  ultimately show ?thesis by (simp add: txs)
qed

lemma target_indices:
  "mset (map snd (change_targets outs)) + mset (without_details outs) = mset [0..<length outs]"
proof -
  have "mset (map snd (List.map_filter (\<lambda>(i, c). map_option (\<lambda>(sender, amount). (g c amount, i)) (h c)) xs))
      + mset (List.map_filter (\<lambda>(i, c). if h c = None then Some i else None) xs) = mset (map fst xs)"
    for xs :: "(nat \<times> 'a) list" and g :: "'a \<Rightarrow> u64 \<Rightarrow> u64" and h :: "'a \<Rightarrow> (string \<times> u64) option"
    by (induction xs) (auto split: option.splits)
  from this [of "\<lambda>c amount. total_send amount (do_output (snd c))"
      "\<lambda>c. pi_details (wo_payment (do_output (snd c)))" "enumerate 0 outs"]
  show ?thesis by (simp add: change_targets_def without_details_def)
qed

lemma distinct_submultiset: "mset xs \<subseteq># mset ys \<Longrightarrow> distinct ys \<Longrightarrow> distinct xs"
  by (metis distinct_append ex_mset mset_append mset_eq_imp_distinct_iff subset_mset.add_diff_inverse)

lemma solve_indices:
  "mset (map fst (solve_back_track values targets)) = mset (map snd targets) \<and>
   distinct (concat (map snd (solve_back_track values targets)))"
proof -
  have "map fst (solve_targets nums remaining ts) = map snd ts" for nums remaining ts
    by (induction nums remaining ts rule: solve_targets.induct) (simp_all add: Let_def)
  then have "map fst (solve_back_track values targets) = map snd (sort_key fst targets)"
    by (simp add: solve_back_track_def)
  moreover have "mset (map snd (sort_key fst targets)) = mset (map snd targets)"
    by (simp only: mset_map mset_sort)
  ultimately show ?thesis
    using solve_targets_ok [of "[0..<length values]" "sort values" "sort_key fst targets"]
    by (simp add: solve_back_track_def)
qed

lemma search_inputs_conserves:
  assumes "search_inputs X p acc ins outs = Inr txs"
  shows "mset (shown_inputs txs) = mset (map (\<lambda>i. input_entry (snd i)) ins)"
    and "mset (shown_outputs txs) = mset (map (\<lambda>c. output_entry StandardOutput (snd c)) outs)"
proof -
  let ?sols = "solve_back_track (map (\<lambda>i. wo_value (si_output (snd i))) ins) (change_targets outs)"
  from assms obtain st txs' where
    loop: "fold_result (match_solution X p acc ins outs)
      \<lparr>ms_result = [], ms_used = [], ms_unmatched = without_details outs\<rparr> ?sols = Inr st"
    and rest: "handle_unmatched_inputs_outputs X p acc
      (foldl (\<lambda>xs i. remove_at i xs) ins (rev (sort (ms_used st)))) outs (ms_unmatched st) = Inr txs'"
    and txs: "txs = ms_result st @ txs'"
    by (auto simp: search_inputs_def Let_def split: sum.splits)
  have "set (without_details outs) \<subseteq> set [0..<length outs]"
    using target_indices [of outs] by (metis set_mset_mset set_mset_union sup_ge2)
  then have "match_ok ins outs [] (without_details outs)
      \<lparr>ms_result = [], ms_used = [], ms_unmatched = without_details outs\<rparr>"
    by (auto simp: match_ok_def)
  from fold_match_ok [OF loop this] have ok:
    "match_ok ins outs (concat (map snd ?sols)) (without_details outs @ map fst ?sols) st" by simp
  then obtain matched where m: "mset (without_details outs @ map fst ?sols) = mset matched + mset (ms_unmatched st)"
    "\<forall>i \<in> set (without_details outs @ map fst ?sols). i < length outs"
    "shown_outputs (ms_result st) = map (\<lambda>i. output_entry StandardOutput (snd (outs ! i))) matched"
    by (auto simp: match_ok_def)
  have all: "mset (without_details outs @ map fst ?sols) = mset [0..<length outs]"
    using target_indices [of outs] solve_indices by (simp add: add.commute)
  have e: "mset matched + mset (ms_unmatched st) = mset [0..<length outs]"
    using m(1) all by (simp only:)
  have "set (ms_unmatched st) \<subseteq> set (without_details outs @ map fst ?sols)"
    using m(1) by (metis set_mset_mset set_mset_union sup_ge2)
  with m(2) have um: "\<forall>i \<in> set (ms_unmatched st). i < length outs" by blast
  have used: "distinct (ms_used st)" "\<forall>i \<in> set (ms_used st). i < length ins"
    using ok solve_indices distinct_submultiset by (auto simp: match_ok_def)
  have "mset (map (\<lambda>i. input_entry (snd i)) (foldl (\<lambda>xs i. remove_at i xs) ins (rev (sort (ms_used st)))))
      + mset (map (\<lambda>i. input_entry (snd (ins ! i))) (ms_used st)) = mset (map (\<lambda>i. input_entry (snd i)) ins)"
    using arg_cong [OF remove_used [OF used], of "image_mset (\<lambda>i. input_entry (snd i))"]
    by (simp add: image_mset.compositionality comp_def)
  then show "mset (shown_inputs txs) = mset (map (\<lambda>i. input_entry (snd i)) ins)"
    using handle_unmatched_shows [OF rest um] ok by (simp add: txs match_ok_def add.commute)
  have "map (\<lambda>c. output_entry StandardOutput (snd c)) outs =
      map (\<lambda>i. output_entry StandardOutput (snd (outs ! i))) [0..<length outs]"
    using arg_cong [OF map_nth [of outs], of "map (\<lambda>c. output_entry StandardOutput (snd c))"]
    by (simp add: comp_def)
  then have "mset (map (\<lambda>c. output_entry StandardOutput (snd c)) outs) =
      image_mset (\<lambda>i. output_entry StandardOutput (snd (outs ! i))) (mset [0..<length outs])"
    by (simp only: mset_map)
  then show "mset (shown_outputs txs) = mset (map (\<lambda>c. output_entry StandardOutput (snd c)) outs)"
    using handle_unmatched_shows [OF rest um] m(3) e
    by (simp add: txs image_mset_union [symmetric] del: image_mset_union mset_upt)
qed

definition unknown_credit :: "displayed_transaction list \<Rightarrow> balance_change \<times> detected_output \<Rightarrow> bool" where
  "unknown_credit current c \<longleftrightarrow> (\<forall>tx \<in> set current. \<not> has_output (wo_hash (do_output (snd c))) tx)"

definition unknown_debit :: "displayed_transaction list \<Rightarrow> balance_change \<times> spent_input \<Rightarrow> bool" where
  "unknown_debit current c \<longleftrightarrow> (\<forall>tx \<in> set current. \<not> has_input (wo_hash (si_output (snd c))) tx)"

lemma foldl_match_credit:
  "snd (foldl (match_credit p current) st cs) = snd st @ filter (unknown_credit current) cs"
  by (induction cs arbitrary: st)
    (auto simp: match_credit_def unknown_credit_def find_None_iff find_Some_iff split: option.splits)

lemma foldl_match_debit:
  "snd (foldl (match_debit p current) st cs) = snd st @ filter (unknown_debit current) cs"
  by (induction cs arbitrary: st)
    (auto simp: match_debit_def unknown_debit_def find_None_iff find_Some_iff split: option.splits)

lemma mset_three_filters:
  "mset (filter P xs) + (mset (filter Q (filter (\<lambda>x. \<not> P x) xs)) +
     mset (filter (\<lambda>x. \<not> Q x) (filter (\<lambda>x. \<not> P x) xs))) = mset xs"
  by (induction xs) auto

lemma concat_map_Nil [simp]: "concat (map (\<lambda>x. []) xs) = []"
  by (induction xs) simp_all

lemma for_height_reads:
  "create_new_updated_display_transactions_for_height X p acc d = (Inr r, d') \<Longrightarrow> d' = d"
  by (auto simp: create_new_updated_display_transactions_for_height_def ok_simps Let_def
      get_displayed_transactions_from_height_def get_displayed_transactions_by_status_def
      list_displayed_def)

section \<open>Properties\<close>

text \<open>
  C8: A block's new transactions show each spent input and each detected output exactly
  once, except those that a known transaction already has: matching by subset sums neither
  loses nor repeats a balance change.
\<close>

theorem new_transactions_conserve:
  assumes "create_new_updated_display_transactions X p acc current = Inr (updated, new)"
  shows "mset (shown_inputs new) =
      mset (map (\<lambda>c. input_entry (snd c)) (filter (unknown_debit current) (acc_debits acc))) \<and>
    mset (map to_hash (shown_outputs new)) =
      mset (map (\<lambda>c. wo_hash (do_output (snd c))) (filter (unknown_credit current) (acc_credits acc)))"
proof -
  let ?new_credit = "filter (unknown_credit current) (acc_credits acc)"
  let ?new_debit = "filter (unknown_debit current) (acc_debits acc)"
  let ?cb = "\<lambda>c. wo_is_coinbase (do_output (snd c))"
  let ?plain = "\<lambda>c. pi_details (wo_payment (do_output (snd c))) = None"
  let ?others = "filter (\<lambda>c. \<not> ?cb c) ?new_credit"
  have credit: "snd (foldl (match_credit p current) ([], []) (acc_credits acc)) = ?new_credit"
    by (simp add: foldl_match_credit)
  have debit: "snd (foldl (match_debit p current) (u, []) (acc_debits acc)) = ?new_debit" for u
    by (simp add: foldl_match_debit)
  from assms obtain txs1 txs2 txs3 where
    1: "mapM (coinbase_transaction X p acc) (rev (filter ?cb ?new_credit)) = Inr txs1"
    and 2: "mapM (received_transaction X p acc) (rev (filter ?plain ?others)) = Inr txs2"
    and 3: "search_inputs X p acc (sort_key (\<lambda>c. wo_value (si_output (snd c))) ?new_debit)
        (filter (\<lambda>c. \<not> ?plain c) ?others) = Inr txs3"
    and new: "new = txs1 @ txs2 @ txs3"
    by (auto simp: create_new_updated_display_transactions_def Let_def split_def credit debit
        split: sum.splits)
  note s1 = mapM_shows [OF coinbase_shows 1] and s2 = mapM_shows [OF received_shows 2]
    and s3 = search_inputs_conserves [OF 3]
  have ins: "mset (shown_inputs new) = mset (map (\<lambda>c. input_entry (snd c)) ?new_debit)"
    using s1 s2 s3(1) by (simp add: new)
  have hash: "to_hash (output_entry ty o') = wo_hash (do_output o')" for ty o'
    by (simp add: output_entry_def)
  have "mset (map to_hash (shown_outputs txs3)) =
      mset (map (\<lambda>c. wo_hash (do_output (snd c))) (filter (\<lambda>c. \<not> ?plain c) ?others))"
    using arg_cong [OF s3(2), of "image_mset to_hash"]
    by (simp add: image_mset.compositionality comp_def hash)
  moreover have "mset (map to_hash (shown_outputs txs1)) =
      mset (map (\<lambda>c. wo_hash (do_output (snd c))) (filter ?cb ?new_credit))"
    using s1 by (simp add: comp_def hash)
  moreover have "mset (map to_hash (shown_outputs txs2)) =
      mset (map (\<lambda>c. wo_hash (do_output (snd c))) (filter ?plain ?others))"
    using s2 by (simp add: comp_def hash)
  ultimately have "mset (map to_hash (shown_outputs new)) =
      mset (map (\<lambda>c. wo_hash (do_output (snd c))) ?new_credit)"
    using arg_cong [OF mset_three_filters [of ?cb ?new_credit ?plain],
        of "image_mset (\<lambda>c. wo_hash (do_output (snd c)))"]
    by (simp add: new)
  with ins show ?thesis by blast
qed

definition sample_processor :: processor where
  "sample_processor = \<lparr>pr_tip = 20, pr_confirmations = 3, pr_view_key = [7]\<rparr>"

definition change_output :: "bytes \<Rightarrow> u64 \<Rightarrow> u64 \<Rightarrow> wallet_output" where
  \<comment> \<open>a change output of a payment of the given amount\<close>
  "change_output h v amount = (sample_output h v)
     \<lparr>wo_payment := sample_payment\<lparr>pi_details := Some (''me'', amount)\<rparr>\<rparr>"

definition sample_change :: balance_change where
  "sample_change = \<lparr>bc_account = 1, bc_output = None, bc_input = None, bc_description = [],
     bc_credit = 0, bc_debit = 0, bc_date = 0, bc_height = 20, bc_recipient = None,
     bc_sender = None, bc_memo_parsed = None, bc_memo_hex = None, bc_claimed_fee = None,
     bc_claimed_amount = None, bc_is_reversal = False, bc_reversal_of = None,
     bc_is_reversed = False\<rparr>"

definition sample_accumulator :: accumulator where
  \<comment> \<open>inputs of 30, 70 and 40 are spent, 10 comes back as the change of a payment of 90\<close>
  "sample_accumulator = \<lparr>acc_account = 1, acc_height = 20, acc_hash = [9],
     acc_debits = map (\<lambda>(i, v). (sample_change\<lparr>bc_debit := v\<rparr>,
       \<lparr>si_output_id = int i, si_block = [9], si_height = 20,
        si_output = sample_output [of_nat i] v\<rparr>)) [(1, 30), (2, 70), (3, 40)],
     acc_credits = [(sample_change\<lparr>bc_credit := 10\<rparr>,
       \<lparr>do_height = 20, do_block = [9], do_output = change_output [4] 10 90\<rparr>)]\<rparr>"

theorem new_transactions_conserve_witness:
  "\<exists>new. create_new_updated_display_transactions sample_X sample_processor sample_accumulator [] =
     Inr ([], new) \<and> length new = 2 \<and> size (mset (shown_inputs new)) = 3"
proof -
  have "case create_new_updated_display_transactions sample_X sample_processor sample_accumulator [] of
      Inl e \<Rightarrow> False | Inr (upd, new) \<Rightarrow> upd = [] \<and> length new = 2"
    by code_simp
  then obtain new where new: "create_new_updated_display_transactions sample_X sample_processor
      sample_accumulator [] = Inr ([], new)" "length new = 2"
    by (auto split: sum.splits)
  have three: "length (filter (unknown_debit []) (acc_debits sample_accumulator)) = 3" by code_simp
  from new_transactions_conserve [OF new(1)]
  have "length (shown_inputs new) = length (map (\<lambda>c. input_entry (snd c))
      (filter (unknown_debit []) (acc_debits sample_accumulator)))"
    by (blast intro: mset_eq_length)
  with new three show ?thesis by auto
qed

end
