(* ===== verification/Block_Processor.thy ===== *)
theory Block_Processor
  imports Holdings Tip_Blocks Webhooks Burn_Proofs Display_Processor
begin

text \<open>
  Block processing, \<open>scan/block_processor.rs\<close>, and the batch transaction around it,
  \<open>scan/scan_db_handler.rs\<close>. The processor keeps the events it generated and those it
  sent; a failing block makes the batch transaction roll back. \<open>describe\<close> stands for the
  \<open>Display\<close> of an error, which the handler stores in \<open>WalletDbError::Unexpected\<close>.
\<close>

section \<open>Blocks and the processor\<close>

record block_scan =
  bl_height :: u64
  bl_hash :: bytes
  bl_outputs :: "(bytes \<times> wallet_output \<times> nat) list"
  bl_inputs :: "bytes list"
  bl_timestamp :: u64

datatype block_error = BlockDb wallet_error | BlockEvent string

datatype processing_event =
    BlockProcessed block_event
  | TransactionsReady i64 "displayed_transaction list" "u64 option" bool

record block_processor =
  bk_accounts :: "i64 list"              \<comment> \<open>\<open>wallet_index_to_account_id\<close>\<close>
  bk_view_keys :: "(i64 \<times> bytes) list"   \<comment> \<open>\<open>account_view_keys\<close>\<close>
  bk_events :: "wallet_event list"
  bk_sent :: "processing_event list"     \<comment> \<open>what went to the event sender\<close>
  bk_current :: "accumulator option"
  bk_tip :: u64
  bk_pending_outbound :: bool
  bk_required :: u64
  bk_webhook :: "webhook_config option"

type_synonym 'a blockm = "(db, block_error, 'a) run"

definition with_event_sender :: "(i64 \<times> bytes) list \<Rightarrow> bool \<Rightarrow> u64 \<Rightarrow> block_processor" where
  "with_event_sender account_keys pending required = \<lparr>bk_accounts = map fst account_keys,
     bk_view_keys = account_keys, bk_events = [], bk_sent = [], bk_current = None, bk_tip = 0,
     bk_pending_outbound = pending, bk_required = required, bk_webhook = None\<rparr>"

definition new_block_processor :: "(i64 \<times> bytes) list \<Rightarrow> u64 \<Rightarrow> block_processor" where
  \<comment> \<open>\<open>BlockProcessor::new\<close>: its sender drops what it is given\<close>
  "new_block_processor account_keys required = \<lparr>bk_accounts = map fst account_keys,
     bk_view_keys = account_keys, bk_events = [], bk_sent = [], bk_current = None, bk_tip = 0,
     bk_pending_outbound = False, bk_required = required, bk_webhook = None\<rparr>"

definition set_has_pending_outbound :: "bool \<Rightarrow> block_processor \<Rightarrow> block_processor" where
  "set_has_pending_outbound v bk = bk\<lparr>bk_pending_outbound := v\<rparr>"

definition set_webhook_config :: "webhook_config option \<Rightarrow> block_processor \<Rightarrow> block_processor" where
  "set_webhook_config config bk = bk\<lparr>bk_webhook := config\<rparr>"

definition take_wallet_events :: "block_processor \<Rightarrow> wallet_event list \<times> block_processor" where
  "take_wallet_events bk = (bk_events bk, bk\<lparr>bk_events := []\<rparr>)"

definition into_wallet_events :: "block_processor \<Rightarrow> wallet_event list" where
  "into_wallet_events bk = bk_events bk"

definition account_view_key :: "block_processor \<Rightarrow> i64 \<Rightarrow> block_error + bytes" where
  \<comment> \<open>\<open>collect\<close> into a hash map keeps the last key of an account\<close>
  "account_view_key bk a = (case map_of (rev (bk_view_keys bk)) a of
      None \<Rightarrow> Inl (BlockEvent (''Unknown account id: '' @ show_int a)) | Some k \<Rightarrow> Inr k)"

definition push_event :: "wallet_event \<Rightarrow> block_processor \<Rightarrow> block_processor" where
  "push_event ev bk = bk\<lparr>bk_events := bk_events bk @ [ev]\<rparr>"

definition send_event :: "processing_event \<Rightarrow> block_processor \<Rightarrow> block_processor" where
  "send_event ev bk = bk\<lparr>bk_sent := bk_sent bk @ [ev]\<rparr>"

definition update_current :: "(accumulator \<Rightarrow> accumulator) \<Rightarrow> block_processor \<Rightarrow> block_processor" where
  "update_current f bk = bk\<lparr>bk_current := map_option f (bk_current bk)\<rparr>"

section \<open>Balance changes and events of a block\<close>

definition effective_date :: "externals \<Rightarrow> u64 \<Rightarrow> i64" where
  \<comment> \<open>\<open>from_timestamp(..).unwrap_or_else(Utc::now)\<close>\<close>
  "effective_date X timestamp = opt_or (x_now X) (x_from_timestamp X (i64_of_u64 timestamp))"

definition make_balance_change_for_output ::
  "externals \<Rightarrow> i64 \<Rightarrow> i64 \<Rightarrow> u64 \<Rightarrow> u64 \<Rightarrow> wallet_output \<Rightarrow> balance_change" where
  "make_balance_change_for_output X account_id output_id timestamp height output =
     (let pay = wo_payment output; memo_bytes = pi_memo pay
      in \<lparr>bc_account = account_id, bc_output = Some output_id, bc_input = None,
          bc_description = (if wo_is_coinbase output then ''Coinbase output found in blockchain scan''
                            else ''Output found in blockchain scan''),
          bc_credit = wo_value output, bc_debit = 0, bc_date = effective_date X timestamp,
          bc_height = height,
          bc_recipient = (if wo_is_coinbase output then None else pi_recipient pay),
          bc_sender = (if wo_is_coinbase output then None else pi_sender pay),
          bc_memo_parsed = Some (x_utf8_lossy X memo_bytes), bc_memo_hex = Some (x_hex X memo_bytes),
          bc_claimed_fee = pi_fee pay, bc_claimed_amount = pi_amount pay,
          bc_is_reversal = False, bc_reversal_of = None, bc_is_reversed = False\<rparr>)"

definition input_balance_change ::
  "externals \<Rightarrow> i64 \<Rightarrow> i64 \<Rightarrow> u64 \<Rightarrow> block_scan \<Rightarrow> balance_change" where
  "input_balance_change X account_id input_id v block =
     \<lparr>bc_account = account_id, bc_output = None, bc_input = Some input_id,
      bc_description = ''Output spent as input'', bc_credit = 0, bc_debit = v,
      bc_date = effective_date X (bl_timestamp block), bc_height = bl_height block,
      bc_recipient = None, bc_sender = None, bc_memo_parsed = None, bc_memo_hex = None,
      bc_claimed_fee = None, bc_claimed_amount = None, bc_is_reversal = False,
      bc_reversal_of = None, bc_is_reversed = False\<rparr>"

definition make_output_detected_event ::
  "i64 \<Rightarrow> bytes \<Rightarrow> block_scan \<Rightarrow> memo_info \<Rightarrow> wallet_event" where
  "make_output_detected_event account_id hash block memo = \<lparr>we_id = 0, we_account = account_id,
     we_type = OutputDetected hash (bl_height block) (bl_hash block) (memo_parsed memo) (memo_hex memo),
     we_description = ''Detected output at height '' @ show_nat (bl_height block)\<rparr>"

definition make_confirmation_event ::
  "i64 \<Rightarrow> bytes \<Rightarrow> u64 \<Rightarrow> u64 \<Rightarrow> string option \<Rightarrow> string option \<Rightarrow> wallet_event" where
  "make_confirmation_event account_id hash original confirmed parsed hex =
     \<lparr>we_id = 0, we_account = account_id,
      we_type = OutputConfirmed hash original confirmed parsed hex,
      we_description = ''Output confirmed at height '' @ show_nat confirmed @
        '' (originally at '' @ show_nat original @ '')''\<rparr>"

definition record_output_balance_change ::
  "externals \<Rightarrow> i64 \<Rightarrow> i64 \<Rightarrow> block_scan \<Rightarrow> wallet_output \<Rightarrow> balance_change blockm" where
  "record_output_balance_change X account_id output_id block output =
     (let change = make_balance_change_for_output X account_id output_id (bl_timestamp block)
            (bl_height block) output
      in bindM (map_error BlockDb (insert_balance_change change)) (\<lambda>_. ret change))"

definition record_input_balance_change ::
  "externals \<Rightarrow> i64 \<Rightarrow> i64 \<Rightarrow> u64 \<Rightarrow> block_scan \<Rightarrow> balance_change blockm" where
  "record_input_balance_change X account_id input_id v block =
     (let change = input_balance_change X account_id input_id v block
      in bindM (map_error BlockDb (insert_balance_change change)) (\<lambda>_. ret change))"

section \<open>The four steps\<close>

type_synonym generated = "(i64 \<times> wallet_event) list"

definition process_output ::
  "externals \<Rightarrow> block_scan \<Rightarrow> i64 \<Rightarrow> bytes \<Rightarrow> block_processor \<times> generated \<Rightarrow>
     bytes \<times> wallet_output \<times> nat \<Rightarrow> (block_processor \<times> generated) blockm" where
  "process_output X block account_id view_key st item = (case item of (hash, output, wallet_idx) \<Rightarrow>
     if wallet_idx \<ge> length (bk_accounts (fst st)) then ret st
     else if bk_accounts (fst st) ! wallet_idx \<noteq> account_id then ret st
     else
       let memo = memo_of_output X output;
           event = make_output_detected_event account_id hash block memo;
           bk = push_event event (fst st)
       in bindM (map_error BlockDb (insert_output X account_id view_key hash output (bl_height block)
              (bl_hash block) (bl_timestamp block) (memo_parsed memo) (memo_hex memo)
              (x_payref X (bl_hash block) hash) (wo_is_burned output))) (\<lambda>output_id.
          bindM (map_error BlockDb (insert_wallet_event X account_id event)) (\<lambda>event_id.
          bindM (record_output_balance_change X account_id output_id block output) (\<lambda>change.
            ret (update_current (add_credit_change change \<lparr>do_height = bl_height block,
                   do_block = bl_hash block, do_output = output\<rparr>) bk,
                 snd st @ [(event_id, event)])))))"

definition process_outputs ::
  "externals \<Rightarrow> block_scan \<Rightarrow> i64 \<Rightarrow> bytes \<Rightarrow> block_processor \<Rightarrow> block_processor blockm" where
  "process_outputs X block account_id view_key bk =
     bindM (foldM (process_output X block account_id view_key) (bk, []) (bl_outputs block))
       (\<lambda>(bk', generated).
     seqM (map_error BlockDb (trigger_all X account_id (bk_webhook bk') generated)) (ret bk'))"

definition process_input ::
  "externals \<Rightarrow> block_scan \<Rightarrow> i64 \<Rightarrow> block_processor \<Rightarrow> bytes \<Rightarrow> block_processor blockm" where
  "process_input X block account_id bk input_hash =
     bindM (map_error BlockDb (get_output_info_by_hash_for_account account_id input_hash)) (\<lambda>found.
       case found of
         None \<Rightarrow> ret bk
       | Some (output_id, tx_id, output) \<Rightarrow>
           bindM (map_error BlockDb (insert_input X account_id output_id (bl_height block)
                    (bl_hash block) (bl_timestamp block))) (\<lambda>input_id.
           bindM (record_input_balance_change X account_id input_id (wo_value output) block) (\<lambda>change.
           seqM (map_error BlockDb (update_output_status output_id Spent))
           (ret (update_current (add_debit_change change \<lparr>si_output_id = output_id,
              si_block = bl_hash block, si_height = bl_height block, si_output = output\<rparr>) bk)))))"

definition process_inputs ::
  "externals \<Rightarrow> block_scan \<Rightarrow> i64 \<Rightarrow> block_processor \<Rightarrow> block_processor blockm" where
  "process_inputs X block account_id bk =
     foldM (process_input X block account_id) bk (bl_inputs block)"

definition record_scanned_block :: "externals \<Rightarrow> block_scan \<Rightarrow> i64 \<Rightarrow> unit blockm" where
  "record_scanned_block X block account_id = map_error BlockDb
     (insert_scanned_tip_block X account_id (i64_of_u64 (bl_height block)) (bl_hash block))"

definition process_confirmation ::
  "externals \<Rightarrow> block_scan \<Rightarrow> i64 \<Rightarrow> block_processor \<times> generated \<Rightarrow> output_row \<Rightarrow>
     (block_processor \<times> generated) blockm" where
  \<comment> \<open>the burn proof of a burnt output is looked up for the log only\<close>
  "process_confirmation X block account_id st row =
     (let event = make_confirmation_event account_id (o_hash row) (u64_of_i64 (o_height row))
            (bl_height block) (o_memo_parsed row) (o_memo_hex row)
      in bindM (map_error BlockDb (insert_wallet_event X account_id event)) (\<lambda>event_id.
         seqM (map_error BlockDb (mark_output_confirmed (o_hash row) (bl_height block) (bl_hash block)))
         (ret (push_event event (fst st), snd st @ [(event_id, event)]))))"

definition process_confirmations ::
  "externals \<Rightarrow> block_scan \<Rightarrow> i64 \<Rightarrow> block_processor \<Rightarrow> block_processor blockm" where
  "process_confirmations X block account_id bk =
     bindM (map_error BlockDb (get_unconfirmed_outputs account_id (bl_height block) (bk_required bk)))
       (\<lambda>rows.
     bindM (foldM (process_confirmation X block account_id) (bk, []) rows) (\<lambda>(bk', generated).
     seqM (map_error BlockDb (trigger_all X account_id (bk_webhook bk') generated)) (ret bk')))"

section \<open>The block\<close>

definition processor_failed :: "(processor_error \<Rightarrow> string) \<Rightarrow> processor_error \<Rightarrow> block_error" where
  "processor_failed describe e =
     BlockEvent (''Failed to process displayed transactions: '' @ describe e)"

definition save_and_emit_displayed_transactions ::
  "externals \<Rightarrow> (processor_error \<Rightarrow> string) \<Rightarrow> u64 \<Rightarrow> i64 \<Rightarrow> bytes \<Rightarrow> accumulator \<Rightarrow>
     block_processor \<Rightarrow> block_processor blockm" where
  "save_and_emit_displayed_transactions X describe block_height account_id view_key acc bk =
     (if acc_is_empty acc then ret bk
      else
        bindM (map_error (processor_failed describe)
          (create_new_updated_display_transactions_for_height X
             \<lparr>pr_tip = bk_tip bk, pr_confirmations = bk_required bk, pr_view_key = view_key\<rparr> acc))
          (\<lambda>(updated, new).
        seqM (map_error BlockDb (forM updated (\<lambda>tx.
                bindM (update_displayed_transaction_mined X tx) (\<lambda>_. ret ()))))
        (seqM (map_error BlockDb (forM new (insert_displayed_transaction X)))
        (ret (send_event (TransactionsReady account_id (updated @ new) (Some block_height) False) bk)))))"

definition finish_block ::
  "externals \<Rightarrow> (processor_error \<Rightarrow> string) \<Rightarrow> block_scan \<Rightarrow> i64 \<Rightarrow> bytes \<Rightarrow> block_processor \<Rightarrow>
     block_processor blockm" where
  \<comment> \<open>the tail of \<open>process_block\<close> after \<open>current_block.take()\<close>\<close>
  "finish_block X describe block account_id view_key bk = (case bk_current bk of
      None \<Rightarrow> ret bk
    | Some acc \<Rightarrow>
        bindM (if \<not> acc_is_empty acc
               then save_and_emit_displayed_transactions X describe (bl_height block) account_id
                      view_key acc (bk\<lparr>bk_current := None\<rparr>)
               else ret (bk\<lparr>bk_current := None\<rparr>)) (\<lambda>bk'.
          ret (send_event (BlockProcessed (into_event acc)) bk')))"

definition process_block ::
  "externals \<Rightarrow> (processor_error \<Rightarrow> string) \<Rightarrow> block_scan \<Rightarrow> i64 \<Rightarrow> block_processor \<Rightarrow>
     block_processor blockm" where
  "process_block X describe block account_id bk =
     (case account_view_key bk account_id of
        Inl e \<Rightarrow> throw e
      | Inr view_key \<Rightarrow>
          bindM (process_outputs X block account_id view_key (bk\<lparr>bk_tip := bl_height block,
             bk_current := Some (new_accumulator account_id (bl_height block) (bl_hash block))\<rparr>)) (\<lambda>bk1.
          bindM (process_inputs X block account_id bk1) (\<lambda>bk2.
          seqM (record_scanned_block X block account_id)
          (bindM (process_confirmations X block account_id bk2) (\<lambda>bk3.
          finish_block X describe block account_id view_key bk3)))))"

section \<open>The batch\<close>

text \<open>
  \<open>ScanDbHandler\<close>: the handler takes its processor out and puts it back only when the
  batch committed.
\<close>

datatype scan_db_error =
    ScanFatal string
  | ScanIntermittent string
  | ScanTimeout nat
  | ScanDb wallet_error

definition process_batch_blocks ::
  "externals \<Rightarrow> (processor_error \<Rightarrow> string) \<Rightarrow> (block_error \<Rightarrow> string) \<Rightarrow> i64 \<Rightarrow> u64 \<Rightarrow>
     block_processor \<Rightarrow> block_scan list \<Rightarrow> block_processor dbm" where
  "process_batch_blocks X describe describe_block account_id next_block_to_scan bk blocks =
     transact (foldM (\<lambda>bk block. if bl_height block < next_block_to_scan then ret bk
        else map_error (\<lambda>e. Unexpected (describe_block e))
               (process_block X describe block account_id bk)) bk blocks)"

definition process_blocks ::
  "externals \<Rightarrow> (processor_error \<Rightarrow> string) \<Rightarrow> (block_error \<Rightarrow> string) \<Rightarrow> block_scan list \<Rightarrow> i64 \<Rightarrow>
     bool \<Rightarrow> webhook_config option \<Rightarrow> u64 \<Rightarrow>
     (block_processor option \<times> db, scan_db_error, wallet_event list) run" where
  "process_blocks X describe describe_block blocks account_id pending config next_block_to_scan =
     (\<lambda>(handler, d).
       if blocks = [] then (Inr [], handler, d)
       else case handler of
         None \<Rightarrow> (Inl (ScanFatal ''BlockProcessor not initialized''), None, d)
       | Some bk \<Rightarrow>
           (case process_batch_blocks X describe describe_block account_id next_block_to_scan
                (bk\<lparr>bk_pending_outbound := pending, bk_webhook := config\<rparr>) blocks d of
              (Inl e, d') \<Rightarrow> (Inl (ScanDb e), None, d')
            | (Inr bk', d') \<Rightarrow> (Inr (bk_events bk'), Some (bk'\<lparr>bk_events := []\<rparr>), d')))"

lemma process_blocks_setters:
  \<comment> \<open>the batch in terms of the operations of the processor\<close>
  "blocks \<noteq> [] \<Longrightarrow> process_blocks X describe describe_block blocks a pending config n (Some bk, d) =
     (case process_batch_blocks X describe describe_block a n
        (set_webhook_config config (set_has_pending_outbound pending bk)) blocks d of
        (Inl e, d') \<Rightarrow> (Inl (ScanDb e), None, d')
      | (Inr bk', d') \<Rightarrow> (Inr (fst (take_wallet_events bk')), Some (snd (take_wallet_events bk')), d'))"
  by (simp add: process_blocks_def set_webhook_config_def set_has_pending_outbound_def take_wallet_events_def
      split: prod.split sum.split)

definition prune_tips :: "i64 \<Rightarrow> u64 \<Rightarrow> unit dbm" where
  "prune_tips account_id height = prune_scanned_tip_blocks account_id height"

end
