(* ===== verification/Block_Effects.thy ===== *)
theory Block_Effects
  imports Block_Processor
begin

text \<open>
  What processing a block does to the balances: the ledger and the outputs move together.
  \<open>steady\<close> says that the difference of the booked and the held balance of every account
  stays what it was, and that well-formed tables stay well-formed.
\<close>

section \<open>Steady steps\<close>

definition drift :: "db \<Rightarrow> i64 \<Rightarrow> int" where
  "drift d a = booked d a - held d a"

definition steady :: "db \<Rightarrow> db \<Rightarrow> bool" where
  "steady d d' \<longleftrightarrow> (store_ok d \<longrightarrow> store_ok d' \<and> (\<forall>a. drift d' a = drift d a))"

lemma steady_refl [simp]: "steady d d"
  by (simp add: steady_def)

lemma steady_trans: "steady d d1 \<Longrightarrow> steady d1 d2 \<Longrightarrow> steady d d2"
  by (simp add: steady_def)

lemma quiet_steady: "quiet d d' \<Longrightarrow> steady d d'"
  by (simp add: steady_def quiet_def drift_def)

lemma balanced_drift: "balanced d a \<longleftrightarrow> drift d a = 0"
  by (auto simp: balanced_def drift_def)

lemma steady_balanced: "steady d d' \<Longrightarrow> store_ok d \<Longrightarrow> balanced d' a = balanced d a"
  by (simp add: steady_def balanced_drift)

section \<open>Steps that touch neither balance\<close>

lemma insert_wallet_event_quiet: "insert_wallet_event X a ev d = (Inr i, d') \<Longrightarrow> quiet d d'"
  by (rule quiet_other_tables) (auto simp: insert_wallet_event_ok_iff)

lemma get_balance_reads: "get_balance a d = (Inr b, d') \<Longrightarrow> d' = d"
  by (auto simp: get_balance_def ok_simps get_balance_aggregates_for_account_def
      get_output_totals_for_account_def Let_def split: prod.splits)

lemma enqueue_webhook_quiet: "enqueue_webhook X e t p u d = (Inr i, d') \<Longrightarrow> quiet d d'"
  by (rule quiet_other_tables)
    (auto simp: enqueue_webhook_def statement_ok_iff Let_def split: if_splits)

lemma trigger_webhook_quiet: "trigger_webhook_with_balance X a i ev c d = (Inr u, d') \<Longrightarrow> quiet d d'"
  by (auto simp: trigger_webhook_with_balance_def ok_simps Let_def split: if_splits
      dest!: get_balance_reads dest: enqueue_webhook_quiet)

lemma trigger_all_quiet: "trigger_all X a cfg evs d = (Inr u, d') \<Longrightarrow> quiet d d'"
  unfolding trigger_all_def
  by (cases cfg) (auto simp: ret_ok_iff elim!: forM_ok_rel [of quiet, rotated 3]
      intro: quiet_trans trigger_webhook_quiet)

lemma insert_tip_quiet: "insert_scanned_tip_block X a h hash d = (Inr u, d') \<Longrightarrow> quiet d d'"
  by (rule quiet_other_tables) (auto dest!: insert_tip_ok)

lemma save_and_emit_quiet:
  "save_and_emit_displayed_transactions X ds h a k acc bk d = (Inr bk', d') \<Longrightarrow> quiet d d'"
proof -
  have upd: "forM txs (\<lambda>tx. bindM (update_displayed_transaction_mined X tx) (\<lambda>_. ret ())) s = (Inr u, s') \<Longrightarrow>
      quiet s s'" for txs s u s'
    by (erule forM_ok_rel [of quiet, rotated 3])
      (auto simp: ok_simps intro: quiet_trans dest: update_displayed_quiet_ops)
  have ins: "forM txs (insert_displayed_transaction X) s = (Inr u, s') \<Longrightarrow> quiet s s'" for txs s u s'
    by (erule forM_ok_rel [of quiet, rotated 3]) (auto intro: quiet_trans insert_displayed_quiet)
  assume "save_and_emit_displayed_transactions X ds h a k acc bk d = (Inr bk', d')"
  then show ?thesis
    by (auto simp: save_and_emit_displayed_transactions_def ok_simps split: if_splits prod.splits
        dest!: for_height_reads upd ins intro: quiet_trans)
qed

lemma finish_block_quiet: "finish_block X ds block a k bk d = (Inr bk', d') \<Longrightarrow> quiet d d'"
  by (auto simp: finish_block_def ok_simps split: option.splits if_splits
      dest: save_and_emit_quiet)

lemma process_confirmation_quiet:
  "process_confirmation X block a st row d = (Inr st', d') \<Longrightarrow> quiet d d'"
  by (auto simp: process_confirmation_def ok_simps Let_def
      dest!: insert_wallet_event_quiet quiet_output_ops(2) intro: quiet_trans)

lemma process_confirmations_quiet:
  "process_confirmations X block a bk d = (Inr bk', d') \<Longrightarrow> quiet d d'"
proof -
  have loop: "foldM (process_confirmation X block a) st rows s = (Inr st', s') \<Longrightarrow> quiet s s'"
    for st rows s st' s'
    by (erule foldM_ok_rel [of quiet, rotated 3]) (auto intro: quiet_trans process_confirmation_quiet)
  assume "process_confirmations X block a bk d = (Inr bk', d')"
  then show ?thesis
    by (auto simp: process_confirmations_def get_unconfirmed_outputs_def ok_simps Let_def
        split: prod.splits dest!: loop trigger_all_quiet intro: quiet_trans)
qed

section \<open>Detected outputs\<close>

text \<open>\<open>outputs_grow d d'\<close>: new rows with fresh ids join the outputs, the inputs stay.\<close>

definition outputs_grow :: "db \<Rightarrow> db \<Rightarrow> bool" where
  "outputs_grow d d' \<longleftrightarrow> inputs d' = inputs d \<and> outputs_seq d \<le> outputs_seq d' \<and>
     (\<exists>rows. outputs d' = outputs d @ rows \<and> (\<forall>r \<in> set rows. outputs_seq d < o_id r))"

lemma outputs_grow_refl [simp]: "outputs_grow d d"
  by (simp add: outputs_grow_def)

lemma outputs_grow_trans: "outputs_grow d d1 \<Longrightarrow> outputs_grow d1 d2 \<Longrightarrow> outputs_grow d d2"
  unfolding outputs_grow_def by fastforce

lemma outputs_grow_same:
  "outputs d' = outputs d \<Longrightarrow> inputs d' = inputs d \<Longrightarrow> outputs_seq d' = outputs_seq d \<Longrightarrow> outputs_grow d d'"
  by (simp add: outputs_grow_def)

lemma detect_output_effect:
  assumes ins: "insert_output X a k h out bh bb mt mp mh pr burn d = (Inr oid, d1)"
    and ev: "insert_wallet_event X a ev d1 = (Inr eid, d2)"
    and ch: "insert_balance_change (make_balance_change_for_output X a oid mt bh out) d2 = (Inr cid, d')"
  shows "steady d d' \<and> outputs_grow d d'"
proof -
  let ?v = "i64_of_u64 (wo_value out)"
  have q: "quiet d1 d2" by (rule insert_wallet_event_quiet [OF ev])
  note lo = insert_balance_change_ledger_only [OF ch]
  have "booked d' b = booked d2 b + (if a = b then ?v else 0)" for b
    using insert_balance_change_booked [OF ch, of b]
    by (simp add: make_balance_change_for_output_def Let_def)
  then have "steady d d'"
    using insert_output_effect [OF ins] q ledger_only_held [OF lo] ledger_only_store_ok [OF lo]
    by (auto simp: steady_def drift_def quiet_def)
  moreover have "outputs_grow d d'"
    using ins ev ledger_only_fields [OF lo]
    by (auto simp: outputs_grow_def insert_output_ok_iff insert_wallet_event_ok_iff)
  ultimately show ?thesis ..
qed

lemma process_output_effect:
  assumes "process_output X block a k st item d = (Inr st', d')"
  shows "steady d d' \<and> outputs_grow d d'"
  using assms detect_output_effect
  by (auto simp: process_output_def record_output_balance_change_def ok_simps Let_def
      split: prod.splits if_splits)

lemma trigger_all_same:
  "trigger_all X a cfg evs d = (Inr u, d') \<Longrightarrow>
     outputs d' = outputs d \<and> inputs d' = inputs d \<and> outputs_seq d' = outputs_seq d"
proof -
  let ?R = "\<lambda>(d :: db) (d' :: db). outputs d' = outputs d \<and> inputs d' = inputs d \<and>
    outputs_seq d' = outputs_seq d"
  have one: "?R s s'" if "trigger_webhook_with_balance X a i ev c s = (Inr u, s')" for i ev c s u s'
    using that by (auto simp: trigger_webhook_with_balance_def ok_simps Let_def
        enqueue_webhook_def split: if_splits dest!: get_balance_reads)
  assume run: "trigger_all X a cfg evs d = (Inr u, d')"
  show ?thesis
  proof (cases cfg)
    case None
    with run show ?thesis by (simp add: trigger_all_def ret_ok_iff)
  next
    case (Some c)
    with run have loop: "forM evs (\<lambda>(i, ev). trigger_webhook_with_balance X a i ev c) d = (Inr u, d')"
      by (simp add: trigger_all_def)
    show ?thesis
      by (rule forM_ok_rel [where R = ?R, OF _ _ _ loop]) (auto dest: one)
  qed
qed

lemma process_outputs_effect:
  assumes "process_outputs X block a k bk d = (Inr bk', d')"
  shows "steady d d' \<and> outputs_grow d d'"
proof -
  let ?R = "\<lambda>d d'. steady d d' \<and> outputs_grow d d'"
  from assms obtain st d1 u where
    loop: "foldM (process_output X block a k) (bk, []) (bl_outputs block) d = (Inr st, d1)"
    and trig: "trigger_all X a (bk_webhook (fst st)) (snd st) d1 = (Inr u, d')"
    by (auto simp: process_outputs_def ok_simps split: prod.splits)
  have "?R d d1"
    by (rule foldM_ok_rel [where R = ?R, OF _ _ _ loop])
      (auto intro: steady_trans outputs_grow_trans dest: process_output_effect)
  moreover have "?R d1 d'"
    using quiet_steady [OF trigger_all_quiet [OF trig]] trigger_all_same [OF trig] outputs_grow_same
    by blast
  ultimately show ?thesis by (blast intro: steady_trans outputs_grow_trans)
qed

section \<open>Spent inputs\<close>

definition unspent_hashes :: "i64 \<Rightarrow> bytes list \<Rightarrow> db \<Rightarrow> bool" where
  \<comment> \<open>no active input spends an output of the account with one of the hashes\<close>
  "unspent_hashes a hs d \<longleftrightarrow> (\<forall>r \<in> set (outputs d). o_active r \<and> o_account r = a \<and> o_hash r \<in> set hs \<longrightarrow>
     (\<forall>i \<in> set (inputs d). in_active i \<longrightarrow> in_output i \<noteq> o_id r))"

lemma unspent_hashes_grow:
  assumes "outputs_grow d d'" "store_ok d" "unspent_hashes a hs d"
  shows "unspent_hashes a hs d'"
proof -
  obtain rows where d': "inputs d' = inputs d" "outputs d' = outputs d @ rows"
    "\<forall>r \<in> set rows. outputs_seq d < o_id r"
    using assms(1) by (auto simp: outputs_grow_def)
  have "in_output i \<le> outputs_seq d" if "i \<in> set (inputs d)" for i
    using assms(2) that by (fastforce simp: store_ok_def inputs_ok_def outputs_ok_def)
  with d' assms(3) show ?thesis by (fastforce simp: unspent_hashes_def)
qed

lemma get_output_info_found:
  assumes "get_output_info_by_hash_for_account a h d = (Inr (Some (oid, i, out)), d')"
  shows "d' = d \<and> (\<exists>r \<in> set (outputs d). o_active r \<and> o_account r = a \<and> o_hash r = h \<and>
           o_id r = oid \<and> o_json r = Some out)"
  using assms
  by (auto simp: get_output_info_by_hash_for_account_def query_ok_iff output_info_def
      split: option.splits dest!: first_row_Some)

lemma insert_input_unspent:
  assumes "insert_input X a oid h hash mt d = (Inr iid, d')"
    and "\<forall>i \<in> set (inputs d). in_active i \<longrightarrow> in_output i \<noteq> oid"
  shows "\<exists>i. in_id i = inputs_seq d + 1 \<and> in_active i \<and> in_output i = oid \<and> in_account i = a \<and>
           in_height i = i64_of_u64 h \<and> d' = d\<lparr>inputs := inputs d @ [i], inputs_seq := inputs_seq d + 1\<rparr>"
proof -
  from assms obtain ts where "d' = d\<lparr>inputs := inputs d @ [\<lparr>in_id = inputs_seq d + 1,
      in_account = a, in_output = oid, in_block = hash, in_height = i64_of_u64 h,
      in_timestamp = ts, in_created = x_now X, in_deleted_at = None, in_deleted_height = None\<rparr>],
      inputs_seq := inputs_seq d + 1\<rparr>"
    by (auto simp: insert_input_def insert_or_ignore_input_def ok_simps Let_def
        split: option.splits if_splits)
  then show ?thesis
    by (intro exI [of _ "last (inputs d')"]) (simp add: in_active_def)
qed

lemma spend_output_effect:
  assumes r: "r \<in> set (outputs d)" "o_active r" "o_account r = a" "o_json r = Some out"
    and free: "\<forall>i \<in> set (inputs d). in_active i \<longrightarrow> in_output i \<noteq> o_id r"
    and ins: "insert_input X a (o_id r) h hash mt d = (Inr iid, d1)"
    and ch: "insert_balance_change (input_balance_change X a iid (wo_value out) block) d1 = (Inr cid, d2)"
    and st: "update_output_status (o_id r) Spent d2 = (Inr u, d')"
    and ok: "store_ok d"
  shows "store_ok d' \<and> (\<forall>b. drift d' b = drift d b)"
proof -
  obtain i where i: "in_id i = inputs_seq d + 1" "in_active i" "in_output i = o_id r" "in_account i = a"
    and d1: "d1 = d\<lparr>inputs := inputs d @ [i], inputs_seq := inputs_seq d + 1\<rparr>"
    using insert_input_unspent [OF ins free] by blast
  have v: "o_value r = i64_of_u64 (wo_value out)"
    using ok r by (auto simp: store_ok_def outputs_ok_def row_value_ok_iff)
  note app = append_input_effect [OF ok i(1,2) r(1) i(3), folded d1]
  note lo = insert_balance_change_ledger_only [OF ch]
  have "booked d2 b = booked d1 b - (if a = b then o_value r else 0)" for b
    using insert_balance_change_booked [OF ch, of b] by (simp add: input_balance_change_def v)
  then have "store_ok d2 \<and> (\<forall>b. drift d2 b = drift d b)"
    using app i(4) r(3) ledger_only_held [OF lo] ledger_only_store_ok [OF lo]
    by (auto simp: drift_def)
  moreover have "quiet d2 d'" using quiet_output_ops(1) [OF st] .
  ultimately show ?thesis by (simp add: quiet_def drift_def)
qed

lemma unspent_after_spend:
  assumes ok: "store_ok d" and r: "r \<in> set (outputs d)" "o_hash r \<notin> set hs"
    and free: "unspent_hashes a hs d" and i: "in_output i = o_id r" "inputs d' = inputs d @ [i]"
    and upd: "outputs d' = update_where P (\<lambda>x. x\<lparr>o_status := st\<rparr>) (outputs d)"
  shows "unspent_hashes a hs d'"
  unfolding unspent_hashes_def
proof (intro ballI impI)
  fix x' j
  assume x': "x' \<in> set (outputs d')" "o_active x' \<and> o_account x' = a \<and> o_hash x' \<in> set hs"
    and j: "j \<in> set (inputs d')" "in_active j"
  from x'(1) obtain x where x: "x \<in> set (outputs d)" "x' = (if P x then x\<lparr>o_status := st\<rparr> else x)"
    by (auto simp: upd in_set_update_where)
  then have same: "o_id x' = o_id x" "o_hash x' = o_hash x" "o_active x' = o_active x"
    "o_account x' = o_account x"
    by (simp_all add: o_active_def)
  have "o_id x \<noteq> o_id r"
  proof
    assume "o_id x = o_id r"
    with x(1) r(1) ok have "x = r" by (auto simp: store_ok_def outputs_ok_def distinct_map inj_on_def)
    with same x' r(2) show False by simp
  qed
  with free x(1) x'(2) j i same show "in_output j \<noteq> o_id x'"
    by (auto simp: unspent_hashes_def)
qed

lemma process_input_some:
  assumes "process_input X block a bk h d = (Inr bk', d')"
    and "get_output_info_by_hash_for_account a h d = (Inr (Some (oid, i, out)), d)"
  shows "\<exists>iid d1 cid d2 u. insert_input X a oid (bl_height block) (bl_hash block) (bl_timestamp block) d = (Inr iid, d1) \<and>
      insert_balance_change (input_balance_change X a iid (wo_value out) block) d1 = (Inr cid, d2) \<and>
      update_output_status oid Spent d2 = (Inr u, d')"
  using assms
  by (auto simp: process_input_def record_input_balance_change_def ok_simps Let_def)

lemma process_input_none:
  assumes "process_input X block a bk h d = (Inr bk', d')"
    and "get_output_info_by_hash_for_account a h d = (Inr None, d)"
  shows "d' = d"
  using assms by (auto simp: process_input_def ok_simps)

lemma process_input_effect:
  assumes run: "process_input X block a bk h d = (Inr bk', d')"
    and ok: "store_ok d" and free: "unspent_hashes a (h # hs) d" and h: "h \<notin> set hs"
  shows "store_ok d' \<and> (\<forall>b. drift d' b = drift d b) \<and> unspent_hashes a hs d'"
proof -
  obtain found where found: "get_output_info_by_hash_for_account a h d = (Inr found, d)"
    using run by (auto simp: process_input_def ok_simps get_output_info_by_hash_for_account_def)
  show ?thesis
  proof (cases found)
    case None
    with process_input_none [OF run] found have "d' = d" by simp
    with ok free show ?thesis by (simp add: unspent_hashes_def)
  next
    case (Some info)
    obtain oid i out where info: "info = (oid, i, out)" by (cases info)
    with found Some obtain r where r: "r \<in> set (outputs d)" "o_active r" "o_account r = a"
      "o_hash r = h" "o_id r = oid" "o_json r = Some out"
      using get_output_info_found by blast
    from process_input_some [OF run found [unfolded Some info]] obtain iid d1 cid d2 u where
      ins: "insert_input X a (o_id r) (bl_height block) (bl_hash block) (bl_timestamp block) d = (Inr iid, d1)"
      and ch: "insert_balance_change (input_balance_change X a iid (wo_value out) block) d1 = (Inr cid, d2)"
      and st: "update_output_status (o_id r) Spent d2 = (Inr u, d')"
      unfolding r(5) by blast
    have unspent: "\<forall>i \<in> set (inputs d). in_active i \<longrightarrow> in_output i \<noteq> o_id r"
      using free r by (auto simp: unspent_hashes_def)
    obtain i where i: "in_output i = o_id r"
      and d1: "d1 = d\<lparr>inputs := inputs d @ [i], inputs_seq := inputs_seq d + 1\<rparr>"
      using insert_input_unspent [OF ins unspent] by blast
    have d': "inputs d' = inputs d @ [i]" "outputs d' = update_where (\<lambda>x. o_id x = o_id r)
        (\<lambda>x. x\<lparr>o_status := output_status_text Spent\<rparr>) (outputs d)"
      using st ledger_only_fields [OF insert_balance_change_ledger_only [OF ch]]
      by (simp_all add: update_output_status_def modify_ok_iff d1)
    have "unspent_hashes a hs d" using free by (simp add: unspent_hashes_def)
    then have "unspent_hashes a hs d'"
      using unspent_after_spend [OF ok r(1) _ _ i d'] r(4) h by blast
    with spend_output_effect [OF r(1,2,3,6) unspent ins ch st ok] show ?thesis by blast
  qed
qed

lemma process_inputs_effect:
  "foldM (process_input X block a) bk hs d = (Inr bk', d') \<Longrightarrow> store_ok d \<Longrightarrow>
     unspent_hashes a hs d \<Longrightarrow> distinct hs \<Longrightarrow> store_ok d' \<and> (\<forall>b. drift d' b = drift d b)"
proof (induction hs arbitrary: bk d)
  case Nil
  then show ?case by (simp add: ret_ok_iff)
next
  case (Cons h hs)
  then obtain bk1 d1 where h: "process_input X block a bk h d = (Inr bk1, d1)"
    and rest: "foldM (process_input X block a) bk1 hs d1 = (Inr bk', d')"
    by (auto simp: bindM_ok_iff)
  have "store_ok d1 \<and> (\<forall>b. drift d1 b = drift d b) \<and> unspent_hashes a hs d1"
    using process_input_effect [OF h] Cons.prems by simp
  with Cons.IH [OF rest] Cons.prems show ?case by simp
qed

lemma process_block_effect:
  assumes run: "process_block X ds block a bk d = (Inr bk', d')"
    and ok: "store_ok d" and free: "unspent_hashes a (bl_inputs block) d" "distinct (bl_inputs block)"
  shows "store_ok d' \<and> (\<forall>b. drift d' b = drift d b)"
proof -
  from run obtain k bk0 bk1 d1 bk2 d2 u d3 bk3 d4 where
    outs: "process_outputs X block a k bk0 d = (Inr bk1, d1)"
    and ins: "process_inputs X block a bk1 d1 = (Inr bk2, d2)"
    and tip: "record_scanned_block X block a d2 = (Inr u, d3)"
    and conf: "process_confirmations X block a bk2 d3 = (Inr bk3, d4)"
    and fin: "finish_block X ds block a k bk3 d4 = (Inr bk', d')"
    by (auto simp: process_block_def bindM_ok_iff seqM_ok_iff split: sum.splits)
  have 1: "store_ok d1" "\<forall>b. drift d1 b = drift d b" "outputs_grow d d1"
    using process_outputs_effect [OF outs] ok by (auto simp: steady_def)
  have "store_ok d2 \<and> (\<forall>b. drift d2 b = drift d1 b)"
    using process_inputs_effect ins 1 unspent_hashes_grow [OF 1(3) ok free(1)] free(2)
    by (simp add: process_inputs_def)
  moreover have "quiet d2 d3"
    using tip insert_tip_quiet by (auto simp: record_scanned_block_def map_error_ok_iff)
  moreover note process_confirmations_quiet [OF conf] finish_block_quiet [OF fin]
  ultimately show ?thesis using 1 by (simp add: quiet_def drift_def)
qed

end
