(* ===== verification/Unspent_Set.thy ===== *)
theory Unspent_Set
  imports Block_Effects
begin

text \<open>
  The abstract account: the set of the hashes of its unspent outputs. A block adds the
  outputs it found for the account and takes away those its inputs spend; the processing
  of a block and of a batch of blocks refine that step. \<open>rows_keep\<close> is what all the other
  statements of a block satisfy: the tables it reads the set from keep their keys.
\<close>

section \<open>The abstraction\<close>

definition spent_in :: "input_row list \<Rightarrow> i64 \<Rightarrow> bool" where
  "spent_in rows oid \<longleftrightarrow> (\<exists>i \<in> set rows. in_active i \<and> in_output i = oid)"

definition unspent :: "db \<Rightarrow> i64 \<Rightarrow> bytes set" where
  "unspent d a = o_hash ` set (filter (\<lambda>r. o_account r = a \<and> o_active r \<and>
     \<not> spent_in (inputs d) (o_id r)) (outputs d))"

text \<open>
  The same over the rows of the heights in \<open>P a\<close>: what the tables tell of an earlier time.
\<close>

definition spent_where :: "(i64 \<Rightarrow> bool) \<Rightarrow> input_row list \<Rightarrow> i64 \<Rightarrow> bool" where
  "spent_where P rows oid \<longleftrightarrow> (\<exists>i \<in> set rows. in_active i \<and> in_output i = oid \<and> P (in_height i))"

definition unspent_where :: "(i64 \<Rightarrow> i64 \<Rightarrow> bool) \<Rightarrow> db \<Rightarrow> i64 \<Rightarrow> bytes set" where
  "unspent_where P d a = o_hash ` set (filter (\<lambda>r. o_account r = a \<and> o_active r \<and> P a (o_height r) \<and>
     \<not> spent_where (P a) (inputs d) (o_id r)) (outputs d))"

lemma unspent_where_all: "unspent_where (\<lambda>_ _. True) d a = unspent d a"
  by (simp add: unspent_where_def unspent_def spent_where_def spent_in_def)

definition hashes_unique :: "db \<Rightarrow> bool" where
  \<comment> \<open>the unique index on the hash of the active outputs\<close>
  "hashes_unique d \<longleftrightarrow> (\<forall>r \<in> set (outputs d). \<forall>r' \<in> set (outputs d).
     o_active r \<and> o_active r' \<and> o_hash r = o_hash r' \<longrightarrow> o_id r = o_id r')"

definition found_hashes :: "i64 list \<Rightarrow> i64 \<Rightarrow> block_scan \<Rightarrow> bytes set" where
  "found_hashes owners a block =
     fst ` set (filter (\<lambda>(h, out, w). w < length owners \<and> owners ! w = a) (bl_outputs block))"

definition block_step :: "i64 list \<Rightarrow> i64 \<Rightarrow> block_scan \<Rightarrow> bytes set \<Rightarrow> bytes set" where
  "block_step owners a block U = (U \<union> found_hashes owners a block) - set (bl_inputs block)"

section \<open>Statements that keep the keys\<close>

definition row_key :: "output_row \<Rightarrow> i64 \<times> i64 \<times> bool \<times> bytes \<times> i64" where
  "row_key r = (o_id r, o_account r, o_active r, o_hash r, o_height r)"

definition rows_keep :: "db \<Rightarrow> db \<Rightarrow> bool" where
  "rows_keep d d' \<longleftrightarrow> inputs d' = inputs d \<and> map row_key (outputs d') = map row_key (outputs d)"

lemma rows_keep_refl [simp]: "rows_keep d d"
  by (simp add: rows_keep_def)

lemma rows_keep_trans: "rows_keep d d1 \<Longrightarrow> rows_keep d1 d2 \<Longrightarrow> rows_keep d d2"
  by (simp add: rows_keep_def)

lemma rows_keep_same: "inputs d' = inputs d \<Longrightarrow> outputs d' = outputs d \<Longrightarrow> rows_keep d d'"
  by (simp add: rows_keep_def)

lemma unspent_keys:
  "unspent_where P d a = (\<lambda>(i, b, act, h, m). h) ` {k \<in> set (map row_key (outputs d)).
     case k of (i, b, act, h, m) \<Rightarrow> b = a \<and> act \<and> P a m \<and> \<not> spent_where (P a) (inputs d) i}"
proof -
  have "o_hash = (\<lambda>(i, b, act, h, m). h) \<circ> row_key" by (auto simp: row_key_def)
  then show ?thesis by (force simp: unspent_where_def row_key_def image_comp)
qed

lemma hashes_unique_keys:
  "hashes_unique d \<longleftrightarrow> (\<forall>(i, b, act, h, m) \<in> set (map row_key (outputs d)).
     \<forall>(i', b', act', h', m') \<in> set (map row_key (outputs d)). act \<and> act' \<and> h = h' \<longrightarrow> i = i')"
  by (auto simp: hashes_unique_def row_key_def)

lemma rows_keep_unspent_where: "rows_keep d d' \<Longrightarrow> unspent_where P d' a = unspent_where P d a"
  unfolding unspent_keys rows_keep_def by simp

lemma rows_keep_unspent: "rows_keep d d' \<Longrightarrow> unspent d' a = unspent d a"
  unfolding unspent_where_all [symmetric] by (rule rows_keep_unspent_where)

lemma rows_keep_unique: "rows_keep d d' \<Longrightarrow> hashes_unique d' = hashes_unique d"
  unfolding hashes_unique_keys rows_keep_def by simp

lemma rows_keep_unspent_hashes: "rows_keep d d' \<Longrightarrow> unspent_hashes a hs d' = unspent_hashes a hs d"
proof -
  have keys: "unspent_hashes a hs d \<longleftrightarrow> (\<forall>(i, b, act, h, m) \<in> set (map row_key (outputs d)).
      act \<and> b = a \<and> h \<in> set hs \<longrightarrow> (\<forall>j \<in> set (inputs d). in_active j \<longrightarrow> in_output j \<noteq> i))" for d
    by (auto simp: unspent_hashes_def row_key_def)
  show "rows_keep d d' \<Longrightarrow> ?thesis" unfolding keys rows_keep_def by simp
qed

lemma rows_keep_update:
  "(\<And>r. row_key (f r) = row_key r) \<Longrightarrow> rows_keep d (d\<lparr>outputs := update_where P f (outputs d)\<rparr>)"
  by (simp add: rows_keep_def map_update_where)

lemma rows_keep_output_ops:
  "update_output_status i st d = (Inr u, d') \<Longrightarrow> rows_keep d d'"
  "mark_output_confirmed h ch cb d = (Inr u, d') \<Longrightarrow> rows_keep d d'"
  "lock_output i req at d = (Inr u, d') \<Longrightarrow> rows_keep d d'"
  "unlock_outputs_for_request req d = (Inr u, d') \<Longrightarrow> rows_keep d d'"
  by (auto simp: update_output_status_def mark_output_confirmed_def lock_output_def
      unlock_outputs_for_request_def modify_ok_iff row_key_def
      o_active_def intro: rows_keep_update)

lemma rows_keep_ledger: "ledger_only d d' \<Longrightarrow> rows_keep d d'"
  by (rule rows_keep_same) (auto dest: ledger_only_fields)

lemma rows_keep_event: "insert_wallet_event X a ev d = (Inr i, d') \<Longrightarrow> rows_keep d d'"
  by (rule rows_keep_same) (auto simp: insert_wallet_event_ok_iff)

lemma rows_keep_trigger: "trigger_all X a cfg evs d = (Inr u, d') \<Longrightarrow> rows_keep d d'"
  by (rule rows_keep_same) (auto dest: trigger_all_same)

lemma rows_keep_tip: "record_scanned_block X block a d = (Inr u, d') \<Longrightarrow> rows_keep d d'"
  by (rule rows_keep_same) (auto simp: record_scanned_block_def map_error_ok_iff dest!: insert_tip_ok)

lemma rows_keep_displayed:
  "update_displayed_transaction_mined X tx d = (Inr b, d') \<Longrightarrow> rows_keep d d'"
  "insert_displayed_transaction X tx d = (Inr u, d') \<Longrightarrow> rows_keep d d'"
  by (auto simp: update_displayed_transaction_mined_def update_displayed_ok_iff
      insert_displayed_transaction_def modify_ok_iff Let_def intro!: rows_keep_same)

lemma rows_keep_finish: "finish_block X ds block a k bk d = (Inr bk', d') \<Longrightarrow> rows_keep d d'"
proof -
  have upd: "forM txs (\<lambda>tx. bindM (update_displayed_transaction_mined X tx) (\<lambda>_. ret ())) s = (Inr u, s') \<Longrightarrow>
      rows_keep s s'" for txs s u s'
    by (erule forM_ok_rel [of rows_keep, rotated 3])
      (auto simp: ok_simps intro: rows_keep_trans dest: rows_keep_displayed)
  have ins: "forM txs (insert_displayed_transaction X) s = (Inr u, s') \<Longrightarrow> rows_keep s s'" for txs s u s'
    by (erule forM_ok_rel [of rows_keep, rotated 3]) (auto intro: rows_keep_trans rows_keep_displayed)
  assume "finish_block X ds block a k bk d = (Inr bk', d')"
  then show ?thesis
    by (auto simp: finish_block_def save_and_emit_displayed_transactions_def ok_simps
        split: if_splits option.splits prod.splits dest!: for_height_reads upd ins
        intro: rows_keep_trans)
qed

lemma rows_keep_confirmations:
  assumes "process_confirmations X block a bk d = (Inr bk', d')"
  shows "rows_keep d d'"
proof -
  have one: "process_confirmation X block a st row s = (Inr st', s') \<Longrightarrow> rows_keep s s'"
    for st row s st' s'
    by (auto simp: process_confirmation_def ok_simps Let_def
        dest!: rows_keep_event rows_keep_output_ops intro: rows_keep_trans)
  have loop: "foldM (process_confirmation X block a) st rows s = (Inr st', s') \<Longrightarrow> rows_keep s s'"
    for st rows s st' s'
    by (erule foldM_ok_rel [of rows_keep, rotated 3]) (auto intro: rows_keep_trans one)
  from assms show ?thesis
    by (auto simp: process_confirmations_def get_unconfirmed_outputs_def ok_simps Let_def
        split: prod.splits dest!: loop rows_keep_trigger intro: rows_keep_trans)
qed

section \<open>What never changes in the processor\<close>

lemma foldM_ok_keeps:
  assumes "\<And>b x s b' s'. f b x s = (Inr b', s') \<Longrightarrow> g b' = g b"
  shows "foldM f b xs s = (Inr b', s') \<Longrightarrow> g b' = g b"
  by (induction xs arbitrary: b s) (auto simp: ok_simps dest!: assms)

definition settings :: "block_processor \<Rightarrow> i64 list \<times> (i64 \<times> bytes) list \<times> u64 \<times> webhook_config option" where
  "settings bk = (bk_accounts bk, bk_view_keys bk, bk_required bk, bk_webhook bk)"

lemma settings_updates [simp]:
  "settings (push_event ev bk) = settings bk" "settings (update_current f bk) = settings bk"
  "settings (send_event e bk) = settings bk"
  by (simp_all add: settings_def push_event_def update_current_def send_event_def)

lemma settings_current [simp]: "settings (bk\<lparr>bk_current := c\<rparr>) = settings bk"
  "settings (bk\<lparr>bk_tip := t\<rparr>) = settings bk"
  by (simp_all add: settings_def)

lemma settings_output:
  "process_output X block a k st item d = (Inr st', d') \<Longrightarrow> settings (fst st') = settings (fst st)"
  by (cases item) (auto simp: process_output_def bindM_ok_iff ret_ok_iff Let_def split: if_splits)

lemma settings_input: "process_input X block a bk h d = (Inr bk', d') \<Longrightarrow> settings bk' = settings bk"
  by (auto simp: process_input_def bindM_ok_iff seqM_ok_iff ret_ok_iff split: option.splits)

lemma settings_confirmation:
  "process_confirmation X block a st row d = (Inr st', d') \<Longrightarrow> settings (fst st') = settings (fst st)"
  by (auto simp: process_confirmation_def bindM_ok_iff seqM_ok_iff ret_ok_iff Let_def)

lemma settings_finish:
  "finish_block X ds block a k bk d = (Inr bk', d') \<Longrightarrow> settings bk' = settings bk"
  by (auto simp: finish_block_def save_and_emit_displayed_transactions_def bindM_ok_iff seqM_ok_iff
      ret_ok_iff split: prod.splits if_splits option.splits)

lemmas settings_steps = settings_output settings_input settings_confirmation settings_finish

lemma settings_phases:
  "process_outputs X block a k bk d = (Inr bk', d') \<Longrightarrow> settings bk' = settings bk"
  "process_inputs X block a bk d = (Inr bk', d') \<Longrightarrow> settings bk' = settings bk"
  "process_confirmations X block a bk d = (Inr bk', d') \<Longrightarrow> settings bk' = settings bk"
  using foldM_ok_keeps [where f = "process_output X block a k" and g = "\<lambda>st. settings (fst st)",
      OF settings_steps(1)]
    foldM_ok_keeps [where f = "process_input X block a" and g = settings, OF settings_steps(2)]
    foldM_ok_keeps [where f = "process_confirmation X block a" and g = "\<lambda>st. settings (fst st)",
      OF settings_steps(3)]
  by (fastforce simp: process_outputs_def process_inputs_def process_confirmations_def ok_simps
      split: prod.splits)+

lemma process_block_phases:
  assumes "process_block X ds block a bk d = (Inr bk', d')"
  obtains k bk0 bk1 d1 bk2 d2 u d3 bk3 d4 where
    "settings bk0 = settings bk" "process_outputs X block a k bk0 d = (Inr bk1, d1)"
    "process_inputs X block a bk1 d1 = (Inr bk2, d2)"
    "record_scanned_block X block a d2 = (Inr u, d3)"
    "process_confirmations X block a bk2 d3 = (Inr bk3, d4)"
    "finish_block X ds block a k bk3 d4 = (Inr bk', d')"
proof -
  let ?bk0 = "bk\<lparr>bk_tip := bl_height block,
    bk_current := Some (new_accumulator a (bl_height block) (bl_hash block))\<rparr>"
  have s: "settings ?bk0 = settings bk" by simp
  from assms obtain k where k: "account_view_key bk a = Inr k"
    by (auto simp: process_block_def split: sum.splits)
  with assms show ?thesis
    by (auto simp: process_block_def bindM_ok_iff seqM_ok_iff intro: that [OF s])
qed

lemma settings_block:
  "process_block X ds block a bk d = (Inr bk', d') \<Longrightarrow> settings bk' = settings bk"
  by (erule process_block_phases) (metis settings_phases settings_steps(4))

end
