(* ===== verification/Refinement.thy ===== *)
theory Refinement
  imports Effects
begin

text \<open>
  The contracts of a loop and of a sequence of statements. \<open>run_invariant\<close>: the body keeps an invariant of the accumulator
  and the state whenever it succeeds. \<open>run_refinement\<close>: moreover a step of the body is a step on
  an abstraction of the state. A loop that succeeds then keeps the invariant and is the fold of
  the abstract steps; the loops of the block processor are interpretations.
\<close>

locale run_invariant =
  fixes body :: "'b \<Rightarrow> 'x \<Rightarrow> 's \<Rightarrow> ('e + 'b) \<times> 's"
    and inv :: "'b \<Rightarrow> 's \<Rightarrow> bool"
  assumes keeps: "body b x s = (Inr b', s') \<Longrightarrow> inv b s \<Longrightarrow> inv b' s'"
begin

lemma loop_keeps: "foldM body b xs s = (Inr b', s') \<Longrightarrow> inv b s \<Longrightarrow> inv b' s'"
  by (induction xs arbitrary: b s) (auto simp: bindM_ok_iff ret_ok_iff dest: keeps)

end

locale run_refinement = run_invariant body inv
  for body :: "'b \<Rightarrow> 'x \<Rightarrow> 's \<Rightarrow> ('e + 'b) \<times> 's" and inv :: "'b \<Rightarrow> 's \<Rightarrow> bool" +
  fixes abs :: "'s \<Rightarrow> 'a" and step :: "'x \<Rightarrow> 'a \<Rightarrow> 'a"
  assumes refines: "body b x s = (Inr b', s') \<Longrightarrow> inv b s \<Longrightarrow> abs s' = step x (abs s)"
begin

lemma loop_refines: "foldM body b xs s = (Inr b', s') \<Longrightarrow> inv b s \<Longrightarrow> abs s' = fold step xs (abs s)"
proof (induction xs arbitrary: b s)
  case Nil
  then show ?case by (simp add: ret_ok_iff)
next
  case (Cons x xs)
  then obtain b1 s1 where one: "body b x s = (Inr b1, s1)" and rest: "foldM body b1 xs s1 = (Inr b', s')"
    by (auto simp: bindM_ok_iff)
  from Cons.IH [OF rest keeps [OF one Cons.prems(2)]] refines [OF one Cons.prems(2)] show ?case by simp
qed

end

text \<open>
  \<open>frame R\<close>: \<open>R\<close> relates the states before and after any sequence of statements when each
  statement satisfies it, whether the run succeeds or stops at an error.
\<close>

locale frame =
  fixes R :: "'s \<Rightarrow> 's \<Rightarrow> bool"
  assumes refl: "R s s" and trans: "R s t \<Longrightarrow> R t u \<Longrightarrow> R s u"
begin

lemma results: "always R (ret a)" "always R (throw e)" "always R (lift_result r)"
  by (rule always_trivial, rule refl)+

lemma bind: "always R m \<Longrightarrow> (\<And>a. always R (f a)) \<Longrightarrow> always R (bindM m f)"
  by (rule always_bind [OF _ _ refl trans])

lemma seq: "always R m \<Longrightarrow> always R n \<Longrightarrow> always R (seqM m n)"
  by (rule always_seq [OF _ _ refl trans])

lemma loop: "(\<And>b x. x \<in> set xs \<Longrightarrow> always R (f b x)) \<Longrightarrow> always R (foldM f b xs)"
  by (rule always_foldM [OF refl trans])

end

end
