(* ===== verification/Block_Refinement.thy ===== *)
theory Block_Refinement
  imports Unspent_Set Refinement
begin

text \<open>
  The processing of a block refines the step on the unspent hashes. Everything is stated of
  \<open>unspent_where P\<close>, the unspent hashes the rows of the heights in \<open>P a\<close> make up: a block at a height
  outside \<open>P a\<close> changes nothing there. With all heights this is \<open>unspent\<close>. The loops are
  interpretations of \<open>run_refinement\<close> over the function from accounts to unspent hashes.
\<close>

section \<open>Well-formed tables\<close>

definition tables_ok :: "db \<Rightarrow> bool" where
  "tables_ok d \<longleftrightarrow> store_ok d \<and> hashes_unique d"

lemma hashes_unique_cong: "outputs d' = outputs d \<Longrightarrow> hashes_unique d' = hashes_unique d"
  by (simp add: hashes_unique_def)

lemma unique_row:
  assumes "tables_ok d" "x \<in> set (outputs d)" "r \<in> set (outputs d)" "o_active x" "o_active r"
    and "o_hash x = o_hash r"
  shows "x = r"
proof -
  from assms(1) have "\<forall>r \<in> set (outputs d). \<forall>r' \<in> set (outputs d).
     o_active r \<and> o_active r' \<and> o_hash r = o_hash r' \<longrightarrow> o_id r = o_id r'"
    unfolding tables_ok_def hashes_unique_def by (rule conjunct2)
  from this [rule_format, OF assms(2,3)] assms(4-6) have "o_id x = o_id r" by simp
  with assms(1-3) show ?thesis
    by (auto simp: tables_ok_def store_ok_def outputs_ok_def distinct_map inj_on_def)
qed

lemma rows_keep_tables:
  "rows_keep d d' \<Longrightarrow> store_ok d' = store_ok d \<Longrightarrow> tables_ok d' = tables_ok d"
  by (simp add: tables_ok_def rows_keep_unique)

lemma store_input_bound:
  assumes "store_ok d" "i \<in> set (inputs d)"
  shows "in_output i \<le> outputs_seq d"
proof -
  from assms obtain r where "r \<in> set (outputs d)" "o_id r = in_output i"
    by (auto simp: store_ok_def inputs_ok_def)
  with assms show ?thesis by (auto simp: store_ok_def outputs_ok_def)
qed

definition covers :: "(i64 \<Rightarrow> i64 \<Rightarrow> bool) \<Rightarrow> i64 \<Rightarrow> i64 \<Rightarrow> db \<Rightarrow> bool" where
  \<comment> \<open>when the height \<open>n\<close> is in \<open>P a\<close>, so is everything the account has spent\<close>
  "covers P n a d \<longleftrightarrow> (P a n \<longrightarrow> (\<forall>i \<in> set (inputs d). in_active i \<and> in_account i = a \<longrightarrow> P a (in_height i)))"

lemma covers_all [simp]: "covers (\<lambda>_ _. True) n a d"
  by (simp add: covers_def)

lemma covers_cong: "inputs d' = inputs d \<Longrightarrow> covers P n a d' = covers P n a d"
  by (simp add: covers_def)

section \<open>Found outputs\<close>

lemma unspent_new_output:
  assumes ok: "tables_ok d" and r: "o_id r = outputs_seq d + 1" "o_active r"
    and fresh: "\<forall>x \<in> set (outputs d). o_active x \<longrightarrow> o_hash x \<noteq> o_hash r"
    and d': "outputs d' = outputs d @ [r]" "inputs d' = inputs d"
  shows "hashes_unique d'"
    and "unspent_where P d' = (unspent_where P d)(o_account r :=
           unspent_where P d (o_account r) \<union> (if P (o_account r) (o_height r) then {o_hash r} else {}))"
proof -
  have "in_output i \<le> outputs_seq d" if "i \<in> set (inputs d)" for i
    using store_input_bound ok that by (simp add: tables_ok_def)
  then have new: "\<not> spent_where Q (inputs d) (o_id r)" for Q using r(1) by (force simp: spent_where_def)
  then show "unspent_where P d' = (unspent_where P d)(o_account r :=
      unspent_where P d (o_account r) \<union> (if P (o_account r) (o_height r) then {o_hash r} else {}))"
    using r(2) by (auto simp: unspent_where_def d' fun_eq_iff)
  have "hashes_unique d" using ok by (simp add: tables_ok_def)
  then show "hashes_unique d'"
    unfolding hashes_unique_def d' using fresh by fastforce
qed

lemma process_output_found:
  assumes "process_output X block a k st (h, out, w) d = (Inr st', d')"
    and "w < length (bk_accounts (fst st))" "bk_accounts (fst st) ! w = a"
  shows "\<exists>r. o_id r = outputs_seq d + 1 \<and> o_active r \<and> o_hash r = h \<and> o_account r = a \<and>
     o_height r = i64_of_u64 (bl_height block) \<and>
     (\<forall>x \<in> set (outputs d). o_active x \<longrightarrow> o_hash x \<noteq> o_hash r) \<and>
     outputs d' = outputs d @ [r] \<and> inputs d' = inputs d"
proof -
  from assms obtain oid d1 eid d2 cid ev ch where
    ins: "insert_output X a k h out (bl_height block) (bl_hash block) (bl_timestamp block)
        (memo_parsed (memo_of_output X out)) (memo_hex (memo_of_output X out))
        (x_payref X (bl_hash block) h) (wo_is_burned out) d = (Inr oid, d1)"
    and ev: "insert_wallet_event X a ev d1 = (Inr eid, d2)"
    and ch: "insert_balance_change ch d2 = (Inr cid, d')"
    by (auto simp: process_output_def record_output_balance_change_def ok_simps Let_def)
  have "outputs d' = outputs d1" "inputs d' = inputs d1"
    using ev ledger_only_fields [OF insert_balance_change_ledger_only [OF ch]]
    by (simp_all add: insert_wallet_event_ok_iff)
  with ins show ?thesis by (auto simp: insert_output_ok_iff o_active_def)
qed

lemma process_output_skipped:
  "process_output X block a k st (h, out, w) d = (Inr st', d') \<Longrightarrow>
     \<not> (w < length (bk_accounts (fst st)) \<and> bk_accounts (fst st) ! w = a) \<Longrightarrow> d' = d"
  by (auto simp: process_output_def ok_simps split: if_splits)

definition item_hash :: "i64 list \<Rightarrow> i64 \<Rightarrow> bytes \<times> wallet_output \<times> nat \<Rightarrow> bytes set" where
  "item_hash owners a item = (case item of (h, out, w) \<Rightarrow>
     if w < length owners \<and> owners ! w = a then {h} else {})"

definition output_step ::
  "(i64 \<Rightarrow> i64 \<Rightarrow> bool) \<Rightarrow> block_scan \<Rightarrow> i64 list \<Rightarrow> i64 \<Rightarrow> bytes \<times> wallet_output \<times> nat \<Rightarrow>
     (i64 \<Rightarrow> bytes set) \<Rightarrow> i64 \<Rightarrow> bytes set" where
  "output_step P block owners a item U =
     U(a := U a \<union> (if P a (i64_of_u64 (bl_height block)) then item_hash owners a item else {}))"

definition found_inv ::
  "(i64 \<Rightarrow> i64 \<Rightarrow> bool) \<Rightarrow> block_scan \<Rightarrow> i64 list \<Rightarrow> i64 \<Rightarrow> block_processor \<times> generated \<Rightarrow> db \<Rightarrow> bool" where
  "found_inv P block owners a st d \<longleftrightarrow> tables_ok d \<and> covers P (i64_of_u64 (bl_height block)) a d \<and>
     bk_accounts (fst st) = owners"

lemma process_output_refines:
  assumes run: "process_output X block a k st item d = (Inr st', d')"
    and inv: "found_inv P block owners a st d"
  shows "found_inv P block owners a st' d'"
    and "unspent_where P d' = output_step P block owners a item (unspent_where P d)"
proof -
  obtain h out w where item: "item = (h, out, w)" by (cases item)
  note run = run [unfolded item]
  have ok: "tables_ok d" and owners: "bk_accounts (fst st) = owners" using inv by (simp_all add: found_inv_def)
  have owners': "bk_accounts (fst st') = owners"
    using settings_output [OF run] owners by (simp add: settings_def)
  have "found_inv P block owners a st' d' \<and>
      unspent_where P d' = output_step P block owners a item (unspent_where P d)"
  proof (cases "w < length owners \<and> owners ! w = a")
    case True
    then obtain r where r: "o_id r = outputs_seq d + 1" "o_active r" "o_hash r = h" "o_account r = a"
      "o_height r = i64_of_u64 (bl_height block)"
      "\<forall>x \<in> set (outputs d). o_active x \<longrightarrow> o_hash x \<noteq> o_hash r"
      "outputs d' = outputs d @ [r]" "inputs d' = inputs d"
      using process_output_found [OF run] owners by blast
    have "store_ok d'" using process_output_effect [OF run] ok by (simp add: steady_def tables_ok_def)
    moreover note new = unspent_new_output [OF ok r(1,2,6,7,8)]
    moreover have "covers P (i64_of_u64 (bl_height block)) a d'"
      using inv r(8) by (simp add: found_inv_def covers_def)
    ultimately show ?thesis
      using True owners' new(2) [of P] by (simp add: found_inv_def tables_ok_def output_step_def item item_hash_def r)
  next
    case False
    with process_output_skipped [OF run] owners have "d' = d" by simp
    then show ?thesis using False inv owners'
      by (auto simp: found_inv_def output_step_def item item_hash_def)
  qed
  then show "found_inv P block owners a st' d'"
    and "unspent_where P d' = output_step P block owners a item (unspent_where P d)" by blast+
qed

interpretation found: run_refinement "process_output X block a k" "found_inv P block owners a"
  "unspent_where P" "output_step P block owners a" for X block a k P owners
  by unfold_locales (fact process_output_refines)+

lemma found_hashes_items:
  "found_hashes owners a block = (\<Union>item \<in> set (bl_outputs block). item_hash owners a item)"
  by (force simp: found_hashes_def item_hash_def split: if_splits)

lemma fold_output_step:
  "fold (output_step P block owners a) items U = U(a := U a \<union>
     (if P a (i64_of_u64 (bl_height block)) then (\<Union>item \<in> set items. item_hash owners a item) else {}))"
  by (induction items arbitrary: U) (auto simp: output_step_def fun_eq_iff)

lemma process_outputs_refines:
  assumes run: "process_outputs X block a k bk d = (Inr bk', d')" and ok: "tables_ok d"
    and cov: "covers P (i64_of_u64 (bl_height block)) a d"
  shows "tables_ok d'" and "covers P (i64_of_u64 (bl_height block)) a d'"
    and "unspent_where P d' = (unspent_where P d)(a := unspent_where P d a \<union>
           (if P a (i64_of_u64 (bl_height block)) then found_hashes (bk_accounts bk) a block else {}))"
proof -
  from run obtain st d1 u where
    loop: "foldM (process_output X block a k) (bk, []) (bl_outputs block) d = (Inr st, d1)"
    and trig: "trigger_all X a (bk_webhook (fst st)) (snd st) d1 = (Inr u, d')"
    by (auto simp: process_outputs_def ok_simps split: prod.splits)
  have "found_inv P block (bk_accounts bk) a (bk, []) d" using ok cov by (simp add: found_inv_def)
  note l = found.loop_keeps [OF loop this] found.loop_refines [OF loop this]
  note keep = rows_keep_trigger [OF trig]
  show "tables_ok d'" using l(1) keep trigger_all_quiet [OF trig]
    by (auto simp: found_inv_def tables_ok_def quiet_def rows_keep_unique)
  show "covers P (i64_of_u64 (bl_height block)) a d'"
    using l(1) keep by (simp add: found_inv_def rows_keep_def covers_def)
  show "unspent_where P d' = (unspent_where P d)(a := unspent_where P d a \<union>
      (if P a (i64_of_u64 (bl_height block)) then found_hashes (bk_accounts bk) a block else {}))"
    using l(2) by (simp add: rows_keep_unspent_where [OF keep] fun_eq_iff fold_output_step found_hashes_items)
qed

section \<open>Spent outputs\<close>

lemma insert_input_cases:
  assumes "insert_input X a oid h hash mt d = (Inr iid, d')"
  shows "spent_in (inputs d) oid \<and> d' = d \<or>
    \<not> spent_in (inputs d) oid \<and> (\<exists>i. in_id i = inputs_seq d + 1 \<and> in_active i \<and> in_output i = oid \<and>
       in_account i = a \<and> in_height i = i64_of_u64 h \<and>
       d' = d\<lparr>inputs := inputs d @ [i], inputs_seq := inputs_seq d + 1\<rparr>)"
proof (cases "spent_in (inputs d) oid")
  case True
  with assms show ?thesis
    by (auto simp: insert_input_def insert_or_ignore_input_def ok_simps spent_in_def
        split: option.splits if_splits)
next
  case False
  with insert_input_unspent [OF assms] show ?thesis by (auto simp: spent_in_def)
qed

lemma unspent_spent_row:
  assumes ok: "tables_ok d" and r: "r \<in> set (outputs d)" "o_active r" "o_account r = a"
    and d': "outputs d' = outputs d"
      "\<And>Q x. x \<noteq> o_id r \<Longrightarrow> spent_where Q (inputs d') x = spent_where Q (inputs d) x"
      "spent_where (P a) (inputs d') (o_id r) \<longleftrightarrow> spent_where (P a) (inputs d) (o_id r) \<or> spends"
  shows "unspent_where P d' = (unspent_where P d)(a := unspent_where P d a - (if spends then {o_hash r} else {}))"
proof -
  have id: "x = r" if "x \<in> set (outputs d)" "o_id x = o_id r" for x
    using ok that r(1) by (auto simp: tables_ok_def store_ok_def outputs_ok_def distinct_map inj_on_def)
  have hash: "o_id x = o_id r" if "x \<in> set (outputs d)" "o_active x" "o_hash x = o_hash r" for x
    using ok that r unfolding tables_ok_def hashes_unique_def by blast
  have other: "spent_where Q (inputs d') (o_id x) = spent_where Q (inputs d) (o_id x)"
    if "x \<in> set (outputs d)" "x \<noteq> r" for Q x
    using d'(2) id that by blast
  have "unspent_where P d' c = ((unspent_where P d)(a := unspent_where P d a - (if spends then {o_hash r} else {}))) c" for c
  proof (cases "c = a")
    case True
    have "unspent_where P d' a = o_hash ` {x \<in> set (outputs d). o_account x = a \<and> o_active x \<and> P a (o_height x) \<and>
        \<not> spent_where (P a) (inputs d) (o_id x) \<and> \<not> (spends \<and> x = r)}"
      using d'(3) by (auto simp: unspent_where_def d'(1) other intro!: arg_cong [where f = "image o_hash"])
        (metis other)+
    with True show ?thesis by (auto simp: unspent_where_def dest: hash id)
  next
    case False
    then have "x \<noteq> r" if "o_account x = c" for x using that r(3) by blast
    with False other show ?thesis
      by (auto simp: unspent_where_def d'(1) intro!: arg_cong [where f = "image o_hash"])
  qed
  then show ?thesis by blast
qed

lemma insert_input_spends:
  assumes ins: "insert_input X a (o_id r) h hash mt d = (Inr iid, d1)" and ok: "tables_ok d"
    and r: "r \<in> set (outputs d)" "o_account r = a" and cov: "covers P (i64_of_u64 h) a d"
  shows "store_ok d1 \<and> outputs d1 = outputs d \<and> covers P (i64_of_u64 h) a d1 \<and>
    (\<forall>Q x. x \<noteq> o_id r \<longrightarrow> spent_where Q (inputs d1) x = spent_where Q (inputs d) x) \<and>
    (spent_where (P a) (inputs d1) (o_id r) \<longleftrightarrow> spent_where (P a) (inputs d) (o_id r) \<or> P a (i64_of_u64 h))"
  using insert_input_cases [OF ins]
proof (elim disjE conjE exE)
  assume spent: "spent_in (inputs d) (o_id r)" and d1: "d1 = d"
  then obtain i where i: "i \<in> set (inputs d)" "in_active i" "in_output i = o_id r"
    by (auto simp: spent_in_def)
  obtain r' where "r' \<in> set (outputs d)" "o_id r' = in_output i" "o_account r' = in_account i"
    using ok i(1) by (auto simp: tables_ok_def store_ok_def inputs_ok_def)
  then have "in_account i = a"
    using ok r i(3) by (auto simp: tables_ok_def store_ok_def outputs_ok_def distinct_map inj_on_def)
  with i cov have "P a (i64_of_u64 h) \<Longrightarrow> spent_where (P a) (inputs d) (o_id r)"
    by (auto simp: covers_def spent_where_def)
  with ok cov show ?thesis by (auto simp: d1 tables_ok_def)
next
  fix i assume i: "in_id i = inputs_seq d + 1" "in_active i" "in_output i = o_id r" "in_account i = a"
      "in_height i = i64_of_u64 h"
    and d1: "d1 = d\<lparr>inputs := inputs d @ [i], inputs_seq := inputs_seq d + 1\<rparr>"
  have "store_ok d1"
    unfolding d1 by (rule append_input_effect(2)) (use ok i r in \<open>auto simp: tables_ok_def\<close>)
  with i cov show ?thesis by (auto simp: d1 spent_where_def covers_def)
qed

lemma get_output_info_missing:
  assumes "get_output_info_by_hash_for_account a h d = (Inr None, d')"
  shows "h \<notin> unspent_where P d a"
proof -
  from assms have "first_row (\<lambda>r. o_account r = a \<and> o_hash r = h \<and> o_active r) (outputs d) = None"
    by (auto simp: get_output_info_by_hash_for_account_def query_ok_iff output_info_def
        split: option.splits)
  then show ?thesis by (auto simp: first_row_None unspent_where_def)
qed

definition input_step ::
  "(i64 \<Rightarrow> i64 \<Rightarrow> bool) \<Rightarrow> block_scan \<Rightarrow> i64 \<Rightarrow> bytes \<Rightarrow> (i64 \<Rightarrow> bytes set) \<Rightarrow> i64 \<Rightarrow> bytes set" where
  "input_step P block a h U = U(a := U a - (if P a (i64_of_u64 (bl_height block)) then {h} else {}))"

definition spent_inv :: "(i64 \<Rightarrow> i64 \<Rightarrow> bool) \<Rightarrow> block_scan \<Rightarrow> i64 \<Rightarrow> block_processor \<Rightarrow> db \<Rightarrow> bool" where
  "spent_inv P block a bk d \<longleftrightarrow> tables_ok d \<and> covers P (i64_of_u64 (bl_height block)) a d"

lemma process_input_refines:
  assumes run: "process_input X block a bk h d = (Inr bk', d')" and inv: "spent_inv P block a bk d"
  shows "spent_inv P block a bk' d'"
    and "unspent_where P d' = input_step P block a h (unspent_where P d)"
proof -
  have ok: "tables_ok d" and cov: "covers P (i64_of_u64 (bl_height block)) a d"
    using inv by (simp_all add: spent_inv_def)
  obtain found where found: "get_output_info_by_hash_for_account a h d = (Inr found, d)"
    using run by (auto simp: process_input_def ok_simps get_output_info_by_hash_for_account_def)
  have "spent_inv P block a bk' d' \<and> unspent_where P d' = input_step P block a h (unspent_where P d)"
  proof (cases found)
    case None
    then have "h \<notin> unspent_where P d a" using get_output_info_missing found by blast
    moreover have "d' = d" using process_input_none [OF run] found None by simp
    ultimately show ?thesis using inv by (simp add: spent_inv_def input_step_def)
  next
    case (Some info)
    obtain oid i out where info: "info = (oid, i, out)" by (cases info)
    with found Some obtain r where r: "r \<in> set (outputs d)" "o_active r" "o_account r = a"
      "o_hash r = h" "o_id r = oid"
      using get_output_info_found by blast
    from process_input_some [OF run found [unfolded Some info]] obtain iid d1 cid d2 u where
      ins: "insert_input X a (o_id r) (bl_height block) (bl_hash block) (bl_timestamp block) d = (Inr iid, d1)"
      and ch: "insert_balance_change (input_balance_change X a iid (wo_value out) block) d1 = (Inr cid, d2)"
      and st: "update_output_status (o_id r) Spent d2 = (Inr u, d')"
      unfolding r(5) by blast
    note lo = insert_balance_change_ledger_only [OF ch]
    have keep: "rows_keep d1 d'"
      using rows_keep_ledger [OF lo] rows_keep_output_ops(1) [OF st] by (rule rows_keep_trans)
    have "store_ok d1 \<longrightarrow> store_ok d'"
      using ledger_only_store_ok [OF lo] quiet_output_ops(1) [OF st] unfolding quiet_def by blast
    moreover note d1 = insert_input_spends [OF ins ok r(1,3) cov]
    moreover have "hashes_unique d1"
      using d1 ok hashes_unique_cong [of d1 d] by (simp add: tables_ok_def)
    ultimately have "tables_ok d'"
      using rows_keep_unique [OF keep] by (simp add: tables_ok_def)
    moreover have "covers P (i64_of_u64 (bl_height block)) a d'"
      using d1 keep by (simp add: rows_keep_def covers_def)
    moreover have "unspent_where P d1 = input_step P block a h (unspent_where P d)"
      unfolding input_step_def r(4) [symmetric]
      by (rule unspent_spent_row [OF ok r(1,2,3)]) (use d1 in simp_all)
    ultimately show ?thesis
      by (simp add: spent_inv_def fun_eq_iff rows_keep_unspent_where [OF keep])
  qed
  then show "spent_inv P block a bk' d'"
    and "unspent_where P d' = input_step P block a h (unspent_where P d)" by blast+
qed

interpretation spending: run_refinement "process_input X block a" "spent_inv P block a"
  "unspent_where P" "input_step P block a" for X block a P
  by unfold_locales (fact process_input_refines)+

lemma fold_input_step:
  "fold (input_step P block a) hs U = U(a := U a - (if P a (i64_of_u64 (bl_height block)) then set hs else {}))"
  by (induction hs arbitrary: U) (auto simp: input_step_def fun_eq_iff)

lemma process_inputs_refines:
  assumes run: "process_inputs X block a bk d = (Inr bk', d')" and ok: "tables_ok d"
    and cov: "covers P (i64_of_u64 (bl_height block)) a d"
  shows "tables_ok d'"
    and "unspent_where P d' = (unspent_where P d)(a := unspent_where P d a -
           (if P a (i64_of_u64 (bl_height block)) then set (bl_inputs block) else {}))"
proof -
  have inv: "spent_inv P block a bk d" using ok cov by (simp add: spent_inv_def)
  note loop = run [unfolded process_inputs_def]
  show "tables_ok d'" using spending.loop_keeps [OF loop inv] by (simp add: spent_inv_def)
  show "unspent_where P d' = (unspent_where P d)(a := unspent_where P d a -
      (if P a (i64_of_u64 (bl_height block)) then set (bl_inputs block) else {}))"
    using spending.loop_refines [OF loop inv] by (simp add: fold_input_step)
qed

section \<open>The block\<close>

definition account_step ::
  "(i64 \<Rightarrow> i64 \<Rightarrow> bool) \<Rightarrow> i64 list \<Rightarrow> i64 \<Rightarrow> block_scan \<Rightarrow> (i64 \<Rightarrow> bytes set) \<Rightarrow> i64 \<Rightarrow> bytes set" where
  "account_step P owners a block U =
     (if P a (i64_of_u64 (bl_height block)) then U(a := block_step owners a block (U a)) else U)"

lemma process_block_refines:
  assumes run: "process_block X ds block a bk d = (Inr bk', d')" and ok: "tables_ok d"
    and cov: "covers P (i64_of_u64 (bl_height block)) a d"
  shows "tables_ok d'" and "unspent_where P d' = account_step P (bk_accounts bk) a block (unspent_where P d)"
proof -
  from run obtain k bk0 bk1 d1 bk2 d2 u d3 bk3 d4 where same: "settings bk0 = settings bk"
    and outs: "process_outputs X block a k bk0 d = (Inr bk1, d1)"
    and ins: "process_inputs X block a bk1 d1 = (Inr bk2, d2)"
    and tip: "record_scanned_block X block a d2 = (Inr u, d3)"
    and conf: "process_confirmations X block a bk2 d3 = (Inr bk3, d4)"
    and fin: "finish_block X ds block a k bk3 d4 = (Inr bk', d')"
    by (rule process_block_phases)
  have owners: "bk_accounts bk0 = bk_accounts bk" using same by (simp add: settings_def)
  note o = process_outputs_refines [OF outs ok cov, unfolded owners]
  note i = process_inputs_refines [OF ins o(1,2)]
  have keep: "rows_keep d2 d'"
    using rows_keep_tip [OF tip] rows_keep_confirmations [OF conf] rows_keep_finish [OF fin]
    by (blast intro: rows_keep_trans)
  have "quiet d2 d3" using tip insert_tip_quiet by (auto simp: record_scanned_block_def map_error_ok_iff)
  then have "quiet d2 d'"
    using process_confirmations_quiet [OF conf] finish_block_quiet [OF fin] by (blast intro: quiet_trans)
  with i(1) keep show "tables_ok d'" by (auto simp: tables_ok_def quiet_def rows_keep_unique)
  have "unspent_where P d' = unspent_where P d2" by (simp add: rows_keep_unspent_where [OF keep] fun_eq_iff)
  then show "unspent_where P d' = account_step P (bk_accounts bk) a block (unspent_where P d)"
    unfolding i(2) o(3) by (auto simp: account_step_def block_step_def fun_eq_iff)
qed

lemma process_block_refines_step:
  assumes run: "process_block X ds block a bk d = (Inr bk', d')" and ok: "tables_ok d"
  shows "tables_ok d'" and "unspent d' = (unspent d)(a := block_step (bk_accounts bk) a block (unspent d a))"
proof -
  have all: "unspent = unspent_where (\<lambda>_ _. True)" by (simp add: fun_eq_iff unspent_where_all)
  note block = process_block_refines [OF run ok covers_all]
  show "tables_ok d'" by (rule block(1))
  show "unspent d' = (unspent d)(a := block_step (bk_accounts bk) a block (unspent d a))"
    unfolding all using block(2) by (simp add: account_step_def)
qed

end
