(* ===== verification/Block_Properties.thy ===== *)
theory Block_Properties
  imports Block_Refinement Samples
begin

text \<open>
  What processing a batch of blocks promises: it takes the abstract step of each block, keeps the
  books as consistent as they were, confirms exactly the outputs that are deep enough; a
  failed batch leaves no trace in the database. And what goes wrong when a block is
  processed again.
\<close>

section \<open>Batches\<close>

lemma unspent_hashes_prefix: "unspent_hashes a (hs @ rest) d \<Longrightarrow> unspent_hashes a hs d"
  by (auto simp: unspent_hashes_def)

lemma process_inputs_rest:
  "foldM (process_input X block a) bk hs d = (Inr bk', d') \<Longrightarrow> store_ok d \<Longrightarrow>
     unspent_hashes a (hs @ rest) d \<Longrightarrow> distinct (hs @ rest) \<Longrightarrow>
     store_ok d' \<and> (\<forall>b. drift d' b = drift d b) \<and> unspent_hashes a rest d'"
proof (induction hs arbitrary: bk d)
  case Nil
  then show ?case by (simp add: ret_ok_iff)
next
  case (Cons h hs)
  then obtain bk1 d1 where h: "process_input X block a bk h d = (Inr bk1, d1)"
    and rest: "foldM (process_input X block a) bk1 hs d1 = (Inr bk', d')"
    by (auto simp: bindM_ok_iff)
  have "store_ok d1 \<and> (\<forall>b. drift d1 b = drift d b) \<and> unspent_hashes a (hs @ rest) d1"
    using process_input_effect [OF h] Cons.prems by simp
  with Cons.IH [OF rest] Cons.prems show ?case by simp
qed

lemma process_block_rest:
  assumes run: "process_block X ds block a bk d = (Inr bk', d')" and ok: "store_ok d"
    and free: "unspent_hashes a (bl_inputs block @ rest) d" "distinct (bl_inputs block @ rest)"
  shows "store_ok d' \<and> (\<forall>b. drift d' b = drift d b) \<and> unspent_hashes a rest d'"
proof -
  from run obtain k bk0 bk1 d1 bk2 d2 u d3 bk3 d4 where
    outs: "process_outputs X block a k bk0 d = (Inr bk1, d1)"
    and ins: "process_inputs X block a bk1 d1 = (Inr bk2, d2)"
    and tip: "record_scanned_block X block a d2 = (Inr u, d3)"
    and conf: "process_confirmations X block a bk2 d3 = (Inr bk3, d4)"
    and fin: "finish_block X ds block a k bk3 d4 = (Inr bk', d')"
    by (rule process_block_phases)
  have o: "store_ok d1" "\<forall>b. drift d1 b = drift d b" "outputs_grow d d1"
    using process_outputs_effect [OF outs] ok by (auto simp: steady_def)
  have "unspent_hashes a (bl_inputs block @ rest) d1"
    by (rule unspent_hashes_grow [OF o(3) ok free(1)])
  then have i: "store_ok d2 \<and> (\<forall>b. drift d2 b = drift d1 b) \<and> unspent_hashes a rest d2"
    using process_inputs_rest ins o(1) free(2) by (simp add: process_inputs_def)
  have "rows_keep d2 d'"
    using rows_keep_tip [OF tip] rows_keep_confirmations [OF conf] rows_keep_finish [OF fin]
    by (blast intro: rows_keep_trans)
  then have "unspent_hashes a rest d'" using i rows_keep_unspent_hashes by blast
  moreover have "store_ok d' \<and> (\<forall>b. drift d' b = drift d b)"
    using process_block_effect [OF run ok] free unspent_hashes_prefix by simp
  ultimately show ?thesis by blast
qed

definition in_batch :: "u64 \<Rightarrow> block_scan list \<Rightarrow> block_scan list" where
  \<comment> \<open>the blocks of a batch that are not skipped\<close>
  "in_batch next blocks = filter (\<lambda>block. next \<le> bl_height block) blocks"

definition batch_inputs :: "u64 \<Rightarrow> block_scan list \<Rightarrow> bytes list" where
  "batch_inputs next blocks = concat (map bl_inputs (in_batch next blocks))"

definition batch_body ::
  "externals \<Rightarrow> (processor_error \<Rightarrow> string) \<Rightarrow> (block_error \<Rightarrow> string) \<Rightarrow> i64 \<Rightarrow> u64 \<Rightarrow>
     block_processor \<Rightarrow> block_scan \<Rightarrow> block_processor dbm" where
  \<comment> \<open>the body of the loop in \<open>process_batch_blocks\<close>\<close>
  "batch_body X ds db a next bk block = (if bl_height block < next then ret bk
     else map_error (\<lambda>e. Unexpected (db e)) (process_block X ds block a bk))"

lemma process_batch_blocks_body:
  "process_batch_blocks X ds db a next bk blocks = transact (foldM (batch_body X ds db a next) bk blocks)"
  unfolding process_batch_blocks_def batch_body_def by simp

lemma batch_body_ok_iff:
  "batch_body X ds db a next bk block d = (Inr bk', d') \<longleftrightarrow>
     (if bl_height block < next then bk' = bk \<and> d' = d
      else process_block X ds block a bk d = (Inr bk', d'))"
  by (auto simp: batch_body_def ret_ok_iff map_error_ok_iff)

definition batch_inv :: "i64 list \<Rightarrow> block_processor \<Rightarrow> db \<Rightarrow> bool" where
  "batch_inv owners bk d \<longleftrightarrow> tables_ok d \<and> bk_accounts bk = owners"

definition batch_step :: "u64 \<Rightarrow> i64 list \<Rightarrow> i64 \<Rightarrow> block_scan \<Rightarrow> (i64 \<Rightarrow> bytes set) \<Rightarrow> i64 \<Rightarrow> bytes set" where
  "batch_step next owners a block U =
     (if bl_height block < next then U else U(a := block_step owners a block (U a)))"

lemma batch_body_refines:
  assumes "batch_body X ds db a next bk block d = (Inr bk', d')" "batch_inv owners bk d"
  shows "batch_inv owners bk' d'" and "unspent d' = batch_step next owners a block (unspent d)"
  using assms process_block_refines_step [of X ds block a bk d bk' d'] settings_block [of X ds block a bk d bk' d']
  by (auto simp: batch_body_ok_iff batch_inv_def batch_step_def settings_def split: if_splits)

interpretation batch: run_refinement "batch_body X ds db a next" "batch_inv owners" unspent "batch_step next owners a"
  for X ds db a "next" owners
  by unfold_locales (fact batch_body_refines)+

lemma fold_batch_step:
  "fold (batch_step next owners a) blocks U = U(a := fold (block_step owners a) (in_batch next blocks) (U a))"
  by (induction blocks arbitrary: U) (auto simp: batch_step_def in_batch_def)

lemma batch_loop_refines:
  assumes "foldM (batch_body X ds db a next) bk blocks d = (Inr bk', d')" "tables_ok d" "bk_accounts bk = owners"
  shows "tables_ok d' \<and> unspent d' a = fold (block_step owners a) (in_batch next blocks) (unspent d a) \<and>
     (\<forall>b. b \<noteq> a \<longrightarrow> unspent d' b = unspent d b)"
proof -
  have inv: "batch_inv owners bk d" using assms(2,3) by (simp add: batch_inv_def)
  show ?thesis
    using batch.loop_keeps [OF assms(1) inv] batch.loop_refines [OF assms(1) inv]
    by (simp add: batch_inv_def fold_batch_step)
qed

lemma batch_loop_balance:
  "foldM (batch_body X ds db a next) bk blocks d = (Inr bk', d') \<Longrightarrow> store_ok d \<Longrightarrow>
     unspent_hashes a (batch_inputs next blocks) d \<Longrightarrow> distinct (batch_inputs next blocks) \<Longrightarrow>
     store_ok d' \<and> (\<forall>b. drift d' b = drift d b)"
proof (induction blocks arbitrary: bk d)
  case Nil
  then show ?case by (simp add: ret_ok_iff)
next
  case (Cons block blocks)
  then obtain bk1 d1 where one: "batch_body X ds db a next bk block d = (Inr bk1, d1)"
    and rest: "foldM (batch_body X ds db a next) bk1 blocks d1 = (Inr bk', d')"
    by (auto simp: bindM_ok_iff)
  show ?case
  proof (cases "bl_height block < next")
    case True
    with one Cons.IH [OF rest] Cons.prems show ?thesis
      by (simp add: batch_body_ok_iff in_batch_def batch_inputs_def)
  next
    case False
    with one have b: "process_block X ds block a bk d = (Inr bk1, d1)" by (simp add: batch_body_ok_iff)
    from False have split: "batch_inputs next (block # blocks) = bl_inputs block @ batch_inputs next blocks"
      by (simp add: batch_inputs_def in_batch_def)
    from process_block_rest [OF b] Cons.prems Cons.IH [OF rest] show ?thesis
      by (simp add: split)
  qed
qed

lemma process_blocks_ok:
  assumes "process_blocks X ds db blocks a p cfg next (Some bk, d) = (Inr evs, handler, d')"
  shows "\<exists>bk'. foldM (batch_body X ds db a next)
      (bk\<lparr>bk_pending_outbound := p, bk_webhook := cfg\<rparr>) blocks d = (Inr bk', d')"
  using assms
  by (auto simp: process_blocks_def process_batch_blocks_body transact_ok_iff ret_ok_iff
      split: if_splits prod.splits sum.splits)

section \<open>Confirmation\<close>

definition deep_row :: "i64 \<Rightarrow> u64 \<Rightarrow> output_row \<Rightarrow> bool" where
  "deep_row a min_height r \<longleftrightarrow> o_account r = a \<and> o_height r \<le> i64_of_u64 min_height \<and>
     o_confirmed_height r = None \<and> o_active r"

definition confirmed_at :: "block_scan \<Rightarrow> output_row \<Rightarrow> output_row" where
  "confirmed_at block r = r\<lparr>o_confirmed_height := Some (i64_of_u64 (bl_height block)),
     o_confirmed_hash := Some (bl_hash block)\<rparr>"

lemma process_confirmation_outputs:
  "process_confirmation X block a st row d = (Inr st', d') \<Longrightarrow>
     outputs d' = update_where (\<lambda>r. o_hash r = o_hash row) (confirmed_at block) (outputs d)"
  by (auto simp: process_confirmation_def mark_output_confirmed_def insert_wallet_event_ok_iff
      bindM_ok_iff seqM_ok_iff ret_ok_iff map_error_ok_iff modify_ok_iff Let_def confirmed_at_def
      [abs_def])

lemma update_where_twice:
  "update_where P (confirmed_at block) (update_where Q (confirmed_at block) rows) =
     update_where (\<lambda>r. Q r \<or> P r) (confirmed_at block) rows"
  if "\<And>r. P (confirmed_at block r) = P r"
  using that by (induction rows) (auto simp: confirmed_at_def)

lemma confirmation_loop_outputs:
  "foldM (process_confirmation X block a) st rows d = (Inr st', d') \<Longrightarrow>
     outputs d' = update_where (\<lambda>r. o_hash r \<in> o_hash ` set rows) (confirmed_at block) (outputs d)"
proof (induction rows arbitrary: st d)
  case Nil
  then show ?case by (simp add: ret_ok_iff update_where_id)
next
  case (Cons row rows)
  then obtain st1 d1 where one: "process_confirmation X block a st row d = (Inr st1, d1)"
    and rest: "foldM (process_confirmation X block a) st1 rows d1 = (Inr st', d')"
    by (auto simp: bindM_ok_iff)
  have "o_hash (confirmed_at block r) = o_hash r" for r by (simp add: confirmed_at_def)
  with Cons.IH [OF rest] process_confirmation_outputs [OF one] show ?case
    by (simp add: update_where_twice)
qed

lemma process_confirmations_outputs:
  assumes "process_confirmations X block a bk d = (Inr bk', d')"
  shows "outputs d' = update_where
     (\<lambda>r. o_hash r \<in> o_hash ` set (filter (deep_row a (bl_height block - bk_required bk)) (outputs d)))
     (confirmed_at block) (outputs d)"
proof -
  from assms obtain st d1 u where
    loop: "foldM (process_confirmation X block a) (bk, [])
      (filter (deep_row a (bl_height block - bk_required bk)) (outputs d)) d = (Inr st, d1)"
    and trig: "trigger_all X a (bk_webhook (fst st)) (snd st) d1 = (Inr u, d')"
    by (auto simp: process_confirmations_def get_unconfirmed_outputs_def deep_row_def [abs_def]
        bindM_ok_iff seqM_ok_iff ret_ok_iff map_error_ok_iff gets_ok_iff Let_def split: prod.splits)
  show ?thesis
    using confirmation_loop_outputs [OF loop] trigger_all_same [OF trig] by simp
qed

section \<open>Spending again\<close>

lemma found_row_unique:
  assumes ok: "tables_ok d" and r: "r \<in> set (outputs d)" "o_active r" "o_account r = a" "o_hash r = h"
    and js: "o_json r = Some out"
  shows "get_output_info_by_hash_for_account a h d =
     (Inr (Some (o_id r, u64_of_i64 (o_tx_id r), out)), d)"
proof -
  let ?P = "\<lambda>r. o_account r = a \<and> o_hash r = h \<and> o_active r"
  obtain x where x: "first_row ?P (outputs d) = Some x"
    using r by (cases "first_row ?P (outputs d)") (auto simp: first_row_None)
  then have "x \<in> set (outputs d)" "o_active x" "o_hash x = h" by (auto dest: first_row_Some)
  with unique_row [OF ok] r have "x = r" by simp
  with x js show ?thesis
    by (simp add: get_output_info_by_hash_for_account_def query_def output_info_def)
qed

lemma respend_effect:
  assumes run: "process_input X block a bk h d = (Inr bk', d')" and ok: "tables_ok d"
    and r: "r \<in> set (outputs d)" "o_active r" "o_account r = a" "o_hash r = h" "o_json r = Some out"
    and spent: "spent_in (inputs d) (o_id r)"
  shows "booked d' a = booked d a - o_value r" and "held d' a = held d a"
proof -
  from process_input_some [OF run found_row_unique [OF ok r]] obtain iid d1 cid d2 u where
    ins: "insert_input X a (o_id r) (bl_height block) (bl_hash block) (bl_timestamp block) d = (Inr iid, d1)"
    and ch: "insert_balance_change (input_balance_change X a iid (wo_value out) block) d1 = (Inr cid, d2)"
    and st: "update_output_status (o_id r) Spent d2 = (Inr u, d')"
    by blast
  have d1: "d1 = d" using insert_input_cases [OF ins] spent by blast
  have v: "i64_of_u64 (wo_value out) = o_value r"
    using ok r(1,5) by (simp add: tables_ok_def store_ok_def outputs_ok_def row_value_ok_iff)
  have q: "booked d' a = booked d2 a" "held d' a = held d2 a"
    using quiet_output_ops(1) [OF st] by (simp_all add: quiet_def)
  show "booked d' a = booked d a - o_value r"
    using insert_balance_change_booked [OF ch, of a] by (simp add: q d1 v input_balance_change_def)
  show "held d' a = held d a"
    using ledger_only_held [OF insert_balance_change_ledger_only [OF ch]] by (simp add: q d1)
qed

section \<open>Properties\<close>

text \<open>
  C1: A batch that commits has taken the abstract step of each of its blocks from the next
  block to scan on, in order, and none of the blocks below.
\<close>

theorem batch_refines:
  assumes "process_blocks X ds db blocks a p cfg next (Some bk, d) = (Inr evs, handler, d')"
    and "tables_ok d"
  shows "tables_ok d' \<and>
     unspent d' a = fold (block_step (bk_accounts bk) a) (in_batch next blocks) (unspent d a) \<and>
     (\<forall>b. b \<noteq> a \<longrightarrow> unspent d' b = unspent d b)"
  using process_blocks_ok [OF assms(1)] batch_loop_refines [OF _ assms(2)] by fastforce

text \<open>
  C2: A batch keeps the ledger and the outputs of every account in step, as long as none of
  its inputs spends an output that an active input already spends, and no input comes twice.
\<close>

theorem batch_keeps_balance:
  assumes "process_blocks X ds db blocks a p cfg next (Some bk, d) = (Inr evs, handler, d')"
    and "store_ok d" "unspent_hashes a (batch_inputs next blocks) d"
    and "distinct (batch_inputs next blocks)"
  shows "store_ok d' \<and> balanced d' b = balanced d b"
  using process_blocks_ok [OF assms(1)] batch_loop_balance [OF _ assms(2-4)]
  by (auto simp: balanced_drift)

text \<open>
  C20: A batch that fails leaves the database as it was, but the handler without its
  processor: every later batch fails as well, with nothing written.
\<close>

theorem failed_batch_leaves_no_trace:
  assumes "process_blocks X ds db blocks a p cfg next (handler, d) = (Inl e, handler', d')"
  shows "d' = d \<and> handler' = None \<and>
     (blocks' \<noteq> [] \<longrightarrow> process_blocks X ds db blocks' a p' cfg' next' (handler', d') =
        (Inl (ScanFatal ''BlockProcessor not initialized''), None, d))"
  using assms
  by (auto simp: process_blocks_def process_batch_blocks_def dest: transact_error
      split: if_splits prod.splits sum.splits option.splits)

text \<open>
  An input whose output an active input already spends is debited again, while the held
  balance stays: processing the tip block a second time takes the ledger out of step.
\<close>

theorem respent_input_debited_twice:
  assumes "process_input X block a bk h d = (Inr bk', d')" "tables_ok d"
    and "r \<in> set (outputs d)" "o_active r" "o_account r = a" "o_hash r = h" "o_json r = Some out"
    and "spent_in (inputs d) (o_id r)"
  shows "booked d' a = booked d a - o_value r \<and> held d' a = held d a"
  using respend_effect [OF assms] by blast

text \<open>
  C21: The confirmation step marks every active unconfirmed output of the account that is at
  least the required number of blocks below the current one, and leaves every other active
  output as it was.
\<close>

theorem confirmations_exact:
  assumes "process_confirmations X block a bk d = (Inr bk', d')" "tables_ok d"
    and "r \<in> set (outputs d)" "o_active r"
  shows "(if deep_row a (bl_height block - bk_required bk) r then confirmed_at block r else r)
     \<in> set (outputs d')"
proof -
  let ?deep = "deep_row a (bl_height block - bk_required bk)"
  have same: "x = r" if "x \<in> set (outputs d)" "o_active x" "o_hash x = o_hash r" for x
    using unique_row [OF assms(2)] that assms(3,4) by simp
  have "o_hash r \<in> o_hash ` set (filter ?deep (outputs d)) \<longleftrightarrow> ?deep r"
    using same assms(3) by (auto simp: deep_row_def)
  then show ?thesis
    using assms(3) unfolding process_confirmations_outputs [OF assms(1)] in_set_update_where by metis
qed

section \<open>Witnesses\<close>

definition books_db :: db where
  \<comment> \<open>two unspent outputs, both booked\<close>
  "books_db = two_outputs_db\<lparr>
     changes := [change_row_of 1 (sample_change\<lparr>bc_output := Some 1, bc_credit := 60\<rparr>),
       change_row_of 2 (sample_change\<lparr>bc_output := Some 2, bc_credit := 50\<rparr>)],
     changes_seq := 2\<rparr>"

definition sample_block :: block_scan where
  \<comment> \<open>it pays 25 to the account, 5 to a wallet that is not scanned, and spends the 60\<close>
  "sample_block = \<lparr>bl_height = 11, bl_hash = [11],
     bl_outputs = [([3], sample_output [3] 25, 0), ([4], sample_output [4] 5, 7)],
     bl_inputs = [[1]], bl_timestamp = 0\<rparr>"

definition old_block :: block_scan where
  "old_block = sample_block\<lparr>bl_height := 10, bl_hash := [10], bl_outputs := [], bl_inputs := [[2]]\<rparr>"

definition sample_bk :: block_processor where
  "sample_bk = with_event_sender [(1, [5])] False 3"

definition sample_batch :: "block_scan list \<Rightarrow> block_processor option \<times> db \<Rightarrow>
    (scan_db_error + wallet_event list) \<times> block_processor option \<times> db" where
  "sample_batch blocks = process_blocks sample_X (\<lambda>_. []) (\<lambda>_. []) blocks 1 False None 11"

lemma books_ok: "store_ok books_db" "tables_ok books_db" "balanced books_db 1"
  "unspent books_db 1 = {[1], [2]}"
  by code_simp+

lemma sample_batch_runs:
  "\<exists>evs handler d'. sample_batch [old_block, sample_block] (Some sample_bk, books_db) = (Inr evs, handler, d')"
proof -
  have "succeeds_with (sample_batch [old_block, sample_block] (Some sample_bk, books_db)) (\<lambda>_ _. True)"
    by code_simp
  then show ?thesis unfolding with_iffs by (metis surj_pair)
qed

theorem batch_refines_witness:
  "\<exists>evs handler d'. sample_batch [old_block, sample_block] (Some sample_bk, books_db) = (Inr evs, handler, d') \<and>
     unspent d' 1 = {[2], [3]}"
proof -
  have "fold (block_step (bk_accounts sample_bk) 1) (in_batch 11 [old_block, sample_block]) {[1], [2]}
      = {[2], [3]}" by code_simp
  with sample_batch_runs batch_refines [OF _ books_ok(2)] books_ok(4) show ?thesis
    unfolding sample_batch_def by metis
qed

theorem batch_keeps_balance_witness:
  "\<exists>evs handler d'. sample_batch [old_block, sample_block] (Some sample_bk, books_db) = (Inr evs, handler, d') \<and>
     store_ok d' \<and> balanced d' 1"
proof -
  have "unspent_hashes 1 (batch_inputs 11 [old_block, sample_block]) books_db"
    "distinct (batch_inputs 11 [old_block, sample_block])" by code_simp+
  with sample_batch_runs batch_keeps_balance [OF _ books_ok(1)] books_ok(3) show ?thesis
    unfolding sample_batch_def by metis
qed

text \<open>A batch whose second block repeats an output of the first violates the unique index.\<close>

lemma sample_batch_fails:
  "\<exists>e handler d'. sample_batch [sample_block, sample_block] (Some sample_bk, books_db) = (Inl e, handler, d')"
proof -
  have "case fst (sample_batch [sample_block, sample_block] (Some sample_bk, books_db)) of
      Inl _ \<Rightarrow> True | Inr _ \<Rightarrow> False" by code_simp
  then show ?thesis
    by (cases "sample_batch [sample_block, sample_block] (Some sample_bk, books_db)") (auto split: sum.splits)
qed

theorem failed_batch_leaves_no_trace_witness:
  "\<exists>e. sample_batch [sample_block, sample_block] (Some sample_bk, books_db) = (Inl e, None, books_db)"
  using sample_batch_fails failed_batch_leaves_no_trace unfolding sample_batch_def by metis

definition spent_once_db :: db where
  "spent_once_db = books_db\<lparr>inputs := [\<lparr>in_id = 1, in_account = 1, in_output = 1, in_block = [11],
     in_height = 11, in_timestamp = 0, in_created = 0, in_deleted_at = None, in_deleted_height = None\<rparr>],
     inputs_seq := 1\<rparr>"

theorem respent_input_debited_twice_witness:
  "\<exists>bk' d'. process_input sample_X sample_block 1 sample_bk [1] spent_once_db = (Inr bk', d') \<and>
     booked d' 1 = booked spent_once_db 1 - 60 \<and> held d' 1 = held spent_once_db 1"
proof -
  have "succeeds_with (process_input sample_X sample_block 1 sample_bk [1] spent_once_db) (\<lambda>_ _. True)"
    by code_simp
  then obtain bk' d' where run: "process_input sample_X sample_block 1 sample_bk [1] spent_once_db = (Inr bk', d')"
    unfolding with_iffs by blast
  let ?r = "sample_row 1 [1] 60 3"
  have "tables_ok spent_once_db" "?r \<in> set (outputs spent_once_db)" "o_active ?r" "o_account ?r = 1"
    "o_hash ?r = [1]" "o_json ?r = Some (sample_output [1] 60)" "spent_in (inputs spent_once_db) (o_id ?r)"
    "o_value ?r = 60"
    by code_simp+
  with respent_input_debited_twice [OF run] run show ?thesis by metis
qed

theorem confirmations_exact_witness:
  "\<exists>bk' d'. process_confirmations sample_X sample_block 1 sample_bk books_db = (Inr bk', d') \<and>
     confirmed_at sample_block (sample_row 1 [1] 60 3) \<in> set (outputs d')"
proof -
  have "succeeds_with (process_confirmations sample_X sample_block 1 sample_bk books_db) (\<lambda>_ _. True)"
    by code_simp
  then obtain bk' d' where run: "process_confirmations sample_X sample_block 1 sample_bk books_db = (Inr bk', d')"
    unfolding with_iffs by blast
  have "sample_row 1 [1] 60 3 \<in> set (outputs books_db)" "o_active (sample_row 1 [1] 60 3)"
    "deep_row 1 (bl_height sample_block - bk_required sample_bk) (sample_row 1 [1] 60 3)"
    by code_simp+
  with confirmations_exact [OF run books_ok(2)] run show ?thesis by metis
qed

end
