(* ===== verification/Pending_Txs.thy ===== *)
theory Pending_Txs
  imports Outputs
begin

text \<open>
  Pending transactions, \<open>minotari/src/db/pending_transactions.rs\<close>: the records of locked
  funds, keyed by an idempotency key that is unique per account. The identifier is a
  fresh UUID, which the caller of the model supplies.
\<close>

record lock_funds_result =
  lf_utxos :: "wallet_output list"
  lf_requires_change :: bool
  lf_total_value :: u64
  lf_fee_without_change :: u64
  lf_fee_with_change :: u64

record pending_transaction =
  pt_id :: string
  pt_account :: i64
  pt_status :: pending_status
  pt_requires_change :: bool
  pt_total_value :: u64
  pt_fee_without_change :: u64
  pt_fee_with_change :: u64
  pt_expires_at :: i64
  pt_created_at :: i64

definition duplicate_pending :: "string \<Rightarrow> wallet_error" where
  "duplicate_pending key = DuplicateEntry (''Pending transaction with idempotency key '' @
     [CHR 0x27] @ key @ [CHR 0x27] @ '' already exists'')"

definition create_pending_transaction ::
  "externals \<Rightarrow> string \<Rightarrow> string \<Rightarrow> i64 \<Rightarrow> bool \<Rightarrow> u64 \<Rightarrow> u64 \<Rightarrow> u64 \<Rightarrow> i64 \<Rightarrow> string dbm" where
  "create_pending_transaction X uuid key account_id change value_total fee_no fee_with expires =
     statement (\<lambda>d.
       if \<not> account_exists d account_id \<or> (\<exists>r \<in> set (pendings d). p_id r = uuid) \<or>
          (\<exists>r \<in> set (pendings d). p_account r = account_id \<and> p_key r = key)
       then Inl (duplicate_pending key)
       else Inr (uuid, d\<lparr>pendings := pendings d @ [\<lparr>p_id = uuid, p_account = account_id,
              p_key = key, p_status = pending_status_text Pending, p_requires_change = change,
              p_total_value = i64_of_u64 value_total, p_fee_without_change = i64_of_u64 fee_no,
              p_fee_with_change = i64_of_u64 fee_with, p_expires_at = expires,
              p_created = x_now X\<rparr>]\<rparr>))"

definition pending_expired :: "i64 \<Rightarrow> pending_row \<Rightarrow> bool" where
  "pending_expired now r \<longleftrightarrow> p_status r = pending_status_text Pending \<and> p_expires_at r < now"

definition find_expired_pending_transactions :: "externals \<Rightarrow> string list dbm" where
  "find_expired_pending_transactions X = gets (\<lambda>d.
     map p_id (filter (pending_expired (x_now X)) (pendings d)))"

definition update_pending_transaction_status :: "string \<Rightarrow> pending_status \<Rightarrow> unit dbm" where
  "update_pending_transaction_status i st = modify (\<lambda>d.
     d\<lparr>pendings := update_where (\<lambda>r. p_id r = i) (\<lambda>r. r\<lparr>p_status := pending_status_text st\<rparr>)
        (pendings d)\<rparr>)"

definition pending_match :: "string \<Rightarrow> i64 \<Rightarrow> pending_status \<Rightarrow> pending_row \<Rightarrow> bool" where
  "pending_match key a st r \<longleftrightarrow> p_key r = key \<and> p_account r = a \<and> p_status r = pending_status_text st"

definition find_pending_transaction_locked_funds_by_idempotency_key ::
  "string \<Rightarrow> i64 \<Rightarrow> lock_funds_result option dbm" where
  "find_pending_transaction_locked_funds_by_idempotency_key key a =
     bindM (gets (\<lambda>d. first_row (pending_match key a Pending) (pendings d))) (\<lambda>found.
       case found of
         None \<Rightarrow> ret None
       | Some row \<Rightarrow> bindM (fetch_outputs_by_lock_request_id (p_id row)) (\<lambda>utxos.
           ret (Some \<lparr>lf_utxos = map dw_output utxos, lf_requires_change = p_requires_change row,
             lf_total_value = u64_of_i64 (p_total_value row),
             lf_fee_without_change = u64_of_i64 (p_fee_without_change row),
             lf_fee_with_change = u64_of_i64 (p_fee_with_change row)\<rparr>)))"

definition find_pending_transaction_by_idempotency_key ::
  "(string \<Rightarrow> bool) \<Rightarrow> string \<Rightarrow> i64 \<Rightarrow> pending_transaction option dbm" where
  \<comment> \<open>\<open>uuid_ok\<close> is \<open>Uuid::parse_str\<close> succeeding\<close>
  "find_pending_transaction_by_idempotency_key uuid_ok key a = query (\<lambda>d.
     case first_row (pending_match key a Pending) (pendings d) of
       None \<Rightarrow> Inr None
     | Some r \<Rightarrow>
         if \<not> uuid_ok (p_id r) then Inl (Rusqlite ExecuteReturnedResults)
         else (case pending_status_of (p_status r) of
             Inl _ \<Rightarrow> Inl (Rusqlite ExecuteReturnedResults)
           | Inr st \<Rightarrow> Inr (Some \<lparr>pt_id = p_id r, pt_account = p_account r, pt_status = st,
               pt_requires_change = p_requires_change r,
               pt_total_value = u64_of_i64 (p_total_value r),
               pt_fee_without_change = u64_of_i64 (p_fee_without_change r),
               pt_fee_with_change = u64_of_i64 (p_fee_with_change r),
               pt_expires_at = p_expires_at r, pt_created_at = p_created r\<rparr>)))"

definition check_if_transaction_was_already_completed_by_idempotency_key ::
  "string \<Rightarrow> i64 \<Rightarrow> bool dbm" where
  "check_if_transaction_was_already_completed_by_idempotency_key key a = gets (\<lambda>d.
     \<exists>r \<in> set (pendings d). pending_match key a Completed r)"

definition check_if_transaction_is_expired_by_idempotency_key ::
  "externals \<Rightarrow> string \<Rightarrow> i64 \<Rightarrow> bool dbm" where
  "check_if_transaction_is_expired_by_idempotency_key X key a = gets (\<lambda>d.
     \<exists>r \<in> set (pendings d). pending_match key a Pending r \<and> p_expires_at r < x_now X)"

definition cancel_pending_transactions_by_ids :: "string list \<Rightarrow> pending_status \<Rightarrow> unit dbm" where
  "cancel_pending_transactions_by_ids ids st =
     (if ids = [] then ret ()
      else modify (\<lambda>d. d\<lparr>pendings := update_where (\<lambda>r. p_id r \<in> set ids)
             (\<lambda>r. r\<lparr>p_status := pending_status_text st\<rparr>) (pendings d)\<rparr>))"

end
