(* ===== verification/Completed_Txs.thy ===== *)
theory Completed_Txs
  imports Holdings Pending_Txs
begin

text \<open>
  Completed transactions, \<open>minotari/src/db/completed_transactions.rs\<close>: the transactions
  handed to the network, from their creation over broadcast, mining and confirmation to
  the rejection, and the reset a reorganisation makes. The key of the table is the
  transaction id, so its rows are kept in the order of that id.
\<close>

section \<open>Rows\<close>

record completed_transaction =
  ct_id :: u64
  ct_pending_id :: string
  ct_account :: i64
  ct_status :: completed_status
  ct_rejected_reason :: "string option"
  ct_kernel_excess :: bytes
  ct_sent_payref :: "string option"
  ct_sent_hash :: "string option"
  ct_mined_height :: "i64 option"
  ct_mined_block :: "bytes option"
  ct_confirmation_height :: "i64 option"
  ct_attempts :: int
  ct_serialized :: bytes
  ct_created :: i64
  ct_updated :: i64

definition completed_of_row :: "completed_row \<Rightarrow> wallet_error + completed_transaction" where
  "completed_of_row r = (case completed_status_of (c_status r) of
      Inl _ \<Rightarrow> Inl (Rusqlite ExecuteReturnedResults)
    | Inr status \<Rightarrow> Inr \<lparr>ct_id = u64_of_i64 (c_id r), ct_pending_id = c_pending_id r,
        ct_account = c_account r, ct_status = status, ct_rejected_reason = c_rejected_reason r,
        ct_kernel_excess = c_kernel_excess r, ct_sent_payref = c_sent_payref r,
        ct_sent_hash = c_sent_hash r, ct_mined_height = c_mined_height r,
        ct_mined_block = c_mined_block r, ct_confirmation_height = c_confirmation_height r,
        ct_attempts = c_attempts r, ct_serialized = c_serialized r,
        ct_created = c_created r, ct_updated = c_updated r\<rparr>)"

definition optional_completed :: "completed_row option \<Rightarrow> wallet_error + completed_transaction option" where
  \<comment> \<open>\<open>query_row(.., map_row).optional()\<close>\<close>
  "optional_completed row = (case row of None \<Rightarrow> Inr None
     | Some r \<Rightarrow> (case completed_of_row r of Inl e \<Rightarrow> Inl e | Inr tx \<Rightarrow> Inr (Some tx)))"

section \<open>Creation and listings\<close>

definition create_completed_transaction ::
  "externals \<Rightarrow> i64 \<Rightarrow> string \<Rightarrow> bytes \<Rightarrow> bytes \<Rightarrow> string option \<Rightarrow> u64 \<Rightarrow> unit dbm" where
  "create_completed_transaction X account_id pending_tx_id kernel_excess serialized sent_hash tx_id =
     statement (\<lambda>d.
       if (\<exists>r \<in> set (completeds d). c_id r = i64_of_u64 tx_id) \<or> \<not> account_exists d account_id \<or>
          \<not> (\<exists>r \<in> set (pendings d). p_id r = pending_tx_id)
       then Inl constraint_violation
       else Inr ((), d\<lparr>completeds := insort_key c_id \<lparr>c_id = i64_of_u64 tx_id,
              c_account = account_id, c_pending_id = pending_tx_id,
              c_status = completed_status_text TxCompleted, c_rejected_reason = None,
              c_kernel_excess = kernel_excess, c_sent_payref = None, c_sent_hash = sent_hash,
              c_mined_height = None, c_mined_block = None, c_confirmation_height = None,
              c_attempts = 0, c_serialized = serialized, c_created = x_now X,
              c_updated = x_now X\<rparr> (completeds d)\<rparr>))"

definition get_completed_transaction_by_id :: "u64 \<Rightarrow> completed_transaction option dbm" where
  "get_completed_transaction_by_id tx_id = query (\<lambda>d.
     optional_completed (first_row (\<lambda>r. c_id r = i64_of_u64 tx_id) (completeds d)))"

definition get_completed_transactions_by_status ::
  "i64 \<Rightarrow> completed_status \<Rightarrow> completed_transaction list dbm" where
  "get_completed_transactions_by_status a status = query (\<lambda>d. mapM completed_of_row
     (filter (\<lambda>r. c_account r = a \<and> c_status r = completed_status_text status) (completeds d)))"

definition awaiting :: "completed_row \<Rightarrow> bool" where
  "awaiting r \<longleftrightarrow> c_status r \<notin> {''mined_confirmed'', ''rejected'', ''canceled''}"

definition get_pending_completed_transactions :: "i64 \<Rightarrow> completed_transaction list dbm" where
  "get_pending_completed_transactions a = query (\<lambda>d. mapM completed_of_row
     (sort_key c_created (filter (\<lambda>r. c_account r = a \<and> awaiting r) (completeds d))))"

definition get_completed_transactions_by_account ::
  "i64 \<Rightarrow> i64 \<Rightarrow> i64 \<Rightarrow> completed_transaction list dbm" where
  "get_completed_transactions_by_account a limit offset = query (\<lambda>d. mapM completed_of_row
     (page limit offset (sort_desc c_created (sort_desc c_id
        (filter (\<lambda>r. c_account r = a) (completeds d))))))"

definition get_completed_transaction_by_payref ::
  "i64 \<Rightarrow> string \<Rightarrow> completed_transaction option dbm" where
  "get_completed_transaction_by_payref a payref = query (\<lambda>d. optional_completed
     (first_row (\<lambda>r. c_account r = a \<and> c_sent_payref r = Some payref) (completeds d)))"

section \<open>Status changes\<close>

definition update_completed :: "u64 \<Rightarrow> (completed_row \<Rightarrow> completed_row) \<Rightarrow> unit dbm" where
  \<comment> \<open>\<open>UPDATE completed_transactions SET .. WHERE id = :id\<close>\<close>
  "update_completed tx_id f = modify (\<lambda>d.
     d\<lparr>completeds := update_where (\<lambda>r. c_id r = i64_of_u64 tx_id) f (completeds d)\<rparr>)"

definition update_completed_transaction_status ::
  "externals \<Rightarrow> u64 \<Rightarrow> completed_status \<Rightarrow> unit dbm" where
  "update_completed_transaction_status X tx_id status = update_completed tx_id
     (\<lambda>r. r\<lparr>c_status := completed_status_text status, c_updated := x_now X\<rparr>)"

definition mark_completed_transaction_as_broadcasted :: "externals \<Rightarrow> u64 \<Rightarrow> int \<Rightarrow> unit dbm" where
  "mark_completed_transaction_as_broadcasted X tx_id attempts = update_completed tx_id
     (\<lambda>r. r\<lparr>c_status := completed_status_text TxBroadcast, c_attempts := attempts,
           c_updated := x_now X\<rparr>)"

definition mark_completed_transaction_as_mined_unconfirmed ::
  "externals \<Rightarrow> u64 \<Rightarrow> i64 \<Rightarrow> bytes \<Rightarrow> unit dbm" where
  "mark_completed_transaction_as_mined_unconfirmed X tx_id height hash = update_completed tx_id
     (\<lambda>r. r\<lparr>c_status := completed_status_text MinedUnconfirmed, c_mined_height := Some height,
           c_mined_block := Some hash, c_updated := x_now X\<rparr>)"

definition mark_completed_transaction_as_confirmed ::
  "externals \<Rightarrow> u64 \<Rightarrow> i64 \<Rightarrow> string \<Rightarrow> unit dbm" where
  "mark_completed_transaction_as_confirmed X tx_id height payref = update_completed tx_id
     (\<lambda>r. r\<lparr>c_status := completed_status_text MinedConfirmed, c_confirmation_height := Some height,
           c_sent_payref := Some payref, c_updated := x_now X\<rparr>)"

definition back_to_completed :: "externals \<Rightarrow> completed_row \<Rightarrow> completed_row" where
  "back_to_completed X r = r\<lparr>c_status := completed_status_text TxCompleted, c_mined_height := None,
     c_mined_block := None, c_confirmation_height := None, c_sent_payref := None,
     c_attempts := 0, c_updated := x_now X\<rparr>"

definition revert_completed_transaction_to_completed :: "externals \<Rightarrow> u64 \<Rightarrow> unit dbm" where
  "revert_completed_transaction_to_completed X tx_id = update_completed tx_id (back_to_completed X)"

definition mined_from :: "i64 \<Rightarrow> u64 \<Rightarrow> completed_row \<Rightarrow> bool" where
  "mined_from a height r \<longleftrightarrow> c_account r = a \<and>
     (c_status r = completed_status_text MinedUnconfirmed \<or>
      c_status r = completed_status_text MinedConfirmed) \<and>
     (case c_mined_height r of None \<Rightarrow> False | Some m \<Rightarrow> m \<ge> i64_of_u64 height)"

definition reset_mined_completed_transactions_from_height ::
  "externals \<Rightarrow> i64 \<Rightarrow> u64 \<Rightarrow> u64 dbm" where
  "reset_mined_completed_transactions_from_height X a height = statement (\<lambda>d.
     Inr (length (filter (mined_from a height) (completeds d)),
       d\<lparr>completeds := update_where (mined_from a height) (back_to_completed X) (completeds d)\<rparr>))"

definition mark_completed_transaction_as_rejected :: "externals \<Rightarrow> u64 \<Rightarrow> string \<Rightarrow> unit dbm" where
  "mark_completed_transaction_as_rejected X tx_id reason = update_completed tx_id
     (\<lambda>r. r\<lparr>c_status := completed_status_text TxRejected, c_rejected_reason := Some reason,
           c_updated := x_now X\<rparr>)"

section \<open>Lemmas\<close>

lemma quiet_completeds: "quiet d (d\<lparr>completeds := rows\<rparr>)"
  by (rule quiet_other_tables) simp_all

lemma update_completed_ok_iff:
  "update_completed i f d = (Inr u, d') \<longleftrightarrow>
     d' = d\<lparr>completeds := update_where (\<lambda>r. c_id r = i64_of_u64 i) f (completeds d)\<rparr>"
  by (simp add: update_completed_def modify_ok_iff)

lemma update_completed_quiet: "update_completed i f d = (Inr u, d') \<Longrightarrow> quiet d d'"
  by (simp add: update_completed_ok_iff quiet_completeds)

lemmas completed_marks = update_completed_transaction_status_def
  mark_completed_transaction_as_broadcasted_def mark_completed_transaction_as_mined_unconfirmed_def
  mark_completed_transaction_as_confirmed_def revert_completed_transaction_to_completed_def
  mark_completed_transaction_as_rejected_def

lemma reset_mined_ok_iff:
  "reset_mined_completed_transactions_from_height X a h d = (Inr n, d') \<longleftrightarrow>
     n = length (filter (mined_from a h) (completeds d)) \<and>
     d' = d\<lparr>completeds := update_where (mined_from a h) (back_to_completed X) (completeds d)\<rparr>"
  by (auto simp: reset_mined_completed_transactions_from_height_def statement_ok_iff)

lemma not_mined_from_back [simp]: "\<not> mined_from a h (back_to_completed X r)"
  by (simp add: mined_from_def back_to_completed_def)

lemma reset_mined_none_left:
  "filter (mined_from a h) (update_where (mined_from a h) (back_to_completed X) rows) = []"
  by (induction rows) simp_all

text \<open>The names in the SQL of the listing are the texts of the three final statuses.\<close>

lemma awaiting_status:
  "awaiting (r\<lparr>c_status := completed_status_text st\<rparr>) \<longleftrightarrow>
     st \<in> {TxCompleted, TxBroadcast, MinedUnconfirmed}"
  by (cases st) (simp_all add: awaiting_def completed_status_text.simps)

end
