(* ===== verification/Payref_History.thy ===== *)
theory Payref_History
  imports Completed_Txs Displayed_Txs
begin

text \<open>
  Historical payment references, \<open>minotari/src/db/payref_history.rs\<close>: a reorganisation
  changes the payment reference of a transaction, and the two savers record the old ones
  before the tables that hold them are overwritten, so that a lookup by an old reference
  still finds the transaction.
\<close>

definition save_payref_history ::
  "externals \<Rightarrow> i64 \<Rightarrow> u64 \<Rightarrow> string \<Rightarrow> string option \<Rightarrow> unit dbm" where
  "save_payref_history X account_id tx_id old_payref output_hash = statement (\<lambda>d.
     if \<not> account_exists d account_id then Inl constraint_violation
     else let i = payrefs_seq d + 1
       in Inr ((), d\<lparr>payrefs := payrefs d @ [\<lparr>ph_id = i, ph_account = account_id,
            ph_tx = i64_of_u64 tx_id, ph_payref = old_payref, ph_hash = output_hash,
            ph_created = x_now X\<rparr>], payrefs_seq := i\<rparr>))"

definition get_transaction_id_by_historical_payref :: "i64 \<Rightarrow> string \<Rightarrow> u64 option dbm" where
  "get_transaction_id_by_historical_payref a payref = gets (\<lambda>d.
     case sort_desc ph_created (filter (\<lambda>r. ph_account r = a \<and> ph_payref r = payref) (payrefs d)) of
       [] \<Rightarrow> None | r # _ \<Rightarrow> Some (u64_of_i64 (ph_tx r)))"

definition save_payref_list ::
  "externals \<Rightarrow> i64 \<Rightarrow> u64 \<Rightarrow> u64 \<Rightarrow> string list \<Rightarrow> u64 dbm" where
  \<comment> \<open>the inner loop over the references of one displayed transaction, with the running count\<close>
  "save_payref_list X a tx_id count refs =
     foldM (\<lambda>n payref. if payref = [] then ret n
        else seqM (save_payref_history X a tx_id payref None) (ret (n + 1))) count refs"

definition save_displayed_row :: "externals \<Rightarrow> i64 \<Rightarrow> u64 \<Rightarrow> string \<times> string \<Rightarrow> u64 dbm" where
  "save_displayed_row X a count row = (case parse_u64 (fst row) of
      None \<Rightarrow> ret count
    | Some tx_id \<Rightarrow> (case x_parse_payrefs X (snd row) of
        None \<Rightarrow> ret count
      | Some refs \<Rightarrow> save_payref_list X a tx_id count refs))"

definition displayed_with_payref :: "i64 \<Rightarrow> u64 \<Rightarrow> db \<Rightarrow> (string \<times> string) list" where
  "displayed_with_payref a height d = List.map_filter
     (\<lambda>r. if d_account r = a \<and> d_height r \<ge> i64_of_u64 height
          then map_option (\<lambda>p. (d_id r, p)) (d_payref r) else None) (displayeds d)"

definition save_displayed_transaction_payrefs_before_reorg ::
  "externals \<Rightarrow> i64 \<Rightarrow> u64 \<Rightarrow> u64 dbm" where
  "save_displayed_transaction_payrefs_before_reorg X a height =
     bindM (gets (displayed_with_payref a height)) (\<lambda>rows. foldM (save_displayed_row X a) 0 rows)"

definition completed_with_payref :: "i64 \<Rightarrow> u64 \<Rightarrow> db \<Rightarrow> (i64 \<times> string \<times> string option) list" where
  "completed_with_payref a height d = List.map_filter
     (\<lambda>r. if mined_from a height r
          then map_option (\<lambda>p. (c_id r, p, c_sent_hash r)) (c_sent_payref r) else None)
     (completeds d)"

definition save_completed_row :: "externals \<Rightarrow> i64 \<Rightarrow> u64 \<Rightarrow> i64 \<times> string \<times> string option \<Rightarrow> u64 dbm" where
  "save_completed_row X a count row = (case row of (i, payref, hash) \<Rightarrow>
     seqM (save_payref_history X a (u64_of_i64 i) payref hash) (ret (count + 1)))"

definition save_completed_transaction_payrefs_before_reorg ::
  "externals \<Rightarrow> i64 \<Rightarrow> u64 \<Rightarrow> u64 dbm" where
  "save_completed_transaction_payrefs_before_reorg X a height =
     bindM (gets (completed_with_payref a height)) (\<lambda>rows. foldM (save_completed_row X a) 0 rows)"

section \<open>Lemmas\<close>

text \<open>\<open>history_grows d d'\<close>: rows are appended to the history and nothing else changes.\<close>

definition history_grows :: "db \<Rightarrow> db \<Rightarrow> bool" where
  "history_grows d d' \<longleftrightarrow> (\<exists>rows n. d' = d\<lparr>payrefs := payrefs d @ rows, payrefs_seq := n\<rparr>)"

lemma history_grows_refl [simp]: "history_grows d d"
  unfolding history_grows_def by (rule exI [of _ "[]"], rule exI [of _ "payrefs_seq d"]) simp

lemma history_grows_trans: "history_grows d d1 \<Longrightarrow> history_grows d1 d2 \<Longrightarrow> history_grows d d2"
  unfolding history_grows_def by fastforce

lemma history_grows_fields:
  assumes "history_grows d d'"
  shows "completeds d' = completeds d" "displayeds d' = displayeds d" "outputs d' = outputs d"
    "inputs d' = inputs d" "accounts d' = accounts d" "tips d' = tips d" "changes d' = changes d"
    "pendings d' = pendings d" "events d' = events d" "set (payrefs d) \<subseteq> set (payrefs d')"
  using assms by (auto simp: history_grows_def)

lemma history_grows_quiet: "history_grows d d' \<Longrightarrow> quiet d d'"
  by (rule quiet_other_tables) (auto simp: history_grows_def)

lemma save_payref_history_ok_iff:
  "save_payref_history X a i p h d = (Inr u, d') \<longleftrightarrow> account_exists d a \<and>
     d' = d\<lparr>payrefs := payrefs d @ [\<lparr>ph_id = payrefs_seq d + 1, ph_account = a,
            ph_tx = i64_of_u64 i, ph_payref = p, ph_hash = h, ph_created = x_now X\<rparr>],
            payrefs_seq := payrefs_seq d + 1\<rparr>"
  by (auto simp: save_payref_history_def statement_ok_iff Let_def split: if_splits)

lemma save_payref_history_grows:
  "save_payref_history X a i p h d = (Inr u, d') \<Longrightarrow> history_grows d d'"
  by (auto simp: save_payref_history_ok_iff history_grows_def)

lemma save_payref_list_grows:
  "save_payref_list X a i n refs d = (Inr m, d') \<Longrightarrow> history_grows d d'"
  unfolding save_payref_list_def
  by (erule foldM_ok_rel [of history_grows, rotated 3])
    (auto simp: ok_simps split: if_splits intro: history_grows_trans save_payref_history_grows)

lemma save_displayed_row_grows:
  "save_displayed_row X a n row d = (Inr m, d') \<Longrightarrow> history_grows d d'"
  by (auto simp: save_displayed_row_def ret_ok_iff split: option.splits
      dest: save_payref_list_grows)

lemma save_displayed_grows:
  "save_displayed_transaction_payrefs_before_reorg X a h d = (Inr n, d') \<Longrightarrow> history_grows d d'"
  unfolding save_displayed_transaction_payrefs_before_reorg_def
  by (auto simp: bindM_ok_iff gets_ok_iff dest: save_displayed_row_grows
      intro: history_grows_trans elim!: foldM_ok_rel [of history_grows, rotated 3])

lemma save_completed_row_grows:
  "save_completed_row X a n row d = (Inr m, d') \<Longrightarrow> history_grows d d'"
  by (auto simp: save_completed_row_def ok_simps split: prod.splits
      dest: save_payref_history_grows)

lemma foldM_collect:
  \<comment> \<open>a loop that keeps \<open>R\<close>, under which \<open>Q\<close> is stable, and establishes \<open>Q x\<close> at each \<open>x\<close>\<close>
  assumes "\<And>b x s b' s'. x \<in> set xs \<Longrightarrow> f b x s = (Inr b', s') \<Longrightarrow> R s s' \<and> Q x s'"
    and "\<And>x s s'. R s s' \<Longrightarrow> Q x s \<Longrightarrow> Q x s'" "\<And>s. R s s" "\<And>s t u. R s t \<Longrightarrow> R t u \<Longrightarrow> R s u"
  shows "foldM f b xs s = (Inr b', s') \<Longrightarrow> R s s' \<and> (\<forall>x \<in> set xs. Q x s')"
  using assms(1)
proof (induction xs arbitrary: b s)
  case Nil
  then show ?case using assms(3) by (simp add: ret_ok_iff)
next
  case (Cons x xs)
  then obtain b1 s1 where f: "f b x s = (Inr b1, s1)" and rest: "foldM f b1 xs s1 = (Inr b', s')"
    by (auto simp: bindM_ok_iff)
  have x: "R s s1 \<and> Q x s1" using f Cons.prems(2) by (meson list.set_intros(1))
  have "R s1 s' \<and> (\<forall>y \<in> set xs. Q y s')"
    using Cons.IH [OF rest] Cons.prems(2) by (meson list.set_intros(2))
  with x assms(2,4) show ?case by auto
qed

definition recorded :: "i64 \<Rightarrow> i64 \<Rightarrow> string \<Rightarrow> db \<Rightarrow> bool" where
  "recorded a i p d \<longleftrightarrow> (\<exists>r \<in> set (payrefs d). ph_account r = a \<and> ph_tx r = i \<and> ph_payref r = p)"

lemma recorded_grows: "history_grows d d' \<Longrightarrow> recorded a i p d \<Longrightarrow> recorded a i p d'"
  using history_grows_fields(10) by (fastforce simp: recorded_def)

lemma save_completed_records:
  assumes run: "save_completed_transaction_payrefs_before_reorg X a h d = (Inr n, d')"
    and ids: "\<forall>r \<in> set (completeds d). is_i64 (c_id r)"
  shows "history_grows d d' \<and> (\<forall>r \<in> set (completeds d). \<forall>p. mined_from a h r \<longrightarrow>
           c_sent_payref r = Some p \<longrightarrow> recorded a (c_id r) p d')"
proof -
  let ?rows = "completed_with_payref a h d"
  have in_range: "is_i64 i" if "(i, p, hash) \<in> set ?rows" for i p hash
    using that ids by (auto simp: completed_with_payref_def map_filter_def split: if_splits)
  have *: "history_grows d d' \<and> (\<forall>x \<in> set ?rows. recorded a (fst x) (fst (snd x)) d')"
  proof (rule foldM_collect)
    show "foldM (save_completed_row X a) 0 ?rows d = (Inr n, d')"
      using run by (simp add: save_completed_transaction_payrefs_before_reorg_def bindM_ok_iff gets_ok_iff)
    show "history_grows s s' \<and> recorded a (fst x) (fst (snd x)) s'"
      if "x \<in> set ?rows" "save_completed_row X a b x s = (Inr b', s')" for b x s b' s'
    proof -
      obtain i p hash where x: "x = (i, p, hash)" by (cases x)
      with that have "recorded a i p s'"
        using in_range [of i p hash] by (auto simp: save_completed_row_def ok_simps
            save_payref_history_ok_iff recorded_def i64_of_u64_of_i64)
      with x that(2) show ?thesis by (simp add: save_completed_row_grows)
    qed
  qed (auto intro: recorded_grows history_grows_trans)
  moreover have "(c_id r, p, c_sent_hash r) \<in> set ?rows"
    if "r \<in> set (completeds d)" "mined_from a h r" "c_sent_payref r = Some p" for r p
    using that by (force simp: completed_with_payref_def map_filter_def)
  ultimately show ?thesis by force
qed

end
