(* ===== verification/Reorg.thy ===== *)
theory Reorg
  imports Block_Effects Payref_History
begin

text \<open>
  Reorganisations, \<open>scan/reorg.rs\<close>: finding the fork point by comparing the recorded tips
  with the chain, newest first, and rolling an account back from a height. The chain is a
  function from heights to the hash of the header, or a failed request.
\<close>

section \<open>Results\<close>

record reorg_information =
  ri_height :: u64
  ri_blocks :: u64
  ri_outputs :: "bytes list"
  ri_cancelled :: "string list"
  ri_displayed :: "displayed_transaction list"

record reorg_result =
  rr_resume :: u64
  rr_information :: "reorg_information option"

datatype reorg_error = ReorgDb wallet_error | HeaderFailed string | BadHash

type_synonym 'a reorgm = "(db, reorg_error, 'a) run"

type_synonym chain = "u64 \<Rightarrow> string + bytes option"
  \<comment> \<open>\<open>get_header_by_height\<close>: a failed request, no header, or its hash\<close>

section \<open>Rollback\<close>

definition log_event ::
  "externals \<Rightarrow> i64 \<Rightarrow> generated \<Rightarrow> wallet_event_type \<times> string \<Rightarrow> generated reorgm" where
  "log_event X account_id generated ev =
     (let event = \<lparr>we_id = 0, we_account = account_id, we_type = fst ev, we_description = snd ev\<rparr>
      in bindM (map_error ReorgDb (insert_wallet_event X account_id event)) (\<lambda>event_id.
           ret (generated @ [(event_id, event)])))"

definition block_rolled_back :: "scanned_tip_block \<Rightarrow> wallet_event_type \<times> string" where
  "block_rolled_back b = (BlockRolledBack (stb_height b) (stb_hash b),
     ''Block at height '' @ show_nat (stb_height b) @ '' was rolled back due to reorg'')"

definition output_rolled_back :: "(bytes \<Rightarrow> string) \<Rightarrow> u64 \<Rightarrow> output_row \<Rightarrow> wallet_event_type \<times> string" where
  \<comment> \<open>\<open>debug_hex\<close> is the \<open>{:x?}\<close> format of the hash in the description\<close>
  "output_rolled_back debug_hex height r =
     (OutputRolledBack (o_hash r) (u64_of_i64 (o_height r)) height,
      ''Output '' @ debug_hex (o_hash r) @ '' at height '' @ show_int (o_height r) @
      '' was rolled back due to reorg'')"

definition pending_cancelled :: "string \<Rightarrow> wallet_event_type \<times> string" where
  "pending_cancelled i = (PendingTransactionCancelled i ''Transaction cancelled due to blockchain reorg'',
     ''Pending transaction '' @ i @ '' cancelled due to reorg'')"

definition affected_requests :: "output_row list \<Rightarrow> string list" where
  \<comment> \<open>the hash set of lock requests of the affected outputs, in some order\<close>
  "affected_requests rows = remdups (List.map_filter o_locked_by rows)"

definition roll_back_outputs ::
  "externals \<Rightarrow> (bytes \<Rightarrow> string) \<Rightarrow> i64 \<Rightarrow> u64 \<Rightarrow> generated \<Rightarrow> output_row \<Rightarrow> generated reorgm" where
  \<comment> \<open>the loop body over the affected outputs: a hash of the wrong length is an error\<close>
  "roll_back_outputs X debug_hex account_id height generated r =
     (case fixed_hash_of (o_hash r) of
        None \<Rightarrow> throw BadHash
      | Some _ \<Rightarrow> log_event X account_id generated (output_rolled_back debug_hex height r))"

record rollback_log =
  rl_blocks :: u64
  rl_affected :: "output_row list"
  rl_cancelled :: "string list"
  rl_generated :: generated

definition rollback_events ::
  "externals \<Rightarrow> (bytes \<Rightarrow> string) \<Rightarrow> i64 \<Rightarrow> u64 \<Rightarrow> rollback_log reorgm" where
  \<comment> \<open>steps 1 to 3: log the blocks, the affected outputs and the cancelled transactions\<close>
  "rollback_events X debug_hex account_id height =
     bindM (map_error ReorgDb (get_scanned_tip_blocks_by_account account_id)) (\<lambda>blocks.
     let rolled_back = filter (\<lambda>b. stb_height b \<ge> height) blocks in
     bindM (foldM (\<lambda>g b. log_event X account_id g (block_rolled_back b)) [] rolled_back) (\<lambda>generated1.
     bindM (map_error ReorgDb (get_active_outputs_from_height account_id height)) (\<lambda>affected.
     bindM (foldM (roll_back_outputs X debug_hex account_id height) generated1 affected) (\<lambda>generated2.
     let cancelled = affected_requests affected in
     seqM (map_error ReorgDb (cancel_pending_transactions_by_ids cancelled Cancelled))
     (bindM (foldM (\<lambda>g i. log_event X account_id g (pending_cancelled i)) generated2 cancelled) (\<lambda>generated.
       ret \<lparr>rl_blocks = length rolled_back, rl_affected = affected, rl_cancelled = cancelled,
             rl_generated = generated\<rparr>))))))"

definition rollback_rows :: "externals \<Rightarrow> i64 \<Rightarrow> u64 \<Rightarrow> displayed_transaction list dbm" where
  \<comment> \<open>step 4 up to the reset of the completed transactions\<close>
  "rollback_rows X account_id height =
     seqM (soft_delete_inputs_from_height X account_id height)
     (seqM (soft_delete_outputs_from_height X account_id height)
     (seqM (delete_scanned_tip_blocks_from_height account_id height)
     (bindM (save_displayed_transaction_payrefs_before_reorg X account_id height) (\<lambda>_.
     bindM (mark_displayed_transactions_reorganized_and_return X account_id height) (\<lambda>displayed.
     bindM (save_completed_transaction_payrefs_before_reorg X account_id height) (\<lambda>_.
     bindM (reset_mined_completed_transactions_from_height X account_id height) (\<lambda>_.
       ret displayed)))))))"

definition rollback_from_height ::
  "externals \<Rightarrow> (bytes \<Rightarrow> string) \<Rightarrow> i64 \<Rightarrow> u64 \<Rightarrow> webhook_config option \<Rightarrow> reorg_information reorgm" where
  "rollback_from_height X debug_hex account_id height config =
     bindM (rollback_events X debug_hex account_id height) (\<lambda>log.
     bindM (map_error ReorgDb (rollback_rows X account_id height)) (\<lambda>displayed.
     seqM (map_error ReorgDb (trigger_all X account_id config (rl_generated log)))
     (ret \<lparr>ri_height = height, ri_blocks = rl_blocks log,
           ri_outputs = map o_hash (rl_affected log), ri_cancelled = rl_cancelled log,
           ri_displayed = displayed\<rparr>)))"

section \<open>The fork point\<close>

fun find_fork :: "chain \<Rightarrow> scanned_tip_block list \<Rightarrow> bool \<Rightarrow> string + u64 \<times> bool" where
  \<comment> \<open>the loop over the recorded blocks: the height to roll back to, and whether a block differs\<close>
  "find_fork chain [] detected = Inr (0, detected)"
| "find_fork chain (b # bs) detected = (case chain (stb_height b) of
      Inl e \<Rightarrow> Inl e
    | Inr None \<Rightarrow> find_fork chain bs True
    | Inr (Some hash) \<Rightarrow> if hash = stb_hash b then Inr (stb_height b + 1, detected)
                        else find_fork chain bs True)"

definition handle_reorgs ::
  "externals \<Rightarrow> (bytes \<Rightarrow> string) \<Rightarrow> chain \<Rightarrow> i64 \<Rightarrow> webhook_config option \<Rightarrow> reorg_result reorgm" where
  "handle_reorgs X debug_hex chain account_id config =
     bindM (map_error ReorgDb (get_scanned_tip_blocks_by_account account_id)) (\<lambda>last_blocks.
       case last_blocks of
         [] \<Rightarrow> ret \<lparr>rr_resume = 0, rr_information = None\<rparr>
       | newest # _ \<Rightarrow>
           (case find_fork chain last_blocks False of
              Inl e \<Rightarrow> throw (HeaderFailed e)
            | Inr (start, detected) \<Rightarrow>
                if detected
                then bindM (transact (rollback_from_height X debug_hex account_id start config)) (\<lambda>info.
                       ret \<lparr>rr_resume = start, rr_information = Some info\<rparr>)
                else ret \<lparr>rr_resume = stb_height newest + 1, rr_information = None\<rparr>))"

section \<open>The rollback keeps the books\<close>

lemma log_event_quiet: "log_event X a g ev d = (Inr g', d') \<Longrightarrow> quiet d d'"
  by (auto simp: log_event_def ok_simps Let_def dest: insert_wallet_event_quiet)

lemma log_events_quiet:
  assumes "\<And>g x d g' d'. f g x d = (Inr g', d') \<Longrightarrow> quiet d d'"
  shows "foldM f g xs d = (Inr g', d') \<Longrightarrow> quiet d d'"
  by (rule foldM_ok_rel [of quiet]) (auto intro: quiet_trans assms)

lemma roll_back_outputs_quiet: "roll_back_outputs X dh a h g r d = (Inr g', d') \<Longrightarrow> quiet d d'"
  by (auto simp: roll_back_outputs_def split: option.splits dest: log_event_quiet)

lemma log_all_quiet:
  "foldM (\<lambda>g x. log_event X a g (f x)) g0 xs d = (Inr g', d') \<Longrightarrow> quiet d d'"
  by (rule log_events_quiet) (auto dest: log_event_quiet)

lemma roll_back_all_quiet:
  "foldM (roll_back_outputs X dh a h) g0 rows d = (Inr g', d') \<Longrightarrow> quiet d d'"
  by (rule log_events_quiet) (auto dest: roll_back_outputs_quiet)

lemma cancel_pending_quiet: "cancel_pending_transactions_by_ids ids st d = (Inr u, d') \<Longrightarrow> quiet d d'"
  by (rule quiet_other_tables)
    (auto simp: cancel_pending_transactions_by_ids_def ok_simps split: if_splits)

lemma delete_tips_quiet: "delete_scanned_tip_blocks_from_height a h d = (Inr u, d') \<Longrightarrow> quiet d d'"
  by (rule quiet_other_tables) (auto simp: delete_scanned_tip_blocks_from_height_def ok_simps)

lemma reset_mined_quiet:
  "reset_mined_completed_transactions_from_height X a h d = (Inr n, d') \<Longrightarrow> quiet d d'"
  by (simp add: reset_mined_ok_iff quiet_completeds)

lemma get_tips_reads: "get_scanned_tip_blocks_by_account a d = (Inr b, d') \<Longrightarrow> d' = d"
  by (auto simp: get_scanned_tip_blocks_by_account_def ok_simps)

lemma get_active_outputs_ok_iff:
  "get_active_outputs_from_height a h d = (Inr x, d') \<longleftrightarrow>
     d' = d \<and> x = filter (from_height a h) (outputs d)"
  by (auto simp: get_active_outputs_from_height_def ok_simps)

lemma rollback_events_quiet:
  "rollback_events X dh a h d = (Inr log, d') \<Longrightarrow> quiet d d'"
  by (auto simp: rollback_events_def Let_def bindM_ok_iff seqM_ok_iff map_error_ok_iff ret_ok_iff
      get_active_outputs_ok_iff dest!: get_tips_reads cancel_pending_quiet log_all_quiet
      roll_back_all_quiet)
    (meson quiet_trans)

lemma save_completed_grows:
  "save_completed_transaction_payrefs_before_reorg X a h d = (Inr n, d') \<Longrightarrow> history_grows d d'"
  unfolding save_completed_transaction_payrefs_before_reorg_def
  by (auto simp: bindM_ok_iff gets_ok_iff dest: save_completed_row_grows
      intro: history_grows_trans elim!: foldM_ok_rel [of history_grows, rotated 3])

lemma rollback_rows_phases:
  assumes "rollback_rows X a h d = (Inr displayed, d')"
  shows "\<exists>d1 d2 d3 d4 d5 d6 n1 n2 n3.
    soft_delete_inputs_from_height X a h d = (Inr (), d1) \<and>
    soft_delete_outputs_from_height X a h d1 = (Inr (), d2) \<and>
    delete_scanned_tip_blocks_from_height a h d2 = (Inr (), d3) \<and>
    save_displayed_transaction_payrefs_before_reorg X a h d3 = (Inr n1, d4) \<and>
    mark_displayed_transactions_reorganized_and_return X a h d4 = (Inr displayed, d5) \<and>
    save_completed_transaction_payrefs_before_reorg X a h d5 = (Inr n2, d6) \<and>
    reset_mined_completed_transactions_from_height X a h d6 = (Inr n3, d')"
  using assms by (simp add: rollback_rows_def bindM_ok_iff seqM_ok_iff ret_ok_iff) blast

lemma soft_delete_steady:
  "soft_delete_inputs_from_height X a h d = (Inr u, d') \<Longrightarrow> steady d d'"
  "soft_delete_outputs_from_height X a h d = (Inr u, d') \<Longrightarrow> steady d d'"
  using soft_delete_inputs_effect soft_delete_outputs_effect by (auto simp: steady_def drift_def)

lemma rollback_rows_steady: "rollback_rows X a h d = (Inr displayed, d') \<Longrightarrow> steady d d'"
  by (auto dest!: rollback_rows_phases soft_delete_steady delete_tips_quiet save_displayed_grows
      mark_reorganized_quiet save_completed_grows reset_mined_quiet history_grows_quiet
      quiet_steady)
    (meson steady_trans)

lemma rollback_steady:
  "rollback_from_height X dh a h cfg d = (Inr info, d') \<Longrightarrow> steady d d'"
  by (auto simp: rollback_from_height_def bindM_ok_iff seqM_ok_iff map_error_ok_iff ret_ok_iff
      dest!: rollback_events_quiet rollback_rows_steady trigger_all_quiet quiet_steady
      intro: steady_trans)

end
