(* ===== verification/Locking.thy ===== *)
theory Locking
  imports Holdings Pending_Txs Tip_Blocks Accounts Samples
begin

text \<open>
  Fund locking: the input selector (\<open>transactions/input_selector.rs\<close>), the fund locker
  (\<open>transactions/fund_locker.rs\<close>), the fee estimator (\<open>transactions/fee_estimator.rs\<close>) and
  the task that releases expired locks (\<open>tasks/unlocker.rs\<close>). The fee calculation and the
  branch-and-bound search belong to another crate and are fields of \<open>fee_tools\<close>. The
  locale \<open>output_locks\<close> is the contract between the lock columns of the outputs table and
  the code that takes and releases locks.
\<close>

section \<open>Input selection\<close>

datatype selection_error =
    SelSerialization string
  | InsufficientFunds u64 u64
  | FundsPending u64 u64 u64
  | SelDb wallet_error
  | SelService string

record bnb_selection =
  bs_utxos :: "db_wallet_output list"
  bs_value :: u64
  bs_has_change :: bool
  bs_final_fee :: u64

record fee_tools =
  ft_calculate :: "u64 \<Rightarrow> nat \<Rightarrow> nat \<Rightarrow> nat \<Rightarrow> nat \<Rightarrow> u64"
    \<comment> \<open>\<open>Fee::calculate(fee_per_gram, kernels, inputs, outputs, features_and_scripts_size)\<close>\<close>
  ft_default_size :: "string + nat"
    \<comment> \<open>\<open>get_default_features_and_scripts_size\<close>\<close>
  ft_search :: "db_wallet_output list \<Rightarrow> u64 \<Rightarrow> u64 \<Rightarrow> u64 \<Rightarrow> u64 \<Rightarrow> string + bnb_selection option"
    \<comment> \<open>candidates, target, fee per input, output fee and change fee of the search\<close>

record utxo_selection =
  us_utxos :: "db_wallet_output list"
  us_requires_change :: bool
  us_total_value :: u64
  us_fee_without_change :: u64
  us_fee_with_change :: u64

definition selection_fee :: "utxo_selection \<Rightarrow> u64" where
  "selection_fee s = (if us_requires_change s then us_fee_with_change s else us_fee_without_change s)"

definition selection_min_height :: "u64 \<Rightarrow> scanned_tip_block option \<Rightarrow> u64" where
  "selection_min_height confirmation_window tip =
     u64_saturating_sub (case tip of None \<Rightarrow> 0 | Some b \<Rightarrow> stb_height b) confirmation_window"

definition search_outputs ::
  "fee_tools \<Rightarrow> u64 \<Rightarrow> u64 \<Rightarrow> nat \<Rightarrow> u64 \<Rightarrow> nat \<Rightarrow> db_wallet_output list \<Rightarrow>
     selection_error + utxo_selection" where
  \<comment> \<open>from the fees to the result; \<open>unspent\<close> is the unspent balance for the error\<close>
  "search_outputs T unspent amount num_outputs fee_per_gram estimated_size uo =
     (let kernel_fee = ft_calculate T fee_per_gram 1 0 0 0;
          default_output_fee = ft_calculate T fee_per_gram 0 0 1 estimated_size;
          output_fee = ft_calculate T fee_per_gram 0 0 num_outputs estimated_size;
          input_fee = ft_calculate T fee_per_gram 0 1 0 0
      in case ft_search T uo (amount + kernel_fee) input_fee output_fee default_output_fee of
           Inl e \<Rightarrow> Inl (SelService e)
         | Inr None \<Rightarrow> Inl (InsufficientFunds unspent (amount + 1))
         | Inr (Some selection) \<Rightarrow>
             (let final_fee = bs_final_fee selection + kernel_fee
              in Inr \<lparr>us_utxos = bs_utxos selection,
                   us_requires_change = bs_has_change selection,
                   us_total_value = bs_value selection,
                   us_fee_without_change =
                     (if bs_has_change selection then u64_saturating_sub final_fee default_output_fee
                      else final_fee),
                   us_fee_with_change =
                     (if bs_has_change selection then final_fee
                      else final_fee + default_output_fee)\<rparr>))"

definition select_outputs ::
  "fee_tools \<Rightarrow> i64 \<Rightarrow> u64 \<Rightarrow> u64 \<Rightarrow> nat \<Rightarrow> u64 \<Rightarrow> nat option \<Rightarrow>
     (db, selection_error, utxo_selection) run" where
  \<comment> \<open>\<open>InputSelector::fetch_unspent_outputs\<close>\<close>
  "select_outputs T account_id confirmation_window amount num_outputs fee_per_gram estimated_size =
     bindM (map_error SelDb (get_latest_scanned_tip_block_by_account account_id)) (\<lambda>tip.
     bindM (map_error SelDb (get_output_totals_for_account account_id)) (\<lambda>(locked_amount, _, _).
     bindM (map_error SelDb (get_total_unspent_balance account_id)) (\<lambda>available_balance.
     if available_balance \<le> amount \<and> available_balance + locked_amount \<ge> amount
     then throw (FundsPending available_balance locked_amount amount)
     else bindM (map_error SelDb (fetch_unspent_outputs account_id
                   (selection_min_height confirmation_window tip))) (\<lambda>uo.
       case (case estimated_size of Some sz \<Rightarrow> Inr sz | None \<Rightarrow> ft_default_size T) of
         Inl e \<Rightarrow> throw (SelSerialization e)
       | Inr sz \<Rightarrow>
           lift_result (search_outputs T available_balance amount num_outputs fee_per_gram sz uo)))))"

section \<open>Locking and releasing\<close>

datatype lock_error = LockDb wallet_error | LockSelection selection_error | LockPanic

record lock_request =
  lr_account :: i64
  lr_amount :: u64
  lr_outputs :: nat
  lr_fee_per_gram :: u64
  lr_size :: "nat option"
  lr_key :: "string option"
  lr_seconds :: u64
  lr_window :: u64

definition lock_result_of :: "utxo_selection \<Rightarrow> lock_funds_result" where
  "lock_result_of s = \<lparr>lf_utxos = map dw_output (us_utxos s),
     lf_requires_change = us_requires_change s, lf_total_value = us_total_value s,
     lf_fee_without_change = us_fee_without_change s, lf_fee_with_change = us_fee_with_change s\<rparr>"

text \<open>
  \<open>lock\<close> reads and selects on the connection first and opens its transaction afterwards;
  the two phases are separate definitions because another request can run in between.
\<close>

definition lock_prepare ::
  "fee_tools \<Rightarrow> lock_request \<Rightarrow> (db, lock_error, lock_funds_result + utxo_selection) run" where
  \<comment> \<open>the existing lock of the idempotency key, or a selection\<close>
  "lock_prepare T q =
     bindM (case lr_key q of None \<Rightarrow> ret None
            | Some key \<Rightarrow> map_error LockDb
                (find_pending_transaction_locked_funds_by_idempotency_key key (lr_account q)))
       (\<lambda>existing. case existing of
          Some response \<Rightarrow> ret (Inl response)
        | None \<Rightarrow> bindM (map_error LockSelection (select_outputs T (lr_account q) (lr_window q)
             (lr_amount q) (lr_outputs q) (lr_fee_per_gram q) (lr_size q))) (\<lambda>s. ret (Inr s)))"

definition lock_commit ::
  "externals \<Rightarrow> string \<Rightarrow> string \<Rightarrow> lock_request \<Rightarrow> utxo_selection \<Rightarrow>
     (db, lock_error, lock_funds_result) run" where
  \<comment> \<open>\<open>fresh_key\<close> and \<open>fresh_id\<close> are the two draws of \<open>Uuid::new_v4\<close>\<close>
  "lock_commit X fresh_key fresh_id q s = transact
     (case x_from_timestamp X (x_now X + i64_of_u64 (lr_seconds q)) of
        None \<Rightarrow> throw LockPanic
      | Some expires_at \<Rightarrow>
          bindM (map_error LockDb (create_pending_transaction X fresh_id (opt_or fresh_key (lr_key q))
             (lr_account q) (us_requires_change s) (us_total_value s) (us_fee_without_change s)
             (us_fee_with_change s) expires_at)) (\<lambda>pending_tx_id.
          seqM (map_error LockDb (forM (us_utxos s)
             (\<lambda>utxo. lock_output (dw_id utxo) pending_tx_id expires_at)))
          (ret (lock_result_of s))))"

definition lock_funds ::
  "externals \<Rightarrow> fee_tools \<Rightarrow> string \<Rightarrow> string \<Rightarrow> lock_request \<Rightarrow>
     (db, lock_error, lock_funds_result) run" where
  \<comment> \<open>\<open>FundLocker::lock\<close>\<close>
  "lock_funds X T fresh_key fresh_id q =
     bindM (lock_prepare T q) (\<lambda>r. case r of
         Inl response \<Rightarrow> ret response
       | Inr s \<Rightarrow> lock_commit X fresh_key fresh_id q s)"

definition expire_one :: "string \<Rightarrow> unit dbm" where
  "expire_one i = transact (seqM (update_pending_transaction_status i Expired)
     (unlock_outputs_for_request i))"

definition unlock_expired_transactions :: "externals \<Rightarrow> unit dbm" where
  "unlock_expired_transactions X =
     bindM (find_expired_pending_transactions X) (\<lambda>expired. forM expired expire_one)"

section \<open>Fee estimates\<close>

datatype fee_priority = Slow | Medium | Fast

record fee_stats =
  fs_avg :: u64
  fs_min :: u64

definition fee_rates :: "fee_stats list option \<Rightarrow> u64 \<times> u64 \<times> u64" where
  \<comment> \<open>fast, medium and slow rate from the mempool statistics of the next blocks\<close>
  "fee_rates stats = (case stats of
      None \<Rightarrow> (10, 5, 1)
    | Some [] \<Rightarrow> (10, 5, 1)
    | Some (s # rest) \<Rightarrow>
        (fs_avg s, (case rest of [] \<Rightarrow> fs_avg s | s2 # _ \<Rightarrow> fs_avg s2), fs_min (last (s # rest))))"

record fee_estimate =
  fe_priority :: fee_priority
  fe_fee_per_gram :: u64
  fe_estimated_fee :: u64
  fe_total_required :: u64
  fe_input_count :: nat

definition calculate_single_estimate ::
  "fee_tools \<Rightarrow> u64 \<Rightarrow> nat \<Rightarrow> nat \<Rightarrow> nat \<Rightarrow> fee_priority \<times> u64 \<Rightarrow> fee_estimate" where
  "calculate_single_estimate T amount input_count output_count output_size pr =
     (let fee = ft_calculate T (snd pr) 1 input_count output_count (output_size * output_count)
      in \<lparr>fe_priority = fst pr, fe_fee_per_gram = snd pr, fe_estimated_fee = fee,
          fe_total_required = amount + fee, fe_input_count = input_count\<rparr>)"

datatype estimate_error = AccountMissing string | EstimateDb wallet_error |
  EstimateSelection selection_error | EstimateSize string

definition estimate_fees ::
  "fee_tools \<Rightarrow> fee_stats list option \<Rightarrow> string \<Rightarrow> u64 \<Rightarrow> nat \<Rightarrow> u64 \<Rightarrow> nat option \<Rightarrow>
     (db, estimate_error, fee_estimate list) run" where
  \<comment> \<open>\<open>stats\<close> is the answer of the node, \<open>None\<close> when the request failed\<close>
  "estimate_fees T stats account_name amount num_outputs window estimated_size =
     bindM (map_error EstimateDb (get_account_by_name account_name)) (\<lambda>found. case found of
       None \<Rightarrow> throw (AccountMissing account_name)
     | Some account \<Rightarrow> (case fee_rates stats of (fast, medium, slow) \<Rightarrow>
         bindM (map_error EstimateSelection
           (select_outputs T (a_id account) window amount num_outputs fast estimated_size)) (\<lambda>selection.
         let input_count = length (us_utxos selection);
             total_outputs = (if us_requires_change selection then num_outputs + 1 else num_outputs)
         in case (case estimated_size of Some sz \<Rightarrow> Inr sz | None \<Rightarrow> ft_default_size T) of
              Inl e \<Rightarrow> throw (EstimateSize e)
            | Inr output_size \<Rightarrow> ret (map
                (calculate_single_estimate T amount input_count total_outputs output_size)
                [(Slow, slow), (Medium, medium), (Fast, fast)]))))"

section \<open>The lock columns as a lock table\<close>

locale lock_table =
  fixes holder :: "'d \<Rightarrow> 'o \<Rightarrow> 'r option" and free :: "'d \<Rightarrow> 'o \<Rightarrow> bool"
    and take_lock :: "'o \<Rightarrow> 'r \<Rightarrow> 'd \<Rightarrow> 'd" and release :: "'r \<Rightarrow> 'd \<Rightarrow> 'd"
  assumes free_not_held: "free d x \<Longrightarrow> holder d x = None"
    and holder_take: "holder (take_lock x r d) y = (if y = x \<and> free d x then Some r else holder d y)"
    and free_take: "free (take_lock x r d) y \<longleftrightarrow> free d y \<and> y \<noteq> x"
    and holder_release: "holder (release r d) y = (if holder d y = Some r then None else holder d y)"
    and free_release: "free (release r d) y \<longleftrightarrow> free d y \<or> holder d y = Some r"
begin

definition take_all :: "'o list \<Rightarrow> 'r \<Rightarrow> 'd \<Rightarrow> 'd" where
  "take_all xs r d = foldl (\<lambda>d x. take_lock x r d) d xs"

lemma take_all_Nil [simp]: "take_all [] r d = d"
  by (simp add: take_all_def)

lemma take_all_Cons [simp]: "take_all (x # xs) r d = take_all xs r (take_lock x r d)"
  by (simp add: take_all_def)

lemma free_take_all: "free (take_all xs r d) y \<longleftrightarrow> free d y \<and> y \<notin> set xs"
  by (induction xs arbitrary: d) (auto simp: free_take)

lemma holder_take_all:
  "holder (take_all xs r d) y = (if y \<in> set xs \<and> free d y then Some r else holder d y)"
  by (induction xs arbitrary: d) (auto simp: holder_take free_take)

definition release_all :: "'r list \<Rightarrow> 'd \<Rightarrow> 'd" where
  "release_all rs d = foldl (\<lambda>d r. release r d) d rs"

lemma holder_release_all:
  "holder (release_all rs d) y =
     (case holder d y of None \<Rightarrow> None | Some r \<Rightarrow> if r \<in> set rs then None else Some r)"
  unfolding release_all_def
  by (induction rs arbitrary: d) (auto simp: holder_release split: option.splits)

lemma second_taker_gets_nothing:
  "y \<in> set xs \<Longrightarrow> free d y \<Longrightarrow> holder (take_all ys r' (take_all xs r d)) y = Some r"
  by (simp add: holder_take_all free_take_all)

lemma release_take_all:
  assumes "\<And>x. holder d x \<noteq> Some r"
  shows "holder (release r (take_all xs r d)) y = holder d y"
    and "free (release r (take_all xs r d)) y \<longleftrightarrow> free d y"
  using assms free_not_held
  by (auto simp: holder_release free_release holder_take_all free_take_all)

end

text \<open>The model's rows: an output is held while its status is LOCKED, free while UNSPENT.\<close>

definition output_holder :: "output_row list \<Rightarrow> i64 \<Rightarrow> string option" where
  "output_holder rows i = (case first_row (\<lambda>r. o_id r = i) rows of
      None \<Rightarrow> None
    | Some r \<Rightarrow> if o_status r = output_status_text Locked then o_locked_by r else None)"

definition output_free :: "output_row list \<Rightarrow> i64 \<Rightarrow> bool" where
  "output_free rows i = (case first_row (\<lambda>r. o_id r = i) rows of
      None \<Rightarrow> False | Some r \<Rightarrow> o_status r = output_status_text Unspent)"

definition lock_rows :: "i64 \<Rightarrow> i64 \<Rightarrow> string \<Rightarrow> output_row list \<Rightarrow> output_row list" where
  "lock_rows at i req rows =
     update_where (\<lambda>r. o_id r = i \<and> o_status r = output_status_text Unspent)
       (\<lambda>r. r\<lparr>o_status := output_status_text Locked, o_locked_by := Some req,
             o_locked_at := Some at\<rparr>) rows"

definition release_rows :: "string \<Rightarrow> output_row list \<Rightarrow> output_row list" where
  "release_rows req rows =
     update_where (\<lambda>r. o_locked_by r = Some req \<and> o_status r = output_status_text Locked)
       (\<lambda>r. r\<lparr>o_status := output_status_text Unspent, o_locked_at := None,
             o_locked_by := None\<rparr>) rows"

lemma lock_output_rows:
  "lock_output i req at d = (Inr (), d\<lparr>outputs := lock_rows at i req (outputs d)\<rparr>)"
  by (simp add: lock_output_def modify_def lock_rows_def)

lemma unlock_outputs_rows:
  "unlock_outputs_for_request req d = (Inr (), d\<lparr>outputs := release_rows req (outputs d)\<rparr>)"
  by (simp add: unlock_outputs_for_request_def modify_def release_rows_def)

lemma first_row_Nil [simp]: "first_row P [] = None"
  by (simp add: first_row_def)

lemma first_row_Cons [simp]: "first_row P (r # rs) = (if P r then Some r else first_row P rs)"
  by (simp add: first_row_def)

lemma first_row_update_where:
  assumes "\<And>r. P (f r) = P r"
  shows "first_row P (update_where Q f rows) =
     map_option (\<lambda>r. if Q r then f r else r) (first_row P rows)"
  by (induction rows) (simp_all add: assms)

interpretation output_locks: lock_table output_holder output_free "lock_rows at" release_rows for at
proof
  fix rows :: "output_row list" and i j :: i64 and req :: string
  show "output_free rows i \<Longrightarrow> output_holder rows i = None"
    by (simp add: output_free_def output_holder_def split: option.splits)
  show "output_holder (lock_rows at i req rows) j =
      (if j = i \<and> output_free rows i then Some req else output_holder rows j)"
    by (cases "first_row (\<lambda>r. o_id r = j) rows"; cases "j = i")
      (auto simp: output_free_def output_holder_def lock_rows_def first_row_update_where
        dest!: first_row_Some)
  show "output_free (lock_rows at i req rows) j \<longleftrightarrow> output_free rows j \<and> j \<noteq> i"
    by (cases "first_row (\<lambda>r. o_id r = j) rows"; cases "j = i")
      (auto simp: output_free_def lock_rows_def first_row_update_where dest!: first_row_Some)
  show "output_holder (release_rows req rows) j =
      (if output_holder rows j = Some req then None else output_holder rows j)"
    by (auto simp: output_holder_def release_rows_def first_row_update_where split: option.splits)
  show "output_free (release_rows req rows) j \<longleftrightarrow>
      output_free rows j \<or> output_holder rows j = Some req"
    by (auto simp: output_free_def output_holder_def release_rows_def first_row_update_where
        split: option.splits)
qed

lemma lock_all_rows:
  "forM us (\<lambda>u. lock_output (dw_id u) req at) d =
     (Inr (), d\<lparr>outputs := output_locks.take_all at (map dw_id us) req (outputs d)\<rparr>)"
  by (induction us arbitrary: d) (simp_all add: seqM_def bindM_def ret_def lock_output_rows)

section \<open>Lemmas\<close>

text \<open>The search returns outputs it was given: the documented contract of the search.\<close>

definition search_sound :: "fee_tools \<Rightarrow> bool" where
  "search_sound T \<longleftrightarrow> (\<forall>uo target fi fo fc sel.
     ft_search T uo target fi fo fc = Inr (Some sel) \<longrightarrow> set (bs_utxos sel) \<subseteq> set uo)"

lemma fetch_unspent_spendable:
  assumes "fetch_unspent_outputs a h d = (Inr uo, d')" "u \<in> set uo"
  shows "\<exists>r \<in> set (outputs d). spendable a (i64_of_u64 h) r \<and> o_id r = dw_id u"
proof -
  let ?rows = "sort_desc o_value (filter (spendable a (i64_of_u64 h)) (outputs d))"
  from assms obtain r where "r \<in> set ?rows" "wallet_output_of_row r = Inr u"
    by (auto simp: fetch_unspent_outputs_def query_ok_iff dest: mapM_source)
  then show ?thesis
    by (auto simp: wallet_output_of_row_def split: option.splits)
qed

lemma first_row_of_id:
  "distinct (map o_id rows) \<Longrightarrow> r \<in> set rows \<Longrightarrow> first_row (\<lambda>x. o_id x = o_id r) rows = Some r"
  by (induction rows) (auto simp: image_iff)

lemma search_outputs_subset:
  "search_sound T \<Longrightarrow> search_outputs T b a n f z uo = Inr s \<Longrightarrow> set (us_utxos s) \<subseteq> set uo"
  unfolding search_outputs_def search_sound_def Let_def
  by (fastforce split: sum.splits option.splits)

lemma select_outputs_ok:
  assumes "select_outputs T a w amount n f z d = (Inr s, d')"
  shows "d' = d \<and> (\<exists>h uo b sz. fetch_unspent_outputs a h d = (Inr uo, d) \<and>
           search_outputs T b amount n f sz uo = Inr s)"
  using assms
  by (cases z; cases "ft_default_size T")
    (auto simp: select_outputs_def ok_simps get_latest_scanned_tip_block_by_account_def
      get_output_totals_for_account_def get_total_unspent_balance_def fetch_unspent_outputs_def
      split: prod.splits if_splits)

lemma select_outputs_free:
  assumes "select_outputs T a w amount n f z d = (Inr s, d')" "search_sound T" "outputs_ok d"
    and "u \<in> set (us_utxos s)"
  shows "output_free (outputs d) (dw_id u)"
proof -
  from select_outputs_ok [OF assms(1)] obtain h uo b sz
    where f: "fetch_unspent_outputs a h d = (Inr uo, d)" and s: "search_outputs T b amount n f sz uo = Inr s"
    by blast
  with assms(2,4) have "u \<in> set uo" using search_outputs_subset by blast
  with fetch_unspent_spendable [OF f] obtain r where r: "r \<in> set (outputs d)"
    "spendable a (i64_of_u64 h) r" "o_id r = dw_id u" by blast
  with assms(3) first_row_of_id [of "outputs d" r] show ?thesis
    by (simp add: output_free_def outputs_ok_def spendable_def)
qed

lemma lock_prepare_selected:
  assumes "lock_prepare T q d = (Inr (Inr s), d')"
  shows "d' = d \<and> select_outputs T (lr_account q) (lr_window q) (lr_amount q) (lr_outputs q)
           (lr_fee_per_gram q) (lr_size q) d = (Inr s, d)"
proof -
  have *: "d1 = d" if "find_pending_transaction_locked_funds_by_idempotency_key k a d = (Inr r, d1)" for k a r d1
    using that by (auto simp: find_pending_transaction_locked_funds_by_idempotency_key_def ok_simps
        fetch_outputs_by_lock_request_id_def split: option.splits)
  from assms obtain d1 where "d1 = d" and sel: "select_outputs T (lr_account q) (lr_window q)
      (lr_amount q) (lr_outputs q) (lr_fee_per_gram q) (lr_size q) d1 = (Inr s, d')"
    by (auto simp: lock_prepare_def ok_simps split: option.splits dest: *)
  with select_outputs_ok [OF sel] show ?thesis by simp
qed

lemma create_pending_ok_iff:
  "create_pending_transaction X i key a c v fn fw e d = (Inr j, d') \<longleftrightarrow>
     j = i \<and> account_exists d a \<and> (\<forall>r \<in> set (pendings d). p_id r \<noteq> i) \<and>
     (\<forall>r \<in> set (pendings d). p_account r = a \<longrightarrow> p_key r \<noteq> key) \<and>
     d' = d\<lparr>pendings := pendings d @ [\<lparr>p_id = i, p_account = a, p_key = key,
       p_status = pending_status_text Pending, p_requires_change = c,
       p_total_value = i64_of_u64 v, p_fee_without_change = i64_of_u64 fn,
       p_fee_with_change = i64_of_u64 fw, p_expires_at = e, p_created = x_now X\<rparr>]\<rparr>"
  by (auto simp: create_pending_transaction_def statement_ok_iff split: if_splits)

lemma lock_commit_ok:
  assumes "lock_commit X k i q s d = (Inr r, d')"
  shows "r = lock_result_of s \<and> (\<exists>at d1. x_from_timestamp X (x_now X + i64_of_u64 (lr_seconds q)) = Some at \<and>
      create_pending_transaction X i (opt_or k (lr_key q)) (lr_account q) (us_requires_change s)
        (us_total_value s) (us_fee_without_change s) (us_fee_with_change s) at d = (Inr i, d1) \<and>
      d' = d1\<lparr>outputs := output_locks.take_all at (map dw_id (us_utxos s)) i (outputs d1)\<rparr>)"
  using assms
  by (auto simp: lock_commit_def ok_simps lock_all_rows create_pending_ok_iff split: option.splits)

lemma quiet_pendings: "quiet d (d\<lparr>pendings := rows\<rparr>)"
  by (rule quiet_other_tables) simp_all

lemma quiet_forM_lock: "forM us (\<lambda>u. lock_output (dw_id u) i at) d = (Inr u, d') \<Longrightarrow> quiet d d'"
  by (rule forM_ok_rel [of quiet]) (auto intro: quiet_trans quiet_output_ops(3))

lemma lock_commit_quiet:
  assumes "lock_commit X k i q s d = (Inr r, d')"
  shows "quiet d d'"
proof -
  from assms obtain at d1 where
    "create_pending_transaction X i (opt_or k (lr_key q)) (lr_account q) (us_requires_change s)
        (us_total_value s) (us_fee_without_change s) (us_fee_with_change s) at d = (Inr i, d1)"
    and l: "forM (us_utxos s) (\<lambda>u. lock_output (dw_id u) i at) d1 = (Inr (), d')"
    by (auto simp: lock_commit_def ok_simps create_pending_ok_iff split: option.splits)
  then have "quiet d d1" by (simp add: create_pending_ok_iff quiet_pendings)
  then show ?thesis using quiet_forM_lock [OF l] by (rule quiet_trans)
qed

section \<open>Expired locks\<close>

definition expire_row :: "pending_row \<Rightarrow> pending_row" where
  "expire_row r = r\<lparr>p_status := pending_status_text Expired\<rparr>"

lemma update_where_compose:
  assumes "\<And>r. f (f r) = f r" "\<And>r. P (f r) = P r"
  shows "update_where P f (update_where Q f rows) = update_where (\<lambda>r. P r \<or> Q r) f rows"
  by (induction rows) (auto simp: assms)

lemma expire_one_run:
  "expire_one i d = (Inr (), d\<lparr>pendings := update_where (\<lambda>r. p_id r = i) expire_row (pendings d),
     outputs := release_rows i (outputs d)\<rparr>)"
  by (simp add: expire_one_def transact_def seqM_def bindM_def update_pending_transaction_status_def
      modify_def unlock_outputs_rows expire_row_def [abs_def])

lemma update_where_False: "update_where (\<lambda>r. False) f rows = rows"
  by (induction rows) simp_all

lemma expire_all_run:
  "forM ids expire_one d =
     (Inr (), d\<lparr>pendings := update_where (\<lambda>r. p_id r \<in> set ids) expire_row (pendings d),
        outputs := output_locks.release_all ids (outputs d)\<rparr>)"
proof (induction ids arbitrary: d)
  case Nil
  then show ?case by (simp add: ret_def update_where_False output_locks.release_all_def)
next
  case (Cons i ids)
  have "update_where (\<lambda>r. p_id r \<in> set ids) expire_row
      (update_where (\<lambda>r. p_id r = i) expire_row (pendings d)) =
    update_where (\<lambda>r. p_id r \<in> set ids \<or> p_id r = i) expire_row (pendings d)"
    by (rule update_where_compose) (simp_all add: expire_row_def)
  then have "update_where (\<lambda>r. p_id r \<in> set ids) expire_row
      (update_where (\<lambda>r. p_id r = i) expire_row (pendings d)) =
    update_where (\<lambda>r. p_id r \<in> set (i # ids)) expire_row (pendings d)"
    by (simp add: disj_commute)
  moreover have "output_locks.release_all ids (release_rows i rows) =
      output_locks.release_all (i # ids) rows" for rows
    by (simp add: output_locks.release_all_def)
  ultimately show ?case
    unfolding forM.simps seqM_Inr [OF expire_one_run] Cons.IH by simp
qed

definition expired_ids :: "externals \<Rightarrow> db \<Rightarrow> string list" where
  "expired_ids X d = map p_id (filter (pending_expired (x_now X)) (pendings d))"

lemma in_expired_ids:
  "req \<in> set (expired_ids X d) \<longleftrightarrow> (\<exists>p \<in> set (pendings d). p_id p = req \<and> pending_expired (x_now X) p)"
  by (auto simp: expired_ids_def)

lemma unlock_expired_run:
  "unlock_expired_transactions X d =
     (Inr (), d\<lparr>pendings := update_where (\<lambda>r. p_id r \<in> set (expired_ids X d)) expire_row (pendings d),
        outputs := output_locks.release_all (expired_ids X d) (outputs d)\<rparr>)"
  by (simp only: unlock_expired_transactions_def bindM_def find_expired_pending_transactions_def gets_def
      expired_ids_def expire_all_run prod.case sum.case)

section \<open>Properties\<close>




text \<open>
  Asking for exactly the unspent balance is answered with \<open>FundsPending\<close>, also when no
  output of the account is locked and nothing is pending.
\<close>

theorem exact_balance_reported_pending:
  assumes "get_output_totals_for_account a d = (Inr (0, u, b), d)"
    and "get_total_unspent_balance a d = (Inr amount, d)"
  shows "select_outputs T a w amount n f z d = (Inl (FundsPending amount 0 amount), d)"
  using assms
  by (simp add: select_outputs_def bindM_def map_error_def throw_def
      get_latest_scanned_tip_block_by_account_def gets_def)

section \<open>Witnesses\<close>

definition first_fit_tools :: fee_tools where
  \<comment> \<open>a flat fee of one per input, output and kernel and a search for one large enough output\<close>
  "first_fit_tools = \<lparr>ft_calculate = (\<lambda>rate kernels ins outs sz. rate * (kernels + ins + outs)),
     ft_default_size = Inr 16,
     ft_search = (\<lambda>uo target fi fo fc. Inr (case List.find (\<lambda>u. target + fi + fo + fc \<le> wo_value (dw_output u)) uo of
        None \<Rightarrow> None
      | Some u \<Rightarrow> Some \<lparr>bs_utxos = [u], bs_value = wo_value (dw_output u), bs_has_change = True,
          bs_final_fee = fi + fo + fc\<rparr>))\<rparr>"

lemma first_fit_sound: "search_sound first_fit_tools"
  by (auto simp: search_sound_def first_fit_tools_def find_Some_iff split: option.splits)

definition sample_request :: "u64 \<Rightarrow> string \<Rightarrow> lock_request" where
  "sample_request amount key = \<lparr>lr_account = 1, lr_amount = amount, lr_outputs = 1,
     lr_fee_per_gram = 1, lr_size = None, lr_key = Some key, lr_seconds = 60, lr_window = 2\<rparr>"

lemma two_outputs_ok: "store_ok two_outputs_db"
  by code_simp

definition expired_lock_db :: db where
  \<comment> \<open>output 1 is locked by the pending transaction \<open>p1\<close>, whose lock ran out at 900\<close>
  "expired_lock_db = two_outputs_db\<lparr>outputs := lock_rows 900 1 ''p1'' (outputs two_outputs_db),
     pendings := [\<lparr>p_id = ''p1'', p_account = 1, p_key = ''k'',
       p_status = pending_status_text Pending, p_requires_change = True, p_total_value = 60,
       p_fee_without_change = 1, p_fee_with_change = 2, p_expires_at = 900, p_created = 0\<rparr>]\<rparr>"


abbreviation first_request :: lock_request where
  "first_request \<equiv> sample_request 40 ''a''"

abbreviation second_request :: lock_request where
  "second_request \<equiv> sample_request 30 ''b''"



theorem exact_balance_reported_pending_witness:
  "select_outputs first_fit_tools 1 2 110 1 1 None two_outputs_db =
     (Inl (FundsPending 110 0 110), two_outputs_db)"
  by (rule exact_balance_reported_pending [where u = 110 and b = 0]) code_simp+

end
