(* ===== verification/Reorg_Effects.thy ===== *)
theory Reorg_Effects
  imports Reorg Locking
begin

text \<open>
  What a reorganisation does, table by table: the rollback removes every row of the account
  from the height on, keeps the rest, records the old payment references, and leaves the
  books as consistent as they were; the fork point is the newest recorded block the chain
  still has.
\<close>

section \<open>The tables after a rollback\<close>

text \<open>\<open>log_frame d d'\<close>: the tables a rollback works on are the same.\<close>

definition log_frame :: "db \<Rightarrow> db \<Rightarrow> bool" where
  "log_frame d d' \<longleftrightarrow> outputs d' = outputs d \<and> inputs d' = inputs d \<and> tips d' = tips d \<and>
     completeds d' = completeds d \<and> displayeds d' = displayeds d \<and> payrefs d' = payrefs d \<and>
     accounts d' = accounts d \<and> pendings d' = pendings d"

lemma log_frame_refl [simp]: "log_frame d d"
  by (simp add: log_frame_def)

lemma log_frame_trans: "log_frame d d1 \<Longrightarrow> log_frame d1 d2 \<Longrightarrow> log_frame d d2"
  by (simp add: log_frame_def)

lemma log_event_frame: "log_event X a g ev d = (Inr g', d') \<Longrightarrow> log_frame d d'"
  by (auto simp: log_event_def ok_simps Let_def insert_wallet_event_ok_iff log_frame_def)

lemma log_all_frame:
  "foldM (\<lambda>g x. log_event X a g (f x)) g0 xs d = (Inr g', d') \<Longrightarrow> log_frame d d'"
  by (rule foldM_ok_rel [of log_frame]) (auto intro: log_frame_trans dest: log_event_frame)

lemma roll_back_all_frame:
  "foldM (roll_back_outputs X dh a h) g0 rows d = (Inr g', d') \<Longrightarrow> log_frame d d'"
  by (rule foldM_ok_rel [of log_frame])
    (auto intro: log_frame_trans dest: log_event_frame simp: roll_back_outputs_def split: option.splits)

lemma trigger_all_frame: "trigger_all X a cfg evs d = (Inr u, d') \<Longrightarrow> log_frame d d'"
proof -
  have one: "log_frame s s'" if "trigger_webhook_with_balance X a i ev c s = (Inr u, s')" for i ev c s u s'
    using that by (auto simp: trigger_webhook_with_balance_def ok_simps Let_def log_frame_def
        enqueue_webhook_def split: if_splits dest!: get_balance_reads)
  assume "trigger_all X a cfg evs d = (Inr u, d')"
  then show ?thesis
    by (cases cfg) (auto simp: trigger_all_def ret_ok_iff elim!: forM_ok_rel [of log_frame, rotated 3]
        intro: log_frame_trans one)
qed

definition cancel_rows :: "string list \<Rightarrow> pending_row list \<Rightarrow> pending_row list" where
  "cancel_rows ids rows = update_where (\<lambda>r. p_id r \<in> set ids)
     (\<lambda>r. r\<lparr>p_status := pending_status_text Cancelled\<rparr>) rows"

lemma cancel_pending_rows:
  "cancel_pending_transactions_by_ids ids Cancelled d = (Inr u, d') \<Longrightarrow>
     d' = d\<lparr>pendings := cancel_rows ids (pendings d)\<rparr>"
  by (auto simp: cancel_pending_transactions_by_ids_def cancel_rows_def ok_simps update_where_id
      split: if_splits)

lemma rollback_events_rows:
  assumes "rollback_events X dh a h d = (Inr log, d')"
  shows "rl_affected log = filter (from_height a h) (outputs d)"
    and "rl_cancelled log = affected_requests (rl_affected log)"
    and "pendings d' = cancel_rows (rl_cancelled log) (pendings d)"
    and "log_frame (d\<lparr>pendings := p\<rparr>) (d'\<lparr>pendings := p\<rparr>)"
proof -
  let ?aff = "filter (from_height a h) (outputs d)"
  from assms obtain bs g1 d1 g2 d2 d3 where
    1: "foldM (\<lambda>g b. log_event X a g (block_rolled_back b)) [] bs d = (Inr g1, d1)"
    and 2: "foldM (roll_back_outputs X dh a h) g1 (filter (from_height a h) (outputs d1)) d1 = (Inr g2, d2)"
    and 3: "cancel_pending_transactions_by_ids (affected_requests (filter (from_height a h) (outputs d1)))
       Cancelled d2 = (Inr (), d3)"
    and 4: "foldM (\<lambda>g i. log_event X a g (pending_cancelled i)) g2
       (affected_requests (filter (from_height a h) (outputs d1))) d3 = (Inr (rl_generated log), d')"
    and aff: "rl_affected log = filter (from_height a h) (outputs d1)"
    and can: "rl_cancelled log = affected_requests (filter (from_height a h) (outputs d1))"
    by (auto simp: rollback_events_def Let_def bindM_ok_iff seqM_ok_iff map_error_ok_iff ret_ok_iff
        get_active_outputs_ok_iff dest!: get_tips_reads)
  note f = log_all_frame [OF 1] roll_back_all_frame [OF 2] log_all_frame [OF 4]
  note c = cancel_pending_rows [OF 3]
  have outs: "outputs d1 = outputs d" using f by (simp add: log_frame_def)
  show "rl_affected log = ?aff" using aff outs by simp
  show "rl_cancelled log = affected_requests (rl_affected log)" using aff can by simp
  show "pendings d' = cancel_rows (rl_cancelled log) (pendings d)"
    using f c by (simp add: log_frame_def can)
  show "log_frame (d\<lparr>pendings := p\<rparr>) (d'\<lparr>pendings := p\<rparr>)"
    using f c by (simp add: log_frame_def)
qed

definition soft_deleted_output :: "externals \<Rightarrow> u64 \<Rightarrow> output_row \<Rightarrow> output_row" where
  "soft_deleted_output X h r = r\<lparr>o_deleted_at := Some (x_now X),
     o_deleted_height := Some (i64_of_u64 h), o_payref := None\<rparr>"

definition soft_deleted_input :: "externals \<Rightarrow> u64 \<Rightarrow> input_row \<Rightarrow> input_row" where
  "soft_deleted_input X h r = r\<lparr>in_deleted_at := Some (x_now X),
     in_deleted_height := Some (i64_of_u64 h)\<rparr>"

lemma reverse_ledger_only:
  "reverse_output X a h r d = (Inr u, d') \<Longrightarrow> ledger_only d d'"
  "reverse_input X a h row d = (Inr u, d') \<Longrightarrow> ledger_only d d'"
  by (auto simp: reverse_output_def reverse_input_def get_balance_change_id_by_output_def
      get_balance_change_id_by_input_def ok_simps split: prod.splits
      dest!: mark_if_found_effect(1) insert_balance_change_ledger_only intro: ledger_only_trans)

lemma soft_delete_inputs_rows:
  assumes "soft_delete_inputs_from_height X a h d = (Inr u, d')"
  shows "\<exists>d1. ledger_only d d1 \<and>
    d' = d1\<lparr>inputs := update_where (in_from_height a h) (soft_deleted_input X h) (inputs d)\<rparr>"
proof -
  from assms obtain w d1 where loop: "forM (inputs_to_delete a h d) (reverse_input X a h) d = (Inr w, d1)"
    and d': "d' = d1\<lparr>inputs := update_where (in_from_height a h) (soft_deleted_input X h) (inputs d1)\<rparr>"
    by (auto simp: soft_delete_inputs_from_height_def ok_simps soft_deleted_input_def [abs_def])
  have "ledger_only d d1" by (rule forM_ledger_only [OF _ loop]) (rule reverse_ledger_only(2))
  with d' show ?thesis using ledger_only_fields(2) by auto
qed

lemma soft_delete_outputs_rows:
  assumes "soft_delete_outputs_from_height X a h d = (Inr u, d')"
  shows "\<exists>d1. ledger_only d d1 \<and>
    d' = d1\<lparr>outputs := update_where (from_height a h) (soft_deleted_output X h) (outputs d)\<rparr>"
proof -
  from assms obtain w d1 where
    loop: "forM (filter (from_height a h) (outputs d)) (reverse_output X a h) d = (Inr w, d1)"
    and d': "d' = d1\<lparr>outputs := update_where (from_height a h) (soft_deleted_output X h) (outputs d1)\<rparr>"
    by (auto simp: soft_delete_outputs_from_height_def ok_simps soft_deleted_output_def [abs_def])
  have "ledger_only d d1" by (rule forM_ledger_only [OF _ loop]) (rule reverse_ledger_only(1))
  with d' show ?thesis using ledger_only_fields(1) by auto
qed

lemma ledger_only_payrefs: "ledger_only d d' \<Longrightarrow> payrefs d' = payrefs d"
  by (auto simp: ledger_only_def)

lemma mark_reorganized_frame:
  "mark_displayed_transactions_reorganized_and_return X a h d = (Inr txs, d') \<Longrightarrow>
     log_frame (d\<lparr>displayeds := r\<rparr>) (d'\<lparr>displayeds := r\<rparr>)"
proof -
  let ?R = "\<lambda>d d'. log_frame (d\<lparr>displayeds := r\<rparr>) (d'\<lparr>displayeds := r\<rparr>)"
  have one: "?R s s'" if "mark_one_reorganized X row s = (Inr x, s')" for row s x s'
    using that by (auto simp: mark_one_reorganized_def ok_simps Let_def update_displayed_ok_iff
        log_frame_def split: option.splits)
  assume "mark_displayed_transactions_reorganized_and_return X a h d = (Inr txs, d')"
  then show ?thesis
    unfolding mark_displayed_transactions_reorganized_and_return_def
    by (auto simp: bindM_ok_iff gets_ok_iff ret_ok_iff dest: one intro: log_frame_trans
        elim!: foldM_ok_rel [of ?R, rotated 3])
qed

lemma rollback_rows_tables:
  assumes run: "rollback_rows X a h d = (Inr displayed, d')"
  shows "outputs d' = update_where (from_height a h) (soft_deleted_output X h) (outputs d)"
    and "inputs d' = update_where (in_from_height a h) (soft_deleted_input X h) (inputs d)"
    and "tips d' = filter (\<lambda>r. \<not> (tip_account r = a \<and> tip_height r \<ge> i64_of_u64 h)) (tips d)"
    and "completeds d' = update_where (mined_from a h) (back_to_completed X) (completeds d)"
    and "pendings d' = pendings d"
    and "\<forall>r \<in> set (completeds d). is_i64 (c_id r) \<Longrightarrow>
           \<forall>r \<in> set (completeds d). \<forall>p. mined_from a h r \<longrightarrow> c_sent_payref r = Some p \<longrightarrow>
             recorded a (c_id r) p d'"
proof -
  obtain d1 d2 d3 d4 d5 d6 n1 n2 n3 where
    1: "soft_delete_inputs_from_height X a h d = (Inr (), d1)"
    and 2: "soft_delete_outputs_from_height X a h d1 = (Inr (), d2)"
    and 3: "delete_scanned_tip_blocks_from_height a h d2 = (Inr (), d3)"
    and 4: "save_displayed_transaction_payrefs_before_reorg X a h d3 = (Inr n1, d4)"
    and 5: "mark_displayed_transactions_reorganized_and_return X a h d4 = (Inr displayed, d5)"
    and 6: "save_completed_transaction_payrefs_before_reorg X a h d5 = (Inr n2, d6)"
    and 7: "reset_mined_completed_transactions_from_height X a h d6 = (Inr n3, d')"
    using rollback_rows_phases [OF run] by blast
  obtain e1 where e1: "ledger_only d e1" and d1: "d1 = e1\<lparr>inputs :=
      update_where (in_from_height a h) (soft_deleted_input X h) (inputs d)\<rparr>"
    using soft_delete_inputs_rows [OF 1] by blast
  obtain e2 where e2: "ledger_only d1 e2" and d2: "d2 = e2\<lparr>outputs :=
      update_where (from_height a h) (soft_deleted_output X h) (outputs d1)\<rparr>"
    using soft_delete_outputs_rows [OF 2] by blast
  note l1 = ledger_only_fields [OF e1] and l2 = ledger_only_fields [OF e2]
  note h4 = history_grows_fields [OF save_displayed_grows [OF 4]]
  note h6 = history_grows_fields [OF save_completed_grows [OF 6]]
  note m = mark_reorganized_frame [OF 5, of "[]", unfolded log_frame_def, simplified]
  have d3: "d3 = d2\<lparr>tips := filter (\<lambda>r. \<not> (tip_account r = a \<and> tip_height r \<ge> i64_of_u64 h)) (tips d2)\<rparr>"
    using 3 by (simp add: delete_scanned_tip_blocks_from_height_def modify_ok_iff)
  have d': "d' = d6\<lparr>completeds := update_where (mined_from a h) (back_to_completed X) (completeds d6)\<rparr>"
    using 7 by (simp add: reset_mined_ok_iff)
  have c5: "completeds d5 = completeds d" by (simp add: m h4 d3 d2 l2 d1 l1)
  show "outputs d' = update_where (from_height a h) (soft_deleted_output X h) (outputs d)"
    by (simp add: d' h6 m h4 d3 d2 d1 l1)
  show "inputs d' = update_where (in_from_height a h) (soft_deleted_input X h) (inputs d)"
    by (simp add: d' h6 m h4 d3 d2 l2 d1)
  show "tips d' = filter (\<lambda>r. \<not> (tip_account r = a \<and> tip_height r \<ge> i64_of_u64 h)) (tips d)"
    by (simp add: d' h6 m h4 d3 d2 l2 d1 l1)
  show "completeds d' = update_where (mined_from a h) (back_to_completed X) (completeds d)"
    by (simp add: d' h6 c5)
  show "pendings d' = pendings d"
    by (simp add: d' h6 m h4 d3 d2 l2 d1 l1)
  show "\<forall>r \<in> set (completeds d). \<forall>p. mined_from a h r \<longrightarrow> c_sent_payref r = Some p \<longrightarrow>
      recorded a (c_id r) p d'" if ids: "\<forall>r \<in> set (completeds d). is_i64 (c_id r)"
    using save_completed_records [OF 6] ids by (simp add: c5 recorded_def d')
qed

lemma rollback_tables:
  assumes run: "rollback_from_height X dh a h cfg d = (Inr info, d')"
  shows "outputs d' = update_where (from_height a h) (soft_deleted_output X h) (outputs d)"
    and "inputs d' = update_where (in_from_height a h) (soft_deleted_input X h) (inputs d)"
    and "tips d' = filter (\<lambda>r. \<not> (tip_account r = a \<and> tip_height r \<ge> i64_of_u64 h)) (tips d)"
    and "completeds d' = update_where (mined_from a h) (back_to_completed X) (completeds d)"
    and "pendings d' = cancel_rows (affected_requests (filter (from_height a h) (outputs d))) (pendings d)"
    and "\<forall>r \<in> set (completeds d). is_i64 (c_id r) \<Longrightarrow>
           \<forall>r \<in> set (completeds d). \<forall>p. mined_from a h r \<longrightarrow> c_sent_payref r = Some p \<longrightarrow>
             recorded a (c_id r) p d'"
    and "ri_cancelled info = affected_requests (filter (from_height a h) (outputs d))"
proof -
  obtain log d1 displayed d2 where 1: "rollback_events X dh a h d = (Inr log, d1)"
    and 2: "rollback_rows X a h d1 = (Inr displayed, d2)"
    and 3: "trigger_all X a cfg (rl_generated log) d2 = (Inr (), d')"
    and info: "ri_cancelled info = rl_cancelled log"
    using run by (auto simp: rollback_from_height_def bindM_ok_iff seqM_ok_iff map_error_ok_iff ret_ok_iff)
  note ev = rollback_events_rows [OF 1]
  note f1 = ev(4) [of "[]", unfolded log_frame_def, simplified]
  note f3 = trigger_all_frame [OF 3, unfolded log_frame_def]
  note rows = rollback_rows_tables [OF 2]
  show "outputs d' = update_where (from_height a h) (soft_deleted_output X h) (outputs d)"
    "inputs d' = update_where (in_from_height a h) (soft_deleted_input X h) (inputs d)"
    "tips d' = filter (\<lambda>r. \<not> (tip_account r = a \<and> tip_height r \<ge> i64_of_u64 h)) (tips d)"
    "completeds d' = update_where (mined_from a h) (back_to_completed X) (completeds d)"
    "pendings d' = cancel_rows (affected_requests (filter (from_height a h) (outputs d))) (pendings d)"
    "ri_cancelled info = affected_requests (filter (from_height a h) (outputs d))"
    using rows(1-5) f1 f3 ev info by simp_all
  show "\<forall>r \<in> set (completeds d). \<forall>p. mined_from a h r \<longrightarrow> c_sent_payref r = Some p \<longrightarrow>
      recorded a (c_id r) p d'" if "\<forall>r \<in> set (completeds d). is_i64 (c_id r)"
    using rows(6) f1 f3 that by (simp add: recorded_def)
qed

section \<open>The fork point\<close>

definition on_chain :: "chain \<Rightarrow> scanned_tip_block \<Rightarrow> bool" where
  "on_chain chain b \<longleftrightarrow> chain (stb_height b) = Inr (Some (stb_hash b))"

lemma find_fork_spec:
  assumes "find_fork chain bs detected = Inr (start, found)"
  shows "\<exists>gone rest. bs = gone @ rest \<and> (\<forall>b \<in> set gone. \<not> on_chain chain b) \<and>
     found = (detected \<or> gone \<noteq> []) \<and>
     (case rest of [] \<Rightarrow> start = 0 | b # _ \<Rightarrow> on_chain chain b \<and> start = stb_height b + 1)"
  using assms
proof (induction bs arbitrary: detected)
  case Nil
  then show ?case by simp
next
  case (Cons b bs)
  show ?case
  proof (cases "on_chain chain b")
    case True
    with Cons.prems have "start = stb_height b + 1" "found = detected" by (auto simp: on_chain_def)
    with True show ?thesis by (intro exI [of _ "[]"] exI [of _ "b # bs"]) simp
  next
    case False
    with Cons.prems have "find_fork chain bs True = Inr (start, found)"
      by (auto simp: on_chain_def split: sum.splits option.splits if_splits)
    from Cons.IH [OF this] obtain gone rest where "bs = gone @ rest" "\<forall>b \<in> set gone. \<not> on_chain chain b"
      "found" "case rest of [] \<Rightarrow> start = 0 | b # _ \<Rightarrow> on_chain chain b \<and> start = stb_height b + 1"
      by auto
    with False show ?thesis by (intro exI [of _ "b # gone"] exI [of _ rest]) simp
  qed
qed

lemma recorded_blocks_desc:
  assumes "get_scanned_tip_blocks_by_account a d = (Inr bs, d)"
  shows "sorted_wrt (\<lambda>x y. stb_height y \<le> stb_height x) bs"
proof -
  have "sorted_wrt (\<lambda>x y. stb_height y \<le> stb_height x) ys"
    if "mapM scanned_tip_block_of_row rows = Inr ys" "sorted_wrt (\<lambda>x y. tip_height y \<le> tip_height x) rows"
    for rows ys
    using that
  proof (induction rows arbitrary: ys)
    case Nil
    then show ?case by simp
  next
    case (Cons r rows)
    then obtain b bs where b: "scanned_tip_block_of_row r = Inr b" "mapM scanned_tip_block_of_row rows = Inr bs"
      "ys = b # bs" by (auto split: sum.splits)
    have "stb_height y \<le> stb_height b" if "y \<in> set bs" for y
      using mapM_source [OF b(2) that] b(1) Cons.prems(2)
      by (auto simp: scanned_tip_block_of_row_def nat_le_iff split: if_splits)
    with Cons b show ?case by simp
  qed
  with assms tips_desc_sorted show ?thesis
    by (simp add: get_scanned_tip_blocks_by_account_def query_ok_iff)
qed

lemma handle_reorgs_split:
  assumes "handle_reorgs X dh chain a cfg d = (Inr r, d')"
    and "get_scanned_tip_blocks_by_account a d = (Inr bs, d)"
  obtains gone rest where "bs = gone @ rest" "\<forall>b \<in> set gone. \<not> on_chain chain b"
    "case rest of [] \<Rightarrow> rr_resume r = 0 | b # _ \<Rightarrow> on_chain chain b \<and> rr_resume r = stb_height b + 1"
    "rr_information r = None \<longleftrightarrow> gone = []"
proof (cases bs)
  case Nil
  with assms show ?thesis
    by (intro that [of "[]" "[]"]) (auto simp: handle_reorgs_def bindM_def map_error_def ret_def)
next
  case (Cons newest others)
  then obtain start found where fork: "find_fork chain bs False = Inr (start, found)"
    and res: "if found then rr_resume r = start \<and> rr_information r \<noteq> None
              else rr_resume r = stb_height newest + 1 \<and> rr_information r = None"
    using assms
    by (auto simp: handle_reorgs_def bindM_ok_iff map_error_ok_iff ret_ok_iff
        split: sum.splits if_splits)
  obtain gone rest where parts: "bs = gone @ rest" "\<forall>b \<in> set gone. \<not> on_chain chain b" "found = (gone \<noteq> [])"
    "case rest of [] \<Rightarrow> start = 0 | b # _ \<Rightarrow> on_chain chain b \<and> start = stb_height b + 1"
    using find_fork_spec [OF fork] by auto
  then have "rr_resume r = start" using res Cons by (cases gone) auto
  with parts res show ?thesis by (intro that [of gone rest]) auto
qed

section \<open>Properties\<close>

text \<open>
  C5: A rollback books exactly what it takes away: well-formed tables stay well-formed and
  an account whose ledger agrees with its unspent outputs still agrees afterwards.
\<close>

theorem rollback_keeps_balance:
  assumes "rollback_from_height X dh a h cfg d = (Inr info, d')" "store_ok d"
  shows "store_ok d' \<and> balanced d' b = balanced d b"
  using rollback_steady [OF assms(1)] assms(2) steady_balanced by (auto simp: steady_def)

lemma del_facts:
  "\<not> from_height a h (soft_deleted_output X k r)" "\<not> in_from_height a h (soft_deleted_input X k i)"
  "\<not> in_active (soft_deleted_input X k i)"
  by (simp_all add: soft_deleted_output_def soft_deleted_input_def from_height_def
      in_from_height_def o_active_def in_active_def)

text \<open>
  C6: After a rollback from a height the account has no active output and no active input
  mined there or later, no recorded block from there on, and no completed transaction mined
  there; the outputs and inputs of other accounts and below the height are what they were.
\<close>

theorem rollback_removes_from_height:
  assumes "rollback_from_height X dh a h cfg d = (Inr info, d')"
  shows "(\<forall>r \<in> set (outputs d'). \<not> from_height a h r) \<and>
     (\<forall>i \<in> set (inputs d'). \<not> in_from_height a h i) \<and>
     (\<forall>t \<in> set (tips d'). tip_account t = a \<longrightarrow> tip_height t < i64_of_u64 h) \<and>
     (\<forall>c \<in> set (completeds d'). \<not> mined_from a h c) \<and>
     (\<forall>r \<in> set (outputs d). \<not> from_height a h r \<longrightarrow> r \<in> set (outputs d')) \<and>
     (\<forall>i \<in> set (inputs d). \<not> in_from_height a h i \<longrightarrow> i \<in> set (inputs d'))"
proof -
  note t = rollback_tables(1-4) [OF assms]
  show ?thesis
    unfolding t
    by (auto dest!: update_where_cases intro: update_where_kept simp: del_facts)
qed

text \<open>
  C22: The payment reference of every completed transaction that a rollback resets is in the
  history afterwards, under the transaction's id.
\<close>

theorem rollback_records_payrefs:
  assumes "rollback_from_height X dh a h cfg d = (Inr info, d')"
    and "\<forall>r \<in> set (completeds d). is_i64 (c_id r)"
    and "r \<in> set (completeds d)" "mined_from a h r" "c_sent_payref r = Some p"
  shows "recorded a (c_id r) p d' \<and> back_to_completed X r \<in> set (completeds d')"
  using rollback_tables(6) [OF assms(1,2)] rollback_tables(4) [OF assms(1)] assms(3,4,5)
  by (auto simp: in_set_update_where)

text \<open>
  C7: \<open>handle_reorgs\<close> resumes right after the newest recorded block the chain still has, or
  at zero when it has none; no recorded block from the resume height on is on the chain, and
  it rolls back exactly if the newest recorded block is gone.
\<close>

theorem fork_point_correct:
  assumes "handle_reorgs X dh chain a cfg d = (Inr r, d')"
    and "get_scanned_tip_blocks_by_account a d = (Inr bs, d)"
  shows "(\<forall>b \<in> set bs. rr_resume r \<le> stb_height b \<longrightarrow> \<not> on_chain chain b) \<and>
     (rr_resume r = 0 \<or> (\<exists>b \<in> set bs. on_chain chain b \<and> rr_resume r = stb_height b + 1)) \<and>
     (rr_information r = None \<longleftrightarrow> bs = [] \<or> on_chain chain (hd bs))"
proof -
  obtain gone rest where bs: "bs = gone @ rest" and gone: "\<forall>b \<in> set gone. \<not> on_chain chain b"
    and start: "case rest of [] \<Rightarrow> rr_resume r = 0 | b # _ \<Rightarrow> on_chain chain b \<and> rr_resume r = stb_height b + 1"
    and quiet: "rr_information r = None \<longleftrightarrow> gone = []"
    by (rule handle_reorgs_split [OF assms])
  have desc: "sorted_wrt (\<lambda>x y. stb_height y \<le> stb_height x) bs"
    by (rule recorded_blocks_desc [OF assms(2)])
  have "\<not> on_chain chain b" if "b \<in> set bs" "rr_resume r \<le> stb_height b" for b
  proof (cases rest)
    case Nil
    with that bs gone show ?thesis by simp
  next
    case (Cons b0 rest')
    with desc bs start that(2) have "b \<notin> set rest"
      by (auto simp: sorted_wrt_append)
    with that(1) bs gone show ?thesis by auto
  qed
  moreover have "rr_resume r = 0 \<or> (\<exists>b \<in> set bs. on_chain chain b \<and> rr_resume r = stb_height b + 1)"
    using start bs by (cases rest) auto
  moreover have "rr_information r = None \<longleftrightarrow> bs = [] \<or> on_chain chain (hd bs)"
    using quiet gone start bs by (cases gone; cases rest) auto
  ultimately show ?thesis by blast
qed

text \<open>
  A reorganisation that fails, at a header request or anywhere in the rollback, leaves
  the database as it was.
\<close>

theorem handle_reorgs_atomic:
  assumes "handle_reorgs X dh chain a cfg d = (Inl e, d')"
  shows "d' = d"
proof -
  obtain res where tips: "get_scanned_tip_blocks_by_account a d = (res, d)"
    by (simp add: get_scanned_tip_blocks_by_account_def query_def)
  show ?thesis
  proof (cases res)
    case (Inl e')
    with assms tips show ?thesis by (simp add: handle_reorgs_def bindM_def map_error_def)
  next
    case (Inr bs)
    with assms tips show ?thesis
      by (auto simp: handle_reorgs_def bindM_def map_error_def ret_def throw_def
          split: list.splits sum.splits prod.splits if_splits dest: transact_error)
  qed
qed


text \<open>
  When a rollback cancels a pending transaction because one of its outputs is rolled
  back, its other outputs keep their lock: the transaction is no longer PENDING, so the
  unlocker never finds it expired.
\<close>

theorem cancelled_locks_stay:
  assumes "rollback_from_height X dh a h cfg d = (Inr info, d')"
    and "q \<in> set (outputs d)" "from_height a h q" "o_locked_by q = Some req"
    and "r \<in> set (outputs d)" "o_height r < i64_of_u64 h" "o_locked_by r = Some req"
  shows "r \<in> set (outputs d') \<and> req \<in> set (ri_cancelled info) \<and>
     (\<forall>p \<in> set (pendings d'). p_id p = req \<longrightarrow> \<not> pending_expired now p)"
proof -
  note t = rollback_tables(1-5,7) [OF assms(1)]
  have "r \<in> set (outputs d')"
    unfolding t using assms(5,6) by (force simp: in_set_update_where from_height_def)
  moreover have req: "req \<in> set (affected_requests (filter (from_height a h) (outputs d)))"
    using assms(2-4) by (force simp: affected_requests_def map_filter_def)
  moreover have "\<forall>p \<in> set (pendings d'). p_id p = req \<longrightarrow> \<not> pending_expired now p"
    unfolding t using req
    by (auto simp: cancel_rows_def pending_expired_def dest!: update_where_cases)
  ultimately show ?thesis using t by simp
qed

section \<open>Witnesses\<close>

definition locked_row :: "output_row \<Rightarrow> output_row" where
  "locked_row r = r\<lparr>o_status := output_status_text Locked, o_locked_by := Some ''p1''\<rparr>"

definition reorg_db :: db where
  \<comment> \<open>output 1 (height 3) is spent at height 8; the pending transaction \<open>p1\<close> locks output 2
     (height 4) and output 3 (height 9); a completed transaction was mined at height 8\<close>
  "reorg_db = account_db\<lparr>
     outputs := [(sample_row 1 (replicate 32 1) 60 3)\<lparr>o_status := output_status_text Spent\<rparr>,
       locked_row (sample_row 2 (replicate 32 2) 50 4), locked_row (sample_row 3 (replicate 32 3) 10 9)],
     outputs_seq := 3,
     inputs := [\<lparr>in_id = 1, in_account = 1, in_output = 1, in_block = [8], in_height = 8,
       in_timestamp = 0, in_created = 0, in_deleted_at = None, in_deleted_height = None\<rparr>],
     inputs_seq := 1,
     changes := [change_row_of 1 (sample_change\<lparr>bc_output := Some 1, bc_credit := 60\<rparr>),
       change_row_of 2 (sample_change\<lparr>bc_output := Some 2, bc_credit := 50\<rparr>),
       change_row_of 3 (sample_change\<lparr>bc_output := Some 3, bc_credit := 10\<rparr>),
       change_row_of 4 (sample_change\<lparr>bc_input := Some 1, bc_debit := 60\<rparr>)],
     changes_seq := 4,
     tips := [\<lparr>tip_id = 1, tip_account = 1, tip_height = 4, tip_hash = [4], tip_created = 0\<rparr>,
       \<lparr>tip_id = 2, tip_account = 1, tip_height = 7, tip_hash = [7], tip_created = 0\<rparr>,
       \<lparr>tip_id = 3, tip_account = 1, tip_height = 9, tip_hash = [9], tip_created = 0\<rparr>],
     tips_seq := 3,
     pendings := [\<lparr>p_id = ''p1'', p_account = 1, p_key = ''k'',
       p_status = pending_status_text Pending, p_requires_change = True, p_total_value = 60,
       p_fee_without_change = 1, p_fee_with_change = 2, p_expires_at = 2000, p_created = 0\<rparr>],
     completeds := [\<lparr>c_id = 5, c_account = 1, c_pending_id = ''p0'',
       c_status = completed_status_text MinedConfirmed, c_rejected_reason = None,
       c_kernel_excess = [], c_sent_payref = Some ''ref'', c_sent_hash = None,
       c_mined_height = Some 8, c_mined_block = Some [8], c_confirmation_height = Some 11,
       c_attempts = 1, c_serialized = [], c_created = 0, c_updated = 0\<rparr>]\<rparr>"

definition sample_chain :: chain where
  \<comment> \<open>the chain has another block at height 9\<close>
  "sample_chain h = Inr (Some (if h = 9 then [99] else [of_nat h]))"

definition sample_hex :: "bytes \<Rightarrow> string" where
  "sample_hex b = []"

lemma reorg_db_ok:
  "store_ok reorg_db" "balanced reorg_db 1" "\<forall>r \<in> set (completeds reorg_db). is_i64 (c_id r)"
  by code_simp+

lemma reorg_run:
  "\<exists>info d'. rollback_from_height sample_X sample_hex 1 8 None reorg_db = (Inr info, d')"
proof -
  have "succeeds_with (rollback_from_height sample_X sample_hex 1 8 None reorg_db) (\<lambda>info d'. True)"
    by code_simp
  then show ?thesis unfolding with_iffs by blast
qed

theorem rollback_keeps_balance_witness:
  "\<exists>info d'. rollback_from_height sample_X sample_hex 1 8 None reorg_db = (Inr info, d') \<and>
     store_ok d' \<and> balanced d' 1"
  using reorg_run rollback_keeps_balance [OF _ reorg_db_ok(1)] reorg_db_ok(2) by blast

theorem rollback_removes_from_height_witness:
  "\<exists>info d'. rollback_from_height sample_X sample_hex 1 8 None reorg_db = (Inr info, d') \<and>
     filter (\<lambda>t. tip_account t = 1 \<and> 8 \<le> tip_height t) (tips d') = [] \<and>
     filter (from_height 1 8) (outputs d') = []"
  using reorg_run rollback_removes_from_height
  by (fastforce simp: i64_of_u64_small filter_empty_conv)

theorem rollback_records_payrefs_witness:
  "\<exists>info d'. rollback_from_height sample_X sample_hex 1 8 None reorg_db = (Inr info, d') \<and>
     recorded 1 5 ''ref'' d'"
proof -
  obtain r where r: "r \<in> set (completeds reorg_db)" "c_id r = 5" "mined_from 1 8 r"
    "c_sent_payref r = Some ''ref''"
  proof
    show "hd (completeds reorg_db) \<in> set (completeds reorg_db)"
      "c_id (hd (completeds reorg_db)) = 5" "mined_from 1 8 (hd (completeds reorg_db))"
      "c_sent_payref (hd (completeds reorg_db)) = Some ''ref''"
      by code_simp+
  qed
  with reorg_run rollback_records_payrefs [OF _ reorg_db_ok(3) r(1,3,4)] show ?thesis by metis
qed

theorem fork_point_correct_witness:
  "\<exists>r d'. handle_reorgs sample_X sample_hex sample_chain 1 None reorg_db = (Inr r, d') \<and>
     rr_resume r = 8 \<and> rr_information r \<noteq> None"
proof -
  have "succeeds_with (handle_reorgs sample_X sample_hex sample_chain 1 None reorg_db)
      (\<lambda>r d'. rr_resume r = 8)" by code_simp
  then obtain r d' where run: "handle_reorgs sample_X sample_hex sample_chain 1 None reorg_db = (Inr r, d')"
    and eight: "rr_resume r = 8" unfolding with_iffs by blast
  have "succeeds_with (get_scanned_tip_blocks_by_account 1 reorg_db) (\<lambda>bs d. map stb_height bs = [9, 7, 4] \<and>
      \<not> on_chain sample_chain (hd bs))" by code_simp
  then obtain bs d1 where bs: "get_scanned_tip_blocks_by_account 1 reorg_db = (Inr bs, d1)"
    "map stb_height bs = [9, 7, 4]" "\<not> on_chain sample_chain (hd bs)"
    unfolding with_iffs by (elim exE conjE) (rule that)
  have "d1 = reorg_db" by (rule get_tips_reads [OF bs(1)])
  then have "rr_information r \<noteq> None"
    using fork_point_correct [OF run, of bs] bs by auto
  with run eight show ?thesis by blast
qed

theorem handle_reorgs_atomic_witness:
  "handle_reorgs sample_X sample_hex (\<lambda>h. Inl ''timeout'') 1 None reorg_db =
     (Inl (HeaderFailed ''timeout''), reorg_db)"
proof -
  let ?run = "handle_reorgs sample_X sample_hex (\<lambda>h. Inl ''timeout'') 1 None reorg_db"
  have "case fst ?run of Inl e \<Rightarrow> e = HeaderFailed ''timeout'' | Inr r \<Rightarrow> False" by code_simp
  then have run: "?run = (Inl (HeaderFailed ''timeout''), snd ?run)"
    by (cases ?run) (auto split: sum.splits)
  from handle_reorgs_atomic [OF run] run show ?thesis by simp
qed

lemma spent_row_facts:
  "hd (outputs reorg_db) \<in> set (outputs reorg_db) \<and> o_height (hd (outputs reorg_db)) < i64_of_u64 8 \<and>
   o_status (hd (outputs reorg_db)) = output_status_text Spent \<and>
   (\<forall>i \<in> set (inputs reorg_db). in_active i \<and> in_output i = o_id (hd (outputs reorg_db)) \<longrightarrow>
      in_from_height 1 8 i)"
  by code_simp


theorem cancelled_locks_stay_witness:
  "\<exists>info d'. rollback_from_height sample_X sample_hex 1 8 None reorg_db = (Inr info, d') \<and>
     ''p1'' \<in> set (ri_cancelled info) \<and> output_holder (outputs reorg_db) 2 = Some ''p1'' \<and>
     (\<exists>r \<in> set (outputs d'). o_id r = 2 \<and> o_status r = output_status_text Locked) \<and>
     filter (\<lambda>p. p_id p = ''p1'' \<and> pending_expired 5000 p) (pendings d') = []"
proof -
  obtain info d' where run: "rollback_from_height sample_X sample_hex 1 8 None reorg_db = (Inr info, d')"
    using reorg_run by blast
  have two: "outputs reorg_db ! 1 \<in> set (outputs reorg_db) \<and> o_height (outputs reorg_db ! 1) < i64_of_u64 8 \<and>
      o_locked_by (outputs reorg_db ! 1) = Some ''p1'' \<and> o_id (outputs reorg_db ! 1) = 2 \<and>
      o_status (outputs reorg_db ! 1) = output_status_text Locked" by code_simp
  have three: "outputs reorg_db ! 2 \<in> set (outputs reorg_db) \<and> from_height 1 8 (outputs reorg_db ! 2) \<and>
      o_locked_by (outputs reorg_db ! 2) = Some ''p1''" by code_simp
  have "output_holder (outputs reorg_db) 2 = Some ''p1''" by code_simp
  with run two three show ?thesis
    using cancelled_locks_stay [OF run, of "outputs reorg_db ! 2" "''p1''"
        "outputs reorg_db ! 1" 5000] unfolding filter_empty_conv by blast
qed

end
