(* ===== verification/Monitor.thy ===== *)
theory Monitor
  imports Webhooks Completed_Txs Displayed_Txs
begin

text \<open>
  The transaction monitor, \<open>transactions/monitor.rs\<close>: it broadcasts completed transactions,
  looks for the mined ones, confirms those that are deep enough, and refreshes the
  confirmations of the displayed transactions. Its statements run one by one, without a
  transaction around them. The node is the record \<open>wallet_client\<close>; the flag of
  \<open>MonitoringState\<close> is the first component of the state.
\<close>

definition max_broadcast_attempts :: int where
  "max_broadcast_attempts = 10"

section \<open>The node\<close>

record submission =
  sub_accepted :: bool
  sub_already_mined :: bool    \<comment> \<open>\<open>rejection_reason == AlreadyMined\<close>\<close>
  sub_reason :: string

record tx_query =
  tq_mined :: bool             \<comment> \<open>\<open>location\<close> is \<open>TxLocation::Mined\<close>\<close>
  tq_height :: "u64 option"
  tq_hash :: "bytes option"

record wallet_client =
  cl_parse :: "bytes \<Rightarrow> string + (bytes \<times> bytes) list"
    \<comment> \<open>\<open>serde_json::from_slice::<Transaction>\<close>: the excess signatures of its kernels\<close>
  cl_submit :: "bytes \<Rightarrow> string + submission"
  cl_query :: "bytes \<Rightarrow> bytes \<Rightarrow> string + tx_query"

datatype monitor_error = MonitorDb wallet_error | MonitorNode string | MonitorData string | MonitorHex

type_synonym 'a monitorm = "(db, monitor_error, 'a) run"

definition broadcast_transaction :: "wallet_client \<Rightarrow> completed_transaction \<Rightarrow> string + unit" where
  "broadcast_transaction C tx = (case cl_parse C (ct_serialized tx) of
      Inl e \<Rightarrow> Inl (''Deserialization failed: '' @ e)
    | Inr kernels \<Rightarrow> (case cl_submit C (ct_serialized tx) of
        Inl e \<Rightarrow> Inl (''Broadcast failed: '' @ e)
      | Inr response \<Rightarrow>
          if sub_accepted response \<or> sub_already_mined response then Inr ()
          else Inl (''Transaction rejected: '' @ sub_reason response)))"

definition find_kernel_on_chain ::
  "wallet_client \<Rightarrow> completed_transaction \<Rightarrow> monitor_error + (u64 \<times> bytes) option" where
  "find_kernel_on_chain C tx = (case cl_parse C (ct_serialized tx) of
      Inl e \<Rightarrow> Inl (MonitorData (''Deserialization failed: '' @ e))
    | Inr [] \<Rightarrow> Inl (MonitorData ''Transaction has no kernel'')
    | Inr ((nonce, sig) # _) \<Rightarrow> (case cl_query C nonce sig of
        Inl e \<Rightarrow> Inl (MonitorNode (''Transaction query failed: '' @ e))
      | Inr response \<Rightarrow>
          if \<not> tq_mined response then Inr None
          else (case tq_height response of
              None \<Rightarrow> Inl (MonitorData ''Mined transaction missing height'')
            | Some height \<Rightarrow> (case tq_hash response of
                None \<Rightarrow> Inl (MonitorData ''Mined transaction missing block hash'')
              | Some hash \<Rightarrow> Inr (Some (height, hash))))))"

section \<open>Results\<close>

record monitoring_result =
  mr_events :: "wallet_event list"
  mr_displayed :: "displayed_transaction list"

definition no_result :: monitoring_result where
  "no_result = \<lparr>mr_events = [], mr_displayed = []\<rparr>"

definition extend_result :: "monitoring_result \<Rightarrow> monitoring_result \<Rightarrow> monitoring_result" where
  "extend_result r other = \<lparr>mr_events = mr_events r @ mr_events other,
     mr_displayed = mr_displayed r @ mr_displayed other\<rparr>"

record monitor =
  mo_required :: u64
  mo_webhook :: "webhook_config option"

definition persist_event :: "externals \<Rightarrow> monitor \<Rightarrow> i64 \<Rightarrow> wallet_event \<Rightarrow> unit monitorm" where
  "persist_event X m account_id event =
     bindM (map_error MonitorDb (insert_wallet_event X account_id event)) (\<lambda>event_id.
       case mo_webhook m of None \<Rightarrow> ret ()
       | Some config \<Rightarrow> map_error MonitorDb
           (trigger_webhook_with_balance X account_id event_id event config))"

definition tx_event :: "i64 \<Rightarrow> wallet_event_type \<Rightarrow> string \<Rightarrow> wallet_event" where
  "tx_event account_id ty description =
     \<lparr>we_id = 0, we_account = account_id, we_type = ty, we_description = description\<rparr>"

section \<open>Displayed confirmations\<close>

definition determine_status_from_confirmations :: "monitor \<Rightarrow> u64 \<Rightarrow> display_status" where
  "determine_status_from_confirmations m confirmations =
     (if confirmations \<ge> mo_required m then DConfirmed
      else if confirmations > 0 then DUnconfirmed else DPending)"

definition refreshed :: "monitor \<Rightarrow> u64 \<Rightarrow> displayed_transaction \<Rightarrow> displayed_transaction" where
  "refreshed m current_height tx =
     (let confirmations = u64_saturating_sub current_height (bi_height (dt_blockchain tx));
          status = determine_status_from_confirmations m confirmations
      in tx\<lparr>dt_blockchain := (dt_blockchain tx)\<lparr>bi_confirmations := confirmations\<rparr>,
            dt_status := (if dt_status tx \<noteq> status \<and> dt_status tx \<in> {DPending, DUnconfirmed}
                          then status else dt_status tx)\<rparr>)"

definition refresh_displayed ::
  "externals \<Rightarrow> monitor \<Rightarrow> u64 \<Rightarrow> displayed_transaction list \<Rightarrow> displayed_transaction \<Rightarrow>
     displayed_transaction list monitorm" where
  "refresh_displayed X m current_height done tx =
     (if u64_saturating_sub current_height (bi_height (dt_blockchain tx)) = bi_confirmations (dt_blockchain tx)
      then ret done
      else let tx' = refreshed m current_height tx
        in bindM (map_error MonitorDb (update_displayed_transaction_confirmations X tx')) (\<lambda>_.
             ret (done @ [tx'])))"

definition update_confirmations ::
  "externals \<Rightarrow> monitor \<Rightarrow> i64 \<Rightarrow> u64 \<Rightarrow> displayed_transaction list monitorm" where
  \<comment> \<open>\<open>TransactionMonitor::update_displayed_transaction_confirmations\<close>\<close>
  "update_confirmations X m account_id current_height =
     bindM (map_error MonitorDb (get_displayed_transactions_needing_confirmation_update account_id))
       (\<lambda>txs. foldM (refresh_displayed X m current_height) [] txs)"

section \<open>Pending transactions\<close>

definition with_status :: "completed_status \<Rightarrow> completed_transaction list \<Rightarrow> completed_transaction list" where
  "with_status st txs = filter (\<lambda>tx. ct_status tx = st) txs"

definition remaining_count :: "completed_transaction list \<Rightarrow> nat" where
  "remaining_count txs = length (with_status TxCompleted txs) + length (with_status TxBroadcast txs) +
     length (with_status MinedUnconfirmed txs)"

definition reject_transaction ::
  "externals \<Rightarrow> monitor \<Rightarrow> i64 \<Rightarrow> completed_transaction \<Rightarrow> string \<Rightarrow> string \<Rightarrow> monitoring_result \<Rightarrow>
     monitoring_result monitorm" where
  \<comment> \<open>the two rejecting branches differ in the reason and the description\<close>
  "reject_transaction X m account_id tx reason suffix result =
     seqM (map_error MonitorDb (mark_completed_transaction_as_rejected X (ct_id tx) reason))
     (seqM (map_error MonitorDb (unlock_outputs_for_request (ct_pending_id tx)))
     (bindM (map_error MonitorDb (mark_displayed_transaction_rejected X (ct_id tx))) (\<lambda>displayed.
      let event = tx_event account_id (TransactionRejected (ct_id tx) reason)
            (''Transaction '' @ show_nat (ct_id tx) @ suffix)
      in seqM (persist_event X m account_id event)
         (ret \<lparr>mr_events = mr_events result @ [event],
               mr_displayed = mr_displayed result @
                 (case displayed of None \<Rightarrow> [] | Some d \<Rightarrow> [d])\<rparr>))))"

definition rebroadcast_transaction ::
  "externals \<Rightarrow> monitor \<Rightarrow> wallet_client \<Rightarrow> i64 \<Rightarrow> monitoring_result \<Rightarrow> completed_transaction \<Rightarrow>
     monitoring_result monitorm" where
  \<comment> \<open>the loop body of \<open>rebroadcast_completed_transactions\<close>\<close>
  "rebroadcast_transaction X m C account_id result tx =
     (if ct_attempts tx \<ge> max_broadcast_attempts then
        reject_transaction X m account_id tx
          (''Exceeded '' @ show_int max_broadcast_attempts @ '' broadcast attempts'')
          '' exceeded broadcast attempts'' result
      else case broadcast_transaction C tx of
        Inr _ \<Rightarrow>
          seqM (map_error MonitorDb
                 (mark_completed_transaction_as_broadcasted X (ct_id tx) (ct_attempts tx + 1)))
          (let event = tx_event account_id (TransactionBroadcast (ct_id tx) (ct_kernel_excess tx))
                 (''Transaction '' @ show_nat (ct_id tx) @ '' broadcast'')
           in seqM (persist_event X m account_id event)
              (ret (result\<lparr>mr_events := mr_events result @ [event]\<rparr>)))
      | Inl reason \<Rightarrow> reject_transaction X m account_id tx reason '' rejected'' result)"

definition rebroadcast_completed_transactions ::
  "externals \<Rightarrow> monitor \<Rightarrow> wallet_client \<Rightarrow> i64 \<Rightarrow> completed_transaction list \<Rightarrow> monitoring_result monitorm" where
  "rebroadcast_completed_transactions X m C account_id txs =
     foldM (rebroadcast_transaction X m C account_id) no_result txs"

definition check_mined ::
  "externals \<Rightarrow> monitor \<Rightarrow> wallet_client \<Rightarrow> i64 \<Rightarrow> wallet_event list \<Rightarrow> completed_transaction \<Rightarrow>
     wallet_event list monitorm" where
  "check_mined X m C account_id evs tx =
     bindM (lift_result (find_kernel_on_chain C tx)) (\<lambda>found. case found of
         None \<Rightarrow> ret evs
       | Some (block_height, block_hash) \<Rightarrow>
           seqM (map_error MonitorDb (mark_completed_transaction_as_mined_unconfirmed X (ct_id tx)
                  (i64_of_u64 block_height) block_hash))
           (let event = tx_event account_id (TransactionUnconfirmed (ct_id tx) block_height 0)
                  (''Transaction '' @ show_nat (ct_id tx) @ '' mined at height '' @ show_nat block_height)
            in seqM (persist_event X m account_id event) (ret (evs @ [event]))))"

definition check_broadcast_for_mining ::
  "externals \<Rightarrow> monitor \<Rightarrow> wallet_client \<Rightarrow> i64 \<Rightarrow> completed_transaction list \<Rightarrow> wallet_event list monitorm" where
  "check_broadcast_for_mining X m C account_id txs = foldM (check_mined X m C account_id) [] txs"

definition sent_payref :: "externals \<Rightarrow> completed_transaction \<Rightarrow> monitor_error + string" where
  "sent_payref X tx = (case ct_mined_block tx of
      None \<Rightarrow> Inl (MonitorData (''Block hash missing for a mined tx: '' @ show_nat (ct_id tx)))
    | Some block \<Rightarrow> (case fixed_hash_of block of
        None \<Rightarrow> Inl (MonitorData (x_size_error X))
      | Some block_hash \<Rightarrow> (case ct_sent_hash tx of
          None \<Rightarrow> Inl (MonitorData (''Sent output hash missing for a mined tx: '' @ show_nat (ct_id tx)))
        | Some text \<Rightarrow> (case x_unhex X text of
            None \<Rightarrow> Inl MonitorHex
          | Some bytes \<Rightarrow> (case fixed_hash_of bytes of
              None \<Rightarrow> Inl (MonitorData (x_size_error X))
            | Some output_hash \<Rightarrow> Inr (x_hex X (x_payref X block_hash output_hash)))))))"

definition check_confirmed ::
  "externals \<Rightarrow> monitor \<Rightarrow> i64 \<Rightarrow> u64 \<Rightarrow> wallet_event list \<Rightarrow> completed_transaction \<Rightarrow>
     wallet_event list monitorm" where
  "check_confirmed X m account_id current_height evs tx = (case ct_mined_height tx of
      None \<Rightarrow> ret evs
    | Some h \<Rightarrow>
        (let mined_height = u64_of_i64 h;
             confirmations = u64_saturating_sub current_height mined_height
         in if confirmations \<ge> mo_required m then
              bindM (lift_result (sent_payref X tx)) (\<lambda>payref.
              seqM (map_error MonitorDb (mark_completed_transaction_as_confirmed X (ct_id tx)
                     (i64_of_u64 current_height) payref))
              (let event = tx_event account_id (TransactionConfirmed (ct_id tx) mined_height current_height)
                     (''Transaction '' @ show_nat (ct_id tx) @ '' confirmed'')
               in seqM (persist_event X m account_id event) (ret (evs @ [event]))))
            else ret evs))"

definition check_confirmation_status ::
  "externals \<Rightarrow> monitor \<Rightarrow> i64 \<Rightarrow> u64 \<Rightarrow> completed_transaction list \<Rightarrow> wallet_event list monitorm" where
  "check_confirmation_status X m account_id current_height txs =
     foldM (check_confirmed X m account_id current_height) [] txs"

definition process_pending_transactions ::
  "externals \<Rightarrow> monitor \<Rightarrow> wallet_client \<Rightarrow> i64 \<Rightarrow> u64 \<Rightarrow> completed_transaction list \<Rightarrow>
     monitoring_result monitorm" where
  "process_pending_transactions X m C account_id current_height txs =
     bindM (rebroadcast_completed_transactions X m C account_id (with_status TxCompleted txs)) (\<lambda>r.
     bindM (check_broadcast_for_mining X m C account_id (with_status TxBroadcast txs)) (\<lambda>mined.
     bindM (check_confirmation_status X m account_id current_height (with_status MinedUnconfirmed txs))
       (\<lambda>confirmed.
       ret (r\<lparr>mr_events := mr_events r @ mined @ confirmed\<rparr>))))"

definition is_terminal :: "wallet_event \<Rightarrow> bool" where
  "is_terminal e = (case we_type e of TransactionConfirmed _ _ _ \<Rightarrow> True
     | TransactionRejected _ _ \<Rightarrow> True | _ \<Rightarrow> False)"

section \<open>The monitoring cycle\<close>

definition on_db :: "(db, 'e, 'a) run \<Rightarrow> (bool \<times> db, 'e, 'a) run" where
  "on_db m = (\<lambda>(flag, d). case m d of (r, d') \<Rightarrow> (r, flag, d'))"

definition set_flag :: "bool \<Rightarrow> (bool \<times> db, 'e, unit) run" where
  "set_flag b = modify (\<lambda>(flag, d). (b, d))"

definition monitoring_state_new :: bool where
  "monitoring_state_new = False"

definition signal_transaction_broadcast :: "(bool \<times> db, 'e, unit) run" where
  "signal_transaction_broadcast = set_flag True"

definition has_pending_outbound :: "(bool \<times> db, 'e, bool) run" where
  "has_pending_outbound = gets fst"

definition initialize_monitoring :: "i64 \<Rightarrow> (bool \<times> db, monitor_error, unit) run" where
  "initialize_monitoring account_id =
     bindM (on_db (map_error MonitorDb (get_pending_completed_transactions account_id))) (\<lambda>pending.
       set_flag (pending \<noteq> []))"

definition monitor_if_needed ::
  "externals \<Rightarrow> monitor \<Rightarrow> wallet_client \<Rightarrow> i64 \<Rightarrow> u64 \<Rightarrow> (bool \<times> db, monitor_error, monitoring_result) run" where
  "monitor_if_needed X m C account_id current_height =
     bindM (on_db (update_confirmations X m account_id current_height)) (\<lambda>displayed.
     bindM (gets fst) (\<lambda>has_pending_outbound.
       let result = \<lparr>mr_events = [], mr_displayed = displayed\<rparr> in
       if \<not> has_pending_outbound then ret result
       else bindM (on_db (map_error MonitorDb (get_pending_completed_transactions account_id))) (\<lambda>pending.
         if pending = [] then seqM (set_flag False) (ret result)
         else bindM (on_db (process_pending_transactions X m C account_id current_height pending)) (\<lambda>r.
           let result' = extend_result result r in
           seqM (whenM (length (filter is_terminal (mr_events result')) \<ge> remaining_count pending)
                  (set_flag False))
           (ret result')))))"

end
