(* ===== verification/Monitor_Effects.thy ===== *)
theory Monitor_Effects
  imports Monitor Refinement
begin

text \<open>
  What a monitoring cycle does to the completed transactions, whether it succeeds or stops
  at an error: each of them moves along its life cycle by at most one step. \<open>always R m\<close>
  relates the states before and after every run of \<open>m\<close>, the failed ones included.
\<close>

section \<open>Rows by their key\<close>

definition row_of :: "db \<Rightarrow> i64 \<Rightarrow> completed_row option" where
  "row_of d i = first_row (\<lambda>r. c_id r = i) (completeds d)"

definition status_of :: "db \<Rightarrow> i64 \<Rightarrow> string option" where
  "status_of d i = map_option c_status (row_of d i)"

definition tx_key :: "completed_transaction \<Rightarrow> i64" where
  "tx_key tx = i64_of_u64 (ct_id tx)"

definition touches :: "i64 set \<Rightarrow> db \<Rightarrow> db \<Rightarrow> bool" where
  "touches I d d' \<longleftrightarrow> (\<forall>i. i \<notin> I \<longrightarrow> row_of d' i = row_of d i)"

text \<open>\<open>moves I A B d d'\<close>: only rows of \<open>I\<close> change, and one of status \<open>A\<close> keeps it or has one of \<open>B\<close>.\<close>

definition moves :: "i64 set \<Rightarrow> completed_status \<Rightarrow> completed_status set \<Rightarrow> db \<Rightarrow> db \<Rightarrow> bool" where
  "moves I A B d d' \<longleftrightarrow> touches I d d' \<and>
     (\<forall>i \<in> I. status_of d i = Some (completed_status_text A) \<longrightarrow>
        (\<exists>st \<in> insert A B. status_of d' i = Some (completed_status_text st)))"

lemma touches_refl [simp]: "touches I d d"
  by (simp add: touches_def)

lemma touches_trans: "touches I d d1 \<Longrightarrow> touches J d1 d2 \<Longrightarrow> touches (I \<union> J) d d2"
  by (simp add: touches_def)

lemma touches_mono: "touches I d d' \<Longrightarrow> I \<subseteq> J \<Longrightarrow> touches J d d'"
  by (auto simp: touches_def)

lemma touches_status: "touches I d d' \<Longrightarrow> i \<notin> I \<Longrightarrow> status_of d' i = status_of d i"
  by (simp add: touches_def status_of_def)

lemma touches_same: "completeds d' = completeds d \<Longrightarrow> touches {} d d'"
  by (simp add: touches_def row_of_def)

lemma moves_refl [simp]: "moves I A B d d"
  by (simp add: moves_def)

lemma moves_frame: "moves I A B d d1 \<Longrightarrow> touches {} d1 d2 \<Longrightarrow> moves I A B d d2"
  unfolding moves_def touches_def status_of_def by auto

lemma moves_union:
  assumes "moves I A B d d1" "moves J A B d1 d2" "I \<inter> J = {}"
  shows "moves (I \<union> J) A B d d2"
proof -
  have "touches (I \<union> J) d d2"
    using assms(1,2) touches_trans unfolding moves_def by blast
  moreover have "\<exists>st \<in> insert A B. status_of d2 i = Some (completed_status_text st)"
    if i: "i \<in> I \<union> J" "status_of d i = Some (completed_status_text A)" for i
  proof (cases "i \<in> I")
    case True
    with assms(3) have "status_of d2 i = status_of d1 i"
      using assms(2) touches_status unfolding moves_def by blast
    with True assms(1) i(2) show ?thesis unfolding moves_def by metis
  next
    case False
    with i(1) have "i \<in> J" "status_of d1 i = status_of d i"
      using assms(1) touches_status unfolding moves_def by blast+
    with assms(2) i(2) show ?thesis unfolding moves_def by metis
  qed
  ultimately show ?thesis by (simp add: moves_def)
qed

lemma first_row_update_key:
  assumes "\<And>r. k (f r) = k r"
  shows "first_row (\<lambda>r. k r = i) (update_where (\<lambda>r. k r = j) f rows) =
     (if i = j then map_option f (first_row (\<lambda>r. k r = i) rows) else first_row (\<lambda>r. k r = i) rows)"
  by (induction rows) (auto simp: first_row_def assms)

lemma row_of_update:
  assumes "\<And>r. c_id (f r) = c_id r"
  shows "row_of (d\<lparr>completeds := update_where (\<lambda>r. c_id r = j) f (completeds d)\<rparr>) i =
     (if i = j then map_option f (row_of d i) else row_of d i)"
  using first_row_update_key [where k = c_id, OF assms] by (simp add: row_of_def)

lemma always_update_completed:
  assumes "\<And>r. c_id (f r) = c_id r" "\<And>r. c_status (f r) = completed_status_text st"
  shows "st \<in> B \<Longrightarrow> always (moves {i64_of_u64 i} A B) (update_completed i f)"
  using assms
  by (auto simp: update_completed_def always_modify moves_def touches_def status_of_def row_of_update)

section \<open>The steps of the monitor\<close>

abbreviation keeps_completeds :: "(db, 'e, 'a) run \<Rightarrow> bool" where
  "keeps_completeds \<equiv> always (\<lambda>d d'. completeds d' = completeds d)"

interpretation keeps: frame "\<lambda>d d'. completeds d' = completeds d"
  by unfold_locales simp_all

lemmas keeps_bind = keeps.bind and keeps_seq = keeps.seq and keeps_foldM = keeps.loop

lemma keeps_event: "keeps_completeds (insert_wallet_event X a ev)"
  unfolding insert_wallet_event_def by (rule always_statement) (auto simp: Let_def split: if_splits)

lemma keeps_trigger: "keeps_completeds (trigger_webhook_with_balance X a i ev c)"
proof -
  have "keeps_completeds (get_balance a)"
    unfolding get_balance_def get_balance_aggregates_for_account_def get_output_totals_for_account_def
    by (auto intro!: keeps_bind simp: Let_def split: prod.split)
  moreover have "keeps_completeds (enqueue_webhook X e t p u)" for e t p u
    unfolding enqueue_webhook_def by (rule always_statement) (auto simp: Let_def split: if_splits)
  ultimately show ?thesis
    unfolding trigger_webhook_with_balance_def by (auto simp: Let_def intro!: keeps_bind)
qed

lemma keeps_persist: "keeps_completeds (persist_event X m a ev)"
  unfolding persist_event_def
  by (auto intro!: keeps_bind simp: keeps_event keeps_trigger split: option.split)

lemma keeps_displayed:
  "keeps_completeds (update_displayed i f)" "keeps_completeds (mark_displayed_transaction_rejected X j)"
proof -
  show upd: "keeps_completeds (update_displayed i f)" for i f
    unfolding update_displayed_def by (rule always_statement) auto
  show "keeps_completeds (mark_displayed_transaction_rejected X j)"
    unfolding mark_displayed_transaction_rejected_def
    by (auto intro!: keeps_bind simp: upd Let_def split: option.split)
qed

lemma keeps_unlock: "keeps_completeds (unlock_outputs_for_request r)"
  by (simp add: unlock_outputs_for_request_def always_modify)

lemma keeps_update_confirmations: "keeps_completeds (update_confirmations X m a h)"
  unfolding update_confirmations_def refresh_displayed_def
    get_displayed_transactions_needing_confirmation_update_def list_displayed_def
    update_displayed_transaction_confirmations_def
  by (auto intro!: keeps_bind keeps_foldM simp: Let_def keeps_displayed)

lemma moves_then_keeps:
  assumes "always (moves I A B) m" "\<And>a. keeps_completeds (f a)"
  shows "always (moves I A B) (bindM m f)"
  using assms by (rule always_bind) (auto intro: moves_frame touches_same)

lemma moves_then_keeps_seq:
  "always (moves I A B) m \<Longrightarrow> keeps_completeds n \<Longrightarrow> always (moves I A B) (seqM m n)"
  unfolding seqM_def by (rule moves_then_keeps)

lemma keeps_moves: "keeps_completeds m \<Longrightarrow> always (moves I A B) m"
  by (auto simp: always_def intro: moves_frame [OF moves_refl] touches_same)

lemma reject_moves: "always (moves {tx_key tx} A {TxBroadcast, TxRejected}) (reject_transaction X m a tx reason suffix r)"
  unfolding reject_transaction_def tx_key_def mark_completed_transaction_as_rejected_def
  by (intro moves_then_keeps_seq keeps_seq keeps_bind)
    (auto intro!: always_update_completed keeps_seq
      simp: Let_def keeps_unlock keeps_displayed keeps_persist)

lemma rebroadcast_moves:
  "always (moves {tx_key tx} A {TxBroadcast, TxRejected}) (rebroadcast_transaction X m C a r tx)"
  unfolding rebroadcast_transaction_def
  by (auto intro!: reject_moves [unfolded tx_key_def] moves_then_keeps_seq always_update_completed keeps_seq
      simp: Let_def keeps_persist mark_completed_transaction_as_broadcasted_def tx_key_def
      split: sum.split)

lemma check_mined_moves:
  "always (moves {tx_key tx} A {MinedUnconfirmed}) (check_mined X m C a evs tx)"
proof -
  have "always (moves {tx_key tx} A {MinedUnconfirmed})
      (case found of None \<Rightarrow> ret evs
       | Some (block_height, block_hash) \<Rightarrow>
           seqM (map_error MonitorDb (mark_completed_transaction_as_mined_unconfirmed X (ct_id tx)
                  (i64_of_u64 block_height) block_hash))
           (let event = tx_event a (TransactionUnconfirmed (ct_id tx) block_height 0)
                  (''Transaction '' @ show_nat (ct_id tx) @ '' mined at height '' @ show_nat block_height)
            in seqM (persist_event X m a event) (ret (evs @ [event]))))" for found
    by (auto intro!: moves_then_keeps_seq always_update_completed keeps_seq
        simp: Let_def keeps_persist mark_completed_transaction_as_mined_unconfirmed_def tx_key_def
        split: option.split)
  then show ?thesis
    unfolding check_mined_def by (rule always_lift) simp
qed

lemma check_confirmed_moves:
  "always (moves {tx_key tx} A {MinedConfirmed}) (check_confirmed X m a h evs tx)"
proof -
  have "always (moves {tx_key tx} A {MinedConfirmed})
      (seqM (map_error MonitorDb (mark_completed_transaction_as_confirmed X (ct_id tx) (i64_of_u64 h) payref))
        (seqM (persist_event X m a ev) (ret (evs @ [ev]))))" for payref ev
    by (auto intro!: moves_then_keeps_seq always_update_completed keeps_seq
        simp: keeps_persist mark_completed_transaction_as_confirmed_def tx_key_def)
  then have "always (moves {tx_key tx} A {MinedConfirmed}) (bindM (lift_result (sent_payref X tx)) (\<lambda>payref.
      seqM (map_error MonitorDb (mark_completed_transaction_as_confirmed X (ct_id tx) (i64_of_u64 h) payref))
        (seqM (persist_event X m a ev) (ret (evs @ [ev])))))" for ev
    by (rule always_lift) simp
  then show ?thesis
    unfolding check_confirmed_def by (auto simp: Let_def split: option.split)
qed

lemma foldM_moves:
  assumes "\<And>b tx. tx \<in> set txs \<Longrightarrow> always (moves {tx_key tx} A B) (f b tx)" "distinct (map tx_key txs)"
  shows "always (moves (tx_key ` set txs) A B) (foldM f b txs)"
  using assms
proof (induction txs arbitrary: b)
  case Nil
  then show ?case by auto
next
  case (Cons tx txs)
  have "always (moves (tx_key ` set txs) A B) (foldM f b' txs)" for b'
    using Cons by simp
  moreover have "moves ({tx_key tx} \<union> tx_key ` set txs) A B d d2"
    if "moves {tx_key tx} A B d d1" "moves (tx_key ` set txs) A B d1 d2" for d d1 d2
    using moves_union [OF that] Cons.prems(2) by auto
  ultimately show ?case
    using always_bind [of "moves {tx_key tx} A B" "f b tx" "moves (tx_key ` set txs) A B"
        "\<lambda>b'. foldM f b' txs" "moves ({tx_key tx} \<union> tx_key ` set txs) A B"] Cons.prems(1)
    by simp
qed

section \<open>The life cycle of a completed transaction\<close>

inductive next_status :: "completed_status \<Rightarrow> completed_status \<Rightarrow> bool" where
  broadcast: "next_status TxCompleted TxBroadcast"
| rejected: "next_status TxCompleted TxRejected"
| mined: "next_status TxBroadcast MinedUnconfirmed"
| confirmed: "next_status MinedUnconfirmed MinedConfirmed"

inductive_cases from_completed: "next_status TxCompleted st"
inductive_cases from_broadcast: "next_status TxBroadcast st"
inductive_cases from_mined: "next_status MinedUnconfirmed st"
inductive_simps next_status_final: "next_status MinedConfirmed st" "next_status TxRejected st"
  "next_status TxCanceled st"

text \<open>The life cycle as an order: from a status to those it can reach.\<close>

primrec reaches :: "completed_status \<Rightarrow> completed_status list" where
  "reaches TxCompleted = [TxCompleted, TxBroadcast, MinedUnconfirmed, MinedConfirmed, TxRejected]"
| "reaches TxBroadcast = [TxBroadcast, MinedUnconfirmed, MinedConfirmed]"
| "reaches MinedUnconfirmed = [MinedUnconfirmed, MinedConfirmed]"
| "reaches MinedConfirmed = [MinedConfirmed]"
| "reaches TxRejected = [TxRejected]"
| "reaches TxCanceled = [TxCanceled]"

instantiation completed_status :: order
begin

definition less_eq_completed_status :: "completed_status \<Rightarrow> completed_status \<Rightarrow> bool" where
  "st \<le> st' \<longleftrightarrow> st' \<in> set (reaches st)"

definition less_completed_status :: "completed_status \<Rightarrow> completed_status \<Rightarrow> bool" where
  "st < st' \<longleftrightarrow> st \<le> st' \<and> \<not> st' \<le> (st :: completed_status)"

instance
proof
  fix x y z :: completed_status
  show "x < y \<longleftrightarrow> x \<le> y \<and> \<not> y \<le> x" by (rule less_completed_status_def)
  show "x \<le> x" by (cases x) (simp_all add: less_eq_completed_status_def)
  show "x \<le> y \<Longrightarrow> y \<le> z \<Longrightarrow> x \<le> z" by (cases x; cases y) (auto simp: less_eq_completed_status_def)
  show "x \<le> y \<Longrightarrow> y \<le> x \<Longrightarrow> x = y" by (cases x; cases y) (simp_all add: less_eq_completed_status_def)
qed

end

lemma next_status_le: "next_status st st' \<Longrightarrow> st \<le> st'"
  by (induction rule: next_status.induct) (simp_all add: less_eq_completed_status_def)

lemma le_reachable: "st \<le> st' \<longleftrightarrow> next_status\<^sup>*\<^sup>* st st'"
proof
  have "next_status\<^sup>*\<^sup>* TxCompleted MinedUnconfirmed" "next_status\<^sup>*\<^sup>* TxBroadcast MinedConfirmed"
    by (meson next_status.intros converse_rtranclp_into_rtranclp rtranclp.rtrancl_refl)+
  moreover from this have "next_status\<^sup>*\<^sup>* TxCompleted MinedConfirmed"
    by (meson next_status.confirmed rtranclp.rtrancl_into_rtrancl)
  ultimately show "st \<le> st' \<Longrightarrow> next_status\<^sup>*\<^sup>* st st'"
    by (cases st) (auto simp: less_eq_completed_status_def intro: next_status.intros)
next
  show "next_status\<^sup>*\<^sup>* st st' \<Longrightarrow> st \<le> st'"
    by (induction rule: rtranclp_induct) (auto dest: next_status_le)
qed

definition keys_ok :: "db \<Rightarrow> bool" where
  \<comment> \<open>the transaction id is the primary key of the table\<close>
  "keys_ok d \<longleftrightarrow> distinct (map c_id (completeds d)) \<and> (\<forall>r \<in> set (completeds d). is_i64 (c_id r))"

lemma first_row_key:
  assumes "distinct (map k rows)" "r \<in> set rows"
  shows "first_row (\<lambda>x. k x = k r) rows = Some r"
  using assms by (induction rows) (auto simp: first_row_def)

lemma row_of_member: "keys_ok d \<Longrightarrow> r \<in> set (completeds d) \<Longrightarrow> row_of d (c_id r) = Some r"
  by (simp add: row_of_def keys_ok_def first_row_key)

lemma completed_of_row_key:
  "completed_of_row r = Inr tx \<Longrightarrow> is_i64 (c_id r) \<Longrightarrow>
     tx_key tx = c_id r \<and> c_status r = completed_status_text (ct_status tx)"
  by (auto simp: completed_of_row_def tx_key_def i64_of_u64_of_i64 split: sum.splits
      dest: completed_codec.of_text_sound)

lemma mapM_ok: "mapM f xs = Inr ys \<longleftrightarrow> list_all2 (\<lambda>x y. f x = Inr y) xs ys"
proof (induction xs arbitrary: ys)
  case Nil
  then show ?case by auto
next
  case (Cons x xs)
  show ?case
    by (cases "f x"; cases "mapM f xs") (auto simp: list_all2_Cons1 simp flip: Cons.IH)
qed

lemma list_all2_left: "list_all2 P xs ys \<Longrightarrow> x \<in> set xs \<Longrightarrow> \<exists>y \<in> set ys. P x y"
  by (induction rule: list_all2_induct) auto

lemma list_all2_right: "list_all2 P xs ys \<Longrightarrow> y \<in> set ys \<Longrightarrow> \<exists>x \<in> set xs. P x y"
  by (induction rule: list_all2_induct) auto

lemma pending_transactions:
  assumes run: "get_pending_completed_transactions a d = (Inr txs, d')" and ok: "keys_ok d"
  shows "d' = d" and "distinct (map tx_key txs)"
    and "tx \<in> set txs \<Longrightarrow> \<exists>r \<in> set (completeds d). c_account r = a \<and> awaiting r \<and>
           completed_of_row r = Inr tx \<and> row_of d (tx_key tx) = Some r"
    and "r \<in> set (completeds d) \<Longrightarrow> c_account r = a \<Longrightarrow> awaiting r \<Longrightarrow>
           \<exists>tx \<in> set txs. completed_of_row r = Inr tx \<and> tx_key tx = c_id r"
proof -
  let ?rows = "sort_key c_created (filter (\<lambda>r. c_account r = a \<and> awaiting r) (completeds d))"
  from run have m: "list_all2 (\<lambda>r tx. completed_of_row r = Inr tx) ?rows txs" and d': "d' = d"
    by (auto simp: get_pending_completed_transactions_def query_ok_iff mapM_ok)
  show "d' = d" by (rule d')
  have i64: "is_i64 (c_id r)" if "r \<in> set ?rows" for r using that ok by (simp add: keys_ok_def)
  have "list_all2 (\<lambda>r tx. tx_key tx = c_id r) ?rows txs"
    using m by (rule list.rel_mono_strong) (use i64 completed_of_row_key in blast)
  then have keys: "map tx_key txs = map c_id ?rows"
    by (auto simp: list_all2_conv_all_nth intro: nth_equalityI)
  show "distinct (map tx_key txs)"
    using ok unfolding keys keys_ok_def distinct_map by (auto simp: inj_on_def)
  show "\<exists>r \<in> set (completeds d). c_account r = a \<and> awaiting r \<and>
      completed_of_row r = Inr tx \<and> row_of d (tx_key tx) = Some r" if mem: "tx \<in> set txs"
  proof -
    obtain r where r: "r \<in> set ?rows" "completed_of_row r = Inr tx"
      using list_all2_right [OF m mem] by blast
    then have "tx_key tx = c_id r" using completed_of_row_key i64 by blast
    moreover have "r \<in> set (completeds d)" "c_account r = a" "awaiting r" using r(1) by simp_all
    ultimately show ?thesis using r(2) row_of_member [OF ok] by metis
  qed
  show "\<exists>tx \<in> set txs. completed_of_row r = Inr tx \<and> tx_key tx = c_id r"
    if "r \<in> set (completeds d)" "c_account r = a" "awaiting r"
  proof -
    have r: "r \<in> set ?rows" using that by simp
    then obtain tx where "tx \<in> set txs" "completed_of_row r = Inr tx"
      using list_all2_left [OF m] by blast
    with completed_of_row_key i64 [OF r] show ?thesis by blast
  qed
qed

lemma with_status_set [simp]: "set (with_status st txs) = {tx \<in> set txs. ct_status tx = st}"
  by (simp add: with_status_def)

lemma with_status_keys: "distinct (map tx_key txs) \<Longrightarrow> distinct (map tx_key (with_status st txs))"
  by (simp add: with_status_def distinct_map_filter)

definition three_moves :: "completed_transaction list \<Rightarrow> db \<Rightarrow> db \<Rightarrow> bool" where
  "three_moves txs d d' \<longleftrightarrow> (\<exists>d1 d2.
     moves (tx_key ` set (with_status TxCompleted txs)) TxCompleted {TxBroadcast, TxRejected} d d1 \<and>
     moves (tx_key ` set (with_status TxBroadcast txs)) TxBroadcast {MinedUnconfirmed} d1 d2 \<and>
     moves (tx_key ` set (with_status MinedUnconfirmed txs)) MinedUnconfirmed {MinedConfirmed} d2 d')"

lemma process_pending_three_moves:
  assumes "distinct (map tx_key txs)"
  shows "always (three_moves txs) (process_pending_transactions X m C a h txs)"
proof -
  let ?M1 = "moves (tx_key ` set (with_status TxCompleted txs)) TxCompleted {TxBroadcast, TxRejected}"
  let ?M2 = "moves (tx_key ` set (with_status TxBroadcast txs)) TxBroadcast {MinedUnconfirmed}"
  let ?M3 = "moves (tx_key ` set (with_status MinedUnconfirmed txs)) MinedUnconfirmed {MinedConfirmed}"
  note keys = with_status_keys [OF assms]
  have 1: "always ?M1 (rebroadcast_completed_transactions X m C a (with_status TxCompleted txs))"
    unfolding rebroadcast_completed_transactions_def
    by (rule foldM_moves [OF rebroadcast_moves keys])
  have 2: "always ?M2 (check_broadcast_for_mining X m C a (with_status TxBroadcast txs))"
    unfolding check_broadcast_for_mining_def by (rule foldM_moves [OF check_mined_moves keys])
  have 3: "always ?M3 (check_confirmation_status X m a h (with_status MinedUnconfirmed txs))"
    unfolding check_confirmation_status_def by (rule foldM_moves [OF check_confirmed_moves keys])
  have tail3: "always ?M3 (bindM (check_confirmation_status X m a h (with_status MinedUnconfirmed txs))
      (\<lambda>confirmed. ret (g confirmed)))" for g :: "wallet_event list \<Rightarrow> monitoring_result"
    by (rule moves_then_keeps [OF 3]) auto
  let ?Q = "\<lambda>d d'. \<exists>d2. ?M2 d d2 \<and> ?M3 d2 d'"
  have tail2: "always ?Q (bindM (check_broadcast_for_mining X m C a (with_status TxBroadcast txs)) (\<lambda>mined.
      bindM (check_confirmation_status X m a h (with_status MinedUnconfirmed txs))
        (\<lambda>confirmed. ret (r\<lparr>mr_events := mr_events r @ mined @ confirmed\<rparr>))))" for r :: monitoring_result
    by (rule always_bind [where R = ?M2 and S = ?M3, OF 2 tail3]) auto
  show ?thesis
    unfolding process_pending_transactions_def
    by (rule always_bind [where R = ?M1 and S = ?Q, OF 1 tail2])
      (auto simp: three_moves_def intro: moves_refl)
qed

end
