(* ===== verification/Monitor_Properties.thy ===== *)
theory Monitor_Properties
  imports Monitor_Effects Samples
begin

text \<open>
  The properties of the transaction monitor: transactions only move forward, deep ones are
  confirmed with their payment reference, and what the flag, the attempt limit and a failed
  request do.
\<close>

section \<open>The shape of a cycle\<close>

lemma bindM_snd_cases:
  assumes "bindM m f s = (r, s')"
  obtains e where "m s = (Inl e, s')" "r = Inl e" | a s1 where "m s = (Inr a, s1)" "f a s1 = (r, s')"
  using assms by (auto simp: bindM_def split: prod.splits sum.splits)

lemma update_confirmations_completeds:
  "update_confirmations X m a h d = (r, d') \<Longrightarrow> completeds d' = completeds d"
  by (rule alwaysD [OF keeps_update_confirmations])

lemma get_pending_reads: "get_pending_completed_transactions a d = (r, d') \<Longrightarrow> d' = d"
  by (simp add: get_pending_completed_transactions_def query_def)

lemma monitor_shape:
  assumes "monitor_if_needed X m C a h (flag, d) = (r, flag', d')"
  obtains d0 where "completeds d0 = completeds d" "d' = d0" "\<not> flag \<longrightarrow> \<not> flag'"
  | d0 txs r1 where "completeds d0 = completeds d" "flag"
    "get_pending_completed_transactions a d0 = (Inr txs, d0)"
    "process_pending_transactions X m C a h txs d0 = (r1, d')"
    "\<And>res. r = Inr res \<Longrightarrow> \<exists>res1. r1 = Inr res1"
proof -
  obtain r0 d0 where upd: "update_confirmations X m a h d = (r0, d0)" by fastforce
  have same: "completeds d0 = completeds d" by (rule update_confirmations_completeds [OF upd])
  show thesis
  proof (cases "(\<exists>e. r0 = Inl e) \<or> \<not> flag")
    case True
    with assms upd have "d' = d0 \<and> flag' = flag \<or> \<not> flag \<and> d' = d0 \<and> \<not> flag'"
      by (auto simp: monitor_if_needed_def on_db_def bindM_def gets_def ret_def split: sum.splits)
    with same that(1) True show thesis by blast
  next
    case False
    then obtain shown where r0: "r0 = Inr shown" and flag by (cases r0) auto
    obtain pend d1 where pend: "get_pending_completed_transactions a d0 = (pend, d1)" by fastforce
    then have d1: "d1 = d0" by (rule get_pending_reads)
    show thesis
    proof (cases "(\<exists>e. pend = Inl e) \<or> pend = Inr []")
      case True
      with assms upd pend d1 r0 \<open>flag\<close> have "d' = d0"
        by (auto simp: monitor_if_needed_def on_db_def bindM_def gets_def ret_def map_error_def
            seqM_def set_flag_def modify_def Let_def)
      with same that(1) \<open>flag\<close> show thesis by blast
    next
      case False
      then obtain txs where txs: "pend = Inr txs" "txs \<noteq> []" by (cases pend) auto
      obtain r1 d2 where run: "process_pending_transactions X m C a h txs d0 = (r1, d2)" by fastforce
      with assms upd pend d1 r0 \<open>flag\<close> txs have "d' = d2 \<and> (\<forall>res. r = Inr res \<longrightarrow> (\<exists>res1. r1 = Inr res1))"
        by (auto simp: monitor_if_needed_def on_db_def bindM_def gets_def ret_def map_error_def
            seqM_def set_flag_def modify_def whenM_def Let_def split: sum.splits if_splits)
      with that(2) [OF same \<open>flag\<close>] pend d1 txs run show thesis by blast
    qed
  qed
qed

lemma same_completeds:
  assumes "completeds d0 = completeds d"
  shows "status_of d0 i = status_of d i" "row_of d0 i = row_of d i" "keys_ok d0 = keys_ok d"
  using assms by (simp_all add: status_of_def row_of_def keys_ok_def)

lemma pending_status:
  assumes "get_pending_completed_transactions a d = (Inr txs, d)" "keys_ok d" "tx \<in> set txs"
  shows "status_of d (tx_key tx) = Some (completed_status_text (ct_status tx))"
proof -
  from pending_transactions(3) [OF assms] obtain r where r: "r \<in> set (completeds d)"
    "completed_of_row r = Inr tx" "row_of d (tx_key tx) = Some r" by blast
  with assms(2) completed_of_row_key show ?thesis by (auto simp: status_of_def keys_ok_def)
qed

lemma moves_outside: "moves I A B d d' \<Longrightarrow> i \<notin> I \<Longrightarrow> status_of d' i = status_of d i"
  unfolding moves_def by (blast dest: touches_status)

lemma moves_inside:
  "moves I A B d d' \<Longrightarrow> status_of d i = Some (completed_status_text A) \<Longrightarrow>
     \<exists>st \<in> insert A B. status_of d' i = Some (completed_status_text st)"
  using moves_outside [of I A B d d' i] by (cases "i \<in> I") (auto simp: moves_def)

lemma three_moves_step:
  assumes moves: "three_moves txs d d'" and pend: "get_pending_completed_transactions a d = (Inr txs, d)"
    and ok: "keys_ok d" and st: "status_of d i = Some (completed_status_text st)"
  shows "\<exists>st'. status_of d' i = Some (completed_status_text st') \<and> (st' = st \<or> next_status st st')"
proof -
  let ?I = "\<lambda>st. tx_key ` set (with_status st txs)"
  have mem: "st = s" if "i \<in> ?I s" for s
    using that st pending_status [OF pend ok] by auto
  from moves obtain d1 d2 where
    m1: "moves (?I TxCompleted) TxCompleted {TxBroadcast, TxRejected} d d1" and
    m2: "moves (?I TxBroadcast) TxBroadcast {MinedUnconfirmed} d1 d2" and
    m3: "moves (?I MinedUnconfirmed) MinedUnconfirmed {MinedConfirmed} d2 d'"
    unfolding three_moves_def by blast
  have f1: "st \<noteq> TxCompleted \<Longrightarrow> status_of d1 i = status_of d i"
    by (rule moves_outside [OF m1]) (use mem in blast)
  have f2: "st \<noteq> TxBroadcast \<Longrightarrow> status_of d2 i = status_of d1 i"
    by (rule moves_outside [OF m2]) (use mem in blast)
  have f3: "st \<noteq> MinedUnconfirmed \<Longrightarrow> status_of d' i = status_of d2 i"
    by (rule moves_outside [OF m3]) (use mem in blast)
  show ?thesis
  proof (cases st)
    case TxCompleted
    from moves_inside [OF m1 st [unfolded TxCompleted]] f2 f3 TxCompleted show ?thesis
      by (auto intro: next_status.intros)
  next
    case TxBroadcast
    from moves_inside [OF m2, of i] st f1 f3 TxBroadcast show ?thesis
      by (auto intro: next_status.intros)
  next
    case MinedUnconfirmed
    from moves_inside [OF m3, of i] st f1 f2 MinedUnconfirmed show ?thesis
      by (auto intro: next_status.intros)
  qed (use st f1 f2 f3 in auto)
qed

section \<open>Each transaction of a successful cycle\<close>

lemma foldM_each:
  assumes "foldM f b xs s = (Inr b', s')" "x \<in> set xs"
  shows "\<exists>pre post b0 s0 b1 s1. xs = pre @ x # post \<and> foldM f b pre s = (Inr b0, s0) \<and>
     f b0 x s0 = (Inr b1, s1) \<and> foldM f b1 post s1 = (Inr b', s')"
  using assms
proof (induction xs arbitrary: b s)
  case Nil
  then show ?case by simp
next
  case (Cons y ys)
  then obtain b1 s1 where one: "f b y s = (Inr b1, s1)" and rest: "foldM f b1 ys s1 = (Inr b', s')"
    by (auto simp: bindM_ok_iff)
  show ?case
  proof (cases "y = x")
    case True
    with one rest show ?thesis
      by (intro exI [of _ "[]"] exI [of _ ys] exI [of _ b] exI [of _ s] exI [of _ b1] exI [of _ s1])
        (simp add: ret_def)
  next
    case False
    with Cons.prems(2) have "x \<in> set ys" by simp
    from Cons.IH [OF rest this] obtain pre post b0 s0 b2 s2 where "ys = pre @ x # post"
      "foldM f b1 pre s1 = (Inr b0, s0)" "f b0 x s0 = (Inr b2, s2)" "foldM f b2 post s2 = (Inr b', s')"
      by blast
    with one show ?thesis
      by (intro exI [of _ "y # pre"] exI [of _ post] exI [of _ b0] exI [of _ s0] exI [of _ b2] exI [of _ s2])
        (simp add: bindM_def)
  qed
qed

lemma foldM_touches:
  assumes "\<And>b tx. always (moves {tx_key tx} A B) (f b tx)" "distinct (map tx_key txs)"
    and "foldM f b txs d = (r, d')"
  shows "touches (tx_key ` set txs) d d'"
proof -
  have "always (moves (tx_key ` set txs) A B) (foldM f b txs)"
    by (rule foldM_moves [OF assms(1,2)])
  from alwaysD [OF this assms(3)] show ?thesis by (simp add: moves_def)
qed

lemma foldM_one_row:
  assumes f: "\<And>b tx. always (moves {tx_key tx} A B) (f b tx)" and keys: "distinct (map tx_key txs)"
    and run: "foldM f b txs d = (Inr b', d')" and tx: "tx \<in> set txs"
    and effect: "\<And>b0 d0 b1 d1. f b0 tx d0 = (Inr b1, d1) \<Longrightarrow>
        row_of d1 (tx_key tx) = map_option g (row_of d0 (tx_key tx))"
  shows "row_of d' (tx_key tx) = map_option g (row_of d (tx_key tx))"
proof -
  from foldM_each [OF run tx] obtain pre post b0 d0 b1 d1 where split: "txs = pre @ tx # post"
    and pre: "foldM f b pre d = (Inr b0, d0)" and one: "f b0 tx d0 = (Inr b1, d1)"
    and post: "foldM f b1 post d1 = (Inr b', d')" by blast
  from keys split have "tx_key tx \<notin> tx_key ` set pre" "tx_key tx \<notin> tx_key ` set post"
    "distinct (map tx_key pre)" "distinct (map tx_key post)" by auto
  with foldM_touches [OF f _ pre] foldM_touches [OF f _ post] effect [OF one] show ?thesis
    by (simp add: touches_def)
qed

lemma persist_row: "persist_event X m a ev d = (r, d') \<Longrightarrow> row_of d' i = row_of d i"
  by (rule same_completeds(2) [OF alwaysD [OF keeps_persist]])

lemma update_completed_row:
  assumes "update_completed i f d = (Inr u, d')" "\<And>r. c_id (f r) = c_id r"
  shows "row_of d' (i64_of_u64 i) = map_option f (row_of d (i64_of_u64 i))"
  using assms(1) by (simp add: update_completed_ok_iff row_of_update [OF assms(2)])

definition confirmed_row :: "externals \<Rightarrow> u64 \<Rightarrow> string \<Rightarrow> completed_row \<Rightarrow> completed_row" where
  "confirmed_row X h payref r = r\<lparr>c_status := completed_status_text MinedConfirmed,
     c_confirmation_height := Some (i64_of_u64 h), c_sent_payref := Some payref, c_updated := x_now X\<rparr>"

definition rejected_row :: "externals \<Rightarrow> string \<Rightarrow> completed_row \<Rightarrow> completed_row" where
  "rejected_row X reason r = r\<lparr>c_status := completed_status_text TxRejected,
     c_rejected_reason := Some reason, c_updated := x_now X\<rparr>"

lemma check_confirmed_row:
  assumes run: "check_confirmed X m a h evs tx d = (Inr evs', d')"
    and deep: "ct_mined_height tx = Some mh" "mo_required m \<le> h - u64_of_i64 mh"
  shows "\<exists>payref. sent_payref X tx = Inr payref \<and>
     row_of d' (tx_key tx) = map_option (confirmed_row X h payref) (row_of d (tx_key tx))"
proof -
  from run deep obtain payref u d1 ev u' where p: "sent_payref X tx = Inr payref"
    and mark: "mark_completed_transaction_as_confirmed X (ct_id tx) (i64_of_u64 h) payref d = (Inr u, d1)"
    and pers: "persist_event X m a ev d1 = (Inr u', d')"
    by (auto simp: check_confirmed_def ok_simps Let_def)
  have "row_of d1 (tx_key tx) = map_option (confirmed_row X h payref) (row_of d (tx_key tx))"
    using update_completed_row [OF mark [unfolded mark_completed_transaction_as_confirmed_def]]
    by (simp add: tx_key_def confirmed_row_def [abs_def])
  with p persist_row [OF pers] show ?thesis by simp
qed

lemma unlock_row: "unlock_outputs_for_request p d = (Inr u, d') \<Longrightarrow> row_of d' i = row_of d i"
  by (rule same_completeds(2) [OF alwaysD [OF keeps_unlock]])

lemma mark_displayed_row: "mark_displayed_transaction_rejected X j d = (r, d') \<Longrightarrow> row_of d' i = row_of d i"
  by (rule same_completeds(2) [OF alwaysD [OF keeps_displayed(2)]])

lemma rebroadcast_rejects_row:
  assumes run: "rebroadcast_transaction X m C a res tx d = (Inr res', d')"
    and bad: "broadcast_transaction C tx = Inl reason" "ct_attempts tx < max_broadcast_attempts"
  shows "row_of d' (tx_key tx) = map_option (rejected_row X reason) (row_of d (tx_key tx))"
proof -
  from run bad obtain u d1 u2 d2 shown d3 ev u3 where
    mark: "mark_completed_transaction_as_rejected X (ct_id tx) reason d = (Inr u, d1)"
    and unl: "unlock_outputs_for_request (ct_pending_id tx) d1 = (Inr u2, d2)"
    and disp: "mark_displayed_transaction_rejected X (ct_id tx) d2 = (Inr shown, d3)"
    and pers: "persist_event X m a ev d3 = (Inr u3, d')"
    by (auto simp: rebroadcast_transaction_def reject_transaction_def ok_simps Let_def)
  have "row_of d1 (tx_key tx) = map_option (rejected_row X reason) (row_of d (tx_key tx))"
    using update_completed_row [OF mark [unfolded mark_completed_transaction_as_rejected_def]]
    by (simp add: tx_key_def rejected_row_def [abs_def])
  with unlock_row [OF unl] mark_displayed_row [OF disp] persist_row [OF pers] show ?thesis by simp
qed

section \<open>Attempts\<close>

definition attempts_ok :: "db \<Rightarrow> bool" where
  \<comment> \<open>a transaction that is to be broadcast has not been broadcast yet\<close>
  "attempts_ok d \<longleftrightarrow> (\<forall>r \<in> set (completeds d).
     c_status r = completed_status_text TxCompleted \<longrightarrow> c_attempts r = 0)"

abbreviation keeps_attempts :: "(db, 'e, 'a) run \<Rightarrow> bool" where
  "keeps_attempts \<equiv> always (\<lambda>d d'. attempts_ok d \<longrightarrow> attempts_ok d')"

lemma attempts_same: "keeps_completeds m \<Longrightarrow> keeps_attempts m"
  by (auto simp: always_def attempts_ok_def)

lemmas attempts_quiet = attempts_same [OF keeps_persist] attempts_same [OF keeps_unlock]
  attempts_same [OF keeps_displayed(1)] attempts_same [OF keeps_displayed(2)]

interpretation attempts: frame "\<lambda>d d'. attempts_ok d \<longrightarrow> attempts_ok d'"
  by unfold_locales simp_all

lemmas attempts_results [simp] = attempts.results
lemmas attempts_bind = attempts.bind and attempts_seq = attempts.seq and attempts_foldM = attempts.loop

lemma attempts_update:
  "(\<And>r. c_status (f r) = completed_status_text st) \<Longrightarrow> st \<noteq> TxCompleted \<Longrightarrow>
     keeps_attempts (update_completed i f)"
  by (auto simp: update_completed_def always_modify attempts_ok_def in_set_update_where)

lemma attempts_reject: "keeps_attempts (reject_transaction X m a tx reason suffix r)"
  unfolding reject_transaction_def mark_completed_transaction_as_rejected_def
  by (auto intro!: attempts_seq attempts_bind attempts_update simp: Let_def attempts_quiet)

lemma attempts_phases:
  "keeps_attempts (rebroadcast_completed_transactions X m C a txs)"
  "keeps_attempts (check_broadcast_for_mining X m C a txs)"
  "keeps_attempts (check_confirmation_status X m a h txs)"
proof -
  show "keeps_attempts (rebroadcast_completed_transactions X m C a txs)"
    unfolding rebroadcast_completed_transactions_def rebroadcast_transaction_def
      mark_completed_transaction_as_broadcasted_def
    by (auto intro!: attempts_foldM attempts_seq attempts_update [where st = TxBroadcast] attempts_reject
        simp: Let_def attempts_quiet split: sum.split)
  show "keeps_attempts (check_broadcast_for_mining X m C a txs)"
    unfolding check_broadcast_for_mining_def check_mined_def
      mark_completed_transaction_as_mined_unconfirmed_def
    by (auto intro!: attempts_foldM attempts_seq attempts_bind attempts_update [where st = MinedUnconfirmed]
        simp: Let_def attempts_quiet split: option.split)
  show "keeps_attempts (check_confirmation_status X m a h txs)"
    unfolding check_confirmation_status_def check_confirmed_def
      mark_completed_transaction_as_confirmed_def
    by (auto intro!: attempts_foldM attempts_seq attempts_bind attempts_update [where st = MinedConfirmed]
        simp: Let_def attempts_quiet split: option.split)
qed

lemma attempts_process: "keeps_attempts (process_pending_transactions X m C a h txs)"
  unfolding process_pending_transactions_def
  by (intro attempts_bind attempts_phases) auto

lemma attempts_monitor:
  assumes "monitor_if_needed X m C a h (flag, d) = (r, flag', d')" "attempts_ok d"
  shows "attempts_ok d'"
  using assms(1)
proof (cases rule: monitor_shape)
  case (1 d0)
  with assms(2) show ?thesis by (simp add: attempts_ok_def)
next
  case (2 d0 txs r1)
  with assms(2) have "attempts_ok d0" by (simp add: attempts_ok_def)
  with alwaysD [OF attempts_process 2(4)] show ?thesis by simp
qed

section \<open>Many cycles\<close>

definition same_keys :: "db \<Rightarrow> db \<Rightarrow> bool" where
  "same_keys d d' \<longleftrightarrow> map c_id (completeds d') = map c_id (completeds d)"

interpretation keys: frame same_keys
  by unfold_locales (simp_all add: same_keys_def)

lemma keys_same: "keeps_completeds m \<Longrightarrow> always same_keys m"
  by (auto simp: always_def same_keys_def)

lemmas keys_quiet = keys_same [OF keeps_persist] keys_same [OF keeps_unlock]
  keys_same [OF keeps_displayed(1)] keys_same [OF keeps_displayed(2)]

lemma keys_update: "(\<And>r. c_id (f r) = c_id r) \<Longrightarrow> always same_keys (update_completed i f)"
  by (simp add: update_completed_def always_modify same_keys_def map_update_where)

lemma keys_reject: "always same_keys (reject_transaction X m a tx reason suffix r)"
  unfolding reject_transaction_def mark_completed_transaction_as_rejected_def
  by (auto intro!: keys.seq keys.bind keys_update simp: Let_def keys_quiet keys.results)

lemma keys_process: "always same_keys (process_pending_transactions X m C a h txs)"
proof -
  have "always same_keys (rebroadcast_completed_transactions X m C a txs)" for txs
    unfolding rebroadcast_completed_transactions_def rebroadcast_transaction_def
      mark_completed_transaction_as_broadcasted_def
    by (auto intro!: keys.loop keys.seq keys_update keys_reject simp: Let_def keys_quiet keys.results split: sum.split)
  moreover have "always same_keys (check_broadcast_for_mining X m C a txs)" for txs
    unfolding check_broadcast_for_mining_def check_mined_def
      mark_completed_transaction_as_mined_unconfirmed_def
    by (auto intro!: keys.loop keys.seq keys.bind keys_update simp: Let_def keys_quiet keys.results split: option.split)
  moreover have "always same_keys (check_confirmation_status X m a h txs)" for txs
    unfolding check_confirmation_status_def check_confirmed_def mark_completed_transaction_as_confirmed_def
    by (auto intro!: keys.loop keys.seq keys.bind keys_update simp: Let_def keys_quiet keys.results split: option.split)
  ultimately show ?thesis
    unfolding process_pending_transactions_def by (intro keys.bind keys.results)
qed

lemma keys_monitor:
  assumes "monitor_if_needed X m C a h (flag, d) = (r, flag', d')"
  shows "same_keys d d'"
  using assms
proof (cases rule: monitor_shape)
  case (1 d0)
  then show ?thesis by (simp add: same_keys_def)
next
  case (2 d0 txs r1)
  with alwaysD [OF keys_process 2(4)] show ?thesis by (simp add: same_keys_def)
qed

lemma keys_ok_same: "same_keys d d' \<Longrightarrow> keys_ok d \<Longrightarrow> keys_ok d'"
proof -
  have keys: "keys_ok d \<longleftrightarrow> distinct (map c_id (completeds d)) \<and> (\<forall>i \<in> set (map c_id (completeds d)). is_i64 i)" for d
    by (auto simp: keys_ok_def)
  show "same_keys d d' \<Longrightarrow> keys_ok d \<Longrightarrow> keys_ok d'" unfolding keys same_keys_def by metis
qed

lemma cycle_step:
  assumes "monitor_if_needed X m C a h (flag, d) = (r, flag', d')" "keys_ok d"
    and "status_of d i = Some (completed_status_text st)"
  shows "\<exists>st'. status_of d' i = Some (completed_status_text st') \<and> (st' = st \<or> next_status st st')"
  using assms(1)
proof (cases rule: monitor_shape)
  case (1 d0)
  with assms(3) show ?thesis by (simp add: same_completeds(1) [OF 1(1)])
next
  case (2 d0 txs r1)
  have ok: "keys_ok d0" using assms(2) same_completeds(3) [OF 2(1)] by simp
  have "three_moves txs d0 d'"
    using alwaysD [OF process_pending_three_moves 2(4)] pending_transactions(2) [OF 2(3) ok] by blast
  from three_moves_step [OF this 2(3) ok] assms(3) same_completeds(1) [OF 2(1)] show ?thesis by simp
qed

definition monitor_cycles ::
  "externals \<Rightarrow> (monitor \<times> wallet_client \<times> i64 \<times> u64) list \<Rightarrow> bool \<times> db \<Rightarrow> bool \<times> db" where
  \<comment> \<open>the cycles of a scan, with the node and the height each of them sees, whatever they return\<close>
  "monitor_cycles X cycles = fold (\<lambda>(m, C, a, h) s. snd (monitor_if_needed X m C a h s)) cycles"

lemma cycles_climb:
  assumes "monitor_cycles X cycles (flag, d) = (flag', d')" "keys_ok d"
    and "status_of d i = Some (completed_status_text st)"
  shows "\<exists>st'. status_of d' i = Some (completed_status_text st') \<and> st \<le> st'"
  using assms
proof (induction cycles arbitrary: flag d st)
  case Nil
  then show ?case by (auto simp: monitor_cycles_def)
next
  case (Cons cycle cycles)
  obtain m C a h where cycle: "cycle = (m, C, a, h)" by (cases cycle)
  obtain r flag1 d1 where one: "monitor_if_needed X m C a h (flag, d) = (r, flag1, d1)"
    by (metis prod.exhaust)
  with Cons.prems(1) have rest: "monitor_cycles X cycles (flag1, d1) = (flag', d')"
    by (simp add: monitor_cycles_def cycle)
  from cycle_step [OF one Cons.prems(2,3)] obtain st1 where
    st1: "status_of d1 i = Some (completed_status_text st1)" "st \<le> st1"
    using next_status_le by blast
  have "keys_ok d1" by (rule keys_ok_same [OF keys_monitor [OF one] Cons.prems(2)])
  from Cons.IH [OF rest this st1(1)] st1(2) show ?case using order_trans by blast
qed

section \<open>Successful cycles\<close>

lemma process_pending_phases:
  assumes "process_pending_transactions X m C a h txs d = (Inr res, d')"
  obtains r d1 mined d2 confirmed where
    "foldM (rebroadcast_transaction X m C a) no_result (with_status TxCompleted txs) d = (Inr r, d1)"
    "foldM (check_mined X m C a) [] (with_status TxBroadcast txs) d1 = (Inr mined, d2)"
    "foldM (check_confirmed X m a h) [] (with_status MinedUnconfirmed txs) d2 = (Inr confirmed, d')"
  using assms
  by (auto simp: process_pending_transactions_def rebroadcast_completed_transactions_def
      check_broadcast_for_mining_def check_confirmation_status_def bindM_ok_iff ret_ok_iff)

lemma process_no_pending: "\<exists>res. process_pending_transactions X m C a h [] d = (Inr res, d)"
  by (simp add: process_pending_transactions_def rebroadcast_completed_transactions_def
      check_broadcast_for_mining_def check_confirmation_status_def bindM_def ret_def with_status_def)

lemma monitor_ok:
  assumes "monitor_if_needed X m C a h (True, d) = (Inr res, flag', d')"
  shows "\<exists>shown d0 txs res1. update_confirmations X m a h d = (Inr shown, d0) \<and>
     get_pending_completed_transactions a d0 = (Inr txs, d0) \<and>
     process_pending_transactions X m C a h txs d0 = (Inr res1, d')"
proof -
  obtain r0 d0 where upd: "update_confirmations X m a h d = (r0, d0)" by fastforce
  obtain pend d1 where pend: "get_pending_completed_transactions a d0 = (pend, d1)" by fastforce
  have d1: "d1 = d0" by (rule get_pending_reads [OF pend])
  from assms upd obtain shown where r0: "r0 = Inr shown"
    by (cases r0) (auto simp: monitor_if_needed_def on_db_def bindM_def)
  from assms upd pend r0 obtain txs where txs: "pend = Inr txs"
    by (cases pend) (auto simp: monitor_if_needed_def on_db_def bindM_def gets_def map_error_def Let_def)
  obtain r1 d2 where run: "process_pending_transactions X m C a h txs d0 = (r1, d2)" by fastforce
  show ?thesis
  proof (cases "txs = []")
    case True
    with assms upd pend r0 txs d1 have "d' = d0"
      by (auto simp: monitor_if_needed_def on_db_def bindM_def gets_def ret_def map_error_def
          seqM_def set_flag_def modify_def Let_def)
    with True upd pend r0 txs d1 process_no_pending show ?thesis by blast
  next
    case False
    with assms upd pend r0 txs d1 run have "d' = d2 \<and> (\<exists>res1. r1 = Inr res1)"
      by (auto simp: monitor_if_needed_def on_db_def bindM_def gets_def ret_def map_error_def
          seqM_def set_flag_def modify_def whenM_def Let_def split: sum.splits if_splits)
    with upd pend r0 txs d1 run show ?thesis by blast
  qed
qed

lemma successful_cycle:
  assumes run: "monitor_if_needed X m C a h (True, d) = (Inr res, flag', d')" and ok: "keys_ok d"
    and r: "r \<in> set (completeds d)" "c_account r = a" "awaiting r" "completed_of_row r = Inr tx"
  obtains d0 txs res1 where "tx \<in> set txs" "distinct (map tx_key txs)" "tx_key tx = c_id r"
    "row_of d0 (tx_key tx) = Some r" "process_pending_transactions X m C a h txs d0 = (Inr res1, d')"
proof -
  from monitor_ok [OF run] obtain shown d0 txs res1 where
    upd: "update_confirmations X m a h d = (Inr shown, d0)"
    and pend: "get_pending_completed_transactions a d0 = (Inr txs, d0)"
    and proc: "process_pending_transactions X m C a h txs d0 = (Inr res1, d')" by blast
  have same: "completeds d0 = completeds d" by (rule update_confirmations_completeds [OF upd])
  then have ok0: "keys_ok d0" "r \<in> set (completeds d0)"
    using ok r(1) same_completeds(3) [OF same] by simp_all
  obtain tx' where tx': "tx' \<in> set txs" "completed_of_row r = Inr tx'" "tx_key tx' = c_id r"
    using pending_transactions(4) [OF pend ok0(1) ok0(2) r(2,3)] by blast
  with r(4) have same_tx: "tx' = tx" by simp
  have "row_of d0 (tx_key tx) = Some r" using row_of_member [OF ok0] tx'(3) same_tx by metis
  from that [OF tx'(1) [unfolded same_tx] pending_transactions(2) [OF pend ok0(1)]
      tx'(3) [unfolded same_tx] this proc] show thesis .
qed

lemma other_key:
  assumes "distinct (map tx_key txs)" "tx \<in> set txs" "ct_status tx \<noteq> st"
  shows "tx_key tx \<notin> tx_key ` set (with_status st txs)"
proof
  assume "tx_key tx \<in> tx_key ` set (with_status st txs)"
  then obtain tx' where "tx' \<in> set txs" "ct_status tx' = st" "tx_key tx' = tx_key tx" by auto
  with assms show False by (auto simp: distinct_map inj_on_def)
qed

lemma awaiting_iff:
  assumes "completed_of_row r = Inr tx"
  shows "awaiting r \<longleftrightarrow> ct_status tx \<in> {TxCompleted, TxBroadcast, MinedUnconfirmed}"
proof -
  have "c_status r = completed_status_text (ct_status tx)"
    using assms by (auto simp: completed_of_row_def split: sum.splits dest: completed_codec.of_text_sound)
  then show ?thesis using awaiting_status [where r = r and st = "ct_status tx"] by (simp add: awaiting_def)
qed

section \<open>Properties\<close>

text \<open>
  C28: Whatever happens in a monitoring cycle, an error of the node or of the database
  included, every completed transaction keeps its status or takes one step of the life
  cycle: completed to broadcast or rejected, broadcast to mined, mined to confirmed.
\<close>

theorem monitor_moves_forward:
  assumes "monitor_if_needed X m C a h (flag, d) = (r, flag', d')" "keys_ok d"
    and "status_of d i = Some (completed_status_text st)"
  shows "\<exists>st'. status_of d' i = Some (completed_status_text st') \<and> (st' = st \<or> next_status st st')"
  by (rule cycle_step [OF assms])

text \<open>
  C29: A cycle that succeeds while the flag is set confirms every mined transaction of the
  account that has the required confirmations: the row gets the confirmation height and the
  payment reference computed from its block and its sent output.
\<close>

theorem monitor_confirms_deep:
  assumes run: "monitor_if_needed X m C a h (True, d) = (Inr res, flag', d')" and ok: "keys_ok d"
    and r: "r \<in> set (completeds d)" "c_account r = a" "completed_of_row r = Inr tx"
    and deep: "ct_status tx = MinedUnconfirmed" "ct_mined_height tx = Some mh"
      "mo_required m \<le> h - u64_of_i64 mh"
  shows "\<exists>payref. sent_payref X tx = Inr payref \<and>
     row_of d' (c_id r) = Some (confirmed_row X h payref r)"
proof -
  have "awaiting r" using awaiting_iff [OF r(3)] deep(1) by simp
  from successful_cycle [OF run ok r(1,2) this r(3)] obtain d0 txs res1 where
    tx: "tx \<in> set txs" "distinct (map tx_key txs)" "tx_key tx = c_id r" "row_of d0 (tx_key tx) = Some r"
    and proc: "process_pending_transactions X m C a h txs d0 = (Inr res1, d')" by blast
  from process_pending_phases [OF proc] obtain r1 d1 mined d2 confirmed where
    p1: "foldM (rebroadcast_transaction X m C a) no_result (with_status TxCompleted txs) d0 = (Inr r1, d1)"
    and p2: "foldM (check_mined X m C a) [] (with_status TxBroadcast txs) d1 = (Inr mined, d2)"
    and p3: "foldM (check_confirmed X m a h) [] (with_status MinedUnconfirmed txs) d2 = (Inr confirmed, d')" .
  note keys = with_status_keys [OF tx(2)]
  have mem: "tx \<in> set (with_status MinedUnconfirmed txs)" using tx(1) deep(1) by simp
  have row: "row_of d2 (tx_key tx) = Some r"
    using foldM_touches [OF rebroadcast_moves keys p1] foldM_touches [OF check_mined_moves keys p2]
      other_key [OF tx(2,1)] deep(1) tx(4) by (simp add: touches_def)
  from foldM_each [OF p3 mem] obtain b0 s0 b1 s1 where
    "check_confirmed X m a h b0 tx s0 = (Inr b1, s1)" by blast
  from check_confirmed_row [OF this deep(2,3)] obtain payref where payref: "sent_payref X tx = Inr payref"
    by blast
  have "row_of d' (tx_key tx) = map_option (confirmed_row X h payref) (row_of d2 (tx_key tx))"
    by (rule foldM_one_row [OF check_confirmed_moves keys p3 mem])
      (use check_confirmed_row [OF _ deep(2,3)] payref in fastforce)
  with row payref tx(3) show ?thesis by simp
qed

text \<open>
  C30: A transaction whose submission fails, because the node cannot be reached for example,
  is rejected for good by the next cycle that succeeds: no attempt is made again.
\<close>

theorem unreachable_node_rejects:
  assumes run: "monitor_if_needed X m C a h (True, d) = (Inr res, flag', d')" and ok: "keys_ok d"
    and r: "r \<in> set (completeds d)" "c_account r = a" "completed_of_row r = Inr tx"
    and tx: "ct_status tx = TxCompleted" "ct_attempts tx < max_broadcast_attempts"
    and node: "cl_parse C (ct_serialized tx) = Inr kernels" "cl_submit C (ct_serialized tx) = Inl e"
  shows "row_of d' (c_id r) = Some (rejected_row X (''Broadcast failed: '' @ e) r)"
proof -
  have bad: "broadcast_transaction C tx = Inl (''Broadcast failed: '' @ e)"
    using node by (simp add: broadcast_transaction_def)
  have "awaiting r" using awaiting_iff [OF r(3)] tx(1) by simp
  from successful_cycle [OF run ok r(1,2) this r(3)] obtain d0 txs res1 where
    t: "tx \<in> set txs" "distinct (map tx_key txs)" "tx_key tx = c_id r" "row_of d0 (tx_key tx) = Some r"
    and proc: "process_pending_transactions X m C a h txs d0 = (Inr res1, d')" by blast
  from process_pending_phases [OF proc] obtain r1 d1 mined d2 confirmed where
    p1: "foldM (rebroadcast_transaction X m C a) no_result (with_status TxCompleted txs) d0 = (Inr r1, d1)"
    and p2: "foldM (check_mined X m C a) [] (with_status TxBroadcast txs) d1 = (Inr mined, d2)"
    and p3: "foldM (check_confirmed X m a h) [] (with_status MinedUnconfirmed txs) d2 = (Inr confirmed, d')" .
  note keys = with_status_keys [OF t(2)]
  have mem: "tx \<in> set (with_status TxCompleted txs)" using t(1) tx(1) by simp
  have "row_of d1 (tx_key tx) = map_option (rejected_row X (''Broadcast failed: '' @ e)) (row_of d0 (tx_key tx))"
    by (rule foldM_one_row [OF rebroadcast_moves keys p1 mem]) (rule rebroadcast_rejects_row [OF _ bad tx(2)])
  moreover have "row_of d' (tx_key tx) = row_of d1 (tx_key tx)"
    using foldM_touches [OF check_mined_moves keys p2] foldM_touches [OF check_confirmed_moves keys p3]
      other_key [OF t(2,1)] tx(1) by (simp add: touches_def)
  ultimately show ?thesis using t(3,4) by simp
qed

text \<open>
  While the flag is not set, a cycle leaves every completed transaction alone and the flag
  unset: a transaction that a reorganisation sends back to be broadcast waits until the
  monitor is initialised again.
\<close>

theorem idle_monitor_does_nothing:
  assumes "monitor_if_needed X m C a h (False, d) = (r, flag', d')"
  shows "completeds d' = completeds d \<and> \<not> flag'"
  using assms
proof (cases rule: monitor_shape)
  case (1 d0)
  then show ?thesis by simp
qed simp

text \<open>
  No transaction waiting to be broadcast has an attempt on record, after its creation, a
  monitoring cycle or the reset of a reorganisation; so the limit of ten attempts is never
  reached.
\<close>

theorem broadcast_limit_never_reached:
  assumes "attempts_ok d"
  shows "(monitor_if_needed X m C a h (flag, d) = (r1, flag', d1) \<longrightarrow> attempts_ok d1) \<and>
     (create_completed_transaction X a p excess ser sent tx_id d = (r2, d2) \<longrightarrow> attempts_ok d2) \<and>
     (reset_mined_completed_transactions_from_height X a h d = (r3, d3) \<longrightarrow> attempts_ok d3) \<and>
     (get_pending_completed_transactions a d = (Inr txs, d4) \<longrightarrow>
        (\<forall>tx \<in> set (with_status TxCompleted txs). ct_attempts tx < max_broadcast_attempts))"
proof (intro conjI impI)
  show "attempts_ok d1" if "monitor_if_needed X m C a h (flag, d) = (r1, flag', d1)"
    using attempts_monitor [OF that assms] .
  show "attempts_ok d2" if "create_completed_transaction X a p excess ser sent tx_id d = (r2, d2)"
    using that assms
    by (auto simp: create_completed_transaction_def statement_def attempts_ok_def set_insort_key split: if_splits)
  show "attempts_ok d3" if "reset_mined_completed_transactions_from_height X a h d = (r3, d3)"
    using that assms
    by (auto simp: reset_mined_completed_transactions_from_height_def statement_def attempts_ok_def
        in_set_update_where back_to_completed_def)
  show "\<forall>tx \<in> set (with_status TxCompleted txs). ct_attempts tx < max_broadcast_attempts"
    if "get_pending_completed_transactions a d = (Inr txs, d4)"
  proof
    fix tx assume tx: "tx \<in> set (with_status TxCompleted txs)"
    from that have "mapM completed_of_row (sort_key c_created
        (filter (\<lambda>r. c_account r = a \<and> awaiting r) (completeds d))) = Inr txs"
      by (simp add: get_pending_completed_transactions_def query_ok_iff)
    from mapM_source [OF this, of tx] tx obtain r where "r \<in> set (completeds d)" "completed_of_row r = Inr tx"
      by auto
    with tx assms show "ct_attempts tx < max_broadcast_attempts"
      by (auto simp: completed_of_row_def attempts_ok_def max_broadcast_attempts_def split: sum.splits
          dest!: completed_codec.of_text_sound)
  qed
qed

section \<open>Witnesses\<close>

definition sample_completed :: "i64 \<Rightarrow> completed_status \<Rightarrow> completed_row" where
  "sample_completed i st = \<lparr>c_id = i, c_account = 1, c_pending_id = ''p0'',
     c_status = completed_status_text st, c_rejected_reason = None, c_kernel_excess = [],
     c_sent_payref = None, c_sent_hash = Some (replicate 32 (CHR ''h'')), c_mined_height = None,
     c_mined_block = None, c_confirmation_height = None, c_attempts = 0, c_serialized = [],
     c_created = 0, c_updated = 0\<rparr>"

definition mined_row :: completed_row where
  "mined_row = (sample_completed 7 MinedUnconfirmed)\<lparr>c_mined_height := Some 5,
     c_mined_block := Some (replicate 32 5)\<rparr>"

definition monitor_db :: db where
  "monitor_db = account_db\<lparr>completeds := [sample_completed 5 TxCompleted, mined_row]\<rparr>"

definition sample_client :: wallet_client where
  "sample_client = \<lparr>cl_parse = (\<lambda>_. Inr [([1], [2])]),
     cl_submit = (\<lambda>_. Inr \<lparr>sub_accepted = True, sub_already_mined = False, sub_reason = []\<rparr>),
     cl_query = (\<lambda>_ _. Inr \<lparr>tq_mined = False, tq_height = None, tq_hash = None\<rparr>)\<rparr>"

definition deaf_client :: wallet_client where
  "deaf_client = sample_client\<lparr>cl_submit := (\<lambda>_. Inl ''timeout'')\<rparr>"

definition sample_monitor :: monitor where
  "sample_monitor = \<lparr>mo_required = 3, mo_webhook = None\<rparr>"

lemma monitor_db_ok: "keys_ok monitor_db" "attempts_ok monitor_db"
  by code_simp+

lemma sample_cycle:
  "\<exists>res flag' d'. monitor_if_needed sample_X sample_monitor sample_client 1 9 (True, monitor_db) = (Inr res, flag', d')"
  "\<exists>res flag' d'. monitor_if_needed sample_X sample_monitor deaf_client 1 9 (True, monitor_db) = (Inr res, flag', d')"
proof -
  have "succeeds_with (monitor_if_needed sample_X sample_monitor sample_client 1 9 (True, monitor_db)) (\<lambda>_ _. True)"
    "succeeds_with (monitor_if_needed sample_X sample_monitor deaf_client 1 9 (True, monitor_db)) (\<lambda>_ _. True)"
    by code_simp+
  then show "\<exists>res flag' d'. monitor_if_needed sample_X sample_monitor sample_client 1 9 (True, monitor_db) = (Inr res, flag', d')"
    "\<exists>res flag' d'. monitor_if_needed sample_X sample_monitor deaf_client 1 9 (True, monitor_db) = (Inr res, flag', d')"
    unfolding with_iffs by (metis surj_pair)+
qed

theorem monitor_moves_forward_witness:
  "\<exists>res flag' d' st. monitor_if_needed sample_X sample_monitor sample_client 1 9 (True, monitor_db) = (Inr res, flag', d') \<and>
     status_of d' 5 = Some (completed_status_text st) \<and> st \<in> {TxCompleted, TxBroadcast, TxRejected}"
proof -
  obtain res flag' d' where run: "monitor_if_needed sample_X sample_monitor sample_client 1 9 (True, monitor_db) = (Inr res, flag', d')"
    using sample_cycle(1) by blast
  have "status_of monitor_db 5 = Some (completed_status_text TxCompleted)" by code_simp
  from monitor_moves_forward [OF run monitor_db_ok(1) this] obtain st where
    "status_of d' 5 = Some (completed_status_text st)" "st = TxCompleted \<or> next_status TxCompleted st"
    by blast
  then have "st \<in> {TxCompleted, TxBroadcast, TxRejected}" by (auto elim: from_completed)
  with run \<open>status_of d' 5 = _\<close> show ?thesis by blast
qed

definition row_reads :: "(completed_transaction \<Rightarrow> bool) \<Rightarrow> completed_row \<Rightarrow> bool" where
  "row_reads P r = (case completed_of_row r of Inr tx \<Rightarrow> P tx | Inl _ \<Rightarrow> False)"

lemma row_readsD: "row_reads P r \<Longrightarrow> \<exists>tx. completed_of_row r = Inr tx \<and> P tx"
  by (auto simp: row_reads_def split: sum.splits)

lemma mined_row_facts:
  "mined_row \<in> set (completeds monitor_db) \<and> c_account mined_row = 1"
  "row_reads (\<lambda>tx. ct_status tx = MinedUnconfirmed \<and> ct_mined_height tx = Some 5) mined_row"
  by code_simp+

theorem monitor_confirms_deep_witness:
  "\<exists>res flag' d' payref. monitor_if_needed sample_X sample_monitor sample_client 1 9 (True, monitor_db) = (Inr res, flag', d') \<and>
     row_of d' 7 = Some (confirmed_row sample_X 9 payref mined_row)"
proof -
  obtain tx where tx: "completed_of_row mined_row = Inr tx" "ct_status tx = MinedUnconfirmed"
    "ct_mined_height tx = Some 5" using row_readsD [OF mined_row_facts(2)] by blast
  have "mo_required sample_monitor \<le> 9 - u64_of_i64 5" "c_id mined_row = 7" by code_simp+
  with sample_cycle(1) monitor_confirms_deep [OF _ monitor_db_ok(1) _ _ tx] mined_row_facts(1)
  show ?thesis by metis
qed

theorem unreachable_node_rejects_witness:
  "\<exists>res flag' d'. monitor_if_needed sample_X sample_monitor deaf_client 1 9 (True, monitor_db) = (Inr res, flag', d') \<and>
     row_of d' 5 = Some (rejected_row sample_X ''Broadcast failed: timeout'' (sample_completed 5 TxCompleted))"
proof -
  let ?r = "sample_completed 5 TxCompleted"
  have "row_reads (\<lambda>tx. ct_status tx = TxCompleted \<and> ct_attempts tx < max_broadcast_attempts) ?r"
    by code_simp
  then obtain tx where tx: "completed_of_row ?r = Inr tx" "ct_status tx = TxCompleted"
    "ct_attempts tx < max_broadcast_attempts" using row_readsD by blast
  have "?r \<in> set (completeds monitor_db)" "c_account ?r = 1" "c_id ?r = 5" by code_simp+
  moreover have "cl_parse deaf_client (ct_serialized tx) = Inr [([1], [2])]"
    "cl_submit deaf_client (ct_serialized tx) = Inl ''timeout''"
    by (simp_all add: deaf_client_def sample_client_def)
  ultimately show ?thesis
    using sample_cycle(2) unreachable_node_rejects [OF _ monitor_db_ok(1) _ _ tx] by fastforce
qed

theorem idle_monitor_does_nothing_witness:
  "completeds (snd (snd (monitor_if_needed sample_X sample_monitor sample_client 1 9 (False, monitor_db)))) =
     completeds monitor_db"
  using idle_monitor_does_nothing [of sample_X sample_monitor sample_client 1 9 monitor_db]
  by (metis prod.collapse)

theorem broadcast_limit_never_reached_witness:
  "attempts_ok (snd (reset_mined_completed_transactions_from_height sample_X 1 4 monitor_db))"
  using broadcast_limit_never_reached [OF monitor_db_ok(2), THEN conjunct2, THEN conjunct2, THEN conjunct1]
  by (metis prod.collapse)

end
