(* ===== verification/Tx_Building.thy ===== *)
theory Tx_Building
  imports Locking Burn_Proofs Completed_Txs
begin

text \<open>
  Construction of outgoing transactions: \<open>transactions/one_sided_transaction.rs\<close>,
  \<open>transactions/validator_node/\<close> and \<open>transactions/burn/mod.rs\<close>. Keys, addresses and the
  transaction builder belong to the Tari libraries; they are the fields of
  \<open>signing_tools\<close>, with an opaque type for the builder, the memo and the unsigned
  transaction. What is modelled is the order of the calls, the locking of the funds in
  between, and the records the wallet keeps.
\<close>

section \<open>The transaction library\<close>

record recipient =
  rc_address :: string
  rc_amount :: u64
  rc_payment_id :: "string option"

record ('b, 'm, 'u) signing_tools =
  sg_address :: "account_row \<Rightarrow> string + string"     \<comment> \<open>\<open>get_address(network, password)\<close>\<close>
  sg_one_sided :: "string \<Rightarrow> bool"                   \<comment> \<open>the features of an address\<close>
  sg_builder :: "account_row \<Rightarrow> u64 \<Rightarrow> string + 'b"   \<comment> \<open>key manager, new builder, fee rate\<close>
  sg_with_input :: "'b \<Rightarrow> wallet_output \<Rightarrow> string + 'b"
  sg_memo :: "string \<Rightarrow> string + 'm"                 \<comment> \<open>\<open>MemoField::new_open_from_string\<close>\<close>
  sg_no_memo :: 'm
  sg_prepare :: "u64 \<Rightarrow> 'b \<Rightarrow> (u64 \<times> string \<times> 'm) list \<Rightarrow> 'm \<Rightarrow> string \<Rightarrow> string + 'u"
    \<comment> \<open>\<open>prepare_one_sided_transaction_for_signing\<close>; the first argument is the random id\<close>

datatype send_error =
    SendDb wallet_error
  | SendSelection selection_error
  | SendLock lock_error
  | SendPanic
  | SendMessage string

fun bind_result :: "'e + 'a \<Rightarrow> ('a \<Rightarrow> 'e + 'b) \<Rightarrow> 'e + 'b" where
  "bind_result (Inl e) f = Inl e"
| "bind_result (Inr a) f = f a"

lemma bind_result_ok_iff: "bind_result r f = Inr b \<longleftrightarrow> (\<exists>a. r = Inr a \<and> f a = Inr b)"
  by (cases r) simp_all

definition builder_with_inputs ::
  "('b, 'm, 'u) signing_tools \<Rightarrow> account_row \<Rightarrow> u64 \<Rightarrow> wallet_output list \<Rightarrow> string + 'b" where
  \<comment> \<open>\<open>prepare_transaction_builder\<close> of the sender, inlined in the other modules\<close>
  "builder_with_inputs G account fee_per_gram utxos =
     bind_result (sg_builder G account fee_per_gram) (\<lambda>b. fold_result (sg_with_input G) b utxos)"

definition memo_or_empty :: "('b, 'm, 'u) signing_tools \<Rightarrow> string option \<Rightarrow> 'm" where
  \<comment> \<open>an encoding error falls back to the empty memo\<close>
  "memo_or_empty G payment_id = (case payment_id of None \<Rightarrow> sg_no_memo G
     | Some s \<Rightarrow> (case sg_memo G s of Inl _ \<Rightarrow> sg_no_memo G | Inr m \<Rightarrow> m))"

section \<open>One-sided transactions\<close>

definition create_unsigned_transaction ::
  "('b, 'm, 'u) signing_tools \<Rightarrow> u64 \<Rightarrow> account_row \<Rightarrow> lock_funds_result \<Rightarrow> recipient list \<Rightarrow> u64 \<Rightarrow>
     string + 'u" where
  "create_unsigned_transaction G tx_id account locked_funds recipients fee_per_gram =
     (if recipients = [] then Inl ''No recipients provided''
      else bind_result (sg_address G account) (\<lambda>sender_address.
        bind_result (builder_with_inputs G account fee_per_gram (lf_utxos locked_funds)) (\<lambda>tx_builder.
          sg_prepare G tx_id tx_builder
            (map (\<lambda>r. (rc_amount r, rc_address r, memo_or_empty G (rc_payment_id r))) recipients)
            (memo_or_empty G (rc_payment_id (hd recipients))) sender_address)))"

section \<open>Validator node transactions\<close>

definition build_vn_pay_to_self_tx ::
  "externals \<Rightarrow> fee_tools \<Rightarrow> ('b, 'm, 'u) signing_tools \<Rightarrow> string \<Rightarrow> string \<Rightarrow> u64 \<Rightarrow> account_row \<Rightarrow>
     u64 \<Rightarrow> u64 \<Rightarrow> string option \<Rightarrow> string option \<Rightarrow> u64 \<Rightarrow> u64 \<Rightarrow> (db, send_error, 'u) run" where
  \<comment> \<open>\<open>deposit_amount\<close> is the consensus constant; \<open>sg_prepare\<close> also carries the output features\<close>
  "build_vn_pay_to_self_tx X T G fresh_key fresh_id tx_id account deposit_amount fee_per_gram payment_id
       idempotency_key seconds_to_lock window =
     bindM (lift_result (map_sum SendMessage id (sg_address G account))) (\<lambda>sender_address.
     bindM (map_error SendLock (lock_funds X T fresh_key fresh_id
        \<lparr>lr_account = a_id account, lr_amount = deposit_amount, lr_outputs = 1,
         lr_fee_per_gram = fee_per_gram, lr_size = None, lr_key = idempotency_key,
         lr_seconds = seconds_to_lock, lr_window = window\<rparr>)) (\<lambda>locked_funds.
     lift_result (map_sum SendMessage id
       (bind_result (builder_with_inputs G account fee_per_gram (lf_utxos locked_funds)) (\<lambda>tx_builder.
          let memo = memo_or_empty G payment_id
          in sg_prepare G tx_id tx_builder [(deposit_amount, sender_address, memo)] memo sender_address)))))"

datatype vn_operation = VnRegistration | VnExit | VnEviction

fun vn_name :: "vn_operation \<Rightarrow> string" where
  "vn_name VnRegistration = ''Validator node registration''"
| "vn_name VnExit = ''Validator node exit''"
| "vn_name VnEviction = ''Validator node eviction''"

fun vn_signature_error :: "vn_operation \<Rightarrow> string option" where
  \<comment> \<open>an eviction proof validates itself\<close>
  "vn_signature_error VnRegistration = Some ''Invalid validator node registration signature''"
| "vn_signature_error VnExit = Some ''Invalid validator node exit signature''"
| "vn_signature_error VnEviction = None"

definition vn_check :: "vn_operation \<Rightarrow> string + bool \<Rightarrow> bool \<Rightarrow> string + unit" where
  \<comment> \<open>\<open>wallet\<close>: \<open>decrypt_wallet_type\<close>, is it a seed word wallet; \<open>sig_ok\<close>: the signature is valid\<close>
  "vn_check op wallet sig_ok = (case wallet of Inl e \<Rightarrow> Inl e
     | Inr seed_words \<Rightarrow>
         if \<not> seed_words
         then Inl (vn_name op @ '' requires a SeedWords wallet, not a view-only wallet'')
         else (case vn_signature_error op of
             None \<Rightarrow> Inr ()
           | Some e \<Rightarrow> if sig_ok then Inr () else Inl e))"

definition create_validator_node_tx ::
  "externals \<Rightarrow> fee_tools \<Rightarrow> (vn_operation \<Rightarrow> ('b, 'm, 'u) signing_tools) \<Rightarrow> vn_operation \<Rightarrow>
     string + bool \<Rightarrow> bool \<Rightarrow> string \<Rightarrow> string \<Rightarrow> u64 \<Rightarrow> account_row \<Rightarrow> u64 \<Rightarrow> u64 \<Rightarrow> string option \<Rightarrow>
     string option \<Rightarrow> u64 \<Rightarrow> u64 \<Rightarrow> (db, send_error, 'u) run" where
  \<comment> \<open>the three operations differ in the checks; the output features are part of the signing tools\<close>
  "create_validator_node_tx X T G op wallet sig_ok fresh_key fresh_id tx_id account deposit fee_per_gram
       payment_id idempotency_key seconds_to_lock window =
     seqM (lift_result (map_sum SendMessage id (vn_check op wallet sig_ok)))
       (build_vn_pay_to_self_tx X T (G op) fresh_key fresh_id tx_id account deposit fee_per_gram
          payment_id idempotency_key seconds_to_lock window)"

definition create_validator_node_registration_tx where
  "create_validator_node_registration_tx X T G wallet sig_ok =
     create_validator_node_tx X T G VnRegistration wallet sig_ok"

definition create_validator_node_exit_tx where
  "create_validator_node_exit_tx X T G wallet sig_ok = create_validator_node_tx X T G VnExit wallet sig_ok"

definition create_validator_node_eviction_tx where
  "create_validator_node_eviction_tx X T G wallet = create_validator_node_tx X T G VnEviction wallet True"

section \<open>Burn transactions\<close>

record tx_kernel =
  tk_burned :: bool
  tk_excess :: bytes
  tk_nonce :: bytes
  tk_sig :: bytes
  tk_fee :: u64
  tk_lock_height :: u64

record burn_build =
  \<comment> \<open>what the key manager and the builder return for the burn\<close>
  bb_output_hash :: bytes
  bb_commitment :: bytes
  bb_offset_key :: bytes
  bb_kernels :: "tx_kernel list"
  bb_sent_encrypted :: "bytes list"    \<comment> \<open>encrypted data of the sent outputs\<close>
  bb_ownership :: "string + bytes \<times> bytes"  \<comment> \<open>\<open>generate_burn_claim_signature\<close>\<close>
  bb_serialized :: "string + bytes"    \<comment> \<open>\<open>serde_json::to_vec(&transaction)\<close>\<close>
  bb_tx_id :: u64

record burn_tx_params =
  \<comment> \<open>the sidechain deployment key only goes to the builder of the transaction, an argument here\<close>
  bt_account_id :: i64
  bt_amount :: u64
  bt_claim_key :: "string option"
  bt_fee_per_gram :: u64
  bt_payment_id :: "string option"
  bt_key :: "string option"
  bt_seconds :: u64
  bt_window :: u64

record burn_tx_result =
  br_kernels :: "tx_kernel list"
  br_serialized :: "string + bytes"
  br_output_hash :: bytes
  br_proof :: new_burn_proof
  br_tx_id :: u64

definition first_or_empty :: "bytes list \<Rightarrow> bytes" where
  "first_or_empty xs = (case xs of [] \<Rightarrow> [] | x # _ \<Rightarrow> x)"

definition burn_proof_of :: "burn_tx_params \<Rightarrow> string \<Rightarrow> burn_build \<Rightarrow> string + new_burn_proof" where
  "burn_proof_of p claim_key b = bind_result (bb_ownership b) (\<lambda>(nonce, sig).
     case List.find tk_burned (bb_kernels b) of
       None \<Rightarrow> Inl ''No burn kernel found in transaction''
     | Some k \<Rightarrow> Inr \<lparr>nb_account = bt_account_id p, nb_hash = bb_output_hash b,
         nb_commitment = bb_commitment b, nb_claim_key = claim_key, nb_ownership_nonce = nonce,
         nb_ownership_sig = sig, nb_kernel_excess = tk_excess k, nb_kernel_nonce = tk_nonce k,
         nb_kernel_sig = tk_sig k, nb_offset_key = bb_offset_key b,
         nb_encrypted = first_or_empty (bb_sent_encrypted b), nb_value = bt_amount p,
         nb_kernel_fee = tk_fee k, nb_lock_height = tk_lock_height k\<rparr>)"

definition create_burn_tx ::
  "externals \<Rightarrow> fee_tools \<Rightarrow> (account_row \<Rightarrow> string + string) \<Rightarrow>
     (account_row \<Rightarrow> burn_tx_params \<Rightarrow> wallet_output list \<Rightarrow> string + burn_build) \<Rightarrow>
     string \<Rightarrow> string \<Rightarrow> account_row \<Rightarrow> burn_tx_params \<Rightarrow> (db, send_error, burn_tx_result) run" where
  \<comment> \<open>\<open>build\<close> stands for the calls from \<open>get_key_manager\<close> to \<open>tx_builder.build()\<close>\<close>
  "create_burn_tx X T address build fresh_key fresh_id account p =
     bindM (lift_result (map_sum SendMessage id (address account))) (\<lambda>sender_address.
     bindM (map_error SendLock (lock_funds X T fresh_key fresh_id
        \<lparr>lr_account = a_id account, lr_amount = bt_amount p, lr_outputs = 1,
         lr_fee_per_gram = bt_fee_per_gram p, lr_size = None, lr_key = bt_key p,
         lr_seconds = bt_seconds p, lr_window = bt_window p\<rparr>)) (\<lambda>locked_funds.
     lift_result (map_sum SendMessage id
       (bind_result (build account p (lf_utxos locked_funds)) (\<lambda>b.
          case bt_claim_key p of
            None \<Rightarrow> Inl ''claim_public_key is required to generate a burn proof''
          | Some claim_key \<Rightarrow> bind_result (burn_proof_of p claim_key b) (\<lambda>proof.
              Inr \<lparr>br_kernels = bb_kernels b, br_serialized = bb_serialized b,
                br_output_hash = bb_output_hash b, br_proof = proof, br_tx_id = bb_tx_id b\<rparr>))))))"

definition persist_burn_records ::
  "externals \<Rightarrow> (string \<Rightarrow> bool) \<Rightarrow> burn_tx_result \<Rightarrow> i64 \<Rightarrow> string \<Rightarrow> (db, send_error, unit) run" where
  "persist_burn_records X uuid_ok result account_id key =
     seqM (map_error SendDb (insert_burn_proof X (br_proof result)))
     (bindM (lift_result (map_sum SendMessage id (br_serialized result))) (\<lambda>serialized_tx.
      let kernel_excess = (case List.find tk_burned (br_kernels result) of None \<Rightarrow> []
            | Some k \<Rightarrow> tk_excess k)
      in ignore_error (bindM (find_pending_transaction_by_idempotency_key uuid_ok key account_id)
           (\<lambda>found. case found of
              None \<Rightarrow> ret ()
            | Some pending_tx \<Rightarrow>
                seqM (ignore_error (update_pending_transaction_status (pt_id pending_tx) Completed))
                  (ignore_error (create_completed_transaction X account_id (pt_id pending_tx)
                     kernel_excess serialized_tx (Some (x_hex X (br_output_hash result)))
                     (br_tx_id result)))))))"

end
