(* ===== verification/Tx_Sender.thy ===== *)
theory Tx_Sender
  imports Tx_Building Monitor
begin

text \<open>
  The transaction sender, \<open>transactions/manager.rs\<close>: it finds or creates the pending
  transaction of an idempotency key, locks its inputs, prepares the transaction for signing,
  and records and submits the signed one. No database transaction surrounds these steps: a
  statement that has run stays when a later one fails, which is why the clean-up
  \<open>fail_and_unlock_pending_transaction\<close> exists.
\<close>

record processed_transaction =
  pc_id :: "string option"
  pc_key :: string
  pc_recipient :: recipient
  pc_seconds :: u64
  pc_utxos :: "db_wallet_output list"

definition new_processed :: "string option \<Rightarrow> string \<Rightarrow> recipient \<Rightarrow> u64 \<Rightarrow> processed_transaction" where
  "new_processed i key rcp seconds = \<lparr>pc_id = i, pc_key = key, pc_recipient = rcp,
     pc_seconds = seconds, pc_utxos = []\<rparr>"

definition processed_id :: "processed_transaction \<Rightarrow> string" where
  "processed_id p = opt_or [] (pc_id p)"

definition update_id :: "string \<Rightarrow> processed_transaction \<Rightarrow> processed_transaction" where
  "update_id i p = p\<lparr>pc_id := Some i\<rparr>"

record sender =
  se_account :: account_row
  se_processed :: processed_transaction
  se_fee_per_gram :: u64
  se_window :: u64

type_synonym 'a sendm = "(db, send_error, 'a) run"

definition new_sender :: "string \<Rightarrow> u64 \<Rightarrow> sender sendm" where
  "new_sender account_name window =
     bindM (map_error SendDb (get_account_by_name account_name)) (\<lambda>found. case found of
       None \<Rightarrow> throw (SendMessage (''Account with name '' @ [CHR 0x27] @ account_name @ [CHR 0x27] @ '' not found''))
     | Some account \<Rightarrow> ret \<lparr>se_account = account,
         se_processed = new_processed None [] \<lparr>rc_address = [], rc_amount = 0, rc_payment_id = None\<rparr> 0,
         se_fee_per_gram = 5, se_window = window\<rparr>)"

section \<open>Preparing\<close>

definition validate_transaction_creation_request ::
  "('b, 'm, 'u) signing_tools \<Rightarrow> sender \<Rightarrow> processed_transaction \<Rightarrow> unit sendm" where
  "validate_transaction_creation_request G s p =
     bindM (map_error SendDb (check_if_transaction_was_already_completed_by_idempotency_key
              (pc_key p) (a_id (se_account s)))) (\<lambda>completed.
     if completed
     then throw (SendMessage ''A pending transaction with the same idempotency key already exists'')
     else bindM (lift_result (map_sum SendMessage id (sg_address G (se_account s)))) (\<lambda>sender_address.
       if \<not> sg_one_sided G sender_address
       then throw (SendMessage ''The sender address does not support one-sided transactions.'')
       else ret ()))"

definition check_if_transaction_expired ::
  "externals \<Rightarrow> sender \<Rightarrow> processed_transaction \<Rightarrow> unit sendm" where
  "check_if_transaction_expired X s p =
     bindM (map_error SendDb (check_if_transaction_is_expired_by_idempotency_key X (pc_key p)
              (a_id (se_account s)))) (\<lambda>is_expired.
     if is_expired
     then seqM (map_error SendDb (update_pending_transaction_status (processed_id p) Expired))
            (throw (SendMessage ''The transaction has expired.''))
     else ret ())"

definition create_utxo_selection ::
  "fee_tools \<Rightarrow> sender \<Rightarrow> processed_transaction \<Rightarrow> utxo_selection sendm" where
  "create_utxo_selection T s p = map_error SendSelection
     (select_outputs T (a_id (se_account s)) (se_window s) (rc_amount (pc_recipient p)) 1
        (se_fee_per_gram s) None)"

definition sender_create_pending ::
  "externals \<Rightarrow> fee_tools \<Rightarrow> string \<Rightarrow> sender \<Rightarrow> processed_transaction \<Rightarrow>
     (string \<times> processed_transaction) sendm" where
  \<comment> \<open>\<open>TransactionSender::create_pending_transaction\<close>; \<open>fresh_id\<close> is the new UUID\<close>
  "sender_create_pending X T fresh_id s p =
     (case x_from_timestamp X (x_now X + i64_of_u64 (pc_seconds p)) of
        None \<Rightarrow> throw SendPanic
      | Some expires_at \<Rightarrow>
          bindM (create_utxo_selection T s p) (\<lambda>selection.
          bindM (map_error SendDb (create_pending_transaction X fresh_id (pc_key p)
             (a_id (se_account s)) (us_requires_change selection) (us_total_value selection)
             (us_fee_without_change selection) (us_fee_with_change selection) expires_at)) (\<lambda>pending_tx_id.
          seqM (map_error SendDb (forM (us_utxos selection)
             (\<lambda>utxo. lock_output (dw_id utxo) pending_tx_id expires_at)))
          (ret (pending_tx_id, if pc_utxos p = [] then p\<lparr>pc_utxos := us_utxos selection\<rparr> else p)))))"

definition create_or_find_pending_transaction ::
  "externals \<Rightarrow> fee_tools \<Rightarrow> (string \<Rightarrow> bool) \<Rightarrow> string \<Rightarrow> sender \<Rightarrow> processed_transaction \<Rightarrow>
     (string \<times> processed_transaction) sendm" where
  "create_or_find_pending_transaction X T uuid_ok fresh_id s p =
     bindM (map_error SendDb (find_pending_transaction_by_idempotency_key uuid_ok (pc_key p)
              (a_id (se_account s)))) (\<lambda>response. case response of
         Some pending_tx \<Rightarrow> ret (pt_id pending_tx, p)
       | None \<Rightarrow> sender_create_pending X T fresh_id s p)"

definition fail_and_unlock_pending_transaction :: "string \<Rightarrow> unit sendm" where
  "fail_and_unlock_pending_transaction i =
     seqM (ignore_error (update_pending_transaction_status i Expired))
       (ignore_error (unlock_outputs_for_request i))"

definition prepare_unsigned ::
  "('b, 'm, 'u) signing_tools \<Rightarrow> u64 \<Rightarrow> sender \<Rightarrow> processed_transaction \<Rightarrow> 'u sendm" where
  \<comment> \<open>the closure of \<open>start_new_transaction\<close>\<close>
  "prepare_unsigned G tx_id s p =
     bindM (if pc_utxos p = [] then map_error SendDb (fetch_outputs_by_lock_request_id (processed_id p))
            else ret (pc_utxos p)) (\<lambda>utxo_selection.
     lift_result (map_sum SendMessage id
       (bind_result (builder_with_inputs G (se_account s) (se_fee_per_gram s) (map dw_output utxo_selection))
          (\<lambda>tx_builder.
        bind_result (sg_address G (se_account s)) (\<lambda>sender_address.
        bind_result (case rc_payment_id (pc_recipient p) of None \<Rightarrow> Inr (sg_no_memo G)
                     | Some t \<Rightarrow> sg_memo G t) (\<lambda>payment_id.
          sg_prepare G tx_id tx_builder
            [(rc_amount (pc_recipient p), rc_address (pc_recipient p), payment_id)]
            payment_id sender_address))))))"

definition start_new_transaction ::
  "externals \<Rightarrow> fee_tools \<Rightarrow> ('b, 'm, 'u) signing_tools \<Rightarrow> (string \<Rightarrow> bool) \<Rightarrow> string \<Rightarrow> u64 \<Rightarrow> string \<Rightarrow>
     recipient \<Rightarrow> u64 \<Rightarrow> sender \<Rightarrow> ('u \<times> sender) sendm" where
  \<comment> \<open>\<open>fresh_id\<close> and \<open>tx_id\<close> are the random draws; the result carries the sender after the call\<close>
  "start_new_transaction X T G uuid_ok fresh_id tx_id key rcp seconds s =
     (let p = new_processed None key rcp seconds in
      seqM (validate_transaction_creation_request G s p)
      (bindM (create_or_find_pending_transaction X T uuid_ok fresh_id s p) (\<lambda>(pending_id, p1).
       let p2 = update_id pending_id p1 in
       on_error (bindM (prepare_unsigned G tx_id s p2) (\<lambda>res. ret (res, s\<lparr>se_processed := p2\<rparr>)))
         (fail_and_unlock_pending_transaction pending_id))))"

section \<open>Finalising\<close>

record signed_transaction =
  sd_tx_id :: u64
  sd_fee :: u64
  sd_kernels :: "bytes list"                 \<comment> \<open>the excess of each kernel\<close>
  sd_serialized :: "string + bytes"          \<comment> \<open>\<open>serde_json::to_vec(&transaction)\<close>\<close>
  sd_sent_hashes :: "bytes list"
  sd_outputs :: "wallet_output list"
  sd_change :: "wallet_output option"

definition displayed_input :: "db_wallet_output \<Rightarrow> transaction_input" where
  "displayed_input u = \<lparr>ti_hash = wo_hash (dw_output u), ti_amount = wo_value (dw_output u),
     ti_matched = dw_id u, ti_block = zero_hash\<rparr>"

definition displayed_output :: "bool \<Rightarrow> wallet_output \<Rightarrow> transaction_output" where
  "displayed_output is_change w = \<lparr>to_hash = wo_hash w, to_amount = wo_value w, to_status = Unspent,
     to_height = 0, to_block = zero_hash, to_type = StandardOutput, to_is_change = is_change\<rparr>"

definition pending_builder ::
  "i64 \<Rightarrow> i64 \<Rightarrow> processed_transaction \<Rightarrow> signed_transaction \<Rightarrow> tx_builder" where
  "pending_builder now account_id p sd =
     (let debit = (\<Sum>u \<leftarrow> pc_utxos p. wo_value (dw_output u));
          credit = (case sd_change sd of None \<Rightarrow> 0 | Some w \<Rightarrow> wo_value w);
          outs = map (displayed_output False) (sd_outputs sd) @
            (case sd_change sd of None \<Rightarrow> [] | Some w \<Rightarrow> [displayed_output True w])
      in (with_blockchain_info 0 zero_hash now 0
           (credits_and_debits credit debit
             (new_builder\<lparr>tb_account := Some account_id, tb_direction := Some Outgoing,
                tb_status := Some DPending, tb_source := Some OneSided\<rparr>)
             \<lparr>tb_message := rc_payment_id (pc_recipient p),
              tb_counterparty := Some (rc_address (pc_recipient p))\<rparr>))
         \<lparr>tb_fee := Some (sd_fee sd), tb_inputs := map displayed_input (pc_utxos p),
          tb_outputs := outs, tb_sent_hashes := sd_sent_hashes sd\<rparr>)"

definition build_pending_displayed_transaction ::
  "externals \<Rightarrow> sender \<Rightarrow> signed_transaction \<Rightarrow> processor_error + displayed_transaction" where
  "build_pending_displayed_transaction X s sd =
     build_transaction (x_payref X) (sd_tx_id sd)
       (pending_builder (x_now X) (a_id (se_account s)) (se_processed s) sd)"

definition record_signed ::
  "externals \<Rightarrow> sender \<Rightarrow> signed_transaction \<Rightarrow> unit sendm" where
  \<comment> \<open>the first half of \<open>finalize_transaction_and_broadcast\<close>: every step cleans up at an error\<close>
  "record_signed X s sd =
     (let i = processed_id (se_processed s);
          guarded = (\<lambda>m. on_error m (fail_and_unlock_pending_transaction i))
      in seqM (on_error (check_if_transaction_expired X s (se_processed s))
                 (fail_and_unlock_pending_transaction i))
         (bindM (on_error (lift_result (map_sum (\<lambda>e. SendMessage (''Failed to serialize transaction: '' @ e)) id
                    (sd_serialized sd))) (fail_and_unlock_pending_transaction i)) (\<lambda>serialized.
         seqM (guarded (map_error SendDb (update_pending_transaction_status i Completed)))
           (guarded (map_error SendDb (create_completed_transaction X (a_id (se_account s)) i
              (first_or_empty (sd_kernels sd)) serialized
              (case sd_sent_hashes sd of [] \<Rightarrow> None | h # _ \<Rightarrow> Some (x_hex X h)) (sd_tx_id sd)))))))"

definition submit_signed ::
  "externals \<Rightarrow> sender \<Rightarrow> signed_transaction \<Rightarrow> string + submission \<Rightarrow> unit sendm" where
  \<comment> \<open>what \<open>finalize_transaction_and_broadcast\<close> does with the answer of the node\<close>
  "submit_signed X s sd response =
     (let i = processed_id (se_processed s) in case response of
        Inl e \<Rightarrow>
          seqM (map_error SendDb (mark_completed_transaction_as_rejected X (sd_tx_id sd)
                 (''Transaction submission failed: '' @ e)))
          (seqM (fail_and_unlock_pending_transaction i)
            (throw (SendMessage (''Transaction submission failed: '' @ e))))
      | Inr response \<Rightarrow>
          if sub_accepted response
          then map_error SendDb (mark_completed_transaction_as_broadcasted X (sd_tx_id sd) 1)
          else if \<not> sub_already_mined response
          then seqM (map_error SendDb (mark_completed_transaction_as_rejected X (sd_tx_id sd)
                      (sub_reason response)))
               (seqM (fail_and_unlock_pending_transaction i)
                 (throw (SendMessage (''Transaction was not accepted by the network: '' @ sub_reason response))))
          else ret ())"

definition finalize_transaction_and_broadcast ::
  "externals \<Rightarrow> string + (bytes \<Rightarrow> string + submission) \<Rightarrow> signed_transaction \<Rightarrow> sender \<Rightarrow>
     displayed_transaction sendm" where
  \<comment> \<open>\<open>connect\<close> is the client of the node's address, or the error of parsing the address\<close>
  "finalize_transaction_and_broadcast X connect sd s =
     seqM (record_signed X s sd)
     (bindM (lift_result (map_sum SendMessage id connect)) (\<lambda>submit.
      seqM (submit_signed X s sd (bind_result (sd_serialized sd) submit))
      (bindM (lift_result (map_sum (\<lambda>_. SendMessage ''Failed to build displayed transaction'') id
                (build_pending_displayed_transaction X s sd))) (\<lambda>displayed.
       seqM (map_error SendDb (insert_displayed_transaction X displayed)) (ret displayed)))))"

end
