(* ===== verification/Sender_Properties.thy ===== *)
theory Sender_Properties
  imports Tx_Sender Monitor_Properties
begin

text \<open>
  What the transaction sender leaves behind: a preparation or a submission that fails gives
  its locks back; what a retry under the same idempotency key does; and what happens when
  the lock of a prepared transaction expires before it is submitted.
\<close>

section \<open>Reading steps\<close>

abbreviation reads :: "('s, 'e, 'a) run \<Rightarrow> bool" where
  "reads m \<equiv> always (=) m"

lemma reads_run: "reads m \<Longrightarrow> m s = (r, s') \<Longrightarrow> s' = s"
  using alwaysD [of "(=)" m s r s'] by simp

lemma reads_bind: "reads m \<Longrightarrow> (\<And>a. reads (f a)) \<Longrightarrow> reads (bindM m f)"
  by (rule always_bind [where R = "(=)" and S = "(=)"]) auto

lemma reads_seq: "reads m \<Longrightarrow> reads n \<Longrightarrow> reads (seqM m n)"
  by (rule always_seq [where R = "(=)" and S = "(=)"]) auto

lemma reads_simple [intro, simp]:
  "reads (ret a)" "reads (throw e)" "reads (gets f)" "reads (query g)" "reads (lift_result r)"
  by (rule always_trivial, rule refl)+

lemma reads_select: "reads (select_outputs T a w amount n f z)"
  unfolding select_outputs_def get_latest_scanned_tip_block_by_account_def
    get_output_totals_for_account_def get_total_unspent_balance_def fetch_unspent_outputs_def
  by (auto intro!: reads_bind split: prod.split sum.split)

lemma reads_validate: "reads (validate_transaction_creation_request G s p)"
  unfolding validate_transaction_creation_request_def
    check_if_transaction_was_already_completed_by_idempotency_key_def
  by (auto intro!: reads_bind)

lemma reads_find: "reads (find_pending_transaction_by_idempotency_key ok key a)"
  unfolding find_pending_transaction_by_idempotency_key_def by auto

lemma reads_prepare: "reads (prepare_unsigned G tx_id s p)"
  unfolding prepare_unsigned_def fetch_outputs_by_lock_request_id_def
  by (auto intro!: reads_bind)

section \<open>The clean-up\<close>

definition cleaned :: "string \<Rightarrow> db \<Rightarrow> db" where
  "cleaned i d = d\<lparr>pendings := update_where (\<lambda>r. p_id r = i) expire_row (pendings d),
     outputs := release_rows i (outputs d)\<rparr>"

lemma fail_and_unlock_run: "fail_and_unlock_pending_transaction i d = (Inr (), cleaned i d)"
  by (simp add: fail_and_unlock_pending_transaction_def seqM_def bindM_def ignore_error_def
      update_pending_transaction_status_def modify_def unlock_outputs_rows cleaned_def
      expire_row_def [abs_def])

lemma on_error_failed:
  "on_error m (fail_and_unlock_pending_transaction i) s = (Inl e, s') \<longleftrightarrow>
     (\<exists>s1. m s = (Inl e, s1) \<and> s' = cleaned i s1)"
  by (auto simp: on_error_def fail_and_unlock_run split: prod.splits sum.splits)

lemma cleaned_released: "output_holder (outputs (cleaned i d)) x \<noteq> Some i"
  by (simp add: cleaned_def output_locks.holder_release)

lemma cleaned_holder:
  "output_holder (outputs (cleaned i d)) x =
     (if output_holder (outputs d) x = Some i then None else output_holder (outputs d) x)"
  by (simp add: cleaned_def output_locks.holder_release)

lemma cleaned_expired:
  assumes "r \<in> set (pendings (cleaned i d))" "p_id r = i"
  shows "p_status r = pending_status_text Expired"
proof -
  from assms(1) obtain p where "r = (if p_id p = i then expire_row p else p)"
    by (auto simp: cleaned_def in_set_update_where)
  with assms(2) show ?thesis by (cases "p_id p = i") (simp_all add: expire_row_def)
qed

definition cleaned_row :: "string \<Rightarrow> pending_row \<Rightarrow> pending_row" where
  "cleaned_row i r = (if p_id r = i then expire_row r else r)"

lemma cleaned_row_simps [simp]:
  "p_id (cleaned_row i r) = p_id r" "p_key (cleaned_row i r) = p_key r"
  "p_account (cleaned_row i r) = p_account r"
  "p_status (cleaned_row i r) = (if p_id r = i then pending_status_text Expired else p_status r)"
  by (simp_all add: cleaned_row_def expire_row_def)

lemma cleaned_pendings: "set (pendings (cleaned i d)) = cleaned_row i ` set (pendings d)"
  by (simp add: cleaned_def update_where_def cleaned_row_def [abs_def])

lemma cleaned_completeds [simp]: "completeds (cleaned i d) = completeds d"
  by (simp add: cleaned_def)

section \<open>Creating the pending transaction\<close>

lemma bindM_error_iff:
  "bindM m f s = (Inl e, s') \<longleftrightarrow>
     m s = (Inl e, s') \<or> (\<exists>a s1. m s = (Inr a, s1) \<and> f a s1 = (Inl e, s'))"
  by (auto simp: bindM_def split: prod.splits sum.splits)

lemma seqM_error_iff:
  "seqM m n s = (Inl e, s') \<longleftrightarrow>
     m s = (Inl e, s') \<or> (\<exists>a s1. m s = (Inr a, s1) \<and> n s1 = (Inl e, s'))"
  by (auto simp: seqM_def bindM_error_iff)

lemma map_error_error_iff:
  "map_error h m s = (Inl e, s') \<longleftrightarrow> (\<exists>e'. m s = (Inl e', s') \<and> e = h e')"
  by (auto simp: map_error_def split: prod.splits sum.splits)

lemma create_pending_error:
  "create_pending_transaction X i key a c v fn fw e d = (Inl err, d') \<Longrightarrow> d' = d"
  by (auto simp: create_pending_transaction_def statement_def split: if_splits)

lemma sender_create_error:
  assumes "sender_create_pending X T i s p d = (Inl e, d')"
  shows "d' = d"
proof (cases "x_from_timestamp X (x_now X + i64_of_u64 (pc_seconds p))")
  case None
  with assms show ?thesis by (simp add: sender_create_pending_def throw_def)
next
  case (Some at)
  have select: "d1 = d" if "create_utxo_selection T s p d = (r, d1)" for r d1
    using that reads_run [of "create_utxo_selection T s p"] reads_select
    by (simp add: create_utxo_selection_def)
  from assms Some show ?thesis
    by (auto simp: sender_create_pending_def bindM_error_iff seqM_error_iff map_error_error_iff
        lock_all_rows ret_def dest: select create_pending_error)
qed

lemma sender_create_ok:
  assumes "sender_create_pending X T i s p d = (Inr (j, p'), d')"
  shows "j = i \<and> (\<forall>r \<in> set (pendings d). \<not> (p_account r = a_id (se_account s) \<and> p_key r = pc_key p)) \<and>
     (\<exists>at us row. p_id row = i \<and> p_account row = a_id (se_account s) \<and> p_key row = pc_key p \<and>
        (\<forall>r \<in> set (pendings d). p_id r \<noteq> i) \<and>
        d' = d\<lparr>pendings := pendings d @ [row],
               outputs := output_locks.take_all at us i (outputs d)\<rparr>)"
proof -
  from assms obtain at sel d1 d2 where sel: "create_utxo_selection T s p d = (Inr sel, d1)"
    and c: "create_pending_transaction X i (pc_key p) (a_id (se_account s)) (us_requires_change sel)
        (us_total_value sel) (us_fee_without_change sel) (us_fee_with_change sel) at d1 = (Inr j, d2)"
    and d': "d' = d2\<lparr>outputs := output_locks.take_all at (map dw_id (us_utxos sel)) j (outputs d2)\<rparr>"
    by (auto simp: sender_create_pending_def ok_simps lock_all_rows split: option.splits)
  have "d1 = d" using sel reads_run [OF reads_select]
    by (auto simp: create_utxo_selection_def map_error_ok_iff)
  with c d' show ?thesis
    unfolding create_pending_ok_iff
    by (intro conjI exI [of _ at] exI [of _ "map dw_id (us_utxos sel)"]
        exI [of _ "last (pendings d2)"]) auto
qed

lemma find_pending_match:
  assumes "find_pending_transaction_by_idempotency_key ok key a d = (Inr (Some pt), d')"
  shows "\<exists>r \<in> set (pendings d). pending_match key a Pending r \<and> p_id r = pt_id pt"
  using assms
  by (auto simp: find_pending_transaction_by_idempotency_key_def query_ok_iff
      split: option.splits if_splits sum.splits dest!: first_row_Some)

lemma find_pending_none:
  assumes "\<And>r. r \<in> set (pendings d) \<Longrightarrow> \<not> pending_match key a Pending r"
  shows "find_pending_transaction_by_idempotency_key ok key a d = (Inr None, d)"
proof -
  have "first_row (pending_match key a Pending) (pendings d) = None"
    using assms by (simp add: first_row_def find_None_iff)
  then show ?thesis by (simp add: find_pending_transaction_by_idempotency_key_def query_def)
qed

text \<open>The three ways a preparation fails.\<close>

lemma start_error_cases:
  assumes "start_new_transaction X T G ok i tx key rcp secs s d = (Inl e, d')"
  obtains (unchanged) "d' = d"
  | (found) pt where
      "find_pending_transaction_by_idempotency_key ok key (a_id (se_account s)) d = (Inr (Some pt), d)"
      "d' = cleaned (pt_id pt) d"
  | (created) at us row where "p_id row = i" "p_account row = a_id (se_account s)" "p_key row = key"
      "\<forall>r \<in> set (pendings d). p_id r \<noteq> i"
      "\<forall>r \<in> set (pendings d). \<not> (p_account r = a_id (se_account s) \<and> p_key r = key)"
      "d' = cleaned i (d\<lparr>pendings := pendings d @ [row],
               outputs := output_locks.take_all at us i (outputs d)\<rparr>)"
proof -
  let ?p = "new_processed None key rcp secs"
  have key: "pc_key ?p = key" by (simp add: new_processed_def)
  from assms consider "d' = d" | j p1 d1 where
      "create_or_find_pending_transaction X T ok i s ?p d = (Inr (j, p1), d1)" "d' = cleaned j d1"
    by (auto simp: start_new_transaction_def Let_def seqM_error_iff bindM_error_iff on_error_failed
        create_or_find_pending_transaction_def map_error_error_iff map_error_ok_iff ret_def
        dest!: reads_run [OF reads_validate] reads_run [OF reads_prepare] sender_create_error
          reads_run [OF reads_find] split: option.splits)
  then show thesis
  proof cases
    case 1
    then show ?thesis by (rule unchanged)
  next
    case 2
    from 2(1) consider pt where
        "find_pending_transaction_by_idempotency_key ok key (a_id (se_account s)) d = (Inr (Some pt), d)"
        "j = pt_id pt" "d1 = d"
      | "sender_create_pending X T i s ?p d = (Inr (j, p1), d1)"
      using reads_run [OF reads_find]
      by (fastforce simp: create_or_find_pending_transaction_def ok_simps key split: option.splits)
    then show ?thesis
    proof cases
      case 1
      with 2(2) show ?thesis by (intro found) simp_all
    next
      case 2
      with sender_create_ok [OF 2] \<open>d' = cleaned j d1\<close> show ?thesis
        by (auto simp: key intro: created)
    qed
  qed
qed

section \<open>Recording and submitting\<close>

lemma record_signed_error:
  assumes "record_signed X s sd d = (Inl e, d')"
  shows "\<exists>d1. d' = cleaned (processed_id (se_processed s)) d1 \<and> completeds d1 = completeds d"
proof -
  have keep: "completeds d1 = completeds d" if "check_if_transaction_expired X s p d = (r, d1)" for r p d1
    using that
    by (auto simp: check_if_transaction_expired_def check_if_transaction_is_expired_by_idempotency_key_def
        bindM_def seqM_def map_error_def gets_def ret_def throw_def update_pending_transaction_status_def
        modify_def split: if_splits)
  have create: "d2 = d1" if "create_completed_transaction X a i k b h t d1 = (Inl e', d2)" for a i k b h t e' d1 d2
    using that by (auto simp: create_completed_transaction_def statement_def split: if_splits)
  from assms show ?thesis
    by (auto simp: record_signed_def Let_def seqM_error_iff bindM_error_iff on_error_failed on_error_ok_iff
        map_error_error_iff map_error_ok_iff lift_result_def update_pending_transaction_status_def
        modify_def dest!: keep create)
qed

definition recorded_row :: "externals \<Rightarrow> sender \<Rightarrow> signed_transaction \<Rightarrow> bytes \<Rightarrow> completed_row" where
  \<comment> \<open>the row of a signed transaction before it is submitted\<close>
  "recorded_row X s sd b = \<lparr>c_id = i64_of_u64 (sd_tx_id sd), c_account = a_id (se_account s),
     c_pending_id = processed_id (se_processed s), c_status = completed_status_text TxCompleted,
     c_rejected_reason = None, c_kernel_excess = first_or_empty (sd_kernels sd), c_sent_payref = None,
     c_sent_hash = (case sd_sent_hashes sd of [] \<Rightarrow> None | h # _ \<Rightarrow> Some (x_hex X h)),
     c_mined_height = None, c_mined_block = None, c_confirmation_height = None, c_attempts = 0,
     c_serialized = b, c_created = x_now X, c_updated = x_now X\<rparr>"

lemma recorded_row_simps [simp]:
  "c_id (recorded_row X s sd b) = i64_of_u64 (sd_tx_id sd)"
  "c_status (recorded_row X s sd b) = completed_status_text TxCompleted"
  by (simp_all add: recorded_row_def)

lemma record_signed_ok:
  assumes "record_signed X s sd d = (Inr (), d')"
  shows "\<exists>b. sd_serialized sd = Inr b \<and>
     (\<forall>r \<in> set (completeds d). c_id r \<noteq> i64_of_u64 (sd_tx_id sd)) \<and>
     completeds d' = insort_key c_id (recorded_row X s sd b) (completeds d) \<and> outputs d' = outputs d"
proof -
  have keep: "d1 = d" if "check_if_transaction_expired X s p d = (Inr (), d1)" for p d1
    using that
    by (auto simp: check_if_transaction_expired_def check_if_transaction_is_expired_by_idempotency_key_def
        ok_simps split: if_splits)
  from assms obtain b d1 where b: "sd_serialized sd = Inr b"
    and c: "create_completed_transaction X (a_id (se_account s)) (processed_id (se_processed s))
      (first_or_empty (sd_kernels sd)) b
      (case sd_sent_hashes sd of [] \<Rightarrow> None | h # _ \<Rightarrow> Some (x_hex X h)) (sd_tx_id sd) d1 = (Inr (), d')"
    and d1: "completeds d1 = completeds d" "outputs d1 = outputs d"
    by (cases "sd_serialized sd")
      (auto simp: record_signed_def Let_def ok_simps on_error_ok_iff update_pending_transaction_status_def
        dest!: keep)
  from c d1 show ?thesis
    unfolding create_completed_transaction_def statement_ok_iff
    by (auto simp: b recorded_row_def split: if_splits)
qed

lemma first_row_insort:
  assumes "P x" "\<And>r. r \<in> set rows \<Longrightarrow> \<not> P r"
  shows "first_row P (insort_key f x rows) = Some x"
  using assms(2) by (induction rows) (auto simp: assms(1))

lemma row_of_recorded:
  assumes "completeds d' = insort_key c_id row (completeds d)" "c_id row = i"
    and "\<forall>r \<in> set (completeds d). c_id r \<noteq> i"
  shows "row_of d' i = Some row"
  using assms by (simp add: row_of_def first_row_insort)

lemma mark_rejected_run:
  "mark_completed_transaction_as_rejected X t reason d =
     (Inr (), d\<lparr>completeds := update_where (\<lambda>r. c_id r = i64_of_u64 t)
        (\<lambda>r. r\<lparr>c_status := completed_status_text TxRejected, c_rejected_reason := Some reason,
              c_updated := x_now X\<rparr>) (completeds d)\<rparr>)"
  by (simp add: mark_completed_transaction_as_rejected_def update_completed_def modify_def)

lemma status_after_update:
  assumes "row_of d i = Some row" "\<And>r. c_id (f r) = c_id r" "\<And>r. c_status (f r) = st"
  shows "status_of (d\<lparr>completeds := update_where (\<lambda>r. c_id r = i) f (completeds d)\<rparr>) i = Some st"
proof -
  have "row_of (d\<lparr>completeds := update_where (\<lambda>r. c_id r = i) f (completeds d)\<rparr>) i =
      map_option f (row_of d i)"
    using assms(1,2) row_of_update by (auto simp: row_of_def first_row_update_where dest!: first_row_Some)
  with assms(1,3) show ?thesis by (simp add: status_of_def)
qed

lemma built_displayed:
  "\<exists>tx. build_pending_displayed_transaction X s sd = Inr tx \<and>
     (pc_utxos (se_processed s) = [] \<longrightarrow> dt_direction tx = Incoming \<and>
        dt_amount tx = (case sd_change sd of None \<Rightarrow> 0 | Some w \<Rightarrow> wo_value w) \<and>
        dt_fee tx = None \<and> td_inputs (dt_details tx) = [])"
  by (auto simp: build_pending_displayed_transaction_def build_transaction_def pending_builder_def Let_def
      credits_and_debits_def with_blockchain_info_def)

lemma insert_displayed_run:
  "\<exists>d'. insert_displayed_transaction X tx d = (Inr (), d') \<and> completeds d' = completeds d \<and>
     outputs d' = outputs d \<and> pendings d' = pendings d"
  by (simp add: insert_displayed_transaction_def modify_def Let_def)

lemma record_signed_run:
  assumes "\<not> (\<exists>r \<in> set (pendings d). pending_match (pc_key (se_processed s)) (a_id (se_account s)) Pending r \<and>
      p_expires_at r < x_now X)"
    and "sd_serialized sd = Inr b" "account_exists d (a_id (se_account s))"
    and "\<exists>r \<in> set (pendings d). p_id r = processed_id (se_processed s)"
    and "\<forall>r \<in> set (completeds d). c_id r \<noteq> i64_of_u64 (sd_tx_id sd)"
  shows "\<exists>rows. record_signed X s sd d =
     (Inr (), d\<lparr>pendings := rows, completeds := insort_key c_id (recorded_row X s sd b) (completeds d)\<rparr>)"
proof -
  let ?i = "processed_id (se_processed s)"
  have check: "check_if_transaction_expired X s (se_processed s) d = (Inr (), d)"
    using assms(1)
    by (auto simp add: check_if_transaction_expired_def check_if_transaction_is_expired_by_idempotency_key_def
        bindM_def map_error_def gets_def ret_def)
  have "\<exists>r \<in> set (update_where (\<lambda>r. p_id r = ?i) f (pendings d)). p_id r = ?i"
    if "\<And>r. p_id (f r) = p_id r" for f
    using assms(4) in_set_update_where [of _ "\<lambda>r. p_id r = ?i" f "pendings d"] that by metis
  with check assms(2,3,5) show ?thesis
    by (simp add: record_signed_def Let_def seqM_def bindM_def on_error_def lift_result_def map_error_def
        update_pending_transaction_status_def modify_def create_completed_transaction_def statement_def
        account_exists_def recorded_row_def) blast
qed

section \<open>Properties\<close>


text \<open>
  Once a preparation has failed after its pending transaction was found or created, its
  idempotency key is used up: every later preparation under the same key fails without an
  effect, whatever the funds, the recipient or the time.
\<close>

theorem failed_start_burns_key:
  assumes fail: "start_new_transaction X T G ok i tx key rcp secs s d = (Inl e, d')"
    and changed: "d' \<noteq> d" and keys: "distinct (map (\<lambda>r. (p_account r, p_key r)) (pendings d))"
    and same: "a_id (se_account s2) = a_id (se_account s)"
  shows "\<exists>e2. start_new_transaction X2 T2 G2 ok2 i2 tx2 key rcp2 secs2 s2 d' = (Inl e2, d')"
proof -
  let ?a = "a_id (se_account s)"
  have "(\<exists>r \<in> set (pendings d'). p_account r = ?a \<and> p_key r = key) \<and>
    (\<forall>r \<in> set (pendings d'). p_account r = ?a \<and> p_key r = key \<longrightarrow> p_status r = pending_status_text Expired)"
    using fail
  proof (cases rule: start_error_cases)
    case unchanged
    with changed show ?thesis by simp
  next
    case (found pt)
    from find_pending_match [OF found(1)] obtain r0 where r0: "r0 \<in> set (pendings d)" "p_id r0 = pt_id pt"
      "p_key r0 = key" "p_account r0 = ?a" by (auto simp: pending_match_def)
    have "p_id r = pt_id pt" if "r \<in> set (pendings d)" "p_account r = ?a" "p_key r = key" for r
      using inj_onD [of "\<lambda>r. (p_account r, p_key r)" "set (pendings d)" r r0] keys that r0
      by (simp add: distinct_map)
    with r0 show ?thesis
      unfolding found(2) cleaned_pendings by auto
  next
    case (created at us row)
    then show ?thesis
      unfolding created(6) cleaned_pendings by auto
  qed
  then have used: "\<exists>r \<in> set (pendings d'). p_account r = ?a \<and> p_key r = key"
    and expired: "\<And>r. r \<in> set (pendings d') \<Longrightarrow> \<not> pending_match key ?a Pending r"
    by (auto simp: pending_match_def)
  let ?p = "new_processed None key rcp2 secs2"
  obtain r1 d1 where v: "validate_transaction_creation_request G2 s2 ?p d' = (r1, d1)"
    by (cases "validate_transaction_creation_request G2 s2 ?p d'")
  with reads_run [OF reads_validate] have d1: "d1 = d'" by blast
  obtain r2 d2 where c: "sender_create_pending X2 T2 i2 s2 ?p d' = (r2, d2)"
    by (cases "sender_create_pending X2 T2 i2 s2 ?p d'")
  have "\<exists>e. r2 = Inl e"
    using sender_create_ok [of X2 T2 i2 s2 ?p d'] c used same
    by (cases r2) (auto simp: new_processed_def)
  with sender_create_error c have "\<exists>e. sender_create_pending X2 T2 i2 s2 ?p d' = (Inl e, d')" by blast
  then show ?thesis
    using v d1 find_pending_none [of d' key ?a ok2] expired same
    by (cases r1)
      (auto simp: start_new_transaction_def Let_def seqM_def bindM_def create_or_find_pending_transaction_def
        map_error_def new_processed_def)
qed


text \<open>
  A preparation that finds its pending transaction again changes nothing, but it does not
  remember the locked inputs. When the prepared transaction is sent, it is therefore shown
  as an incoming payment of its own change, without inputs and without a fee.
\<close>

theorem retried_send_shown_incoming:
  assumes found: "find_pending_transaction_by_idempotency_key ok key (a_id (se_account s)) d = (Inr (Some pt), d)"
    and start: "start_new_transaction X T G ok i tx key rcp secs s d = (Inr (u, s'), d1)"
    and final: "finalize_transaction_and_broadcast X2 connect sd s' d2 = (Inr shown, d3)"
  shows "d1 = d \<and> dt_direction shown = Incoming \<and>
     dt_amount shown = (case sd_change sd of None \<Rightarrow> 0 | Some w \<Rightarrow> wo_value w) \<and>
     td_inputs (dt_details shown) = [] \<and> dt_fee shown = None"
proof -
  let ?p = "new_processed None key rcp secs"
  from start found have "d1 = d \<and> se_processed s' = update_id (pt_id pt) ?p"
    by (auto simp: start_new_transaction_def Let_def ok_simps on_error_ok_iff
        create_or_find_pending_transaction_def new_processed_def
        dest!: reads_run [OF reads_validate] reads_run [OF reads_prepare])
  moreover from this have "pc_utxos (se_processed s') = []"
    by (simp add: update_id_def new_processed_def)
  moreover from final have "build_pending_displayed_transaction X2 s' sd = Inr shown"
    by (cases "build_pending_displayed_transaction X2 s' sd")
      (auto simp: finalize_transaction_and_broadcast_def ok_simps)
  ultimately show ?thesis using built_displayed [of X2 s' sd] by auto
qed

text \<open>
  C33: The expiry check of the finalisation looks at PENDING transactions only. When the
  unlocker has already expired the transaction and released its outputs, the finalisation
  goes through and the node gets a transaction whose inputs nobody holds.
\<close>

theorem released_send_still_broadcast:
  assumes unlock: "unlock_expired_transactions X d0 = (Inr (), d)"
    and p: "p \<in> set (pendings d0)" "pending_expired (x_now X) p"
      "p_id p = processed_id (se_processed s)" "p_account p = a_id (se_account s)"
      "p_key p = pc_key (se_processed s)"
    and keys: "distinct (map (\<lambda>r. (p_account r, p_key r)) (pendings d0))"
    and ok: "account_exists d0 (a_id (se_account s))"
      "\<forall>r \<in> set (completeds d0). c_id r \<noteq> i64_of_u64 (sd_tx_id sd)"
      "sd_serialized sd = Inr b" "submit b = Inr response" "sub_accepted response"
  shows "\<exists>shown d'. finalize_transaction_and_broadcast X2 (Inr submit) sd s d = (Inr shown, d') \<and>
     status_of d' (i64_of_u64 (sd_tx_id sd)) = Some (completed_status_text TxBroadcast) \<and>
     (\<forall>x. output_holder (outputs d') x \<noteq> Some (p_id p))"
proof -
  let ?ids = "expired_ids X d0" and ?k = "i64_of_u64 (sd_tx_id sd)"
  have d: "d = d0\<lparr>pendings := update_where (\<lambda>r. p_id r \<in> set ?ids) expire_row (pendings d0),
      outputs := output_locks.release_all ?ids (outputs d0)\<rparr>"
    using unlock unlock_expired_run [of X d0] by simp
  have mem: "p_id p \<in> set ?ids" using p(1,2) by (auto simp: in_expired_ids)
  have free: "output_holder (outputs d) x \<noteq> Some (p_id p)" for x
    using mem unfolding d by (auto simp: output_locks.holder_release_all split: option.splits)
  have "\<not> pending_match (p_key p) (p_account p) Pending r" if r: "r \<in> set (pendings d)" for r
  proof
    assume m: "pending_match (p_key p) (p_account p) Pending r"
    from r obtain q where q: "q \<in> set (pendings d0)" "r = (if p_id q \<in> set ?ids then expire_row q else q)"
      unfolding d by (auto simp: in_set_update_where)
    have "p_key q = p_key r" "p_account q = p_account r" by (simp_all add: q(2) expire_row_def)
    with m have "q = p"
      using inj_onD [of "\<lambda>r. (p_account r, p_key r)" "set (pendings d0)" q p] keys q(1) p(1)
      by (simp add: distinct_map pending_match_def)
    with q(2) mem m show False by (simp add: pending_match_def expire_row_def)
  qed
  then have quiet: "\<not> (\<exists>r \<in> set (pendings d). pending_match (pc_key (se_processed s)) (a_id (se_account s)) Pending r \<and>
      p_expires_at r < x_now X2)"
    using p(4,5) by auto
  have row: "\<exists>r \<in> set (pendings d). p_id r = processed_id (se_processed s)"
  proof -
    have "expire_row p \<in> set (pendings d)"
      using p(1) mem unfolding d by (simp del: set_map set_filter add: in_set_update_where) metis
    then show ?thesis using p(3) by (intro bexI [of _ "expire_row p"]) (simp_all add: expire_row_def)
  qed
  from record_signed_run [OF quiet ok(3) _ row] ok(1,2) obtain rows where
    rec: "record_signed X2 s sd d = (Inr (), d\<lparr>pendings := rows,
       completeds := insort_key c_id (recorded_row X2 s sd b) (completeds d)\<rparr>)" (is "_ = (_, ?d1)")
    by (auto simp: d account_exists_def)
  have "row_of ?d1 ?k = Some (recorded_row X2 s sd b)"
    using ok(2) by (intro row_of_recorded [where d = d]) (simp_all add: d)
  note st = status_after_update [OF this]
  obtain shown where shown: "build_pending_displayed_transaction X2 s sd = Inr shown"
    using built_displayed [of X2 s sd] by auto
  let ?f = "\<lambda>r. r\<lparr>c_status := completed_status_text TxBroadcast, c_attempts := 1, c_updated := x_now X2\<rparr>"
  let ?d2 = "?d1\<lparr>completeds := update_where (\<lambda>r. c_id r = ?k) ?f (completeds ?d1)\<rparr>"
  have st: "status_of ?d2 ?k = Some (completed_status_text TxBroadcast)" by (rule st) simp_all
  obtain d' where ins: "insert_displayed_transaction X2 shown ?d2 = (Inr (), d')"
    "completeds d' = completeds ?d2" "outputs d' = outputs ?d2"
    using insert_displayed_run by metis
  have "finalize_transaction_and_broadcast X2 (Inr submit) sd s d = (Inr shown, d')"
    using rec ok(3-5) shown ins(1)
    by (simp add: finalize_transaction_and_broadcast_def seqM_def bindM_def lift_result_def map_error_def
        submit_signed_def mark_completed_transaction_as_broadcasted_def update_completed_def modify_def ret_def)
  moreover have "status_of d' ?k = Some (completed_status_text TxBroadcast)"
    using st ins(2) by (simp add: status_of_def row_of_def)
  ultimately show ?thesis using free ins(3) by auto
qed

section \<open>Witnesses\<close>

definition fails_with :: "('e + 'a) \<times> 's \<Rightarrow> ('s \<Rightarrow> bool) \<Rightarrow> bool" where
  "fails_with run P = (case run of (r, s) \<Rightarrow> (case r of Inl _ \<Rightarrow> P s | Inr _ \<Rightarrow> False))"

lemma fails_with_iff: "fails_with run P \<longleftrightarrow> (\<exists>e s. run = (Inl e, s) \<and> P s)"
  by (auto simp: fails_with_def split: prod.splits sum.splits)

definition sample_tools :: "(wallet_output list, string, nat) signing_tools" where
  "sample_tools = \<lparr>sg_address = (\<lambda>_. Inr ''me''), sg_one_sided = (\<lambda>_. True),
     sg_builder = (\<lambda>_ _. Inr []), sg_with_input = (\<lambda>b w. Inr (b @ [w])), sg_memo = Inr,
     sg_no_memo = [], sg_prepare = (\<lambda>_ b _ _ _. Inr (length b))\<rparr>"

definition broken_tools :: "(wallet_output list, string, nat) signing_tools" where
  "broken_tools = sample_tools\<lparr>sg_prepare := (\<lambda>_ _ _ _ _. Inl ''cannot build'')\<rparr>"

definition sample_recipient :: recipient where
  "sample_recipient = \<lparr>rc_address = ''you'', rc_amount = 40, rc_payment_id = None\<rparr>"

definition sample_sender :: sender where
  "sample_sender = \<lparr>se_account = sample_account,
     se_processed = update_id ''p1'' (new_processed None ''k'' sample_recipient 60),
     se_fee_per_gram = 1, se_window = 2\<rparr>"

definition sample_signed :: signed_transaction where
  "sample_signed = \<lparr>sd_tx_id = 5, sd_fee = 3, sd_kernels = [[7]], sd_serialized = Inr [1],
     sd_sent_hashes = [[8]], sd_outputs = [sample_output [8] 40], sd_change = Some (sample_output [9] 17)\<rparr>"

abbreviation sample_start :: "(wallet_output list, string, nat) signing_tools \<Rightarrow> string \<Rightarrow>
    (nat \<times> sender) sendm" where
  "sample_start G i \<equiv> start_new_transaction sample_X first_fit_tools G (\<lambda>_. True) i 5 ''k''
     sample_recipient 60 sample_sender"

definition accepted :: submission where
  "accepted = \<lparr>sub_accepted = True, sub_already_mined = False, sub_reason = []\<rparr>"

lemma broken_start:
  "\<exists>e d'. sample_start broken_tools ''p1'' two_outputs_db = (Inl e, d') \<and> pendings d' \<noteq> []"
proof -
  have "fails_with (sample_start broken_tools ''p1'' two_outputs_db) (\<lambda>d'. pendings d' \<noteq> [])"
    by code_simp
  then show ?thesis by (simp add: fails_with_iff)
qed

lemma two_outputs_pendings [simp]: "pendings two_outputs_db = []"
  by code_simp


theorem failed_start_burns_key_witness:
  "\<exists>e d' e2. sample_start broken_tools ''p1'' two_outputs_db = (Inl e, d') \<and>
     sample_start sample_tools ''p2'' d' = (Inl e2, d')"
proof -
  obtain e d' where run: "sample_start broken_tools ''p1'' two_outputs_db = (Inl e, d')" "pendings d' \<noteq> []"
    using broken_start by blast
  then have "d' \<noteq> two_outputs_db" by auto
  from failed_start_burns_key [OF run(1) this _ refl] run(1) show ?thesis by (metis two_outputs_pendings
    distinct.simps(1) list.map(1))
qed


theorem retried_send_shown_incoming_witness:
  "\<exists>n s d n' s' shown d'. sample_start sample_tools ''p1'' two_outputs_db = (Inr (n, s), d) \<and>
     sample_start sample_tools ''p2'' d = (Inr (n', s'), d) \<and>
     finalize_transaction_and_broadcast sample_X (Inr (\<lambda>_. Inr accepted)) sample_signed s' d = (Inr shown, d') \<and>
     dt_direction shown = Incoming \<and> dt_amount shown = 17"
proof -
  let ?fin = "finalize_transaction_and_broadcast sample_X (Inr (\<lambda>_. Inr accepted)) sample_signed"
  let ?find = "find_pending_transaction_by_idempotency_key (\<lambda>_. True) ''k'' (a_id (se_account sample_sender))"
  have "succeeds_with (sample_start sample_tools ''p1'' two_outputs_db) (\<lambda>ns d.
    succeeds_with (?find d) (\<lambda>f d0. f \<noteq> None) \<and>
    succeeds_with (sample_start sample_tools ''p2'' d) (\<lambda>ns' d1.
      succeeds_with (?fin (snd ns') d1) (\<lambda>shown d'. True)))" by code_simp
  then obtain n s d f d0 n' s' d1 shown d' where 1: "sample_start sample_tools ''p1'' two_outputs_db = (Inr (n, s), d)"
    and 2: "?find d = (Inr (Some f), d0)"
    and 3: "sample_start sample_tools ''p2'' d = (Inr (n', s'), d1)" and 4: "?fin s' d1 = (Inr shown, d')"
    unfolding with_iffs by auto
  from 2 have "d0 = d" by (rule reads_run [OF reads_find])
  with 2 have found: "?find d = (Inr (Some f), d)" by simp
  have "sd_change sample_signed = Some (sample_output [9] 17)" "wo_value (sample_output [9] 17) = 17"
    by (simp_all add: sample_signed_def sample_output_def)
  with retried_send_shown_incoming [OF found 3 4] 1 3 4 show ?thesis by auto
qed

theorem released_send_still_broadcast_witness:
  "\<exists>d shown d'. unlock_expired_transactions sample_X expired_lock_db = (Inr (), d) \<and>
     finalize_transaction_and_broadcast sample_X (Inr (\<lambda>_. Inr accepted)) sample_signed sample_sender d = (Inr shown, d') \<and>
     status_of d' 5 = Some (completed_status_text TxBroadcast) \<and> output_holder (outputs d') 1 \<noteq> Some ''p1''"
proof -
  obtain d where unlock: "unlock_expired_transactions sample_X expired_lock_db = (Inr (), d)"
    using unlock_expired_run by blast
  let ?p = "hd (pendings expired_lock_db)"
  have p: "?p \<in> set (pendings expired_lock_db)" "pending_expired (x_now sample_X) ?p"
    "p_id ?p = processed_id (se_processed sample_sender)" "p_account ?p = a_id (se_account sample_sender)"
    "p_key ?p = pc_key (se_processed sample_sender)" "p_id ?p = ''p1''"
    "distinct (map (\<lambda>r. (p_account r, p_key r)) (pendings expired_lock_db))"
    by code_simp+
  have ok: "account_exists expired_lock_db (a_id (se_account sample_sender))" "completeds expired_lock_db = []"
    "sd_serialized sample_signed = Inr [1]" "sub_accepted accepted" "i64_of_u64 (sd_tx_id sample_signed) = 5"
    by code_simp+
  from released_send_still_broadcast [OF unlock p(1-5,7) ok(1) _ ok(3) refl ok(4), of sample_X] ok(2,5) p(6) unlock
  show ?thesis by auto
qed

end
