(* ===== verification/Scanner.thy ===== *)
theory Scanner
  imports Block_Processor
begin

text \<open>
  The block scanner of the crate \<^verbatim>\<open>minotari-scanning\<close>: \<open>scanning/mod.rs\<close> and
  \<open>scanning/http/scanner.rs\<close>. Requests to the node are retried with a bounded backoff; the
  download task walks over the pages of a header and from header to header; the processing
  task turns each page into scanned blocks. One HTTP call is an \<open>attempt\<close>, a function of its
  number among the retries. Key recovery and the import of an output belong to the Tari
  libraries and are the fields of \<open>key_tools\<close>. The crate is built with overflow checks, so
  an overflow of the backoff is a panic.
\<close>

section \<open>Requests with retries\<close>

datatype scanner_error =
    ConfigurationError string
  | ConnectionFailed string
  | TimeoutError string
  | ConversionError string
  | DataError string
  | OperationNotSupported string
  | GrpcError string
  | InternalError string
  | ScannerPanic

datatype 'a attempt = Answered 'a | Failed scanner_error | TimedOut

definition max_backoff_exponent :: nat where
  "max_backoff_exponent = 5"

definition max_backoff_seconds :: u64 where
  "max_backoff_seconds = 60"

definition backoff_secs :: "u64 \<Rightarrow> nat \<Rightarrow> u64 option" where
  \<comment> \<open>\<open>None\<close> when \<open>pow\<close> overflows\<close>
  "backoff_secs base error_retries =
     (let p = base ^ min error_retries max_backoff_exponent
      in if p < 2 ^ 64 then Some (min p max_backoff_seconds) else None)"

text \<open>
  The loop around every request. The result carries the pauses, in seconds, in the order they
  are made.
\<close>

function retry_loop ::
  "nat \<Rightarrow> u64 \<Rightarrow> (nat \<Rightarrow> 'a attempt) \<Rightarrow> nat \<Rightarrow> nat \<Rightarrow> nat \<Rightarrow> (scanner_error + 'a) \<times> u64 list" where
  "retry_loop max_retries base call n timeouts errors = (case call n of
      Answered a \<Rightarrow> (Inr a, [])
    | Failed e \<Rightarrow>
        if errors + 1 \<ge> max_retries then (Inl e, [])
        else (case backoff_secs base (errors + 1) of
            None \<Rightarrow> (Inl ScannerPanic, [])
          | Some pause \<Rightarrow> (case retry_loop max_retries base call (n + 1) timeouts (errors + 1) of
              (r, pauses) \<Rightarrow> (r, pause # pauses)))
    | TimedOut \<Rightarrow>
        if timeouts + 1 \<ge> max_retries
        then (Inl (TimeoutError (''Failed after '' @ show_nat (timeouts + 1))), [])
        else (case retry_loop max_retries base call (n + 1) (timeouts + 1) errors of
            (r, pauses) \<Rightarrow> (r, 1 # pauses)))"
  by pat_completeness auto
termination
  by (relation "measure (\<lambda>(max_retries, base, call, n, timeouts, errors).
        (max_retries - timeouts) + (max_retries - errors))") auto

declare retry_loop.simps [simp del]

definition with_retry :: "nat \<Rightarrow> u64 \<Rightarrow> (nat \<Rightarrow> 'a attempt) \<Rightarrow> scanner_error + 'a" where
  "with_retry max_retries base call = fst (retry_loop max_retries base call 0 0 0)"

section \<open>Configuration and the scan in progress\<close>

record scan_config =
  cf_start :: u64
  cf_end :: "u64 option"
  cf_batch :: "u64 option"
  cf_exclude_spent :: bool

definition default_scan_config :: scan_config where
  "default_scan_config = \<lparr>cf_start = 0, cf_end = None, cf_batch = Some 100, cf_exclude_spent = False\<rparr>"

definition with_start_height :: "u64 \<Rightarrow> scan_config \<Rightarrow> scan_config" where
  "with_start_height h c = c\<lparr>cf_start := h\<rparr>"

definition with_batch_size :: "u64 \<Rightarrow> scan_config \<Rightarrow> scan_config" where
  "with_batch_size n c = c\<lparr>cf_batch := Some n\<rparr>"

record in_progress =
  ip_config :: "scan_config option"
  ip_header :: "string option"
  ip_page :: u64

definition in_progress_new :: "scan_config \<Rightarrow> in_progress" where
  "in_progress_new c = \<lparr>ip_config = Some c, ip_header = None, ip_page = 0\<rparr>"

definition in_progress_clear :: "in_progress \<Rightarrow> in_progress" where
  "in_progress_clear ip = ip\<lparr>ip_config := None, ip_header := None, ip_page := 0\<rparr>"

definition is_active :: "in_progress \<Rightarrow> bool" where
  "is_active ip \<longleftrightarrow> ip_config ip \<noteq> None"

definition increment_page :: "in_progress \<Rightarrow> in_progress" where
  "increment_page ip = ip\<lparr>ip_page := ip_page ip + 1\<rparr>"

definition set_next_request :: "string \<Rightarrow> in_progress \<Rightarrow> in_progress" where
  "set_next_request h ip = ip\<lparr>ip_header := Some h, ip_page := 0\<rparr>"

section \<open>The node\<close>

record minimal_utxo =
  mu_output_hash :: bytes
  mu_commitment :: bytes
  mu_encrypted :: bytes
  mu_offset_key :: bytes

record block_utxos =
  bu_height :: u64
  bu_header_hash :: bytes
  bu_outputs :: "minimal_utxo list"
  bu_inputs :: "bytes list"
  bu_timestamp :: u64

record sync_response =
  sr_blocks :: "block_utxos list"
  sr_has_next_page :: bool
  sr_next_header :: bytes

record full_output =
  fo_encrypted :: bytes
  fo_raw :: bytes

record node =
  nd_max_retries :: nat
  nd_backoff_base :: u64
  nd_tip :: "nat \<Rightarrow> u64 attempt"
  nd_header :: "u64 \<Rightarrow> nat \<Rightarrow> bytes option attempt"
  nd_sync :: "string \<Rightarrow> u64 \<Rightarrow> u64 \<Rightarrow> bool \<Rightarrow> nat \<Rightarrow> sync_response attempt"
  nd_utxos :: "bytes \<Rightarrow> nat \<Rightarrow> full_output list attempt"

definition get_tip_info :: "node \<Rightarrow> scanner_error + u64" where
  "get_tip_info N = with_retry (nd_max_retries N) (nd_backoff_base N) (nd_tip N)"

definition get_header_by_height :: "node \<Rightarrow> u64 \<Rightarrow> scanner_error + bytes option" where
  "get_header_by_height N h = with_retry (nd_max_retries N) (nd_backoff_base N) (nd_header N h)"

definition sync_utxos_by_block :: "node \<Rightarrow> string \<Rightarrow> u64 \<Rightarrow> u64 \<Rightarrow> bool \<Rightarrow> scanner_error + sync_response" where
  "sync_utxos_by_block N start_header_hash limit page_no exclude_spent =
     with_retry (nd_max_retries N) (nd_backoff_base N) (nd_sync N start_header_hash limit page_no exclude_spent)"

definition get_utxos_by_block :: "node \<Rightarrow> bytes \<Rightarrow> scanner_error + full_output list" where
  "get_utxos_by_block N h = with_retry (nd_max_retries N) (nd_backoff_base N) (nd_utxos N h)"

section \<open>Downloading\<close>

definition page_limit :: u64 where
  "page_limit = 50"

fun push_blocks ::
  "block_utxos list \<Rightarrow> in_progress \<times> bool \<times> bool \<Rightarrow> in_progress \<times> bool \<times> bool" where
  \<comment> \<open>the loop over the blocks of a response: the scan, \<open>more_blocks\<close>, \<open>has_next_page\<close>; every
     block is kept\<close>
  "push_blocks [] st = st"
| "push_blocks (b # bs) (ip, cont, next) =
     (case Option.bind (ip_config ip) cf_end of
        None \<Rightarrow> push_blocks bs (ip, cont, next)
      | Some end_height \<Rightarrow>
          if bu_height b > end_height then push_blocks bs (in_progress_clear ip, False, False)
          else push_blocks bs (ip, cont, next))"

definition next_request :: "(bytes \<Rightarrow> string) \<Rightarrow> bytes \<Rightarrow> bool \<Rightarrow> in_progress \<times> bool \<Rightarrow> in_progress \<times> bool" where
  \<comment> \<open>after the last page of a header: go to the next header, unless it is the same\<close>
  "next_request hex next_header has_next st = (case st of (ip, cont) \<Rightarrow>
     if \<not> has_next \<and> is_active ip
     then if next_header = [] then (in_progress_clear ip, False)
       else if hex next_header = (case ip_header ip of None \<Rightarrow> [] | Some h \<Rightarrow> h)
         then (in_progress_clear ip, False)
         else (set_next_request (hex next_header) ip, cont)
     else (ip, cont))"

definition start_header ::
  "(bytes \<Rightarrow> string) \<Rightarrow> node \<Rightarrow> u64 \<Rightarrow> in_progress \<Rightarrow> scanner_error + string \<times> in_progress" where
  "start_header hex N start_height ip = (case ip_header ip of
      Some h \<Rightarrow> Inr (h, ip)
    | None \<Rightarrow> (case get_header_by_height N start_height of
        Inl e \<Rightarrow> Inl e
      | Inr None \<Rightarrow> Inl (ConnectionFailed (''Failed to get header at height '' @ show_nat start_height))
      | Inr (Some h) \<Rightarrow> Inr (hex h, set_next_request (hex h) ip)))"

definition fetch_block_range ::
  "(bytes \<Rightarrow> string) \<Rightarrow> node \<Rightarrow> in_progress \<Rightarrow> scanner_error + (block_utxos list \<times> bool) \<times> in_progress" where
  "fetch_block_range hex N ip =
     (let start_height = (case ip_config ip of None \<Rightarrow> 0 | Some c \<Rightarrow> cf_start c);
          exclude_spent = (case ip_config ip of None \<Rightarrow> False | Some c \<Rightarrow> cf_exclude_spent c)
      in case start_header hex N start_height ip of
           Inl e \<Rightarrow> Inl e
         | Inr (current, ip1) \<Rightarrow>
             (let limit = (case Option.bind (ip_config ip1) cf_batch of None \<Rightarrow> page_limit | Some n \<Rightarrow> n)
              in case sync_utxos_by_block N current limit (ip_page ip1) exclude_spent of
                   Inl e \<Rightarrow> Inl e
                 | Inr r \<Rightarrow>
                     if sr_blocks r = [] then Inr (([], False), ip1)
                     else (case push_blocks (sr_blocks r) (ip1, True, sr_has_next_page r) of
                         (ip2, cont, has_next) \<Rightarrow>
                           (case next_request hex (sr_next_header r) has_next (increment_page ip2, cont) of
                              (ip3, cont') \<Rightarrow> Inr ((sr_blocks r, cont'), ip3)))))"

text \<open>
  The loop of the download task: the batches in order, and the error that ended it. The loop
  trusts the node to make progress, so it may never end.
\<close>

partial_function (option) download ::
  "(bytes \<Rightarrow> string) \<Rightarrow> node \<Rightarrow> in_progress \<Rightarrow> (block_utxos list list \<times> scanner_error option) option" where
  "download hex N ip = (case fetch_block_range hex N ip of
      Inl e \<Rightarrow> Some ([], Some e)
    | Inr (bm, ip') \<Rightarrow>
        if snd bm
        then Option.bind (download hex N ip') (\<lambda>(batches, e). Some (fst bm # batches, e))
        else Some ([fst bm], None))"

section \<open>Processing a batch\<close>

record incomplete_output =
  io_hash :: bytes
  io_value :: u64
  io_mask :: bytes
  io_encrypted :: bytes
  io_memo :: bytes
  io_index :: nat

record key_tools =
  kt_count :: nat                                       \<comment> \<open>\<open>key_managers.len()\<close>\<close>
  kt_commitment :: "bytes \<Rightarrow> string option"              \<comment> \<open>the error of decoding, if any\<close>
  kt_encrypted :: "bytes \<Rightarrow> string option"
  kt_offset_key :: "bytes \<Rightarrow> string option"
  kt_recover :: "nat \<Rightarrow> minimal_utxo \<Rightarrow> scanner_error + (bytes \<times> u64 \<times> bytes) option"
    \<comment> \<open>\<open>try_output_key_recovery\<close> of a key manager: mask, value, memo\<close>
  kt_import :: "nat \<Rightarrow> incomplete_output \<Rightarrow> full_output \<Rightarrow> wallet_output option"
    \<comment> \<open>\<open>WalletOutput::new_imported\<close>\<close>

definition scanning_output :: "key_tools \<Rightarrow> minimal_utxo \<Rightarrow> scanner_error + minimal_utxo" where
  \<comment> \<open>\<open>ScanningOutputStruct::try_from\<close>: the three fields decode\<close>
  "scanning_output K u = (case kt_commitment K (mu_commitment u) of
      Some e \<Rightarrow> Inl (DataError e)
    | None \<Rightarrow> (case kt_encrypted K (mu_encrypted u) of
        Some e \<Rightarrow> Inl (DataError e)
      | None \<Rightarrow> (case kt_offset_key K (mu_offset_key u) of
          Some e \<Rightarrow> Inl (DataError e)
        | None \<Rightarrow> Inr u)))"

definition incomplete_new ::
  "externals \<Rightarrow> minimal_utxo \<Rightarrow> nat \<Rightarrow> bytes \<times> u64 \<times> bytes \<Rightarrow> scanner_error + incomplete_output" where
  "incomplete_new X u index found = (case found of (key, amount, memo) \<Rightarrow>
     (case fixed_hash_of (mu_output_hash u) of
        None \<Rightarrow> Inl (DataError (x_size_error X))
      | Some h \<Rightarrow> Inr \<lparr>io_hash = h, io_value = amount, io_mask = key, io_encrypted = mu_encrypted u,
          io_memo = memo, io_index = index\<rparr>))"

fun recover_from ::
  "externals \<Rightarrow> key_tools \<Rightarrow> minimal_utxo \<Rightarrow> nat list \<Rightarrow> scanner_error + incomplete_output option" where
  "recover_from X K u [] = Inr None"
| "recover_from X K u (i # is) = (case kt_recover K i u of
      Inl e \<Rightarrow> Inl e
    | Inr None \<Rightarrow> recover_from X K u is
    | Inr (Some found) \<Rightarrow> map_sum id Some (incomplete_new X u i found))"

definition scan_for_recoverable_output ::
  "externals \<Rightarrow> key_tools \<Rightarrow> minimal_utxo \<Rightarrow> scanner_error + incomplete_output option" where
  "scan_for_recoverable_output X K u = recover_from X K u [0..<kt_count K]"

definition opt_hash :: "bytes \<Rightarrow> bytes" where
  "opt_hash b = opt_or zero_hash (fixed_hash_of b)"

definition scan_outputs ::
  "externals \<Rightarrow> key_tools \<Rightarrow> minimal_utxo list \<Rightarrow> scanner_error list \<times> incomplete_output list" where
  "scan_outputs X K us = foldl (\<lambda>(errs, found) u.
     case scanning_output K u of
       Inl e \<Rightarrow> (errs @ [e], found)
     | Inr u' \<Rightarrow> (case scan_for_recoverable_output X K u' of
         Inl e \<Rightarrow> (errs @ [e], found)
       | Inr None \<Rightarrow> (errs, found)
       | Inr (Some w) \<Rightarrow> (errs, found @ [w]))) ([], []) us"

definition scan_http_block ::
  "externals \<Rightarrow> key_tools \<Rightarrow> block_utxos \<Rightarrow>
     scanner_error list \<times> (block_scan \<times> incomplete_output list) list" where
  \<comment> \<open>what one block adds to \<open>errors\<close> and to \<open>results\<close>\<close>
  "scan_http_block X K b = (case fixed_hash_of (bu_header_hash b) of
      None \<Rightarrow> ([ConversionError (x_size_error X)], [])
    | Some h \<Rightarrow> (case scan_outputs X K (bu_outputs b) of (errs, found) \<Rightarrow>
        (errs, [(\<lparr>bl_height = bu_height b, bl_hash = h, bl_outputs = [],
           bl_inputs = map opt_hash (bu_inputs b), bl_timestamp = bu_timestamp b\<rparr>, found)])))"

definition full_outputs ::
  "key_tools \<Rightarrow> full_output list \<Rightarrow> incomplete_output list \<Rightarrow> (bytes \<times> wallet_output \<times> nat) list" where
  "full_outputs K response found = List.map_filter (\<lambda>w.
     Option.bind (List.find (\<lambda>o'. fo_encrypted o' = io_encrypted w) response) (\<lambda>o'.
     Option.bind (kt_import K (io_index w) w o') (\<lambda>f. Some (io_hash w, f, io_index w)))) found"

definition complete_block ::
  "node \<Rightarrow> key_tools \<Rightarrow> block_scan \<times> incomplete_output list \<Rightarrow> scanner_error + block_scan" where
  "complete_block N K bw = (case bw of (block, found) \<Rightarrow>
     if found = [] then Inr block
     else (case get_utxos_by_block N (bl_hash block) of
         Inl e \<Rightarrow> Inl e
       | Inr response \<Rightarrow> Inr (block\<lparr>bl_outputs := bl_outputs block @ full_outputs K response found\<rparr>)))"

definition process_http_blocks ::
  "externals \<Rightarrow> node \<Rightarrow> key_tools \<Rightarrow> block_utxos list \<Rightarrow> scanner_error + block_scan list" where
  \<comment> \<open>one turn of the processing task: the first error, or the blocks sorted by height\<close>
  "process_http_blocks X N K bs =
     (let scanned = map (scan_http_block X K) bs
      in case concat (map fst scanned) of
           e # _ \<Rightarrow> Inl e
         | [] \<Rightarrow> (case mapM (complete_block N K) (concat (map snd scanned)) of
             Inl e \<Rightarrow> Inl e
           | Inr blocks \<Rightarrow> Inr (sort_key bl_height blocks)))"

fun process_batches ::
  "externals \<Rightarrow> node \<Rightarrow> key_tools \<Rightarrow> block_utxos list list \<Rightarrow> (scanner_error + block_scan list) list" where
  \<comment> \<open>the messages of the processing task, which stops at the first error\<close>
  "process_batches X N K [] = []"
| "process_batches X N K (bs # bss) = (case process_http_blocks X N K bs of
      Inl e \<Rightarrow> [Inl e]
    | Inr blocks \<Rightarrow> Inr blocks # process_batches X N K bss)"

section \<open>The stream of a scan\<close>

type_synonym scan_stream = "(scanner_error + block_scan list) list"

definition with_marker :: "scanner_error + block_scan list \<Rightarrow> nat \<Rightarrow> scan_stream \<Rightarrow> scan_stream" where
  \<comment> \<open>the download task and the processing task send into one channel: the last message of the
     download comes after any number \<open>k\<close> of the processed batches\<close>
  "with_marker m k results = take k results @ m # drop k results"

definition scan_blocks ::
  "externals \<Rightarrow> node \<Rightarrow> key_tools \<Rightarrow> scan_config \<Rightarrow> nat \<Rightarrow> (scanner_error + scan_stream) option" where
  \<comment> \<open>\<open>None\<close>: the download never ends; \<open>k\<close> is the choice of the scheduler\<close>
  "scan_blocks X N K config k =
     (if (case cf_end config of None \<Rightarrow> False | Some end_height \<Rightarrow> cf_start config > end_height)
      then Some (Inl (OperationNotSupported ''start_height cannot be greater than end_height''))
      else (case get_tip_info N of
          Inl e \<Rightarrow> Some (Inr [])
        | Inr tip \<Rightarrow>
            if cf_start config > tip then Some (Inr [Inr []])
            else (case download (x_hex X) N (in_progress_new config) of
                None \<Rightarrow> None
              | Some (batches, failed) \<Rightarrow> Some (Inr (with_marker
                  (case failed of None \<Rightarrow> Inr [] | Some e \<Rightarrow> Inl e) k
                  (process_batches X N K batches))))))"

end
