(* ===== verification/Scanner_Properties.thy ===== *)
theory Scanner_Properties
  imports Scanner Samples
begin

text \<open>
  The scanner: the retry loop is bounded and succeeds exactly when a call succeeds within its
  limits; a node that serves its chain in pages is downloaded completely and in order; the
  processed blocks keep their heights and carry indices of existing key managers.
\<close>

section \<open>The retry loop\<close>

lemma backoff_secs_le: "backoff_secs base n = Some p \<Longrightarrow> p \<le> 60"
  by (auto simp: backoff_secs_def Let_def max_backoff_seconds_def split: if_splits)

lemma backoff_secs_defined:
  assumes "base ^ 5 < 2 ^ 64"
  shows "\<exists>p. backoff_secs base n = Some p"
proof (cases "base = 0")
  case True
  then show ?thesis by (cases "min n 5") (simp_all add: backoff_secs_def Let_def max_backoff_exponent_def)
next
  case False
  then have "base ^ min n 5 \<le> base ^ 5" by (intro power_increasing) simp_all
  with assms show ?thesis by (simp add: backoff_secs_def Let_def max_backoff_exponent_def)
qed

lemma retry_loop_pauses:
  "length (snd (retry_loop m base call n t e)) \<le> (m - 1 - t) + (m - 1 - e) \<and>
   sum_list (snd (retry_loop m base call n t e)) \<le> (m - 1 - t) + 60 * (m - 1 - e)"
proof (induction m base call n t e rule: retry_loop.induct)
  case (1 m base call n t e)
  show ?case
  proof (cases "call n")
    case (Answered a)
    then show ?thesis by (simp add: retry_loop.simps [of m base call n])
  next
    case (Failed err)
    show ?thesis
    proof (cases "e + 1 \<ge> m \<or> backoff_secs base (e + 1) = None")
      case True
      with Failed show ?thesis by (auto simp: retry_loop.simps [of m base call n])
    next
      case False
      then obtain pause where p: "backoff_secs base (e + 1) = Some pause" "\<not> m \<le> e + 1" by auto
      obtain r ps where rec: "retry_loop m base call (n + 1) t (e + 1) = (r, ps)"
        by (cases "retry_loop m base call (n + 1) t (e + 1)")
      from "1.IH"(1) [OF Failed p(2,1)] rec
      have "length ps \<le> (m - 1 - t) + (m - 1 - (e + 1))" "sum_list ps \<le> (m - 1 - t) + 60 * (m - 1 - (e + 1))"
        by simp_all
      moreover have "m - 1 - e = Suc (m - 1 - (e + 1))" using p(2) by simp
      ultimately have "length (pause # ps) \<le> (m - 1 - t) + (m - 1 - e)"
        "sum_list (pause # ps) \<le> (m - 1 - t) + 60 * (m - 1 - e)"
        using backoff_secs_le [OF p(1)] by simp_all
      with p show ?thesis
        using Failed p rec by (simp add: retry_loop.simps [of m base call n])
    qed
  next
    case TimedOut
    show ?thesis
    proof (cases "t + 1 \<ge> m")
      case True
      with TimedOut show ?thesis by (auto simp: retry_loop.simps [of m base call n])
    next
      case False
      obtain r ps where rec: "retry_loop m base call (n + 1) (t + 1) e = (r, ps)"
        by (cases "retry_loop m base call (n + 1) (t + 1) e")
      from "1.IH"(2) [OF TimedOut False] rec
      have "length ps \<le> (m - 1 - (t + 1)) + (m - 1 - e)" "sum_list ps \<le> (m - 1 - (t + 1)) + 60 * (m - 1 - e)"
        by simp_all
      moreover have "m - 1 - t = Suc (m - 1 - (t + 1))" using False by simp
      ultimately have "length ((1::nat) # ps) \<le> (m - 1 - t) + (m - 1 - e)"
        "sum_list (1 # ps) \<le> (m - 1 - t) + 60 * (m - 1 - e)" by simp_all
      with False show ?thesis
        using TimedOut rec by (simp add: retry_loop.simps [of m base call n])
    qed
  qed
qed

fun is_failed :: "'a attempt \<Rightarrow> bool" where
  "is_failed (Failed e) = True"
| "is_failed (Answered a) = False"
| "is_failed TimedOut = False"

fun is_timed_out :: "'a attempt \<Rightarrow> bool" where
  "is_timed_out TimedOut = True"
| "is_timed_out (Answered a) = False"
| "is_timed_out (Failed e) = False"

definition first_answer :: "(nat \<Rightarrow> 'a attempt) \<Rightarrow> nat \<Rightarrow> 'a \<Rightarrow> bool" where
  "first_answer call k a \<longleftrightarrow> call k = Answered a \<and> (\<forall>j < k. is_failed (call j) \<or> is_timed_out (call j))"

definition bad_calls :: "('a attempt \<Rightarrow> bool) \<Rightarrow> (nat \<Rightarrow> 'a attempt) \<Rightarrow> nat \<Rightarrow> nat" where
  "bad_calls P call k = length (filter (\<lambda>j. P (call j)) [0..<k])"

lemma bad_calls_Suc: "bad_calls P call (Suc k) = (if P (call 0) then 1 else 0) + bad_calls P (\<lambda>j. call (Suc j)) k"
proof -
  have "[0..<Suc k] = 0 # map Suc [0..<k]" by (simp add: upt_conv_Cons map_Suc_upt)
  then show ?thesis by (simp add: bad_calls_def filter_map o_def)
qed

lemma bad_calls_0 [simp]: "bad_calls P call 0 = 0"
  by (simp add: bad_calls_def)

lemma first_answer_0: "first_answer call 0 a \<longleftrightarrow> call 0 = Answered a"
  by (simp add: first_answer_def)

lemma first_answer_Suc:
  "first_answer call (Suc k) a \<longleftrightarrow>
     (is_failed (call 0) \<or> is_timed_out (call 0)) \<and> first_answer (\<lambda>j. call (Suc j)) k a"
  unfolding first_answer_def by (auto simp: less_Suc_eq_0_disj)

text \<open>What the loop is meant to compute: the first answer, if it comes within the limits.\<close>

definition answers_in_time :: "nat \<Rightarrow> (nat \<Rightarrow> 'a attempt) \<Rightarrow> nat \<Rightarrow> nat \<Rightarrow> 'a \<Rightarrow> bool" where
  "answers_in_time limit call t e a \<longleftrightarrow> (\<exists>k. first_answer call k a \<and>
     e + bad_calls is_failed call k < limit \<and> t + bad_calls is_timed_out call k < limit)"

lemma answers_in_time_step:
  "answers_in_time limit call t e a \<longleftrightarrow> (case call 0 of
      Answered b \<Rightarrow> b = a \<and> e < limit \<and> t < limit
    | Failed err \<Rightarrow> answers_in_time limit (\<lambda>j. call (Suc j)) t (e + 1) a
    | TimedOut \<Rightarrow> answers_in_time limit (\<lambda>j. call (Suc j)) (t + 1) e a)"
proof -
  have split: "(\<exists>k. P k) \<longleftrightarrow> P 0 \<or> (\<exists>k. P (Suc k))" for P :: "nat \<Rightarrow> bool"
    by (metis not0_implies_Suc)
  show ?thesis
    unfolding answers_in_time_def
    by (subst split) (auto simp: first_answer_0 first_answer_Suc bad_calls_Suc split: attempt.splits)
qed

lemma answers_too_late: "e \<ge> limit \<or> t \<ge> limit \<Longrightarrow> \<not> answers_in_time limit call t e a"
  by (auto simp: answers_in_time_def)

lemma retry_loop_answer:
  "base ^ 5 < 2 ^ 64 \<Longrightarrow> t < max 1 m \<Longrightarrow> e < max 1 m \<Longrightarrow>
     fst (retry_loop m base call n t e) = Inr a \<longleftrightarrow> answers_in_time (max 1 m) (\<lambda>j. call (n + j)) t e a"
proof (induction m base call n t e rule: retry_loop.induct)
  case (1 m base call n t e)
  have later: "(\<lambda>j. call (n + Suc j)) = (\<lambda>j. call (n + 1 + j))" by simp
  show ?case
  proof (cases "call n")
    case (Answered b)
    with "1.prems" show ?thesis
      by (simp add: retry_loop.simps [of m base call n] answers_in_time_step [of _ "\<lambda>j. call (n + j)"])
  next
    case (Failed err)
    show ?thesis
    proof (cases "e + 1 \<ge> m")
      case True
      then have "\<not> answers_in_time (max 1 m) (\<lambda>j. call (n + 1 + j)) t (e + 1) a"
        by (intro answers_too_late) auto
      with Failed True show ?thesis
        by (simp add: retry_loop.simps [of m base call n] answers_in_time_step [of _ "\<lambda>j. call (n + j)"])
    next
      case False
      obtain p where p: "backoff_secs base (e + 1) = Some p" using backoff_secs_defined [OF "1.prems"(1)] by blast
      from "1.IH"(1) [OF Failed False p] "1.prems" False
      have "fst (retry_loop m base call (n + 1) t (e + 1)) = Inr a \<longleftrightarrow>
          answers_in_time (max 1 m) (\<lambda>j. call (n + 1 + j)) t (e + 1) a" by simp
      with Failed False p show ?thesis
        by (simp add: retry_loop.simps [of m base call n] answers_in_time_step [of _ "\<lambda>j. call (n + j)"] split_def)
    qed
  next
    case TimedOut
    show ?thesis
    proof (cases "t + 1 \<ge> m")
      case True
      then have "\<not> answers_in_time (max 1 m) (\<lambda>j. call (n + 1 + j)) (t + 1) e a"
        by (intro answers_too_late) auto
      with TimedOut True show ?thesis
        by (simp add: retry_loop.simps [of m base call n] answers_in_time_step [of _ "\<lambda>j. call (n + j)"])
    next
      case False
      from "1.IH"(2) [OF TimedOut False] "1.prems" False
      have "fst (retry_loop m base call (n + 1) (t + 1) e) = Inr a \<longleftrightarrow>
          answers_in_time (max 1 m) (\<lambda>j. call (n + 1 + j)) (t + 1) e a" by simp
      with TimedOut False show ?thesis
        by (simp add: retry_loop.simps [of m base call n] answers_in_time_step [of _ "\<lambda>j. call (n + j)"] split_def)
    qed
  qed
qed

section \<open>Downloading\<close>

text \<open>
  A node that serves the chain \<open>C\<close>: a cursor (header and page) stands at a position of the
  chain, the response holds the blocks from there on, and the next cursor stands after them.
  Without a next page the response names the next header; no name, or the header itself,
  means that the end of the chain is reached.
\<close>

definition serves ::
  "(bytes \<Rightarrow> string) \<Rightarrow> node \<Rightarrow> u64 \<Rightarrow> (string \<Rightarrow> u64 \<Rightarrow> nat) \<Rightarrow> block_utxos list \<Rightarrow> bool" where
  "serves hex N limit pos C \<longleftrightarrow>
     (\<forall>i < length C. \<exists>h. get_header_by_height N i = Inr (Some h) \<and> pos (hex h) 0 = i) \<and>
     (\<forall>h p. pos h p < length C \<longrightarrow> (\<exists>r n. sync_utxos_by_block N h limit p False = Inr r \<and>
        sr_blocks r = take (Suc n) (drop (pos h p) C) \<and>
        (let q = pos h p + length (sr_blocks r) in
           if sr_has_next_page r then pos h (p + 1) = q
           else if sr_next_header r = [] \<or> hex (sr_next_header r) = h then q = length C
           else pos (hex (sr_next_header r)) 0 = q))) \<and>
     (\<forall>h p. pos h p = length C \<longrightarrow> (\<exists>r. sync_utxos_by_block N h limit p False = Inr r \<and> sr_blocks r = []))"

definition wanted :: "u64 option \<Rightarrow> block_utxos \<Rightarrow> bool" where
  "wanted end_height b \<longleftrightarrow> (case end_height of None \<Rightarrow> True | Some e \<Rightarrow> bu_height b \<le> e)"

lemma push_blocks_inactive: "ip_config ip = None \<Longrightarrow> push_blocks bs (ip, c, n) = (ip, c, n)"
  by (induction bs) simp_all

lemma push_blocks_run:
  assumes "ip_config ip = Some c"
  shows "push_blocks bs (ip, True, n) =
     (if list_all (wanted (cf_end c)) bs then (ip, True, n) else (in_progress_clear ip, False, False))"
  using assms
  by (induction bs)
    (auto simp: wanted_def push_blocks_inactive in_progress_clear_def split: option.splits)

lemma start_header_known:
  "ip_header ip = Some h \<Longrightarrow> start_header hex N s ip = Inr (h, ip)"
  by (simp add: start_header_def)

lemma download_from_header:
  assumes "serves hex N limit pos C" "sorted (map bu_height C)"
    and c: "cf_batch c = Some limit" "cf_exclude_spent c = False"
  shows "pos h p \<le> length C \<Longrightarrow>
     \<exists>bss rest. download hex N \<lparr>ip_config = Some c, ip_header = Some h, ip_page = p\<rparr> = Some (bss, None) \<and>
       drop (pos h p) C = concat bss @ rest \<and> list_all (\<lambda>b. \<not> wanted (cf_end c) b) rest"
proof (induction "length C - pos h p" arbitrary: h p rule: less_induct)
  case less
  let ?ip = "\<lparr>ip_config = Some c, ip_header = Some h, ip_page = p\<rparr>"
  show ?case
  proof (cases "pos h p = length C")
    case True
    with assms(1) obtain r where r: "sync_utxos_by_block N h limit p False = Inr r" "sr_blocks r = []"
      unfolding serves_def by blast
    have "fetch_block_range hex N ?ip = Inr (([], False), ?ip)"
      by (simp add: fetch_block_range_def c r start_header_known)
    then have "download hex N ?ip = Some ([[]], None)" by (subst download.simps) simp
    with True show ?thesis by (intro exI [of _ "[[]]"] exI [of _ "[]"]) simp
  next
    case False
    with less.prems have lt: "pos h p < length C" by simp
    with assms(1) obtain r n where r: "sync_utxos_by_block N h limit p False = Inr r"
      and blocks: "sr_blocks r = take (Suc n) (drop (pos h p) C)"
      and follow: "let q = pos h p + length (sr_blocks r) in
           if sr_has_next_page r then pos h (p + 1) = q
           else if sr_next_header r = [] \<or> hex (sr_next_header r) = h then q = length C
           else pos (hex (sr_next_header r)) 0 = q"
      unfolding serves_def by blast
    let ?q = "pos h p + length (sr_blocks r)"
    have ne: "sr_blocks r \<noteq> []" using lt blocks by simp
    have q: "?q \<le> length C" "pos h p < ?q" using lt by (simp_all add: blocks)
    have rest: "drop (pos h p) C = sr_blocks r @ drop ?q C"
    proof -
      have "drop (length (sr_blocks r)) (drop (pos h p) C) = drop ?q C" by (simp add: add.commute)
      moreover have "sr_blocks r = take (length (sr_blocks r)) (drop (pos h p) C)"
        by (auto simp: blocks min_def)
      ultimately show ?thesis by (metis append_take_drop_id)
    qed
    have fetch: "fetch_block_range hex N ?ip = (case push_blocks (sr_blocks r) (?ip, True, sr_has_next_page r) of
        (ip2, cont, has_next) \<Rightarrow> (case next_request hex (sr_next_header r) has_next (increment_page ip2, cont) of
            (ip3, cont') \<Rightarrow> Inr ((sr_blocks r, cont'), ip3)))"
      by (simp add: fetch_block_range_def c r ne start_header_known)
    show ?thesis
    proof (cases "list_all (wanted (cf_end c)) (sr_blocks r)")
      case False
      then have "fetch_block_range hex N ?ip = Inr ((sr_blocks r, False), increment_page (in_progress_clear ?ip))"
        unfolding fetch
        by (simp add: push_blocks_run next_request_def is_active_def increment_page_def in_progress_clear_def)
      then have "download hex N ?ip = Some ([sr_blocks r], None)" by (subst download.simps) simp
      moreover have "\<not> wanted (cf_end c) b" if b: "b \<in> set (drop ?q C)" for b
      proof -
        from False obtain a where a: "a \<in> set (sr_blocks r)" "\<not> wanted (cf_end c) a"
          by (auto simp: list_all_iff)
        have "sorted (map bu_height (drop (pos h p) C))"
          using assms(2) by (simp add: drop_map [symmetric])
        then have "bu_height a \<le> bu_height b"
          using a(1) b unfolding rest by (auto simp: sorted_append)
        with a(2) show ?thesis by (auto simp: wanted_def split: option.splits)
      qed
      ultimately show ?thesis using rest by (intro exI [of _ "[sr_blocks r]"]) (simp add: list_all_iff)
    next
      case True
      then have push: "push_blocks (sr_blocks r) (?ip, True, sr_has_next_page r) = (?ip, True, sr_has_next_page r)"
        by (simp add: push_blocks_run)
      consider (same) "sr_has_next_page r" | (stop) "\<not> sr_has_next_page r" "sr_next_header r = [] \<or> hex (sr_next_header r) = h"
        | (next_header) "\<not> sr_has_next_page r" "sr_next_header r \<noteq> []" "hex (sr_next_header r) \<noteq> h" by blast
      then obtain h' p' cont where fetched: "fetch_block_range hex N ?ip = Inr ((sr_blocks r, cont),
            if cont then \<lparr>ip_config = Some c, ip_header = Some h', ip_page = p'\<rparr>
            else in_progress_clear (increment_page ?ip))"
        and at: "if cont then pos h' p' = ?q else ?q = length C"
      proof cases
        case same
        have "fetch_block_range hex N ?ip = Inr ((sr_blocks r, True), \<lparr>ip_config = Some c, ip_header = Some h, ip_page = p + 1\<rparr>)"
          unfolding fetch push using same by (simp add: next_request_def increment_page_def)
        moreover have "pos h (p + 1) = ?q" using follow same by (simp add: Let_def)
        ultimately show ?thesis by (intro that [of True h "p + 1"]) simp_all
      next
        case stop
        have "fetch_block_range hex N ?ip = Inr ((sr_blocks r, False), in_progress_clear (increment_page ?ip))"
          unfolding fetch push using stop
          by (auto simp: next_request_def increment_page_def is_active_def)
        moreover have "?q = length C" using follow stop by (simp add: Let_def)
        ultimately show ?thesis by (intro that [of False h p]) simp_all
      next
        case next_header
        have "fetch_block_range hex N ?ip = Inr ((sr_blocks r, True),
            \<lparr>ip_config = Some c, ip_header = Some (hex (sr_next_header r)), ip_page = 0\<rparr>)"
          unfolding fetch push using next_header
          by (simp add: next_request_def increment_page_def is_active_def set_next_request_def)
        moreover have "pos (hex (sr_next_header r)) 0 = ?q" using follow next_header by (simp add: Let_def)
        ultimately show ?thesis by (intro that [of True "hex (sr_next_header r)" 0]) simp_all
      qed
      show ?thesis
      proof (cases cont)
        case False
        with fetched have "download hex N ?ip = Some ([sr_blocks r], None)" by (subst download.simps) simp
        with False at rest show ?thesis by (intro exI [of _ "[sr_blocks r]"] exI [of _ "[]"]) simp
      next
        case more: True
        with at q have "length C - pos h' p' < length C - pos h p" "pos h' p' \<le> length C"
          using diff_less_mono2 [OF q(2) lt] by simp_all
        from less.hyps [OF this] obtain bss rest' where rec:
          "download hex N \<lparr>ip_config = Some c, ip_header = Some h', ip_page = p'\<rparr> = Some (bss, None)"
          "drop (pos h' p') C = concat bss @ rest'" "list_all (\<lambda>b. \<not> wanted (cf_end c) b) rest'" by blast
        have "download hex N ?ip = Some (sr_blocks r # bss, None)"
          using fetched more rec(1) by (subst download.simps) simp
        with rec(2,3) rest at more show ?thesis by (intro exI [of _ "sr_blocks r # bss"] exI [of _ rest']) simp
      qed
    qed
  qed
qed

lemma download_start:
  assumes "get_header_by_height N s = Inr (Some h)" "cf_start c = s"
  shows "download hex N (in_progress_new c) =
     download hex N \<lparr>ip_config = Some c, ip_header = Some (hex h), ip_page = 0\<rparr>"
proof -
  have "start_header hex N s (in_progress_new c) =
      Inr (hex h, \<lparr>ip_config = Some c, ip_header = Some (hex h), ip_page = 0\<rparr>)"
    by (simp add: start_header_def in_progress_new_def assms(1) set_next_request_def)
  then have "fetch_block_range hex N (in_progress_new c) =
      fetch_block_range hex N \<lparr>ip_config = Some c, ip_header = Some (hex h), ip_page = 0\<rparr>"
    by (simp add: fetch_block_range_def in_progress_new_def start_header_known assms(2))
  then show ?thesis by (subst (1 2) download.simps) simp
qed

section \<open>Processing\<close>

lemma complete_block_height: "complete_block N K x = Inr y \<Longrightarrow> bl_height y = bl_height (fst x)"
  by (auto simp: complete_block_def split: prod.splits if_splits sum.splits)

lemma mapM_blocks_heights:
  "mapM (complete_block N K) xs = Inr ys \<Longrightarrow> map bl_height ys = map (bl_height \<circ> fst) xs"
proof (induction xs arbitrary: ys)
  case (Cons x xs)
  then obtain y zs where "complete_block N K x = Inr y" "mapM (complete_block N K) xs = Inr zs" "ys = y # zs"
    by (auto split: sum.splits)
  with Cons.IH complete_block_height show ?case by simp
qed simp

lemma scan_http_blocks_heights:
  "concat (map fst (map (scan_http_block X K) bs)) = [] \<Longrightarrow>
     map (bl_height \<circ> fst) (concat (map snd (map (scan_http_block X K) bs))) = map bu_height bs"
  by (induction bs) (auto simp: scan_http_block_def split: option.splits prod.splits)

lemma process_http_blocks_ok:
  assumes "process_http_blocks X N K bs = Inr blocks"
  shows "\<exists>ys. mapM (complete_block N K) (concat (map snd (map (scan_http_block X K) bs))) = Inr ys \<and>
     blocks = sort_key bl_height ys \<and> map bl_height ys = map bu_height bs"
proof -
  have none: "concat (map fst (map (scan_http_block X K) bs)) = []"
    using assms by (simp add: process_http_blocks_def Let_def split: list.splits)
  then obtain ys where ys: "mapM (complete_block N K) (concat (map snd (map (scan_http_block X K) bs))) = Inr ys"
    "blocks = sort_key bl_height ys"
    using assms unfolding process_http_blocks_def Let_def none by (auto split: sum.splits)
  have "map bl_height ys = map bu_height bs"
    using mapM_blocks_heights [OF ys(1)] scan_http_blocks_heights [OF none] by simp
  with ys show ?thesis by blast
qed

lemma recover_from_index:
  "recover_from X K u is = Inr (Some w) \<Longrightarrow> io_index w \<in> set is"
  by (induction "is") (auto simp: incomplete_new_def split: sum.splits option.splits prod.splits)

lemma scan_outputs_index:
  assumes "scan_outputs X K us = (errs, found)"
  shows "list_all (\<lambda>w. io_index w < kt_count K) found"
proof -
  have "list_all (\<lambda>w. io_index w < kt_count K) (snd st) \<Longrightarrow> list_all (\<lambda>w. io_index w < kt_count K)
     (snd (foldl (\<lambda>(errs, found) u. case scanning_output K u of
        Inl e \<Rightarrow> (errs @ [e], found)
      | Inr u' \<Rightarrow> (case scan_for_recoverable_output X K u' of
          Inl e \<Rightarrow> (errs @ [e], found)
        | Inr None \<Rightarrow> (errs, found)
        | Inr (Some w) \<Rightarrow> (errs, found @ [w]))) st us))" for st
  proof (induction us arbitrary: st)
    case (Cons u us)
    have "io_index w < kt_count K" if "scan_for_recoverable_output X K u' = Inr (Some w)" for u' w
      using recover_from_index that by (fastforce simp: scan_for_recoverable_output_def)
    then show ?case
      unfolding foldl.simps using Cons.prems
      by (intro Cons.IH) (auto split: prod.splits sum.splits option.splits)
  qed simp
  from this [of "([], [])"] assms show ?thesis by (simp add: scan_outputs_def)
qed

definition own_index :: "nat \<Rightarrow> block_scan \<Rightarrow> bool" where
  "own_index n b \<longleftrightarrow> list_all (\<lambda>(h, w, i). i < n) (bl_outputs b)"

lemma full_outputs_index:
  "list_all (\<lambda>w. io_index w < n) found \<Longrightarrow> list_all (\<lambda>(h, w, i). i < n) (full_outputs K response found)"
  by (induction found)
    (auto simp: full_outputs_def split: option.splits elim!: bind_eq_Some_conv [THEN iffD1, elim_format])

lemma complete_block_index:
  assumes "complete_block N K bw = Inr b" "own_index n (fst bw)" "list_all (\<lambda>w. io_index w < n) (snd bw)"
  shows "own_index n b"
  using assms full_outputs_index
  by (auto simp: complete_block_def own_index_def split: prod.splits if_splits sum.splits)

lemma scan_http_block_index:
  assumes "(b, found) \<in> set (snd (scan_http_block X K bu))"
  shows "own_index (kt_count K) b \<and> list_all (\<lambda>w. io_index w < kt_count K) found"
  using assms scan_outputs_index
  by (auto simp: scan_http_block_def own_index_def split: option.splits prod.splits)

lemma mapM_all:
  "mapM f xs = Inr ys \<Longrightarrow> (\<And>x y. x \<in> set xs \<Longrightarrow> f x = Inr y \<Longrightarrow> P y) \<Longrightarrow> list_all P ys"
proof (induction xs arbitrary: ys)
  case (Cons x xs)
  then obtain y zs where "f x = Inr y" "mapM f xs = Inr zs" "ys = y # zs" by (auto split: sum.splits)
  with Cons.IH Cons.prems(2) show ?case by (metis list.set_intros list.pred_inject(2))
qed simp

section \<open>Properties\<close>

text \<open>
  Every request to the node ends: it makes at most \<open>2 * (max_retries - 1)\<close> pauses, one second
  after a timeout and at most 60 seconds after an error, so its waiting time is bounded.
\<close>

theorem retries_are_bounded:
  "length (snd (retry_loop max_retries base call 0 0 0)) \<le> 2 * (max_retries - 1) \<and>
   sum_list (snd (retry_loop max_retries base call 0 0 0)) \<le> 61 * (max_retries - 1)"
  using retry_loop_pauses [of max_retries base call 0 0 0] by simp

text \<open>
  C34: The retry loop computes its specification: it returns an answer exactly when that is the
  first answer of the node and fewer than \<open>max_retries\<close> errors and fewer than \<open>max_retries\<close>
  timeouts come before it (one call is always made). The backoff must not overflow: its base
  is at most 7131 seconds.
\<close>

theorem retry_meets_specification:
  assumes "base ^ 5 < 2 ^ 64"
  shows "with_retry max_retries base call = Inr a \<longleftrightarrow>
     (\<exists>k. first_answer call k a \<and> bad_calls is_failed call k < max 1 max_retries \<and>
        bad_calls is_timed_out call k < max 1 max_retries)"
  using retry_loop_answer [OF assms, of 0 max_retries 0 call 0 a]
  by (simp add: with_retry_def answers_in_time_def)

text \<open>
  C11: The download from a node that serves its chain ends, and it delivers the chain from the
  start height on, in order and without a gap or a repetition, at least up to the end
  height: only blocks above the end height are left out.
\<close>

theorem download_delivers_chain:
  assumes "serves hex N limit pos C" "sorted (map bu_height C)" "s < length C"
    and "cf_start c = s" "cf_batch c = Some limit" "cf_exclude_spent c = False"
  shows "\<exists>bss rest. download hex N (in_progress_new c) = Some (bss, None) \<and>
     drop s C = concat bss @ rest \<and> list_all (\<lambda>b. \<not> wanted (cf_end c) b) rest"
proof -
  from assms(1,3) obtain h where h: "get_header_by_height N s = Inr (Some h)" "pos (hex h) 0 = s"
    unfolding serves_def by blast
  note download_start [where hex = hex, OF h(1) assms(4)]
  with download_from_header [OF assms(1,2,5,6), of "hex h" 0] h(2) assms(3) show ?thesis by simp
qed


section \<open>Witnesses\<close>

definition flaky_call :: "nat \<Rightarrow> nat attempt" where
  "flaky_call n = (if n = 0 then TimedOut else if n = 1 then Failed (ConnectionFailed ''busy'') else Answered 7)"

theorem retry_meets_specification_witness:
  "with_retry 3 2 flaky_call = Inr 7"
proof -
  have "first_answer flaky_call 2 7" by (simp add: first_answer_def flaky_call_def less_Suc_eq numeral_2_eq_2)
  moreover have "bad_calls is_failed flaky_call 2 < max 1 3" "bad_calls is_timed_out flaky_call 2 < max 1 3"
    by code_simp+
  ultimately show ?thesis using retry_meets_specification [of 2 3 flaky_call 7] by auto
qed

definition page_block :: "u64 \<Rightarrow> block_utxos" where
  "page_block h = \<lparr>bu_height = h, bu_header_hash = replicate 32 (word_of_nat h), bu_outputs = [],
     bu_inputs = [], bu_timestamp = 0\<rparr>"

definition three_blocks :: "block_utxos list" where
  "three_blocks = map page_block [0, 1, 2]"

definition name_pos :: "string \<Rightarrow> u64 \<Rightarrow> nat" where
  "name_pos h p = (case h of c # _ \<Rightarrow> min 3 (of_char c + 2 * p) | [] \<Rightarrow> 3)"

definition name_of :: "bytes \<Rightarrow> string" where
  "name_of b = map (\<lambda>w. char_of (unat w)) b"

definition paged_node :: node where
  \<comment> \<open>serves pages of two blocks; the header after the last block has no name\<close>
  "paged_node = \<lparr>nd_max_retries = 3, nd_backoff_base = 2, nd_tip = (\<lambda>_. Answered 2),
     nd_header = (\<lambda>h _. Answered (if h < 3 then Some [word_of_nat h] else None)),
     nd_sync = (\<lambda>h limit p ex _. Answered \<lparr>sr_blocks = take 2 (drop (name_pos h p) three_blocks),
        sr_has_next_page = (name_pos h p + 2 < 3), sr_next_header = []\<rparr>),
     nd_utxos = (\<lambda>_ _. Answered [])\<rparr>"

lemma with_retry_answered: "with_retry m b (\<lambda>_. Answered a) = Inr a"
  by (simp add: with_retry_def retry_loop.simps)

lemma paged_node_serves: "serves name_of paged_node 2 name_pos three_blocks"
proof -
  have len: "length three_blocks = 3" by (simp add: three_blocks_def)
  have "of_char (char_of (unat (word_of_nat i :: 8 word))) = (i :: nat)" if "i < 3" for i
    using that by (auto simp: less_Suc_eq numeral_3_eq_3)
  then have pos: "name_pos (name_of [word_of_nat i]) 0 = i" if "i < 3" for i
    using that by (simp add: name_pos_def name_of_def)
  have page2: "name_pos h (p + 1) = min 3 (name_pos h p + 2)" for h p
    by (cases h) (simp_all add: name_pos_def min_def)
  show ?thesis
    unfolding serves_def len get_header_by_height_def sync_utxos_by_block_def
    using pos page2
    by (auto simp: paged_node_def with_retry_answered len Let_def numeral_2_eq_2 intro!: exI [of _ 1])
qed

theorem download_delivers_chain_witness:
  "\<exists>bss rest. download name_of paged_node
       (in_progress_new \<lparr>cf_start = 0, cf_end = Some 5, cf_batch = Some 2, cf_exclude_spent = False\<rparr>) = Some (bss, None) \<and>
     drop 0 three_blocks = concat bss @ rest"
proof -
  have "sorted (map bu_height three_blocks)" "0 < length three_blocks"
    by (simp_all add: three_blocks_def page_block_def)
  note download_delivers_chain [OF paged_node_serves this,
      of "\<lparr>cf_start = 0, cf_end = Some 5, cf_batch = Some 2, cf_exclude_spent = False\<rparr>"]
  then show ?thesis by simp blast
qed

definition one_key :: key_tools where
  "one_key = \<lparr>kt_count = 1, kt_commitment = (\<lambda>_. None), kt_encrypted = (\<lambda>_. None), kt_offset_key = (\<lambda>_. None),
     kt_recover = (\<lambda>_ u. Inr (Some ([1], 60, []))),
     kt_import = (\<lambda>_ w _. Some (sample_output (io_hash w) (io_value w)))\<rparr>"


end
