(* ===== verification/Coordinator.thy ===== *)
theory Coordinator
  imports Scanner Reorg Monitor Accounts
begin

text \<open>
  The scan coordinator, \<open>scan/coordinator.rs\<close> with \<open>scan/config.rs\<close>,
  \<open>scan/scanner_state_manager.rs\<close> and \<open>scan/builder.rs\<close>: it prepares one target per account,
  scans all targets that stand at the lowest height together, feeds every batch to the batch
  handler account by account, and looks for reorganisations from time to time. The loop of
  \<open>unified_scan_loop\<close> is driven by a list of \<open>cycle_input\<close>s, one for each turn: whether the
  cancellation token is set, what the scanner answers, and the chain as the node shows it.
  A list that is used up means that the scan is still running.
\<close>

section \<open>Configuration\<close>

datatype scan_mode = Partial u64 | Full | Continuous u64

record retry_config =
  rt_timeout :: u64
  rt_max_timeout_retries :: nat
  rt_max_error_retries :: nat
  rt_error_backoff_base :: u64

definition default_retry_config :: retry_config where
  "default_retry_config = \<lparr>rt_timeout = 60 * 5, rt_max_timeout_retries = 3,
     rt_max_error_retries = 3, rt_error_backoff_base = 2\<rparr>"

record timeout_config =
  to_timeout :: u64
  to_max_retries :: nat

definition retry_config_from :: "timeout_config \<Rightarrow> retry_config" where
  "retry_config_from c = \<lparr>rt_timeout = to_timeout c, rt_max_timeout_retries = to_max_retries c,
     rt_max_error_retries = 3, rt_error_backoff_base = 2\<rparr>"

section \<open>Targets and events\<close>

record sync_target =
  tg_account :: i64
  tg_view_key :: bytes
  tg_next :: u64             \<comment> \<open>\<open>next_block_to_scan\<close>\<close>
  tg_monitor :: monitor
  tg_pending :: bool         \<comment> \<open>the flag of the monitoring state\<close>

datatype pause_reason = MaxBlocksReached u64 | Cancelled_By_Token

datatype coord_event =
    Started i64 u64
  | Progress i64 u64 u64
  | MoreBlocksAvailable i64 u64
  | Scan_Completed i64 u64 u64
  | Waiting i64 u64
  | Paused i64 u64 pause_reason
  | ReorgDetected i64 u64 reorg_information
  | TransactionsUpdated i64 "displayed_transaction list"
  | Transactions_Ready i64 "displayed_transaction list" u64

record coord =
  co_db :: db
  co_targets :: "sync_target list"
  co_handler :: "block_processor option"
  co_events :: "wallet_event list"      \<comment> \<open>\<open>all_events\<close>\<close>
  co_total :: u64                       \<comment> \<open>\<open>total_scanned_globally\<close>\<close>
  co_since :: u64                       \<comment> \<open>\<open>blocks_since_reorg_check\<close>\<close>
  co_scanner :: "i64 list option"       \<comment> \<open>the accounts the current scanner was made for\<close>
  co_sent :: "coord_event list"

type_synonym 'a coordm = "(coord, scan_db_error, 'a) run"

record coord_config =
  cc_required :: u64
  cc_webhook :: "webhook_config option"
  cc_reorg_interval :: u64
  cc_batch_size :: u64

record coord_tools =
  \<comment> \<open>how errors of the parts are shown, the node client, the hash of a block in an event text\<close>
  ct_externals :: externals
  ct_describe :: "processor_error \<Rightarrow> string"
  ct_describe_block :: "block_error \<Rightarrow> string"
  ct_describe_reorg :: "reorg_error \<Rightarrow> string"
  ct_describe_monitor :: "monitor_error \<Rightarrow> string"
  ct_describe_scanner :: "scanner_error \<Rightarrow> string"
  ct_debug_hex :: "bytes \<Rightarrow> string"
  ct_client :: wallet_client

definition max_continuous_buffered_events :: nat where
  "max_continuous_buffered_events = 10000"

fun pop_front_to :: "nat \<Rightarrow> 'a list \<Rightarrow> 'a list" where
  \<comment> \<open>the loop \<open>while all_events.len() > limit\<close>\<close>
  "pop_front_to limit [] = []"
| "pop_front_to limit (e # es) = (if length (e # es) > limit then pop_front_to limit es else e # es)"

definition push_events_with_limit ::
  "wallet_event list \<Rightarrow> wallet_event list \<Rightarrow> nat option \<Rightarrow> wallet_event list" where
  "push_events_with_limit all_events evs max_buffered = (case max_buffered of
        None \<Rightarrow> all_events @ evs
      | Some limit \<Rightarrow> pop_front_to limit (all_events @ evs))"

definition max_buffered_events :: "scan_mode \<Rightarrow> nat option" where
  "max_buffered_events mode = (case mode of Continuous _ \<Rightarrow> Some max_continuous_buffered_events
     | _ \<Rightarrow> None)"

definition on_co_db :: "(db, 'e, 'a) run \<Rightarrow> (coord, 'e, 'a) run" where
  "on_co_db m = (\<lambda>s. case m (co_db s) of (r, d') \<Rightarrow> (r, s\<lparr>co_db := d'\<rparr>))"

definition send_event_to :: "coord_event \<Rightarrow> unit coordm" where
  "send_event_to ev = modify (\<lambda>s. s\<lparr>co_sent := co_sent s @ [ev]\<rparr>)"

definition update_target :: "i64 \<Rightarrow> (sync_target \<Rightarrow> sync_target) \<Rightarrow> sync_target list \<Rightarrow> sync_target list" where
  "update_target a f ts = map (\<lambda>t. if tg_account t = a then f t else t) ts"

definition set_next :: "i64 \<Rightarrow> u64 \<Rightarrow> unit coordm" where
  "set_next a h = modify (\<lambda>s. s\<lparr>co_targets := update_target a (\<lambda>t. t\<lparr>tg_next := h\<rparr>) (co_targets s)\<rparr>)"

section \<open>Preparing a target\<close>

definition prepare_target ::
  "coord_tools \<Rightarrow> coord_config \<Rightarrow> (account_row \<Rightarrow> string + bytes) \<Rightarrow> (u64 \<Rightarrow> string + u64) \<Rightarrow> u64 \<Rightarrow>
     chain \<Rightarrow> u64 \<Rightarrow> account_row \<Rightarrow> (db, scan_db_error, sync_target) run" where
  \<comment> \<open>\<open>view_key\<close>: key manager and view key; \<open>height_at\<close>: \<open>get_height_at_time\<close>; \<open>genesis\<close>:
     \<open>BIRTHDAY_GENESIS_FROM_UNIX_EPOCH\<close>\<close>
  "prepare_target T cfg view_key height_at genesis chain scanning_offset account =
     bindM (lift_result (map_sum ScanFatal id (view_key account))) (\<lambda>key.
     bindM (map_error (\<lambda>e. ScanFatal (ct_describe_reorg T e))
        (handle_reorgs (ct_externals T) (ct_debug_hex T) chain (a_id account) (cc_webhook cfg))) (\<lambda>reorg_result.
     bindM (if rr_resume reorg_result \<noteq> 0 then ret (rr_resume reorg_result)
            else lift_result (map_sum ScanFatal id (height_at
              (u64_saturating_sub (u64_of_i64 (a_birthday account)) scanning_offset * 24 * 60 * 60 + genesis))))
       (\<lambda>next_block.
     bindM (map_error (\<lambda>e. ScanFatal (ct_describe_monitor T (MonitorDb e)))
        (get_pending_completed_transactions (a_id account))) (\<lambda>pending.
     ret \<lparr>tg_account = a_id account, tg_view_key = key, tg_next = next_block,
       tg_monitor = \<lparr>mo_required = cc_required cfg, mo_webhook = cc_webhook cfg\<rparr>,
       tg_pending = (pending \<noteq> [])\<rparr>))))"

section \<open>Reorganisations while scanning\<close>

definition check_reorg ::
  "coord_tools \<Rightarrow> coord_config \<Rightarrow> chain \<Rightarrow> i64 \<Rightarrow> unit coordm" where
  "check_reorg T cfg chain a =
     bindM (map_error (\<lambda>e. ScanFatal (ct_describe_reorg T e))
       (on_co_db (handle_reorgs (ct_externals T) (ct_debug_hex T) chain a (cc_webhook cfg)))) (\<lambda>res.
     case rr_information res of
       None \<Rightarrow> ret ()
     | Some info \<Rightarrow> seqM (send_event_to (ReorgDetected a (rr_resume res) info)) (set_next a (rr_resume res)))"

definition check_global_reorgs :: "coord_tools \<Rightarrow> coord_config \<Rightarrow> chain \<Rightarrow> unit coordm" where
  "check_global_reorgs T cfg chain =
     bindM (gets co_targets) (\<lambda>targets. forM (map tg_account targets) (check_reorg T cfg chain))"

definition wait_for_next_poll_cycle ::
  "coord_tools \<Rightarrow> coord_config \<Rightarrow> chain \<Rightarrow> u64 \<Rightarrow> bool \<Rightarrow> unit coordm" where
  \<comment> \<open>\<open>cancelled\<close>: the token is set while the coordinator sleeps\<close>
  "wait_for_next_poll_cycle T cfg chain interval cancelled =
     seqM (modify (\<lambda>s. s\<lparr>co_targets := map (\<lambda>t. t\<lparr>tg_next := u64_saturating_sub (tg_next t) 1\<rparr>) (co_targets s),
        co_sent := co_sent s @ map (\<lambda>t. Waiting (tg_account t) interval) (co_targets s)\<rparr>))
     (if cancelled then ret () else check_global_reorgs T cfg chain)"

section \<open>One batch\<close>

definition run_monitor :: "coord_tools \<Rightarrow> sync_target \<Rightarrow> u64 \<Rightarrow> monitoring_result coordm" where
  "run_monitor T target height = (\<lambda>s.
     case monitor_if_needed (ct_externals T) (tg_monitor target) (ct_client T) (tg_account target) height
        (tg_pending target, co_db s) of
       (r, flag, d') \<Rightarrow> (map_sum (\<lambda>e. ScanFatal (ct_describe_monitor T e)) id r,
         s\<lparr>co_db := d',
           co_targets := update_target (tg_account target) (\<lambda>t. t\<lparr>tg_pending := flag\<rparr>) (co_targets s)\<rparr>))"

definition emit_monitor_events :: "i64 \<Rightarrow> u64 \<Rightarrow> monitoring_result \<Rightarrow> unit coordm" where
  "emit_monitor_events a height res =
     whenM (mr_displayed res \<noteq> [])
       (seqM (send_event_to (TransactionsUpdated a (mr_displayed res)))
         (send_event_to (Transactions_Ready a (mr_displayed res) height)))"

definition after_progress ::
  "coord_tools \<Rightarrow> nat option \<Rightarrow> sync_target \<Rightarrow> u64 \<Rightarrow> unit coordm" where
  \<comment> \<open>the branch for a batch that reaches beyond the next block to scan\<close>
  "after_progress T limit target height =
     bindM (run_monitor T target height) (\<lambda>res.
     seqM (modify (\<lambda>s. s\<lparr>co_events := push_events_with_limit (co_events s) (mr_events res) limit\<rparr>))
     (seqM (emit_monitor_events (tg_account target) height res)
     (seqM (map_error ScanDb (on_co_db (prune_tips (tg_account target) height)))
       (bindM (gets co_total) (\<lambda>scanned. send_event_to (Progress (tg_account target) height scanned))))))"

definition find_target :: "i64 \<Rightarrow> sync_target list \<Rightarrow> scan_db_error + sync_target" where
  "find_target a targets = (case List.find (\<lambda>t. tg_account t = a) targets of
      None \<Rightarrow> Inl (ScanFatal (''Unknown active account id: '' @ show_int a))
    | Some t \<Rightarrow> Inr t)"

definition run_handler ::
  "coord_tools \<Rightarrow> coord_config \<Rightarrow> block_scan list \<Rightarrow> sync_target \<Rightarrow> wallet_event list coordm" where
  "run_handler T cfg blocks target = (\<lambda>s.
     case process_blocks (ct_externals T) (ct_describe T) (ct_describe_block T) blocks (tg_account target)
        (tg_pending target) (cc_webhook cfg) (tg_next target) (co_handler s, co_db s) of
       (r, handler, d') \<Rightarrow> (r, s\<lparr>co_handler := handler, co_db := d'\<rparr>))"

definition process_for_account ::
  "coord_tools \<Rightarrow> coord_config \<Rightarrow> nat option \<Rightarrow> block_scan list \<Rightarrow> i64 \<Rightarrow> unit coordm" where
  \<comment> \<open>the body of the loop over the active accounts: the next block is set before it is compared\<close>
  "process_for_account T cfg limit blocks a =
     bindM (bindM (gets co_targets) (\<lambda>ts. lift_result (find_target a ts))) (\<lambda>target.
     bindM (run_handler T cfg blocks target) (\<lambda>evs.
     seqM (modify (\<lambda>s. s\<lparr>co_events := push_events_with_limit (co_events s) evs limit\<rparr>))
     (if blocks = [] then ret ()
      else let height = bl_height (last blocks) in
        seqM (set_next a (height + 1))
        (bindM (bindM (gets co_targets) (\<lambda>ts. lift_result (find_target a ts))) (\<lambda>target'.
           whenM (height \<ge> tg_next target') (after_progress T limit target' height))))))"

definition process_scanned_batch ::
  "coord_tools \<Rightarrow> coord_config \<Rightarrow> nat option \<Rightarrow> chain \<Rightarrow> u64 \<Rightarrow> i64 list \<Rightarrow> block_scan list \<Rightarrow> unit coordm" where
  "process_scanned_batch T cfg limit chain global_next_block active blocks =
     seqM (forM active (\<lambda>a. send_event_to (MoreBlocksAvailable a (u64_saturating_sub global_next_block 1))))
     (seqM (forM active (process_for_account T cfg limit blocks))
     (seqM (modify (\<lambda>s. s\<lparr>co_since := co_since s + length blocks, co_total := co_total s + length blocks\<rparr>))
       (bindM (gets co_since) (\<lambda>since.
          whenM (since \<ge> cc_reorg_interval cfg)
            (seqM (check_global_reorgs T cfg chain) (modify (\<lambda>s. s\<lparr>co_since := 0\<rparr>)))))))"

fun process_stream ::
  "coord_tools \<Rightarrow> coord_config \<Rightarrow> nat option \<Rightarrow> chain \<Rightarrow> u64 \<Rightarrow> i64 list \<Rightarrow> scan_stream \<Rightarrow> bool coordm" where
  \<comment> \<open>the loop over the messages of the scanner: whether it stopped at an empty batch\<close>
  "process_stream T cfg limit chain start active [] = ret False"
| "process_stream T cfg limit chain start active (m # ms) = (case m of
      Inl e \<Rightarrow> throw (ScanIntermittent (ct_describe_scanner T e))
    | Inr blocks \<Rightarrow>
        if blocks = [] then ret True
        else seqM (process_scanned_batch T cfg limit chain start active blocks)
               (process_stream T cfg limit chain start active ms))"

section \<open>One turn of the loop\<close>

record cycle_input =
  ci_cancelled :: bool                     \<comment> \<open>at the start of the turn\<close>
  ci_cancelled_waiting :: bool             \<comment> \<open>while waiting for the next poll\<close>
  ci_connect :: "scanner_error option"     \<comment> \<open>the error of making a new scanner\<close>
  ci_scan :: "scan_config \<Rightarrow> i64 list \<Rightarrow> scanner_error + scan_stream"
    \<comment> \<open>\<open>scan_blocks\<close> and what its channel delivers, for the accounts of the scanner\<close>
  ci_chain :: chain

fun min_height :: "u64 list \<Rightarrow> u64 option" where
  "min_height [] = None"
| "min_height (h # hs) = (case min_height hs of None \<Rightarrow> Some h | Some m \<Rightarrow> Some (min h m))"

definition global_next_block :: "sync_target list \<Rightarrow> u64" where
  "global_next_block ts = opt_or 0 (min_height (map tg_next ts))"

definition active_account_ids :: "sync_target list \<Rightarrow> i64 list" where
  "active_account_ids ts = map tg_account (filter (\<lambda>t. tg_next t = global_next_block ts) ts)"

definition next_horizon_height :: "sync_target list \<Rightarrow> u64 option" where
  "next_horizon_height ts = min_height (filter (\<lambda>h. h > global_next_block ts) (map tg_next ts))"

definition end_height_of :: "scan_mode \<Rightarrow> u64 \<Rightarrow> sync_target list \<Rightarrow> u64 option" where
  "end_height_of mode scanned ts =
     (let e = map_option (\<lambda>h. u64_saturating_sub h 1) (next_horizon_height ts) in case mode of
        Partial max_blocks \<Rightarrow>
          (let m = u64_saturating_sub (u64_saturating_add (global_next_block ts) max_blocks) scanned
           in Some (case e of None \<Rightarrow> m | Some h \<Rightarrow> min h m))
      | _ \<Rightarrow> e)"

definition effective_batch_size :: "u64 \<Rightarrow> sync_target list \<Rightarrow> u64" where
  "effective_batch_size batch ts = (case next_horizon_height ts of
      None \<Rightarrow> batch
    | Some h \<Rightarrow> min (u64_saturating_sub h (global_next_block ts)) batch)"

definition get_scanner_and_config ::
  "coord_tools \<Rightarrow> scanner_error option \<Rightarrow> i64 list \<Rightarrow> u64 \<Rightarrow> u64 option \<Rightarrow> u64 \<Rightarrow> scan_config coordm" where
  "get_scanner_and_config T connect active start end_height batch_size =
     bindM (gets co_scanner) (\<lambda>current.
     seqM (if current = Some active then ret ()
           else bindM (gets co_targets) (\<lambda>targets.
             seqM (lift_result (mapM (\<lambda>a. find_target a targets) active))
             (case connect of
                Some e \<Rightarrow> throw (ScanIntermittent (ct_describe_scanner T e))
              | None \<Rightarrow> modify (\<lambda>s. s\<lparr>co_scanner := Some active\<rparr>))))
       (ret ((with_batch_size batch_size (with_start_height start default_scan_config))\<lparr>cf_end := end_height\<rparr>)))"

definition handle_pause :: "pause_reason \<Rightarrow> (wallet_event list \<times> bool) coordm" where
  "handle_pause reason =
     seqM (modify (\<lambda>s. s\<lparr>co_sent := co_sent s @
        map (\<lambda>t. Paused (tg_account t) (u64_saturating_sub (tg_next t) 1) reason) (co_targets s)\<rparr>))
       (bindM (gets co_events) (\<lambda>evs. ret (evs, True)))"

definition send_completed :: "i64 \<Rightarrow> unit coordm" where
  "send_completed a =
     bindM (bindM (gets co_targets) (\<lambda>ts. lift_result (find_target a ts))) (\<lambda>t.
     bindM (gets co_total) (\<lambda>scanned.
       send_event_to (Scan_Completed (tg_account t) (u64_saturating_sub (tg_next t) 1) scanned)))"

definition finish_cycle ::
  "coord_tools \<Rightarrow> coord_config \<Rightarrow> scan_mode \<Rightarrow> cycle_input \<Rightarrow> i64 list \<Rightarrow> bool \<Rightarrow>
     (wallet_event list \<times> bool) option coordm" where
  \<comment> \<open>after the stream: \<open>None\<close> goes on with the next turn\<close>
  "finish_cycle T cfg mode inp active is_batch_empty =
     bindM (gets co_total) (\<lambda>scanned.
     if (case mode of Partial max_blocks \<Rightarrow> scanned \<ge> max_blocks | _ \<Rightarrow> False)
     then bindM (handle_pause (MaxBlocksReached (case mode of Partial max_blocks \<Rightarrow> max_blocks | _ \<Rightarrow> 0)))
            (\<lambda>r. ret (Some r))
     else if is_batch_empty
     then seqM (forM active send_completed)
       (case mode of
          Continuous interval \<Rightarrow>
            seqM (wait_for_next_poll_cycle T cfg (ci_chain inp) interval (ci_cancelled_waiting inp)) (ret None)
        | _ \<Rightarrow> bindM (gets co_events) (\<lambda>evs. ret (Some (evs, False))))
     else ret None)"

definition scan_cycle ::
  "coord_tools \<Rightarrow> coord_config \<Rightarrow> scan_mode \<Rightarrow> cycle_input \<Rightarrow> (wallet_event list \<times> bool) option coordm" where
  "scan_cycle T cfg mode inp =
     (if ci_cancelled inp then bindM (handle_pause Cancelled_By_Token) (\<lambda>r. ret (Some r))
      else bindM (gets co_targets) (\<lambda>targets.
        bindM (gets co_total) (\<lambda>scanned.
        let start = global_next_block targets; active = active_account_ids targets in
        bindM (get_scanner_and_config T (ci_connect inp) active start (end_height_of mode scanned targets)
                 (effective_batch_size (cc_batch_size cfg) targets)) (\<lambda>config.
        bindM (case ci_scan inp config active of
                 Inl e \<Rightarrow> throw (ScanIntermittent (ct_describe_scanner T e))
               | Inr stream \<Rightarrow> process_stream T cfg (max_buffered_events mode) (ci_chain inp) start active stream)
          (finish_cycle T cfg mode inp active)))))"

fun unified_scan_loop ::
  "coord_tools \<Rightarrow> coord_config \<Rightarrow> scan_mode \<Rightarrow> cycle_input list \<Rightarrow>
     (wallet_event list \<times> bool) option coordm" where
  "unified_scan_loop T cfg mode [] = ret None"
| "unified_scan_loop T cfg mode (i # is) = bindM (scan_cycle T cfg mode i) (\<lambda>r. case r of
      Some result \<Rightarrow> ret (Some result)
    | None \<Rightarrow> unified_scan_loop T cfg mode is)"

section \<open>A whole scan\<close>

definition new_coord :: "u64 \<Rightarrow> sync_target list \<Rightarrow> db \<Rightarrow> coord" where
  "new_coord required targets d = \<lparr>co_db = d, co_targets = targets,
     co_handler = Some (with_event_sender (map (\<lambda>t. (tg_account t, tg_view_key t)) targets) False required),
     co_events = [], co_total = 0, co_since = 0, co_scanner = None, co_sent = []\<rparr>"

definition run_coordinator ::
  "coord_tools \<Rightarrow> coord_config \<Rightarrow> (account_row \<Rightarrow> string + bytes) \<Rightarrow> scanner_error option \<Rightarrow>
     (u64 \<Rightarrow> string + u64) \<Rightarrow> u64 \<Rightarrow> chain \<Rightarrow> u64 \<Rightarrow> account_row list \<Rightarrow> scan_mode \<Rightarrow> cycle_input list \<Rightarrow>
     (db, scan_db_error, (wallet_event list \<times> bool) option) run" where
  \<comment> \<open>\<open>ScanCoordinator::run\<close>; \<open>connect\<close> is the error of making the scanner for reorganisations\<close>
  "run_coordinator T cfg view_key connect height_at genesis chain scanning_offset accs mode turns =
     (case accs of
        [] \<Rightarrow> ret (Some ([], False))
      | first # _ \<Rightarrow>
          seqM (lift_result (map_sum ScanFatal (\<lambda>_. ()) (view_key first)))
          (case connect of
             Some e \<Rightarrow> throw (ScanIntermittent (ct_describe_scanner T e))
           | None \<Rightarrow>
               bindM (foldM (\<lambda>targets account.
                   bindM (prepare_target T cfg view_key height_at genesis chain scanning_offset account)
                     (\<lambda>t. ret (targets @ [t]))) [] accs) (\<lambda>targets.
               (\<lambda>d. case unified_scan_loop T cfg mode turns (new_coord (cc_required cfg) targets d) of
                      (r, s) \<Rightarrow> (r, co_db s)))))"

section \<open>The scanner builder\<close>

record scan_builder =
  sb_account_name :: "string option"
  sb_batch_size :: u64
  sb_threads :: nat
  sb_offset :: u64
  sb_reorg_interval :: u64
  sb_mode :: scan_mode
  sb_retry :: retry_config
  sb_required :: u64
  sb_webhook :: "webhook_config option"

definition new_scan :: "u64 \<Rightarrow> u64 \<Rightarrow> scan_builder" where
  "new_scan batch_size required = \<lparr>sb_account_name = None, sb_batch_size = batch_size, sb_threads = 0,
     sb_offset = 2, sb_reorg_interval = 1000, sb_mode = Full, sb_retry = default_retry_config,
     sb_required = required, sb_webhook = None\<rparr>"

definition scan_account :: "string \<Rightarrow> scan_builder \<Rightarrow> scan_builder" where
  "scan_account name b = b\<lparr>sb_account_name := Some name\<rparr>"

definition timeout_config_for :: "timeout_config \<Rightarrow> scan_builder \<Rightarrow> scan_builder" where
  "timeout_config_for c b = b\<lparr>sb_retry := retry_config_from c\<rparr>"

definition scan_with_mode :: "scan_mode \<Rightarrow> scan_builder \<Rightarrow> scan_builder" where
  "scan_with_mode mode b = b\<lparr>sb_mode := mode\<rparr>"

definition processing_threads :: "nat \<Rightarrow> scan_builder \<Rightarrow> scan_builder" where
  "processing_threads threads b = b\<lparr>sb_threads := threads\<rparr>"

definition reorg_check_interval :: "u64 \<Rightarrow> scan_builder \<Rightarrow> scan_builder" where
  "reorg_check_interval interval b = b\<lparr>sb_reorg_interval := interval\<rparr>"

definition with_retry_config :: "retry_config \<Rightarrow> scan_builder \<Rightarrow> scan_builder" where
  "with_retry_config c b = b\<lparr>sb_retry := c\<rparr>"

definition scan_timeout :: "u64 \<Rightarrow> scan_builder \<Rightarrow> scan_builder" where
  "scan_timeout t b = b\<lparr>sb_retry := (sb_retry b)\<lparr>rt_timeout := t\<rparr>\<rparr>"

definition max_scan_retries :: "nat \<Rightarrow> scan_builder \<Rightarrow> scan_builder" where
  "max_scan_retries n b = b\<lparr>sb_retry := (sb_retry b)\<lparr>rt_max_timeout_retries := n\<rparr>\<rparr>"

definition max_timeout_retries :: "nat \<Rightarrow> scan_builder \<Rightarrow> scan_builder" where
  "max_timeout_retries n b = b\<lparr>sb_retry := (sb_retry b)\<lparr>rt_max_timeout_retries := n\<rparr>\<rparr>"

definition max_error_retries :: "nat \<Rightarrow> scan_builder \<Rightarrow> scan_builder" where
  "max_error_retries n b = b\<lparr>sb_retry := (sb_retry b)\<lparr>rt_max_error_retries := n\<rparr>\<rparr>"

definition error_backoff_base_secs :: "u64 \<Rightarrow> scan_builder \<Rightarrow> scan_builder" where
  "error_backoff_base_secs secs b = b\<lparr>sb_retry := (sb_retry b)\<lparr>rt_error_backoff_base := secs\<rparr>\<rparr>"

definition scan_webhook_config :: "webhook_config \<Rightarrow> scan_builder \<Rightarrow> scan_builder" where
  "scan_webhook_config c b = b\<lparr>sb_webhook := Some c\<rparr>"

definition run_internal ::
  "coord_tools \<Rightarrow> (account_row \<Rightarrow> string + bytes) \<Rightarrow> scanner_error option \<Rightarrow> (u64 \<Rightarrow> string + u64) \<Rightarrow> u64 \<Rightarrow>
     chain \<Rightarrow> scan_builder \<Rightarrow> cycle_input list \<Rightarrow> (db, scan_db_error, (wallet_event list \<times> bool) option) run" where
  "run_internal T view_key connect height_at genesis chain b turns =
     bindM (map_error ScanDb (get_accounts (sb_account_name b))) (\<lambda>accs.
       run_coordinator T \<lparr>cc_required = sb_required b, cc_webhook = sb_webhook b,
           cc_reorg_interval = sb_reorg_interval b, cc_batch_size = sb_batch_size b\<rparr>
         view_key connect height_at genesis chain (sb_offset b) accs (sb_mode b) turns)"

end
