(* ===== verification/Coordinator_Properties.thy ===== *)
theory Coordinator_Properties
  imports Coordinator Block_Properties Scanner_Properties
begin

text \<open>
  What a scan does with its targets, its events and the stream of the scanner. The branch of
  the coordinator that runs the transaction monitor is dead code: the next block of a target
  is set before it is compared.
\<close>

section \<open>The targets\<close>

lemma u64_saturating_sub_le: "u64_saturating_sub a b \<le> a"
  by (simp add: u64_saturating_sub_def)

lemma find_update_target:
  assumes "\<And>t. tg_account (f t) = tg_account t"
  shows "find_target a (update_target a f ts) = map_sum id f (find_target a ts)"
  using assms by (induction ts) (auto simp: find_target_def update_target_def split: option.splits)

lemma find_update_other:
  assumes "\<And>t. tg_account (f t) = tg_account t" "b \<noteq> a"
  shows "find_target b (update_target a f ts) = find_target b ts"
  using assms by (induction ts) (auto simp: find_target_def update_target_def split: option.splits)

lemma find_target_map:
  "(\<And>t. tg_account (f t) = tg_account t) \<Longrightarrow> find_target a (map f ts) = map_sum id f (find_target a ts)"
  by (induction ts) (auto simp: find_target_def split: option.splits)

lemma find_target_account: "find_target a ts = Inr t \<Longrightarrow> tg_account t = a \<and> t \<in> set ts"
  by (auto simp: find_target_def find_Some_iff split: option.splits)

lemma run_handler_targets: "run_handler T cfg blocks t s = (r, s') \<Longrightarrow> co_targets s' = co_targets s"
  by (auto simp: run_handler_def split: prod.splits)

lemma run_handler_since: "run_handler T cfg blocks t s = (r, s') \<Longrightarrow> co_since s' = co_since s"
  by (auto simp: run_handler_def split: prod.splits)

lemma run_handler_sent: "run_handler T cfg blocks t s = (r, s') \<Longrightarrow> co_sent s' = co_sent s"
  by (auto simp: run_handler_def split: prod.splits)

section \<open>The branch that is never taken\<close>

definition processed_only ::
  "coord_tools \<Rightarrow> coord_config \<Rightarrow> nat option \<Rightarrow> block_scan list \<Rightarrow> i64 \<Rightarrow> unit coordm" where
  \<comment> \<open>the loop body with neither monitor, nor pruning, nor progress event\<close>
  "processed_only T cfg limit blocks a =
     bindM (bindM (gets co_targets) (\<lambda>ts. lift_result (find_target a ts))) (\<lambda>target.
     bindM (run_handler T cfg blocks target) (\<lambda>evs.
     seqM (modify (\<lambda>s. s\<lparr>co_events := push_events_with_limit (co_events s) evs limit\<rparr>))
     (if blocks = [] then ret () else set_next a (bl_height (last blocks) + 1))))"

lemma process_for_account_only:
  "process_for_account T cfg limit blocks a = processed_only T cfg limit blocks a"
proof
  fix s
  show "process_for_account T cfg limit blocks a s = processed_only T cfg limit blocks a s"
  proof (cases "find_target a (co_targets s)")
    case (Inl e)
    then show ?thesis
      by (simp add: process_for_account_def processed_only_def bindM_def gets_def lift_result_def)
  next
    case (Inr t)
    obtain r s1 where run: "run_handler T cfg blocks t s = (r, s1)" by (cases "run_handler T cfg blocks t s")
    then have "find_target a (co_targets s1) = Inr t" using Inr run_handler_targets by metis
    then show ?thesis
      using run Inr find_update_target [of "\<lambda>t. t\<lparr>tg_next := bl_height (last blocks) + 1\<rparr>" a]
      by (cases r) (simp_all add: process_for_account_def processed_only_def bindM_def seqM_def gets_def
        lift_result_def modify_def set_next_def whenM_def ret_def Let_def)
  qed
qed

definition with_client :: "wallet_client \<Rightarrow> coord_tools \<Rightarrow> coord_tools" where
  "with_client C T = T\<lparr>ct_client := C\<rparr>"

lemma scan_cycle_client: "scan_cycle (with_client C T) cfg mode i = scan_cycle T cfg mode i"
proof -
  have "check_reorg (with_client C T) cfg chain = check_reorg T cfg chain" for chain
    by (rule ext) (simp add: check_reorg_def with_client_def)
  then have global: "check_global_reorgs (with_client C T) cfg chain = check_global_reorgs T cfg chain" for chain
    by (simp add: check_global_reorgs_def)
  have "processed_only (with_client C T) cfg limit blocks a = processed_only T cfg limit blocks a" for limit blocks a
    by (simp add: processed_only_def run_handler_def with_client_def)
  then have "process_for_account (with_client C T) cfg limit blocks = process_for_account T cfg limit blocks" for limit blocks
    by (simp add: process_for_account_only fun_eq_iff)
  then have batch: "process_scanned_batch (with_client C T) cfg limit chain g active blocks =
      process_scanned_batch T cfg limit chain g active blocks" for limit chain g active blocks
    by (simp add: process_scanned_batch_def global)
  have stream: "process_stream (with_client C T) cfg limit chain g active ms =
      process_stream T cfg limit chain g active ms" for limit chain g active ms
  proof (induction ms)
    case (Cons m ms)
    then show ?case by (cases m) (simp_all add: batch, simp add: with_client_def)
  qed simp
  have wait: "wait_for_next_poll_cycle (with_client C T) cfg chain p b = wait_for_next_poll_cycle T cfg chain p b" for chain p b
    by (simp add: wait_for_next_poll_cycle_def global)
  have finish: "finish_cycle (with_client C T) cfg mode i active = finish_cycle T cfg mode i active" for active
    by (rule ext) (simp only: finish_cycle_def wait)
  have describe: "ct_describe_scanner (with_client C T) = ct_describe_scanner T" by (simp add: with_client_def)
  show ?thesis
    by (simp only: scan_cycle_def get_scanner_and_config_def stream finish describe)
qed

lemma scan_loop_client:
  "unified_scan_loop (with_client C T) cfg mode turns = unified_scan_loop T cfg mode turns"
  by (induction turns) (simp_all add: scan_cycle_client)

section \<open>The event buffer\<close>

lemma pop_front_to_drop: "pop_front_to limit es = drop (length es - limit) es"
  by (induction es) (auto simp: Suc_diff_le)

lemma length_push_events: "length (push_events_with_limit buf evs (Some limit)) \<le> limit"
  by (simp add: push_events_with_limit_def pop_front_to_drop)

definition buffer_within :: "nat \<Rightarrow> coord \<Rightarrow> bool" where
  "buffer_within n s \<longleftrightarrow> length (co_events s) \<le> n"

lemma buffer_modify:
  "(\<And>s. co_events (f s) = co_events s) \<Longrightarrow> preserves (buffer_within n) (modify f)"
  by (rule preserves_modify) (simp add: buffer_within_def)

lemma buffer_parts:
  "preserves (buffer_within n) (on_co_db m)"
  "preserves (buffer_within n) (run_handler T cfg blocks t)"
  "preserves (buffer_within n) (send_event_to ev)"
  "preserves (buffer_within n) (set_next a h)"
  "preserves (buffer_within n) (modify (\<lambda>s. s\<lparr>co_events := push_events_with_limit (co_events s) evs (Some n)\<rparr>))"
  unfolding send_event_to_def set_next_def
  by (rule preserves_apart preserves_modify;
      simp add: on_co_db_def run_handler_def buffer_within_def length_push_events split: prod.split)+

lemmas buffer_rules = preserves_rules buffer_parts

lemma buffer_reorgs: "preserves (buffer_within n) (check_global_reorgs T cfg chain)"
  unfolding check_global_reorgs_def check_reorg_def by (intro buffer_rules)

lemma buffer_batch:
  "preserves (buffer_within n) (process_scanned_batch T cfg (Some n) chain g active blocks)"
  unfolding process_scanned_batch_def process_for_account_only processed_only_def
  by (intro buffer_rules buffer_reorgs; rule buffer_modify; simp)

lemma buffer_stream: "preserves (buffer_within n) (process_stream T cfg (Some n) chain g active ms)"
  by (induction ms) (auto intro!: buffer_rules buffer_batch split: sum.split)

lemma buffer_finish: "preserves (buffer_within n) (finish_cycle T cfg (Continuous p) i active b)"
  unfolding finish_cycle_def send_completed_def wait_for_next_poll_cycle_def scan_mode.case if_False
  by (intro buffer_rules buffer_reorgs; rule buffer_modify; simp)

lemma buffer_cycle:
  "preserves (buffer_within max_continuous_buffered_events) (scan_cycle T cfg (Continuous p) i)"
  unfolding scan_cycle_def Let_def max_buffered_events_def handle_pause_def get_scanner_and_config_def
    scan_mode.case
  by (intro buffer_rules buffer_stream buffer_finish;
    rule buffer_modify; simp)

lemma buffer_loop:
  "preserves (buffer_within max_continuous_buffered_events) (unified_scan_loop T cfg (Continuous p) turns)"
  by (induction turns) (auto intro!: preserves_rules buffer_cycle)

section \<open>The range of a turn\<close>

lemma min_height_None: "min_height hs = None \<longleftrightarrow> hs = []"
  by (cases hs) (auto split: option.split)

lemma min_height_Some: "min_height hs = Some m \<Longrightarrow> m \<in> set hs \<and> (\<forall>h \<in> set hs. m \<le> h)"
  by (induction hs arbitrary: m) (auto simp: min_def min_height_None split: option.splits if_splits)

lemma global_next_least: "t \<in> set ts \<Longrightarrow> global_next_block ts \<le> tg_next t"
  by (cases "min_height (map tg_next ts)")
    (auto simp: global_next_block_def opt_or_def min_height_None dest: min_height_Some)

lemma horizon_beyond:
  assumes "next_horizon_height ts = Some h"
  shows "global_next_block ts < h" "t \<in> set ts \<Longrightarrow> tg_next t \<noteq> global_next_block ts \<Longrightarrow> h \<le> tg_next t"
  using min_height_Some [OF assms [unfolded next_horizon_height_def]] global_next_least [of t ts] by auto

lemma no_horizon:
  "next_horizon_height ts = None \<Longrightarrow> t \<in> set ts \<Longrightarrow> tg_next t = global_next_block ts"
  using global_next_least [of t ts]
  by (auto simp: next_horizon_height_def min_height_None filter_empty_conv le_neq_implies_less)

section \<open>Active hashes\<close>

text \<open>
  The hashes of the active outputs, of all accounts, spent or not: the unique index of the
  table allows each of them once.
\<close>

definition active_hashes :: "db \<Rightarrow> bytes set" where
  "active_hashes d = o_hash ` set (filter o_active (outputs d))"

lemma rows_keep_active: "rows_keep d d' \<Longrightarrow> active_hashes d' = active_hashes d"
proof -
  have "active_hashes d = (\<lambda>(i, b, act, h, m). h) ` {k \<in> set (map row_key (outputs d)). case k of (i, b, act, h, m) \<Rightarrow> act}" for d
    by (force simp: active_hashes_def row_key_def image_comp)
  from this [of d] this [of d'] show "rows_keep d d' \<Longrightarrow> ?thesis" by (simp only: rows_keep_def)
qed

lemma process_output_active:
  assumes "process_output X block a k st item d = (Inr st', d')" "bk_accounts (fst st) = owners"
  shows "item_hash owners a item \<inter> active_hashes d = {} \<and>
     active_hashes d' = active_hashes d \<union> item_hash owners a item"
proof -
  obtain h out w where item: "item = (h, out, w)" by (cases item)
  show ?thesis
  proof (cases "w < length owners \<and> owners ! w = a")
    case True
    with process_output_found [OF assms(1) [unfolded item]] assms(2) show ?thesis
      by (auto simp: item item_hash_def active_hashes_def)
  next
    case False
    with process_output_skipped [OF assms(1) [unfolded item]] assms(2) show ?thesis
      by (auto simp: item item_hash_def)
  qed
qed

lemma process_outputs_active:
  "foldM (process_output X block a k) st items d = (Inr st', d') \<Longrightarrow> bk_accounts (fst st) = owners \<Longrightarrow>
     (\<Union>item \<in> set items. item_hash owners a item) \<inter> active_hashes d = {} \<and>
     active_hashes d' = active_hashes d \<union> (\<Union>item \<in> set items. item_hash owners a item)"
proof (induction items arbitrary: st d)
  case Nil
  then show ?case by (simp add: ret_ok_iff)
next
  case (Cons item items)
  then obtain st1 d1 where one: "process_output X block a k st item d = (Inr st1, d1)"
    and rest: "foldM (process_output X block a k) st1 items d1 = (Inr st', d')"
    by (auto simp: bindM_ok_iff)
  have "bk_accounts (fst st1) = owners"
    using settings_output [OF one] Cons.prems(2) by (simp add: settings_def)
  with Cons.IH [OF rest] process_output_active [OF one Cons.prems(2)] show ?case by auto
qed

lemma process_input_active: "process_input X block a bk h d = (Inr bk', d') \<Longrightarrow> active_hashes d' = active_hashes d"
proof -
  have ins: "active_hashes s' = active_hashes s" if "insert_input X a' oid hh hash mt s = (Inr iid, s')"
    for a' oid hh hash mt s iid s'
    using insert_input_cases [OF that] by (auto simp: active_hashes_def)
  have ch: "active_hashes s' = active_hashes s" if "insert_balance_change c s = (Inr i, s')" for c s i s'
    by (rule rows_keep_active [OF rows_keep_ledger [OF insert_balance_change_ledger_only [OF that]]])
  have st: "active_hashes s' = active_hashes s" if "update_output_status oid v s = (Inr u, s')" for oid v s u s'
    by (rule rows_keep_active [OF rows_keep_output_ops(1) [OF that]])
  show "process_input X block a bk h d = (Inr bk', d') \<Longrightarrow> ?thesis"
    by (auto simp: process_input_def record_input_balance_change_def ok_simps Let_def
        get_output_info_by_hash_for_account_def split: option.splits dest!: ins ch st)
qed

lemma process_block_active:
  assumes "process_block X ds block a bk d = (Inr bk', d')"
  shows "found_hashes (bk_accounts bk) a block \<inter> active_hashes d = {} \<and>
     active_hashes d' = active_hashes d \<union> found_hashes (bk_accounts bk) a block"
proof -
  from assms obtain k bk0 bk1 d1 bk2 d2 u d3 bk3 d4 where same: "settings bk0 = settings bk"
    and outs: "process_outputs X block a k bk0 d = (Inr bk1, d1)"
    and ins: "process_inputs X block a bk1 d1 = (Inr bk2, d2)"
    and tip: "record_scanned_block X block a d2 = (Inr u, d3)"
    and conf: "process_confirmations X block a bk2 d3 = (Inr bk3, d4)"
    and fin: "finish_block X ds block a k bk3 d4 = (Inr bk', d')"
    by (rule process_block_phases)
  from outs obtain st d0 v where
    loop: "foldM (process_output X block a k) (bk0, []) (bl_outputs block) d = (Inr st, d0)"
    and trig: "trigger_all X a (bk_webhook (fst st)) (snd st) d0 = (Inr v, d1)"
    by (auto simp: process_outputs_def ok_simps split: prod.splits)
  have "active_hashes d2 = active_hashes d1"
    by (rule foldM_ok_rel [where R = "\<lambda>d d'. active_hashes d' = active_hashes d",
      OF _ _ _ ins [unfolded process_inputs_def]]) (auto dest: process_input_active)
  moreover have "rows_keep d2 d'"
    using rows_keep_tip [OF tip] rows_keep_confirmations [OF conf] rows_keep_finish [OF fin]
    by (blast intro: rows_keep_trans)
  moreover have "bk_accounts (fst (bk0, [] :: generated)) = bk_accounts bk"
    using same by (simp add: settings_def)
  ultimately show ?thesis
    using process_outputs_active [OF loop] rows_keep_active [OF rows_keep_trigger [OF trig]]
    by (auto simp: found_hashes_items dest!: rows_keep_active)
qed

lemma batch_active:
  "foldM (batch_body X ds db a next) bk blocks d = (Inr bk', d') \<Longrightarrow> bk_accounts bk = owners \<Longrightarrow>
     block \<in> set blocks \<Longrightarrow> next \<le> bl_height block \<Longrightarrow>
     found_hashes owners a block \<inter> active_hashes d = {} \<and> active_hashes d \<subseteq> active_hashes d' \<and>
     found_hashes owners a block \<subseteq> active_hashes d' \<and> bk_accounts bk' = owners"
proof (induction blocks arbitrary: bk d)
  case (Cons b blocks)
  then obtain bk1 d1 where one: "batch_body X ds db a next bk b d = (Inr bk1, d1)"
    and rest: "foldM (batch_body X ds db a next) bk1 blocks d1 = (Inr bk', d')"
    by (auto simp: bindM_ok_iff)
  have grow: "active_hashes s \<subseteq> active_hashes s' \<and> bk_accounts bk2 = bk_accounts bk1'"
    if "batch_body X ds db a next bk1' b' s = (Inr bk2, s')" for bk1' b' s bk2 s'
    using that process_block_active settings_block
    by (fastforce simp: batch_body_ok_iff settings_def split: if_splits)
  have mono: "active_hashes s \<subseteq> active_hashes s' \<and> bk_accounts bk2 = bk_accounts bk1'"
    if "foldM (batch_body X ds db a next) bk1' bs s = (Inr bk2, s')" for bk1' bs s bk2 s'
    using that
  proof (induction bs arbitrary: bk1' s)
    case Nil
    then show ?case by (simp add: ret_ok_iff)
  next
    case (Cons x xs)
    then show ?case by (force simp: bindM_ok_iff dest!: grow)
  qed
  show ?case
  proof (cases "block \<in> set blocks")
    case True
    with Cons.IH [OF rest] grow [OF one] Cons.prems show ?thesis by auto
  next
    case False
    with Cons.prems one have b: "process_block X ds block a bk d = (Inr bk1, d1)"
      by (auto simp: batch_body_ok_iff)
    from process_block_active [OF b] mono [OF rest] grow [OF one] Cons.prems(2) show ?thesis by auto
  qed
qed simp

section \<open>Composing the handler with the targets\<close>

lemma processed_only_ok:
  assumes "processed_only T cfg limit blocks a s = (Inr u, s')" "co_handler s = Some bk" "blocks \<noteq> []"
  shows "\<exists>t evs handler. find_target a (co_targets s) = Inr t \<and>
     process_blocks (ct_externals T) (ct_describe T) (ct_describe_block T) blocks a (tg_pending t)
       (cc_webhook cfg) (tg_next t) (Some bk, co_db s) = (Inr evs, handler, co_db s') \<and>
     co_handler s' = handler \<and>
     co_targets s' = update_target a (\<lambda>t. t\<lparr>tg_next := bl_height (last blocks) + 1\<rparr>) (co_targets s)"
proof -
  from assms(1) obtain t where t: "find_target a (co_targets s) = Inr t"
    by (auto simp: processed_only_def ok_simps)
  obtain r handler d' where run: "process_blocks (ct_externals T) (ct_describe T) (ct_describe_block T) blocks a
      (tg_pending t) (cc_webhook cfg) (tg_next t) (Some bk, co_db s) = (r, handler, d')"
    by (rule prod_cases3)
  with t find_target_account [OF t] assms show ?thesis
    by (auto simp: processed_only_def run_handler_def set_next_def ok_simps)
qed

lemma found_by_others:
  assumes "own_index n block" "a \<notin> set (take n owners)"
  shows "found_hashes owners a block = {}"
proof -
  have "owners ! w \<noteq> a" if "w < n" "w < length owners" for w
  proof
    assume "owners ! w = a"
    with that have "take n owners ! w = a" "w < length (take n owners)" by simp_all
    with assms(2) show False by (metis nth_mem)
  qed
  with assms(1) show ?thesis by (force simp: found_hashes_def own_index_def list_all_iff)
qed

lemma block_steps_shrink:
  "list_all (\<lambda>b. found_hashes owners a b = {}) blocks \<Longrightarrow> fold (block_step owners a) blocks U \<subseteq> U"
proof (induction blocks arbitrary: U)
  case (Cons b blocks)
  then have "fold (block_step owners a) blocks (block_step owners a b U) \<subseteq> block_step owners a b U" by simp
  moreover have "block_step owners a b U \<subseteq> U" using Cons.prems by (auto simp: block_step_def)
  ultimately show ?case by simp
qed simp

lemma handler_kept:
  assumes "process_blocks X ds db blocks a p cfg next (Some bk, d) = (Inr evs, handler, d')"
  shows "\<exists>bk'. handler = Some bk' \<and> bk_accounts bk' = bk_accounts bk"
proof (cases "blocks = []")
  case False
  with assms obtain bk' where run: "foldM (batch_body X ds db a next)
      (bk\<lparr>bk_pending_outbound := p, bk_webhook := cfg\<rparr>) blocks d = (Inr bk', d')"
    and handler: "handler = Some (bk'\<lparr>bk_events := []\<rparr>)"
    by (auto simp: process_blocks_def process_batch_blocks_body transact_ok_iff split: prod.splits sum.splits)
  have "bk_accounts b' = bk_accounts b" if "batch_body X ds db a next b x s = (Inr b', s')" for b x s b' s'
    using that settings_block by (fastforce simp: batch_body_ok_iff settings_def split: if_splits)
  with foldM_ok_keeps [OF _ run, of bk_accounts] handler show ?thesis by simp
qed (use assms in \<open>auto simp: process_blocks_def\<close>)

lemma processed_block_again:
  assumes "processed_only T cfg limit blocks a s = (Inr u, s')" "co_handler s = Some bk" "blocks \<noteq> []"
    and "block \<in> set blocks" "\<And>t. find_target a (co_targets s) = Inr t \<Longrightarrow> tg_next t \<le> bl_height block"
  shows "found_hashes (bk_accounts bk) a block \<inter> active_hashes (co_db s) = {} \<and>
     found_hashes (bk_accounts bk) a block \<subseteq> active_hashes (co_db s') \<and>
     (\<exists>bk'. co_handler s' = Some bk' \<and> bk_accounts bk' = bk_accounts bk)"
proof -
  from processed_only_ok [OF assms(1-3)] obtain t evs handler where t: "find_target a (co_targets s) = Inr t"
    and run: "process_blocks (ct_externals T) (ct_describe T) (ct_describe_block T) blocks a (tg_pending t)
       (cc_webhook cfg) (tg_next t) (Some bk, co_db s) = (Inr evs, handler, co_db s')"
    and handler: "co_handler s' = handler" by blast
  from process_blocks_ok [OF run] batch_active [OF _ _ assms(4) assms(5) [OF t]] handler_kept [OF run] handler
  show ?thesis by fastforce
qed

lemma failed_handler:
  assumes "processed_only T cfg limit blocks a s = (Inl e, s')" "find_target a (co_targets s) = Inr t"
  shows "co_handler s' = None"
  using assms
  by (auto simp: processed_only_def run_handler_def set_next_def bindM_def seqM_def gets_def lift_result_def
      modify_def ret_def process_blocks_def
      split: prod.splits sum.splits if_splits option.splits)

section \<open>A whole stream\<close>

lemma processed_only_apart:
  "processed_only T cfg limit blocks a s = (Inr v, s') \<Longrightarrow> co_since s' = co_since s \<and> co_sent s' = co_sent s"
  by (auto simp: processed_only_def set_next_def ok_simps split: if_splits dest: run_handler_since run_handler_sent)

lemma batch_processed:
  assumes "process_scanned_batch T cfg limit chain g [a] blocks s = (Inr u, s')"
    and "co_handler s = Some bk" "blocks \<noteq> []"
  obtains t evs s1 where "find_target a (co_targets s) = Inr t"
    "process_blocks (ct_externals T) (ct_describe T) (ct_describe_block T) blocks a (tg_pending t)
       (cc_webhook cfg) (tg_next t) (Some bk, co_db s) = (Inr evs, co_handler s1, co_db s1)"
    "co_since s1 = co_since s + length blocks"
    "co_targets s1 = update_target a (\<lambda>t. t\<lparr>tg_next := bl_height (last blocks) + 1\<rparr>) (co_targets s)"
    "co_sent s1 = co_sent s @ [MoreBlocksAvailable a (u64_saturating_sub g 1)]"
    "whenM (co_since s1 \<ge> cc_reorg_interval cfg)
       (seqM (check_global_reorgs T cfg chain) (modify (\<lambda>s. s\<lparr>co_since := 0\<rparr>))) s1 = (Inr u, s')"
proof -
  let ?s0 = "s\<lparr>co_sent := co_sent s @ [MoreBlocksAvailable a (u64_saturating_sub g 1)]\<rparr>"
  from assms(1) obtain s2 where p: "processed_only T cfg limit blocks a ?s0 = (Inr (), s2)"
    and rest: "bindM (gets co_since) (\<lambda>since. whenM (since \<ge> cc_reorg_interval cfg)
       (seqM (check_global_reorgs T cfg chain) (modify (\<lambda>s. s\<lparr>co_since := 0\<rparr>))))
       (s2\<lparr>co_since := co_since s2 + length blocks, co_total := co_total s2 + length blocks\<rparr>) = (Inr u, s')"
    unfolding process_scanned_batch_def process_for_account_only
    by (auto simp: seqM_ok_iff modify_ok_iff ret_ok_iff send_event_to_def)
  let ?s1 = "s2\<lparr>co_since := co_since s2 + length blocks, co_total := co_total s2 + length blocks\<rparr>"
  have "co_handler ?s0 = Some bk" using assms(2) by simp
  from processed_only_ok [OF p this assms(3)] obtain t evs where "find_target a (co_targets s) = Inr t"
    "process_blocks (ct_externals T) (ct_describe T) (ct_describe_block T) blocks a (tg_pending t)
       (cc_webhook cfg) (tg_next t) (Some bk, co_db s) = (Inr evs, co_handler ?s1, co_db ?s1)"
    "co_targets ?s1 = update_target a (\<lambda>t. t\<lparr>tg_next := bl_height (last blocks) + 1\<rparr>) (co_targets s)" by auto
  then show ?thesis
    using that [of t evs ?s1] processed_only_apart [OF p] rest by (simp add: bindM_ok_iff gets_ok_iff)
qed

lemma batch_ok:
  assumes "process_scanned_batch T cfg limit chain g [a] blocks s = (Inr u, s')"
    and "co_since s + length blocks < cc_reorg_interval cfg" "co_handler s = Some bk" "blocks \<noteq> []"
  shows "\<exists>t evs handler. find_target a (co_targets s) = Inr t \<and>
     process_blocks (ct_externals T) (ct_describe T) (ct_describe_block T) blocks a (tg_pending t)
       (cc_webhook cfg) (tg_next t) (Some bk, co_db s) = (Inr evs, handler, co_db s') \<and>
     co_handler s' = handler \<and> co_since s' = co_since s + length blocks \<and>
     co_targets s' = update_target a (\<lambda>t. t\<lparr>tg_next := bl_height (last blocks) + 1\<rparr>) (co_targets s) \<and>
     co_sent s' = co_sent s @ [MoreBlocksAvailable a (u64_saturating_sub g 1)]"
proof -
  from batch_processed [OF assms(1,3,4)] obtain t evs s1 where
    "find_target a (co_targets s) = Inr t"
    "process_blocks (ct_externals T) (ct_describe T) (ct_describe_block T) blocks a (tg_pending t)
       (cc_webhook cfg) (tg_next t) (Some bk, co_db s) = (Inr evs, co_handler s1, co_db s1)"
    and since: "co_since s1 = co_since s + length blocks"
    and "co_targets s1 = update_target a (\<lambda>t. t\<lparr>tg_next := bl_height (last blocks) + 1\<rparr>) (co_targets s)"
      "co_sent s1 = co_sent s @ [MoreBlocksAvailable a (u64_saturating_sub g 1)]"
    and rest: "whenM (co_since s1 \<ge> cc_reorg_interval cfg)
       (seqM (check_global_reorgs T cfg chain) (modify (\<lambda>s. s\<lparr>co_since := 0\<rparr>))) s1 = (Inr u, s')" .
  moreover have "s' = s1" using rest since assms(2) by (simp add: whenM_ok_iff)
  ultimately show ?thesis by blast
qed

lemma stream_refines:
  "process_stream T cfg limit chain g [a] (map Inr bss @ [Inr []]) s = (Inr stopped, s') \<Longrightarrow>
     [] \<notin> set bss \<Longrightarrow> sorted_wrt (<) (map bl_height (concat bss)) \<Longrightarrow>
     find_target a (co_targets s) = Inr t \<Longrightarrow> list_all (\<lambda>b. tg_next t \<le> bl_height b) (concat bss) \<Longrightarrow>
     co_handler s = Some bk \<Longrightarrow> bk_accounts bk = owners \<Longrightarrow> tables_ok (co_db s) \<Longrightarrow>
     co_since s + length (concat bss) < cc_reorg_interval cfg \<Longrightarrow>
     stopped \<and> tables_ok (co_db s') \<and>
     unspent (co_db s') a = fold (block_step owners a) (concat bss) (unspent (co_db s) a) \<and>
     (\<exists>t'. find_target a (co_targets s') = Inr t' \<and>
        tg_next t' = (if bss = [] then tg_next t else bl_height (last (concat bss)) + 1))"
proof (induction bss arbitrary: s t bk)
  case Nil
  then show ?case by (simp add: ret_ok_iff)
next
  case (Cons bs bss)
  then have ne: "bs \<noteq> []" by auto
  from Cons.prems(1) ne obtain v s1 where
    one: "process_scanned_batch T cfg limit chain g [a] bs s = (Inr v, s1)"
    and rest: "process_stream T cfg limit chain g [a] (map Inr bss @ [Inr []]) s1 = (Inr stopped, s')"
    by (auto simp: seqM_ok_iff)
  have "co_since s + length bs < cc_reorg_interval cfg" using Cons.prems(9) by simp
  from batch_ok [OF one this Cons.prems(6) ne] Cons.prems(4) obtain evs handler where
    run: "process_blocks (ct_externals T) (ct_describe T) (ct_describe_block T) bs a (tg_pending t)
       (cc_webhook cfg) (tg_next t) (Some bk, co_db s) = (Inr evs, handler, co_db s1)"
    and s1: "co_handler s1 = handler" "co_since s1 = co_since s + length bs"
      "co_targets s1 = update_target a (\<lambda>t. t\<lparr>tg_next := bl_height (last bs) + 1\<rparr>) (co_targets s)"
    by auto
  have all: "in_batch (tg_next t) bs = bs"
    using Cons.prems(5) by (auto simp: in_batch_def list_all_iff intro: filter_True)
  have ref: "tables_ok (co_db s1)" "unspent (co_db s1) a = fold (block_step owners a) bs (unspent (co_db s) a)"
    using process_blocks_ok [OF run] batch_loop_refines [OF _ Cons.prems(8)] all Cons.prems(7) by fastforce+
  obtain bk' where bk': "co_handler s1 = Some bk'" "bk_accounts bk' = owners"
    using handler_kept [OF run] s1(1) Cons.prems(7) by auto
  let ?t = "t\<lparr>tg_next := bl_height (last bs) + 1\<rparr>"
  have t: "find_target a (co_targets s1) = Inr ?t"
    by (simp add: s1(3) find_update_target Cons.prems(4))
  have beyond: "list_all (\<lambda>b. tg_next ?t \<le> bl_height b) (concat bss)"
    using Cons.prems(3) last_in_set [OF ne] by (force simp: sorted_wrt_append list_all_iff)
  have "sorted_wrt (<) (map bl_height (concat bss))" "[] \<notin> set bss"
    "co_since s1 + length (concat bss) < cc_reorg_interval cfg"
    using Cons.prems(2,3,9) s1(2) by (simp_all add: sorted_wrt_append)
  from Cons.IH [OF rest this(2,1) t beyond bk' ref(1) this(3)] ref(2) ne this(2) show ?case
    by (cases bss) auto
qed


text \<open>
  A continuous scan holds at most 10000 events, at every moment and whatever the node
  answers, so a long-lived scan does not use up the memory.
\<close>

theorem continuous_buffer_bounded:
  assumes "unified_scan_loop T cfg (Continuous p) turns s = (r, s')" "length (co_events s) \<le> 10000"
  shows "length (co_events s') \<le> 10000"
  using preservesD [OF buffer_loop assms(1)] assms(2)
  by (simp add: buffer_within_def max_continuous_buffered_events_def)

text \<open>
  The range of a turn is one the scanner accepts: it does not end before it starts, and it
  ends below the next block of every target that is not scanned in it. In a partial scan of
  \<open>m\<close> blocks with no other horizon it ends at the start plus \<open>m\<close>, so it spans \<open>m + 1\<close> heights.
\<close>

theorem scan_range_accepted:
  assumes "case mode of Partial m \<Rightarrow> scanned \<le> m \<and> global_next_block ts + m < 2 ^ 64 | _ \<Rightarrow> True"
    and "cf_start c = global_next_block ts" "cf_end c = end_height_of mode scanned ts"
  shows "(\<forall>e. scan_blocks X N K c k \<noteq> Some (Inl e)) \<and>
     (\<forall>t \<in> set ts. tg_next t \<noteq> global_next_block ts \<longrightarrow> (\<exists>e. cf_end c = Some e \<and> e < tg_next t)) \<and>
     (\<forall>m. mode = Partial m \<and> next_horizon_height ts = None \<longrightarrow>
        cf_end c = Some (global_next_block ts + m - scanned))"
proof (intro conjI allI ballI impI)
  show "scan_blocks X N K c k \<noteq> Some (Inl e)" for e
    using assms horizon_beyond(1) [of ts]
    by (auto simp: scan_blocks_def end_height_of_def Let_def u64_saturating_sub_def u64_saturating_add_def
        min_def split: scan_mode.splits option.splits sum.splits if_splits)
  show "\<exists>e. cf_end c = Some e \<and> e < tg_next t" 
    if t: "t \<in> set ts" "tg_next t \<noteq> global_next_block ts" for t
  proof -
    obtain h where h: "next_horizon_height ts = Some h" using no_horizon [of ts t] t by (cases "next_horizon_height ts") auto
    from horizon_beyond [OF h] t have "global_next_block ts < h" "h \<le> tg_next t" by auto
    then show ?thesis
      by (auto simp: assms(3) end_height_of_def h Let_def u64_saturating_sub_def min_def split: scan_mode.split)
  qed
  show "cf_end c = Some (global_next_block ts + m - scanned)"
    if "mode = Partial m \<and> next_horizon_height ts = None" for m
    using that assms(1)
    by (simp add: assms(3) end_height_of_def Let_def u64_saturating_sub_def u64_saturating_add_def)
qed

text \<open>
  C14: When the accounts of a scan stand at different heights, an account that is scanned alone
  can lose its outputs: the scanner numbers the key managers of the active accounts, the block
  processor reads the number in the list of all accounts. If the account is not among the
  first \<open>n\<close> accounts, \<open>n\<close> the number of the active ones, the batch adds none of its outputs,
  and yet its next block moves past the batch.
\<close>

theorem staggered_scan_loses_outputs:
  assumes "process_for_account T cfg limit blocks a (new_coord required targets d) = (Inr u, s')"
    and "tables_ok d" "blocks \<noteq> []"
    and "list_all (own_index (length (active_account_ids targets))) blocks"
    and "a \<notin> set (take (length (active_account_ids targets)) (map tg_account targets))"
  shows "unspent (co_db s') a \<subseteq> unspent d a \<and>
     (\<exists>t. find_target a (co_targets s') = Inr t \<and> tg_next t = bl_height (last blocks) + 1)"
proof -
  let ?bk = "with_event_sender (map (\<lambda>t. (tg_account t, tg_view_key t)) targets) False required"
  have owners: "bk_accounts ?bk = map tg_account targets" by (simp add: with_event_sender_def comp_def)
  from processed_only_ok [OF assms(1) [unfolded process_for_account_only] _ assms(3), of ?bk]
  obtain t evs handler where t: "find_target a targets = Inr t"
    and run: "process_blocks (ct_externals T) (ct_describe T) (ct_describe_block T) blocks a (tg_pending t)
       (cc_webhook cfg) (tg_next t) (Some ?bk, d) = (Inr evs, handler, co_db s')"
    and moved: "co_targets s' = update_target a (\<lambda>t. t\<lparr>tg_next := bl_height (last blocks) + 1\<rparr>) targets"
    by (auto simp: new_coord_def)
  have "list_all (\<lambda>b. found_hashes (map tg_account targets) a b = {}) (in_batch (tg_next t) blocks)"
    using assms(4) found_by_others [OF _ assms(5)] by (auto simp: list_all_iff in_batch_def)
  from block_steps_shrink [OF this] have "unspent (co_db s') a \<subseteq> unspent d a"
    using process_blocks_ok [OF run] batch_loop_refines [OF _ assms(2)] owners by fastforce
  moreover have "\<exists>t. find_target a (co_targets s') = Inr t \<and> tg_next t = bl_height (last blocks) + 1"
    unfolding moved by (simp add: find_update_target t)
  ultimately show ?thesis ..
qed

definition turn_config :: "coord_config \<Rightarrow> scan_mode \<Rightarrow> coord \<Rightarrow> scan_config" where
  \<comment> \<open>the configuration of the scanner in a turn that starts in the state\<close>
  "turn_config cfg mode s =
     (with_batch_size (effective_batch_size (cc_batch_size cfg) (co_targets s))
       (with_start_height (global_next_block (co_targets s)) default_scan_config))
     \<lparr>cf_end := end_height_of mode (co_total s) (co_targets s)\<rparr>"

text \<open>
  C15: The message that ends the stream comes from the download, not from the processing: when
  it is faster than the first batch, a full scan reports that it is completed with nothing
  processed, although the batches that follow it hold blocks.
\<close>

theorem end_marker_overtakes_batches:
  assumes "\<not> ci_cancelled turn" "ci_connect turn = None"
    and "\<And>c active. ci_scan turn c active = opt_or (Inr []) (scan_blocks X N (keys active) c 0)"
    and "get_tip_info N = Inr tip" "global_next_block (co_targets s) \<le> tip"
    and "download (x_hex X) N (in_progress_new (turn_config cfg Full s)) = Some (batches, None)"
  shows "ci_scan turn (turn_config cfg Full s) active = Inr (Inr [] # process_batches X N (keys active) batches) \<and>
     (\<exists>s'. scan_cycle T cfg Full turn s = (Inr (Some (co_events s, False)), s') \<and>
        co_db s' = co_db s \<and> co_targets s' = co_targets s)"
proof -
  let ?active = "active_account_ids (co_targets s)"
  let ?s1 = "s\<lparr>co_scanner := Some ?active\<rparr>"
  have known: "\<exists>t. find_target a ts = Inr t" if "a \<in> tg_account ` set ts" for a ts
    using that by (auto simp: find_target_def find_None_iff split: option.split)
  have active: "set ?active \<subseteq> tg_account ` set (co_targets s)" by (auto simp: active_account_ids_def)
  have completed: "\<exists>sent. forM as send_completed s = (Inr (), s\<lparr>co_sent := sent\<rparr>)"
    if "set as \<subseteq> tg_account ` set (co_targets s)" for as and s :: coord
    using that
  proof (induction as arbitrary: s)
    case Nil
    have "s = s\<lparr>co_sent := co_sent s\<rparr>" by simp
    then show ?case by (metis forM.simps(1) ret_def)
  next
    case (Cons a as)
    obtain t where t: "find_target a (co_targets s) = Inr t" using known [of a "co_targets s"] Cons.prems by auto
    obtain ev where "send_completed a s = (Inr (), s\<lparr>co_sent := co_sent s @ [ev]\<rparr>)"
      using t by (simp add: send_completed_def send_event_to_def bindM_def gets_def lift_result_def modify_def)
    with Cons.IH [of "s\<lparr>co_sent := co_sent s @ [ev]\<rparr>"] Cons.prems show ?case by (auto simp: seqM_Inr)
  qed
  have "\<exists>ts. mapM (\<lambda>a. find_target a (co_targets s)) as = Inr ts"
    if "set as \<subseteq> tg_account ` set (co_targets s)" for as
    using that by (induction as) (auto dest!: known)
  from this [OF active] have connected: "get_scanner_and_config T None ?active g e b s = (Inr
      ((with_batch_size b (with_start_height g default_scan_config))\<lparr>cf_end := e\<rparr>), ?s1)" for g e b
    by (cases "co_scanner s = Some ?active")
      (auto simp: get_scanner_and_config_def bindM_def seqM_def gets_def ret_def lift_result_def modify_def)
  have scanner: "ci_scan turn (turn_config cfg Full s) as = Inr (Inr [] # process_batches X N (keys as) batches)" for as
    using assms(3-6) horizon_beyond(1) [of "co_targets s"]
    by (auto simp: scan_blocks_def turn_config_def end_height_of_def u64_saturating_sub_def with_marker_def
        with_batch_size_def with_start_height_def opt_or_def split: option.splits)
  obtain sent where "forM ?active send_completed ?s1 = (Inr (), ?s1\<lparr>co_sent := sent\<rparr>)"
    using completed [of ?active ?s1] active by auto
  then have "scan_cycle T cfg Full turn s = (Inr (Some (co_events s, False)), ?s1\<lparr>co_sent := sent\<rparr>)"
    using assms(1,2) scanner [of ?active, unfolded turn_config_def]
    by (simp add: scan_cycle_def bindM_def seqM_def gets_def ret_def Let_def connected finish_cycle_def)
  with scanner show ?thesis by simp
qed

text \<open>
  C13: In continuous mode the next block of every target steps back by one after each poll, so
  the tip block is processed again. When it holds an output of the account, the second time
  violates the unique index on the hashes: the batch fails, and with it the scan.
\<close>

theorem rescanned_tip_fails:
  assumes "process_for_account T cfg limit blocks a s = (Inr u, s1)" "blocks \<noteq> []"
    and "co_handler s = Some bk" "found_hashes (bk_accounts bk) a (last blocks) \<noteq> {}"
    and "find_target a (co_targets s) = Inr t" "tg_next t \<le> bl_height (last blocks)"
    and "\<And>t'. t' \<in> set (co_targets s1) \<Longrightarrow> \<exists>res. rr_information res = None \<and>
       handle_reorgs (ct_externals T) (ct_debug_hex T) chain (tg_account t') (cc_webhook cfg) (co_db s1) = (Inr res, co_db s1)"
  shows "\<exists>s2. wait_for_next_poll_cycle T cfg chain interval False s1 = (Inr (), s2) \<and>
     (\<exists>e s3. process_for_account T cfg limit (last blocks # later) a s2 = (Inl e, s3) \<and> co_handler s3 = None)"
proof -
  let ?stepped = "\<lambda>t. t\<lparr>tg_next := u64_saturating_sub (tg_next t) 1\<rparr>"
  note first = assms(1) [unfolded process_for_account_only]
  have tip: "last blocks \<in> set blocks" using assms(2) by simp
  have found: "found_hashes (bk_accounts bk) a (last blocks) \<subseteq> active_hashes (co_db s1)"
    and bk: "\<exists>bk'. co_handler s1 = Some bk' \<and> bk_accounts bk' = bk_accounts bk"
    using processed_block_again [OF first assms(3,2) tip] assms(5,6) by auto
  obtain s2 where s2: "s2 = s1\<lparr>co_targets := map ?stepped (co_targets s1),
      co_sent := co_sent s1 @ map (\<lambda>t. Waiting (tg_account t) interval) (co_targets s1)\<rparr>" by blast
  have none: "check_reorg T cfg chain (tg_account t') s2 = (Inr (), s2)" if "t' \<in> set (co_targets s1)" for t'
    using assms(7) [OF that]
    by (auto simp: check_reorg_def bindM_def map_error_def on_co_db_def s2 ret_def)
  have "forM (map tg_account ts) (check_reorg T cfg chain) s2 = (Inr (), s2)" if "set ts \<subseteq> set (co_targets s1)" for ts
    using that
  proof (induction ts)
    case (Cons t' ts)
    then have "check_reorg T cfg chain (tg_account t') s2 = (Inr (), s2)" using none by simp
    with Cons show ?case by (simp add: seqM_Inr)
  qed (simp add: ret_def)
  from this [of "co_targets s1"] have wait: "wait_for_next_poll_cycle T cfg chain interval False s1 = (Inr (), s2)"
    by (simp add: wait_for_next_poll_cycle_def seqM_def bindM_def modify_def check_global_reorgs_def gets_def
        comp_def flip: s2) (simp add: s2 comp_def)
  from processed_only_ok [OF first assms(3,2)] have
    "co_targets s1 = update_target a (\<lambda>t. t\<lparr>tg_next := bl_height (last blocks) + 1\<rparr>) (co_targets s)" by blast
  then have t2: "find_target a (co_targets s2) = Inr (t\<lparr>tg_next := bl_height (last blocks)\<rparr>)"
    using assms(5) by (simp add: s2 find_target_map find_update_target u64_saturating_sub_def)
  have "\<exists>e s3. processed_only T cfg limit (last blocks # later) a s2 = (Inl e, s3)"
  proof (cases "processed_only T cfg limit (last blocks # later) a s2")
    case (Pair r s3)
    obtain bk' where bk': "co_handler s2 = Some bk'" "bk_accounts bk' = bk_accounts bk" using bk s2 by auto
    have False if "r = Inr v" for v
      using processed_block_again [OF Pair [unfolded that] bk'(1), of "last blocks"] t2 found assms(4) bk'(2)
      by (auto simp: s2)
    with Pair show ?thesis by (cases r) auto
  qed
  then obtain e s3 where again: "processed_only T cfg limit (last blocks # later) a s2 = (Inl e, s3)" by blast
  with wait failed_handler [OF again t2] show ?thesis unfolding process_for_account_only by blast
qed


section \<open>Witnesses\<close>

definition sample_tools :: coord_tools where
  "sample_tools = \<lparr>ct_externals = sample_X, ct_describe = (\<lambda>_. []), ct_describe_block = (\<lambda>_. []),
     ct_describe_reorg = (\<lambda>_. []), ct_describe_monitor = (\<lambda>_. []), ct_describe_scanner = (\<lambda>_. []),
     ct_debug_hex = (\<lambda>_. []), ct_client = \<lparr>cl_parse = (\<lambda>_. Inl []), cl_submit = (\<lambda>_. Inl []),
     cl_query = (\<lambda>_ _. Inl [])\<rparr>\<rparr>"

definition sample_config :: coord_config where
  "sample_config = \<lparr>cc_required = 3, cc_webhook = None, cc_reorg_interval = 1000, cc_batch_size = 2\<rparr>"

definition target_at :: "i64 \<Rightarrow> u64 \<Rightarrow> sync_target" where
  "target_at a h = \<lparr>tg_account = a, tg_view_key = [5], tg_next = h,
     tg_monitor = \<lparr>mo_required = 3, mo_webhook = None\<rparr>, tg_pending = False\<rparr>"

definition sample_turn :: cycle_input where
  "sample_turn = \<lparr>ci_cancelled = False, ci_cancelled_waiting = False, ci_connect = None,
     ci_scan = (\<lambda>c active. opt_or (Inr []) (scan_blocks sample_X paged_node one_key c 0)),
     ci_chain = (\<lambda>h. Inr (Some [of_nat h]))\<rparr>"

theorem continuous_buffer_bounded_witness:
  "\<exists>r s'. unified_scan_loop sample_tools sample_config (Continuous 30) [sample_turn\<lparr>ci_cancelled := True\<rparr>]
       (new_coord 3 [target_at 1 0] books_db) = (r, s') \<and> length (co_events s') \<le> 10000"
proof -
  have start: "length (co_events (new_coord 3 [target_at 1 0] books_db)) \<le> 10000" by (simp add: new_coord_def)
  obtain r s' where run: "unified_scan_loop sample_tools sample_config (Continuous 30)
      [sample_turn\<lparr>ci_cancelled := True\<rparr>] (new_coord 3 [target_at 1 0] books_db) = (r, s')" using surj_pair by metis
  show ?thesis by (intro exI conjI) (rule run, rule continuous_buffer_bounded [OF run start])
qed

definition range_config :: scan_config where
  "range_config = \<lparr>cf_start = 5, cf_end = Some 15, cf_batch = None, cf_exclude_spent = False\<rparr>"

theorem scan_range_accepted_witness:
  "scan_blocks sample_X paged_node one_key range_config 0 \<noteq>
     Some (Inl (OperationNotSupported ''start_height cannot be greater than end_height''))"
proof -
  have mode: "case Partial 10 of Partial m \<Rightarrow> 0 \<le> m \<and> global_next_block [target_at 1 5] + m < 2 ^ 64 | _ \<Rightarrow> True"
    and start: "cf_start range_config = global_next_block [target_at 1 5]"
    and range: "cf_end range_config = end_height_of (Partial 10) 0 [target_at 1 5]"
    by (simp_all add: range_config_def global_next_block_def target_at_def end_height_of_def next_horizon_height_def
      Let_def u64_saturating_add_def u64_saturating_sub_def)
  show ?thesis
    using conjunct1 [OF scan_range_accepted [OF mode start range, of sample_X paged_node one_key 0]] by blast
qed

definition two_accounts_db :: db where
  "two_accounts_db = books_db\<lparr>accounts := [sample_account, sample_account\<lparr>a_id := 2, a_name := ''second''\<rparr>]\<rparr>"

lemma succeeds_obtain:
  assumes "succeeds_with run (\<lambda>_ _. True)"
  obtains a s where "run = (Inr a, s)"
  using assms by (auto simp: with_iffs)

theorem staggered_scan_loses_outputs_witness:
  "\<exists>u s'. process_for_account sample_tools sample_config None [sample_block\<lparr>bl_outputs := [([3], sample_output [3] 25, 0)]\<rparr>] 2
       (new_coord 3 [target_at 1 20, target_at 2 10] two_accounts_db) = (Inr u, s') \<and>
     unspent (co_db s') 2 \<subseteq> unspent two_accounts_db 2"
proof -
  let ?block = "sample_block\<lparr>bl_outputs := [([3], sample_output [3] 25, 0)]\<rparr>"
  have "succeeds_with (process_for_account sample_tools sample_config None [?block] 2
     (new_coord 3 [target_at 1 20, target_at 2 10] two_accounts_db)) (\<lambda>_ _. True)" by code_simp
  then obtain u s' where run: "process_for_account sample_tools sample_config None [?block] 2
     (new_coord 3 [target_at 1 20, target_at 2 10] two_accounts_db) = (Inr u, s')" by (rule succeeds_obtain)
  have "tables_ok two_accounts_db" "active_account_ids [target_at 1 20, target_at 2 10] = [2]"
    "list_all (own_index 1) [?block]" "(2::i64) \<notin> set (take 1 (map tg_account [target_at 1 20, target_at 2 10]))"
    by code_simp+
  with staggered_scan_loses_outputs [OF run] run show ?thesis by auto
qed

theorem end_marker_overtakes_batches_witness:
  "\<exists>s'. scan_cycle sample_tools sample_config Full sample_turn (new_coord 3 [target_at 1 0] books_db)
     = (Inr (Some ([], False)), s') \<and> co_db s' = books_db"
proof -
  let ?s = "new_coord 3 [target_at 1 0] books_db"
  have start: "in_progress_new (turn_config sample_config Full ?s) = in_progress_new \<lparr>cf_start = 0, cf_end = None,
      cf_batch = Some 2, cf_exclude_spent = False\<rparr>" by code_simp
  obtain bss where d: "download name_of paged_node (in_progress_new \<lparr>cf_start = 0, cf_end = None,
      cf_batch = Some 2, cf_exclude_spent = False\<rparr>) = Some (bss, None)"
  proof -
    have "get_header_by_height paged_node 0 = Inr (Some [0])"
      by (simp add: get_header_by_height_def paged_node_def with_retry_answered)
    note start = download_start [OF this, where hex = name_of]
    have "sorted (map bu_height three_blocks)" by code_simp
    note download_from_header [OF paged_node_serves this, where c = "\<lparr>cf_start = 0, cf_end = None,
      cf_batch = Some 2, cf_exclude_spent = False\<rparr>" and h = "name_of [0]" and p = 0]
    moreover have "name_pos (name_of [0]) 0 \<le> length three_blocks" by code_simp
    ultimately show ?thesis using that start by auto
  qed
  have hex: "x_hex sample_X = name_of" by (simp add: sample_X_def name_of_def fun_eq_iff)
  have "\<not> ci_cancelled sample_turn" "ci_connect sample_turn = None"
    "\<And>c active. ci_scan sample_turn c active = opt_or (Inr []) (scan_blocks sample_X paged_node ((\<lambda>_. one_key) active) c 0)"
    "get_tip_info paged_node = Inr 2" "global_next_block (co_targets ?s) \<le> 2"
    by (simp_all add: sample_turn_def get_tip_info_def paged_node_def with_retry_answered new_coord_def
        global_next_block_def target_at_def)
  moreover have "download (x_hex sample_X) paged_node (in_progress_new (turn_config sample_config Full ?s)) =
      Some (bss, None)"
    unfolding start hex by (rule d)
  ultimately obtain s' where "scan_cycle sample_tools sample_config Full sample_turn ?s = (Inr (Some (co_events ?s, False)), s')"
    "co_db s' = co_db ?s"
    using end_marker_overtakes_batches [where keys = "\<lambda>_. one_key" and T = sample_tools] by blast
  then show ?thesis by (simp add: new_coord_def)
qed

definition second_block :: block_scan where
  "second_block = sample_block\<lparr>bl_height := 12, bl_hash := [12], bl_outputs := [([6], sample_output [6] 7, 0)],
     bl_inputs := [[2]]\<rparr>"

theorem rescanned_tip_fails_witness:
  "\<exists>s1 s2 e s3. process_for_account sample_tools sample_config None [sample_block] 1
       (new_coord 3 [target_at 1 11] books_db) = (Inr (), s1) \<and>
     wait_for_next_poll_cycle sample_tools sample_config (ci_chain sample_turn) 30 False s1 = (Inr (), s2) \<and>
     process_for_account sample_tools sample_config None [sample_block, second_block] 1 s2 = (Inl e, s3)"
proof -
  let ?s = "new_coord 3 [target_at 1 11] books_db"
  have "succeeds_with (process_for_account sample_tools sample_config None [sample_block] 1 ?s) (\<lambda>_ s1.
      map tg_account (co_targets s1) = [1] \<and>
      succeeds_with (handle_reorgs sample_X (\<lambda>_. []) (ci_chain sample_turn) 1 None (co_db s1))
        (\<lambda>res d. rr_information res = None \<and> d = co_db s1))" by code_simp
  then obtain u s1 res where run: "process_for_account sample_tools sample_config None [sample_block] 1 ?s = (Inr u, s1)"
    and accounts: "map tg_account (co_targets s1) = [1]" and res: "rr_information res = None"
    "handle_reorgs sample_X (\<lambda>_. []) (ci_chain sample_turn) 1 None (co_db s1) = (Inr res, co_db s1)"
    by (auto simp: with_iffs)
  let ?bk = "with_event_sender [(1, [5])] False 3"
  have found: "found_hashes (bk_accounts ?bk) 1 (last [sample_block]) \<noteq> {}"
    "tg_next (target_at 1 11) \<le> bl_height (last [sample_block])" by code_simp+
  have start: "find_target 1 (co_targets ?s) = Inr (target_at 1 11)" "co_handler ?s = Some ?bk"
    by (simp_all add: new_coord_def find_target_def target_at_def)
  have "\<exists>res. rr_information res = None \<and> handle_reorgs (ct_externals sample_tools) (ct_debug_hex sample_tools)
      (ci_chain sample_turn) (tg_account t') (cc_webhook sample_config) (co_db s1) = (Inr res, co_db s1)"
    if "t' \<in> set (co_targets s1)" for t'
  proof -
    have "tg_account t' \<in> set (map tg_account (co_targets s1))" using that by simp
    with accounts have "tg_account t' = 1" by simp
    with res show ?thesis by (auto simp: sample_tools_def sample_config_def)
  qed
  from rescanned_tip_fails [OF run _ start(2) found(1) start(1) found(2) this, of 30 "[second_block]"]
  obtain s2 e s3 where
    "wait_for_next_poll_cycle sample_tools sample_config (ci_chain sample_turn) 30 False s1 = (Inr (), s2)"
    "process_for_account sample_tools sample_config None [sample_block, second_block] 1 s2 = (Inl e, s3)" by auto
  with run show ?thesis by (intro exI conjI) simp_all
qed


end
