(* ===== verification/Api.thy ===== *)
theory Api
  imports Tx_Building Tip_Blocks Events Payref_History Monitor
begin

text \<open>
  The HTTP API of the daemon: the handlers of \<open>api/accounts/\<close> over the operations of the
  database, the fund locker and the transaction builder, and the error type of \<open>api/error.rs\<close>
  with its status codes. A request body is already parsed: a field is an \<open>option\<close> after the
  defaults of serde, so \<open>None\<close> is an explicit \<open>null\<close>. A panic in the blocking task is a join
  error. How other errors are shown, addresses and the random key are the fields of \<open>api_tools\<close>.
\<close>

section \<open>Errors\<close>

datatype api_error =
    InternalServerError string
  | ApiDbError string
  | AccountNotFound string
  | ApiNotFound string
  | BadRequest string
  | FailedToLockFunds string
  | FailedCreateUnsignedTx string
  | FailedToBurnFunds string

definition into_response :: "api_error \<Rightarrow> nat \<times> string" where
  "into_response e = (case e of
      InternalServerError msg \<Rightarrow> (500, msg)
    | ApiDbError msg \<Rightarrow> (500, msg)
    | AccountNotFound name \<Rightarrow> (404, ''Account '' @ [CHR 0x27] @ name @ [CHR 0x27] @ '' not found'')
    | ApiNotFound msg \<Rightarrow> (404, msg)
    | BadRequest msg \<Rightarrow> (400, msg)
    | FailedToLockFunds msg \<Rightarrow> (500, msg)
    | FailedCreateUnsignedTx msg \<Rightarrow> (500, msg)
    | FailedToBurnFunds msg \<Rightarrow> (500, msg))"

record api_tools =
  ap_externals :: externals
  ap_required :: u64                       \<comment> \<open>\<open>required_confirmations\<close> of the state\<close>
  ap_describe_db :: "wallet_error \<Rightarrow> string"
  ap_describe_lock :: "lock_error \<Rightarrow> string"
  ap_describe_send :: "send_error \<Rightarrow> string"
  ap_describe_estimate :: "estimate_error \<Rightarrow> string"
  ap_panic :: string                       \<comment> \<open>the text of a join error\<close>
  ap_address :: "account_row \<Rightarrow> bytes option \<Rightarrow> string + string \<times> string"
    \<comment> \<open>\<open>get_address\<close> and \<open>get_address_with_payment_id\<close>: base58 and emoji\<close>
  ap_hex_error :: "string \<Rightarrow> string"
  ap_rfc3339 :: "i64 \<Rightarrow> string"
  ap_column_time :: "i64 \<Rightarrow> string"     \<comment> \<open>the text of a timestamp column\<close>

type_synonym 'a apim = "(db, api_error, 'a) run"

definition api_db :: "api_tools \<Rightarrow> 'a dbm \<Rightarrow> 'a apim" where
  "api_db A m = map_error (\<lambda>e. ApiDbError (ap_describe_db A e)) m"

definition with_account :: "api_tools \<Rightarrow> string \<Rightarrow> (account_row \<Rightarrow> 'a apim) \<Rightarrow> 'a apim" where
  \<comment> \<open>the lookup every handler starts with\<close>
  "with_account A name f = bindM (api_db A (get_account_by_name name)) (\<lambda>found. case found of
      None \<Rightarrow> throw (AccountNotFound name)
    | Some account \<Rightarrow> f account)"

definition panic_error :: "api_tools \<Rightarrow> api_error" where
  "panic_error A = InternalServerError (''Task join error: '' @ ap_panic A)"

section \<open>Parameters\<close>

definition default_page_limit :: i64 where
  "default_page_limit = 50"

definition max_page_limit :: i64 where
  "max_page_limit = 1000"

record pagination =
  pg_limit :: "i64 option"
  pg_offset :: "i64 option"

definition page_bounds :: "pagination \<Rightarrow> i64 \<times> i64" where
  \<comment> \<open>the first lines of every paginated handler\<close>
  "page_bounds p = (min (opt_or default_page_limit (pg_limit p)) max_page_limit,
     max (opt_or 0 (pg_offset p)) 0)"

definition default_seconds_to_lock_utxos :: "u64 option" where
  "default_seconds_to_lock_utxos = Some 86400"

definition default_num_outputs :: "nat option" where
  "default_num_outputs = Some 1"

definition default_fee_per_gram :: "u64 option" where
  "default_fee_per_gram = Some 5"

section \<open>Balance, address and scan status\<close>

definition api_get_balance :: "api_tools \<Rightarrow> string \<Rightarrow> account_balance apim" where
  "api_get_balance A name = with_account A name (\<lambda>account. api_db A (get_balance (a_id account)))"

definition api_get_address :: "api_tools \<Rightarrow> string \<Rightarrow> (string \<times> string) apim" where
  "api_get_address A name = with_account A name (\<lambda>account.
     case ap_address A account None of
       Inl e \<Rightarrow> throw (InternalServerError (''Failed to get address: '' @ e))
     | Inr address \<Rightarrow> ret address)"

definition api_create_address_with_payment_id ::
  "api_tools \<Rightarrow> string \<Rightarrow> string \<Rightarrow> (string \<times> string \<times> string) apim" where
  "api_create_address_with_payment_id A name payment_id_hex =
     (case x_unhex (ap_externals A) payment_id_hex of
        None \<Rightarrow> throw (BadRequest (''Invalid hex in payment_id_hex: '' @ ap_hex_error A payment_id_hex))
      | Some payment_id \<Rightarrow> with_account A name (\<lambda>account.
          case ap_address A account (Some payment_id) of
            Inl e \<Rightarrow> throw (InternalServerError (''Failed to create address with payment ID: '' @ e))
          | Inr (address, emoji) \<Rightarrow> ret (address, emoji, payment_id_hex)))"

record scan_status_response =
  ss_height :: u64
  ss_hash :: string
  ss_scanned_at :: string

definition scan_status_of :: "api_tools \<Rightarrow> latest_scanned_block option \<Rightarrow> scan_status_response" where
  "scan_status_of A found = (case found of
      Some b \<Rightarrow> \<lparr>ss_height = lsb_height b, ss_hash = x_hex (ap_externals A) (lsb_hash b),
        ss_scanned_at = ap_column_time A (lsb_scanned_at b)\<rparr>
    | None \<Rightarrow> \<lparr>ss_height = 0, ss_hash = [], ss_scanned_at = []\<rparr>)"

definition api_get_scan_status :: "api_tools \<Rightarrow> string \<Rightarrow> scan_status_response apim" where
  "api_get_scan_status A name = with_account A name (\<lambda>account.
     bindM (api_db A (get_latest_scanned_block_with_timestamp (a_id account))) (\<lambda>found.
       ret (scan_status_of A found)))"

section \<open>Lists\<close>

definition api_get_events :: "api_tools \<Rightarrow> string \<Rightarrow> pagination \<Rightarrow> event_row list apim" where
  "api_get_events A name p = (case page_bounds p of (limit, offset) \<Rightarrow>
     with_account A name (\<lambda>account. api_db A (get_events_by_account_id (a_id account) limit offset)))"

record completed_response =
  cr_id :: u64
  cr_pending_id :: string
  cr_account :: i64
  cr_status :: string
  cr_rejected_reason :: "string option"
  cr_kernel_excess_hex :: string
  cr_sent_payref :: "string option"
  cr_sent_hash :: "string option"
  cr_mined_height :: "i64 option"
  cr_mined_block_hex :: "string option"
  cr_confirmation_height :: "i64 option"
  cr_attempts :: int
  cr_created_at :: string
  cr_updated_at :: string

definition completed_response_of :: "api_tools \<Rightarrow> completed_transaction \<Rightarrow> completed_response" where
  "completed_response_of A tx = \<lparr>cr_id = ct_id tx, cr_pending_id = ct_pending_id tx,
     cr_account = ct_account tx, cr_status = completed_status_text (ct_status tx),
     cr_rejected_reason = ct_rejected_reason tx,
     cr_kernel_excess_hex = x_hex (ap_externals A) (ct_kernel_excess tx),
     cr_sent_payref = ct_sent_payref tx, cr_sent_hash = ct_sent_hash tx,
     cr_mined_height = ct_mined_height tx,
     cr_mined_block_hex = map_option (x_hex (ap_externals A)) (ct_mined_block tx),
     cr_confirmation_height = ct_confirmation_height tx, cr_attempts = ct_attempts tx,
     cr_created_at = ap_rfc3339 A (ct_created tx), cr_updated_at = ap_rfc3339 A (ct_updated tx)\<rparr>"

definition api_get_completed_transactions ::
  "api_tools \<Rightarrow> string \<Rightarrow> pagination \<Rightarrow> completed_response list apim" where
  "api_get_completed_transactions A name p = (case page_bounds p of (limit, offset) \<Rightarrow>
     with_account A name (\<lambda>account.
       bindM (api_db A (get_completed_transactions_by_account (a_id account) limit offset)) (\<lambda>txs.
         ret (map (completed_response_of A) txs))))"

definition api_get_displayed_transactions ::
  "api_tools \<Rightarrow> string \<Rightarrow> pagination \<Rightarrow> displayed_transaction list apim" where
  "api_get_displayed_transactions A name p = (case page_bounds p of (limit, offset) \<Rightarrow>
     with_account A name (\<lambda>account.
       api_db A (get_displayed_transactions_paginated (a_id account) limit offset)))"

section \<open>Lookup by payment reference\<close>

definition api_get_completed_transaction_by_payref ::
  "api_tools \<Rightarrow> string \<Rightarrow> string \<Rightarrow> completed_response apim" where
  "api_get_completed_transaction_by_payref A name payref = with_account A name (\<lambda>account.
     bindM (api_db A (get_completed_transaction_by_payref (a_id account) payref)) (\<lambda>live. case live of
       Some tx \<Rightarrow> ret (completed_response_of A tx)
     | None \<Rightarrow>
         bindM (api_db A (get_transaction_id_by_historical_payref (a_id account) payref)) (\<lambda>historical.
         bindM (case historical of None \<Rightarrow> ret None
                | Some tx_id \<Rightarrow> api_db A (get_completed_transaction_by_id tx_id)) (\<lambda>found. case found of
           Some tx \<Rightarrow> ret (completed_response_of A tx)
         | None \<Rightarrow> throw (ApiNotFound (''No completed transaction found with payref: '' @ payref))))))"

definition api_get_displayed_transactions_by_payref ::
  "api_tools \<Rightarrow> string \<Rightarrow> string \<Rightarrow> displayed_transaction list apim" where
  "api_get_displayed_transactions_by_payref A name payref = with_account A name (\<lambda>account.
     bindM (api_db A (get_displayed_transactions_by_payref (a_id account) payref)) (\<lambda>live.
       if live \<noteq> [] then ret live
       else
         bindM (api_db A (get_transaction_id_by_historical_payref (a_id account) payref)) (\<lambda>historical.
           case historical of
             None \<Rightarrow> ret []
           | Some tx_id \<Rightarrow>
               bindM (api_db A (get_displayed_transaction_by_id (show_nat tx_id))) (\<lambda>found.
                 ret (case found of None \<Rightarrow> [] | Some tx \<Rightarrow> [tx])))))"

section \<open>Locking funds and building transactions\<close>

record lock_funds_request =
  lq_amount :: u64
  lq_num_outputs :: "nat option"
  lq_fee_per_gram :: "u64 option"
  lq_size :: "nat option"
  lq_seconds :: "u64 option"
  lq_key :: "string option"
  lq_window :: "u64 option"

definition lock_failed :: "api_tools \<Rightarrow> lock_error \<Rightarrow> api_error" where
  "lock_failed A e = (case e of LockPanic \<Rightarrow> panic_error A | _ \<Rightarrow> FailedToLockFunds (ap_describe_lock A e))"

definition api_lock_funds ::
  "api_tools \<Rightarrow> fee_tools \<Rightarrow> string \<Rightarrow> string \<Rightarrow> string \<Rightarrow> lock_funds_request \<Rightarrow> lock_funds_result apim" where
  \<comment> \<open>the three defaulted fields are unwrapped with \<open>expect\<close>\<close>
  "api_lock_funds A T fresh_key fresh_id name q = with_account A name (\<lambda>account.
     case (lq_num_outputs q, lq_fee_per_gram q, lq_seconds q) of
       (Some num_outputs, Some fee_per_gram, Some seconds) \<Rightarrow>
         map_error (lock_failed A) (lock_funds (ap_externals A) T fresh_key fresh_id
           \<lparr>lr_account = a_id account, lr_amount = lq_amount q, lr_outputs = num_outputs,
            lr_fee_per_gram = fee_per_gram, lr_size = lq_size q, lr_key = lq_key q,
            lr_seconds = seconds, lr_window = opt_or (ap_required A) (lq_window q)\<rparr>)
     | _ \<Rightarrow> throw (panic_error A))"

record create_transaction_request =
  cq_recipients :: "recipient list"
  cq_seconds :: "u64 option"
  cq_key :: "string option"
  cq_window :: "u64 option"

definition api_create_unsigned_transaction ::
  "api_tools \<Rightarrow> fee_tools \<Rightarrow> ('b, 'm, 'u) signing_tools \<Rightarrow> string \<Rightarrow> string \<Rightarrow> u64 \<Rightarrow> string \<Rightarrow>
     create_transaction_request \<Rightarrow> 'u apim" where
  "api_create_unsigned_transaction A T G fresh_key fresh_id tx_id name q = with_account A name (\<lambda>account.
     bindM (map_error (lock_failed A) (lock_funds (ap_externals A) T fresh_key fresh_id
        \<lparr>lr_account = a_id account, lr_amount = sum_list (map rc_amount (cq_recipients q)),
         lr_outputs = length (cq_recipients q), lr_fee_per_gram = 5, lr_size = None, lr_key = cq_key q,
         lr_seconds = opt_or 86400 (cq_seconds q), lr_window = opt_or (ap_required A) (cq_window q)\<rparr>))
       (\<lambda>locked_funds.
     case create_unsigned_transaction G tx_id account locked_funds (cq_recipients q) 5 of
       Inl e \<Rightarrow> throw (FailedCreateUnsignedTx e)
     | Inr result \<Rightarrow> ret result))"

record estimate_fee_request =
  eq_amount :: u64
  eq_num_outputs :: nat
  eq_window :: "u64 option"
  eq_size :: "nat option"

definition api_estimate_fees ::
  "api_tools \<Rightarrow> fee_tools \<Rightarrow> fee_stats list option \<Rightarrow> string \<Rightarrow> estimate_fee_request \<Rightarrow> fee_estimate list apim" where
  \<comment> \<open>the response type repeats the fields of the estimate\<close>
  "api_estimate_fees A T stats name q =
     map_error (\<lambda>e. InternalServerError (ap_describe_estimate A e))
       (estimate_fees T stats name (eq_amount q) (eq_num_outputs q)
          (opt_or (ap_required A) (eq_window q)) (eq_size q))"

section \<open>Burning funds\<close>

record burn_funds_request =
  bq_amount :: u64
  bq_claim_key :: "string option"
  bq_sidechain_key :: "string option"
  bq_fee_per_gram :: "u64 option"
  bq_payment_id :: "string option"
  bq_key :: "string option"
  bq_seconds :: "u64 option"

record burn_tools =
  bu_parse_public :: "string \<Rightarrow> string + string"   \<comment> \<open>\<open>parse_public_key_hex\<close>\<close>
  bu_parse_private :: "string \<Rightarrow> string + unit"     \<comment> \<open>\<open>parse_private_key_hex\<close>\<close>
  bu_address :: "account_row \<Rightarrow> string + string"
  bu_build :: "account_row \<Rightarrow> burn_tx_params \<Rightarrow> wallet_output list \<Rightarrow> string + burn_build"
  bu_uuid_ok :: "string \<Rightarrow> bool"
  bu_url_error :: "string option"                   \<comment> \<open>the address of the node does not parse\<close>
  bu_connect :: "string + (bytes \<Rightarrow> string + submission)"
    \<comment> \<open>the client of the node, or why it cannot be made; the transaction as it is serialised\<close>

definition parse_key :: "(string \<Rightarrow> string + 'k) \<Rightarrow> string \<Rightarrow> string option \<Rightarrow> api_error + 'k option" where
  "parse_key parse label key = (case key of None \<Rightarrow> Inr None
     | Some k \<Rightarrow> (case parse k of Inl e \<Rightarrow> Inl (BadRequest (''Invalid '' @ label @ '': '' @ e))
         | Inr v \<Rightarrow> Inr (Some v)))"

definition burn_prepare ::
  "api_tools \<Rightarrow> fee_tools \<Rightarrow> burn_tools \<Rightarrow> string \<Rightarrow> string \<Rightarrow> string \<Rightarrow> string \<Rightarrow> burn_funds_request \<Rightarrow>
     burn_tx_result apim" where
  \<comment> \<open>the first blocking task; \<open>new_key\<close> is a random idempotency key\<close>
  "burn_prepare A T B new_key fresh_key fresh_id name q =
     bindM (lift_result (parse_key (bu_parse_public B) ''claim_public_key'' (bq_claim_key q))) (\<lambda>claim_key.
     bindM (lift_result (parse_key (bu_parse_private B) ''sidechain_deployment_key'' (bq_sidechain_key q))) (\<lambda>_.
     let key = opt_or new_key (bq_key q) in
     with_account A name (\<lambda>account.
       bindM (map_error (\<lambda>e. FailedToBurnFunds (ap_describe_send A e))
         (create_burn_tx (ap_externals A) T (bu_address B) (bu_build B) fresh_key fresh_id account
           \<lparr>bt_account_id = a_id account, bt_amount = bq_amount q, bt_claim_key = claim_key,
            bt_fee_per_gram = opt_or 5 (bq_fee_per_gram q), bt_payment_id = bq_payment_id q,
            bt_key = Some key, bt_seconds = opt_or 86400 (bq_seconds q), bt_window = ap_required A\<rparr>))
         (\<lambda>result.
       seqM (map_error (\<lambda>e. ApiDbError (ap_describe_send A e))
           (persist_burn_records (ap_externals A) (bu_uuid_ok B) result (a_id account) key))
         (ret result)))))"

definition burn_submit :: "burn_tools \<Rightarrow> burn_tx_result \<Rightarrow> api_error + unit" where
  "burn_submit B result = (case bu_url_error B of
      Some e \<Rightarrow> Inl (InternalServerError (''Invalid base node URL: '' @ e))
    | None \<Rightarrow> (case bu_connect B of
      Inl e \<Rightarrow> Inl (InternalServerError e)
    | Inr submit \<Rightarrow> (case bind_result (br_serialized result) submit of
        Inl e \<Rightarrow> Inl (FailedToBurnFunds (''Broadcast failed: '' @ e))
      | Inr response \<Rightarrow>
          if sub_accepted response then Inr ()
          else Inl (FailedToBurnFunds (''Transaction rejected: '' @ sub_reason response)))))"

definition api_burn_funds ::
  "api_tools \<Rightarrow> fee_tools \<Rightarrow> burn_tools \<Rightarrow> string \<Rightarrow> string \<Rightarrow> string \<Rightarrow> string \<Rightarrow> burn_funds_request \<Rightarrow>
     (u64 \<times> bytes) apim" where
  "api_burn_funds A T B new_key fresh_key fresh_id name q =
     bindM (burn_prepare A T B new_key fresh_key fresh_id name q) (\<lambda>result.
     seqM (lift_result (burn_submit B result))
     (seqM (api_db A (mark_completed_transaction_as_broadcasted (ap_externals A) (br_tx_id result) 1))
       (ret (br_tx_id result, br_output_hash result))))"

end
