(* ===== verification/Webhook_Delivery.thy ===== *)
theory Webhook_Delivery
  imports Webhooks
begin

text \<open>
  The delivery of a webhook (\<open>webhooks/sender.rs\<close>), the loop of the delivery worker
  (\<open>webhooks/worker.rs\<close>), and what every background task of the daemon has in common: it
  does its work at each tick, an error is only logged, and a shutdown ends it. The keyed hash
  and the HTTP request are arguments.
\<close>

section \<open>Background tasks\<close>

datatype 'w task_event = Tick 'w | Shutdown

fun background_task :: "('w \<Rightarrow> ('s, 'e, unit) run) \<Rightarrow> 'w task_event list \<Rightarrow> 's \<Rightarrow> 's" where
  \<comment> \<open>\<open>tokio::select!\<close> in a loop; a list that is used up is a task that still waits\<close>
  "background_task work [] s = s"
| "background_task work (Shutdown # evs) s = s"
| "background_task work (Tick w # evs) s = background_task work evs (snd (work w s))"

section \<open>The sender\<close>

datatype http_result = HttpResponse nat string | HttpFailure string

record sender_tools =
  st_hmac :: "string \<Rightarrow> string \<Rightarrow> bytes option"     \<comment> \<open>secret and message; \<open>None\<close>: invalid key length\<close>
  st_hex :: "bytes \<Rightarrow> string"
  st_status :: "nat \<Rightarrow> string"                      \<comment> \<open>\<open>StatusCode\<close> as it is shown\<close>
  st_post :: "string \<Rightarrow> string \<Rightarrow> string \<Rightarrow> string \<Rightarrow> http_result"
    \<comment> \<open>URL, signature header, timestamp header, body\<close>

definition sign_payload :: "sender_tools \<Rightarrow> string \<Rightarrow> u64 \<Rightarrow> string \<Rightarrow> string + string" where
  "sign_payload W secret timestamp payload =
     (case st_hmac W secret (show_nat timestamp @ ''.'' @ payload) of
        None \<Rightarrow> Inl ''Invalid key length''
      | Some code \<Rightarrow> Inr (''t='' @ show_nat timestamp @ '',v1='' @ st_hex W code))"

definition delivery_of_response :: "sender_tools \<Rightarrow> http_result \<Rightarrow> delivery_result" where
  \<comment> \<open>\<open>is_success\<close> is 2xx, \<open>is_client_error\<close> 4xx; everything else can be retried\<close>
  "delivery_of_response W r = (case r of
      HttpFailure e \<Rightarrow> RetryableFailure (''Network Error: '' @ e)
    | HttpResponse code body \<Rightarrow>
        if 200 \<le> code \<and> code < 300 then DeliverySuccess
        else if 400 \<le> code \<and> code < 500
        then PermanentFailure (''Client Error '' @ st_status W code @ '': '' @ take 200 body)
        else RetryableFailure (''Server Error '' @ st_status W code))"

definition send_webhook :: "sender_tools \<Rightarrow> u64 \<Rightarrow> string \<Rightarrow> string \<Rightarrow> string \<Rightarrow> delivery_result" where
  "send_webhook W now url secret payload = (case sign_payload W secret now payload of
      Inl e \<Rightarrow> PermanentFailure (''Signing error: '' @ e)
    | Inr signature \<Rightarrow> delivery_of_response W (st_post W url signature (show_nat now) payload))"

section \<open>The worker\<close>

record webhook_worker_config =
  ww_enabled :: bool
  ww_secret :: "string option"
  ww_only_types :: "string list option"

record webhook_tick =
  wt_externals :: externals                    \<comment> \<open>with the clock of this tick\<close>
  wt_sender :: sender_tools
  wt_now :: u64
  wt_draw :: "webhook_item \<Rightarrow> u64 \<times> bool"

definition worker_batch :: "string \<Rightarrow> webhook_tick \<Rightarrow> unit dbm" where
  "worker_batch secret t = process_batch (wt_externals t)
     (\<lambda>item. send_webhook (wt_sender t) (wt_now t) (wi_url item) secret (wi_payload item)) (wt_draw t)"

definition run_webhook_worker ::
  "webhook_worker_config \<Rightarrow> webhook_tick task_event list \<Rightarrow> db \<Rightarrow> db" where
  "run_webhook_worker c evs d = (case ww_secret c of
      None \<Rightarrow> d
    | Some secret \<Rightarrow> if ww_enabled c then background_task (worker_batch secret) evs d else d)"

end
