(* ===== verification/Burn_Worker.thy ===== *)
theory Burn_Worker
  imports Burn_Proofs Webhook_Delivery Tx_Building
begin

text \<open>
  The burn proof worker, \<open>tasks/burn_proof_worker.rs\<close>: for every burn proof that waits for its
  merkle proof it asks the node, assembles the complete proof, writes it to a file and marks
  the row. The state is the database and the files, by name. The node, the decoding of keys
  and the file system are the fields of \<open>worker_tools\<close>; a file holds the decoded proof.
\<close>

record merkle_response =
  mk_block :: bytes
  mk_proof :: bytes
  mk_leaf :: u64

record complete_proof =
  cp_burn_key :: bytes
  cp_commitment :: bytes
  cp_ownership :: "bytes \<times> bytes"
  cp_merkle :: merkle_response
  cp_version :: nat
  cp_fee :: u64
  cp_lock_height :: u64
  cp_excess :: bytes
  cp_excess_sig :: "bytes \<times> bytes"
  cp_value :: u64
  cp_offset_key :: bytes
  cp_encrypted :: bytes

record worker_tools =
  wk_externals :: externals
  wk_merkle :: "bytes \<Rightarrow> bytes \<Rightarrow> string + merkle_response"   \<comment> \<open>\<open>get_kernel_merkle_proof\<close>\<close>
  wk_point_error :: "bytes \<Rightarrow> string option"    \<comment> \<open>decoding of a compressed key or commitment\<close>
  wk_scalar_error :: "bytes \<Rightarrow> string option"   \<comment> \<open>decoding of a private key\<close>
  wk_hex_error :: "string \<Rightarrow> string"
  wk_write_error :: "string \<Rightarrow> complete_proof \<Rightarrow> string option"

record worker_state =
  ws_db :: db
  ws_files :: "string \<rightharpoonup> complete_proof"

type_synonym 'a workerm = "(worker_state, string, 'a) run"

definition canonical :: "(bytes \<Rightarrow> string option) \<Rightarrow> string \<Rightarrow> bytes \<Rightarrow> string + bytes" where
  "canonical error_of label b = (case error_of b of None \<Rightarrow> Inr b
     | Some e \<Rightarrow> Inl (''Invalid '' @ label @ '': '' @ e))"

definition assemble_complete_proof ::
  "worker_tools \<Rightarrow> burn_row \<Rightarrow> merkle_response \<Rightarrow> string + complete_proof" where
  "assemble_complete_proof K proof merkle =
     bind_result (canonical (wk_point_error K) ''sender_offset_public_key'' (bp_offset_key proof)) (\<lambda>offset_key.
     bind_result (canonical (wk_point_error K) ''commitment'' (bp_commitment proof)) (\<lambda>commitment.
     bind_result (canonical (wk_point_error K) ''ownership_proof_nonce'' (bp_ownership_nonce proof)) (\<lambda>nonce.
     bind_result (canonical (wk_scalar_error K) ''ownership_proof_sig'' (bp_ownership_sig proof)) (\<lambda>sig.
     bind_result (canonical (wk_point_error K) ''kernel_excess'' (bp_kernel_excess proof)) (\<lambda>excess.
     bind_result (canonical (wk_point_error K) ''kernel_excess_nonce'' (bp_kernel_nonce proof)) (\<lambda>excess_nonce.
     bind_result (canonical (wk_scalar_error K) ''kernel_excess_sig'' (bp_kernel_sig proof)) (\<lambda>excess_sig.
     bind_result (case x_unhex (wk_externals K) (bp_claim_key proof) of
         None \<Rightarrow> Inl (''Invalid claim_public_key hex: '' @ wk_hex_error K (bp_claim_key proof))
       | Some b \<Rightarrow> canonical (wk_point_error K) ''claim_public_key'' b) (\<lambda>burn_key.
     Inr \<lparr>cp_burn_key = burn_key, cp_commitment = commitment, cp_ownership = (nonce, sig),
       cp_merkle = merkle, cp_version = 0, cp_fee = u64_of_i64 (bp_kernel_fee proof),
       cp_lock_height = u64_of_i64 (bp_lock_height proof), cp_excess = excess,
       cp_excess_sig = (excess_nonce, excess_sig), cp_value = u64_of_i64 (bp_value proof),
       cp_offset_key = offset_key, cp_encrypted = bp_encrypted proof\<rparr>))))))))"

definition proof_file_name :: "worker_tools \<Rightarrow> burn_row \<Rightarrow> string" where
  "proof_file_name K proof = bp_claim_key proof @ ''-'' @
     x_hex (wk_externals K) (bp_commitment proof) @ ''.json''"

definition write_proof_file :: "worker_tools \<Rightarrow> string \<Rightarrow> complete_proof \<Rightarrow> unit workerm" where
  "write_proof_file K name proof = (case wk_write_error K name proof of
      Some e \<Rightarrow> throw e
    | None \<Rightarrow> modify (\<lambda>s. s\<lparr>ws_files := (ws_files s)(name \<mapsto> proof)\<rparr>))"

definition on_worker_db :: "'a dbm \<Rightarrow> 'a workerm" where
  \<comment> \<open>a database error ends the work on the proof; its text goes to the log only\<close>
  "on_worker_db m = (\<lambda>s. case m (ws_db s) of (r, d') \<Rightarrow> (map_sum (\<lambda>_. ''database'') id r, s\<lparr>ws_db := d'\<rparr>))"

definition process_single_proof :: "worker_tools \<Rightarrow> burn_row \<Rightarrow> unit workerm" where
  "process_single_proof K proof =
     bindM (lift_result (bind_result (wk_merkle K (bp_kernel_nonce proof) (bp_kernel_sig proof))
         (assemble_complete_proof K proof))) (\<lambda>complete.
     seqM (write_proof_file K (proof_file_name K proof) complete)
       (on_worker_db (mark_burn_proof_complete (wk_externals K) (bp_id proof))))"

definition process_pending_proofs :: "worker_tools \<Rightarrow> unit workerm" where
  "process_pending_proofs K = bindM (on_worker_db get_pending_burn_proofs) (\<lambda>pending.
     forM pending (\<lambda>proof. ignore_error (process_single_proof K proof)))"

definition run_burn_proof_worker :: "worker_tools task_event list \<Rightarrow> worker_state \<Rightarrow> worker_state" where
  "run_burn_proof_worker evs s = background_task process_pending_proofs evs s"

end
