(* ===== verification/Tx_History.thy ===== *)
theory Tx_History
  imports Displayed_Txs Block_Processor
begin

text \<open>
  The transaction history service, \<open>transactions/transaction_history.rs\<close>: queries over the
  table of displayed transactions, and the two ways of handing the whole history to a
  listener at the start.
\<close>

datatype history_error = HistoryDb wallet_error | HistoryPanic

type_synonym 'a historym = "(db, history_error, 'a) run"

definition load_all_transactions :: "i64 \<Rightarrow> displayed_transaction list historym" where
  "load_all_transactions a = map_error HistoryDb (get_displayed_transactions_by_account a)"

definition load_transactions_excluding_reorged :: "i64 \<Rightarrow> displayed_transaction list historym" where
  "load_transactions_excluding_reorged a =
     map_error HistoryDb (get_displayed_transactions_excluding_reorged a)"

definition load_transactions_by_status ::
  "i64 \<Rightarrow> display_status \<Rightarrow> displayed_transaction list historym" where
  "load_transactions_by_status a status =
     map_error HistoryDb (get_displayed_transactions_by_status a status)"

definition load_transaction_by_id :: "string \<Rightarrow> displayed_transaction option historym" where
  "load_transaction_by_id i = map_error HistoryDb (get_displayed_transaction_by_id i)"

definition load_transactions_paginated :: "i64 \<Rightarrow> i64 \<Rightarrow> i64 \<Rightarrow> displayed_transaction list historym" where
  "load_transactions_paginated a limit offset =
     map_error HistoryDb (get_displayed_transactions_paginated a limit offset)"

definition initial_event :: "i64 \<Rightarrow> displayed_transaction list \<Rightarrow> processing_event" where
  "initial_event a txs = TransactionsReady a txs None True"

definition load_and_emit :: "i64 \<Rightarrow> (nat \<times> processing_event list) historym" where
  \<comment> \<open>the count and the events given to \<open>emit_fn\<close>\<close>
  "load_and_emit a = bindM (load_all_transactions a) (\<lambda>txs.
     ret (length txs, if txs = [] then [] else [initial_event a txs]))"

function chunks :: "nat \<Rightarrow> 'a list \<Rightarrow> 'a list list" where
  \<comment> \<open>\<open>slice::chunks\<close>, for a size that is not zero\<close>
  "chunks n xs = (if n = 0 \<or> xs = [] then [] else take n xs # chunks n (drop n xs))"
  by pat_completeness auto
termination
  by (relation "measure (\<lambda>(n, xs). length xs)") auto

declare chunks.simps [simp del]

definition emit_in_chunks :: "i64 \<Rightarrow> nat \<Rightarrow> (nat \<times> processing_event list) historym" where
  \<comment> \<open>a chunk size of zero is a panic\<close>
  "emit_in_chunks a chunk_size = bindM (load_all_transactions a) (\<lambda>txs.
     if chunk_size = 0 then throw HistoryPanic
     else ret (length txs, map (initial_event a) (chunks chunk_size txs)))"

lemma chunks_concat: "0 < n \<Longrightarrow> concat (chunks n xs) = xs"
  by (induction n xs rule: chunks.induct) (subst chunks.simps, auto)

lemma chunks_sizes: "0 < n \<Longrightarrow> c \<in> set (chunks n xs) \<Longrightarrow> c \<noteq> [] \<and> length c \<le> n"
proof (induction n xs rule: chunks.induct)
  case (1 n xs)
  then show ?case by (subst (asm) chunks.simps) (auto split: if_splits)
qed

end
