(* ===== verification/Service_Properties.thy ===== *)
theory Service_Properties
  imports Api Burn_Worker Tx_History Reorg_Effects Samples
begin

text \<open>
  Properties of the services around the wallet core: a webhook is delivered at most ten
  times, the burn proof worker completes exactly the proofs it can complete and the amounts
  survive their columns, and a payment reference from before a reorganisation still finds
  its transaction over the API.
\<close>

section \<open>Webhook delivery\<close>

definition final_hook :: "webhook_row \<Rightarrow> bool" where
  "final_hook r \<longleftrightarrow> w_status r = webhook_status_text HookSuccess \<or>
     w_status r = webhook_status_text HookPermanentFailure"

definition hook_ok :: "webhook_row \<Rightarrow> bool" where
  "hook_ok r \<longleftrightarrow> 0 \<le> w_attempts r \<and> w_attempts r \<le> max_attempts \<and>
     (w_attempts r = max_attempts \<longrightarrow> final_hook r)"

definition hook_step :: "webhook_row \<Rightarrow> webhook_row \<Rightarrow> bool" where
  \<comment> \<open>what delivery may do to a row\<close>
  "hook_step r r' \<longleftrightarrow> w_id r' = w_id r \<and> w_attempts r \<le> w_attempts r' \<and>
     (final_hook r \<longrightarrow> r' = r) \<and> (hook_ok r \<longrightarrow> hook_ok r')"

lemma hook_step_refl [simp]: "hook_step r r"
  by (simp add: hook_step_def)

lemma hook_step_trans: "hook_step r s \<Longrightarrow> hook_step s t \<Longrightarrow> hook_step r t"
  by (auto simp: hook_step_def)

definition row_after ::
  "externals \<Rightarrow> (webhook_item \<Rightarrow> delivery_result) \<Rightarrow> (webhook_item \<Rightarrow> u64 \<times> bool) \<Rightarrow>
     webhook_item \<Rightarrow> webhook_row \<Rightarrow> webhook_row" where
  "row_after X send draw item r =
     (if w_id r = wi_id item
      then case item_outcome (x_now X) (fst (draw item)) (snd (draw item)) (send item) item of
          (status, next_retry, msg) \<Rightarrow> r\<lparr>w_status := webhook_status_text status,
            w_attempts := wi_attempts item + 1, w_next_retry := next_retry, w_error := msg\<rparr>
      else r)"

lemma row_after_id [simp]: "w_id (row_after X send draw item r) = w_id r"
  by (simp add: row_after_def split: prod.splits)

lemma process_item_rows:
  "process_item X send draw item d =
     (Inr (), d\<lparr>webhooks := map (row_after X send draw item) (webhooks d)\<rparr>)"
  by (auto simp: process_item_def update_webhook_status_def modify_def update_where_def row_after_def
      split: prod.splits)

lemma process_items_rows:
  "forM items (process_item X send draw) d =
     (Inr (), d\<lparr>webhooks := map (fold (row_after X send draw) items) (webhooks d)\<rparr>)"
proof (induction items arbitrary: d)
  case Nil
  show ?case by (simp add: ret_def)
next
  case (Cons item items)
  show ?case by (simp add: seqM_Inr [OF process_item_rows] Cons.IH comp_def)
qed

lemma fold_row_after:
  "distinct (map wi_id items) \<Longrightarrow> fold (row_after X send draw) items r =
     (case List.find (\<lambda>i. wi_id i = w_id r) items of None \<Rightarrow> r | Some i \<Rightarrow> row_after X send draw i r)"
proof (induction items arbitrary: r)
  case (Cons item items)
  have none: "List.find (\<lambda>i. wi_id i = wi_id item) items = None"
    using Cons.prems by (auto simp: find_None_iff image_iff)
  show ?case
  proof (cases "wi_id item = w_id r")
    case True
    with none have "List.find (\<lambda>i. wi_id i = w_id r) items = None" by simp
    with Cons True show ?thesis by simp
  next
    case False
    then have "row_after X send draw item r = r" by (simp add: row_after_def)
    with Cons False show ?thesis by simp
  qed
qed simp

lemma delivered_row_step:
  assumes "webhook_due now r"
  shows "hook_step r (row_after X send draw (webhook_item_of_row r) r)"
proof -
  have "\<not> final_hook r" using assms by (auto simp: webhook_due_def final_hook_def)
  then show ?thesis
    by (auto simp: hook_step_def row_after_def webhook_item_of_row_def hook_ok_def item_outcome_def
        final_hook_def calculate_backoff_def max_attempts_def split: delivery_result.splits prod.splits if_splits)
qed

lemma page_subset: "set (page l off xs) \<subseteq> set xs"
  by (auto simp: page_def Let_def dest: in_set_takeD in_set_dropD)

lemma page_distinct: "distinct (map f xs) \<Longrightarrow> distinct (map f (page l off xs))"
  by (simp add: page_def Let_def take_map [symmetric] drop_map [symmetric])

lemma distinct_map_sort_key: "distinct (map f (sort_key k xs)) \<longleftrightarrow> distinct (map f xs)"
  by (metis distinct_map mset_map mset_sort distinct_sort set_sort mset_eq_imp_distinct_iff)

lemma process_batch_steps:
  assumes "distinct (map w_id (webhooks d))"
  shows "list_all2 hook_step (webhooks d) (webhooks (snd (process_batch X send draw d)))"
proof -
  let ?due = "page webhook_batch_size 0 (sort_key w_next_retry (filter (webhook_due (x_now X)) (webhooks d)))"
  have due: "set ?due \<subseteq> {r \<in> set (webhooks d). webhook_due (x_now X) r}"
    using page_subset by fastforce
  have "distinct (map w_id ?due)"
    by (intro page_distinct) (simp add: distinct_map_sort_key distinct_map_filter assms)
  moreover have "map wi_id (map webhook_item_of_row rows) = map w_id rows" for rows
    by (simp add: webhook_item_of_row_def)
  ultimately have d: "distinct (map wi_id (map webhook_item_of_row ?due))" by (simp only:)
  have "hook_step r (fold (row_after X send draw) (map webhook_item_of_row ?due) r)" if r: "r \<in> set (webhooks d)" for r
  proof (cases "List.find (\<lambda>i. wi_id i = w_id r) (map webhook_item_of_row ?due)")
    case (Some i)
    then have "i \<in> set (map webhook_item_of_row ?due)" "wi_id i = w_id r"
      by (auto simp: find_Some_iff)
    then obtain r0 where r0: "r0 \<in> set ?due" "i = webhook_item_of_row r0" by auto
    then have "w_id r0 = w_id r" using \<open>wi_id i = w_id r\<close> by (simp add: webhook_item_of_row_def)
    with r0 due r assms have "r0 = r" by (auto simp: distinct_map inj_on_def)
    with r0 due have "hook_step r (row_after X send draw i r)"
      using delivered_row_step by blast
    with Some show ?thesis by (simp only: fold_row_after [OF d] option.case)
  qed (simp only: fold_row_after [OF d] option.case hook_step_refl)
  then show ?thesis
    by (simp add: process_batch_def fetch_due_webhooks_def bindM_def gets_def process_items_rows
        list_all2_conv_all_nth)
qed

lemma hook_steps_ids: "list_all2 hook_step rows rows' \<Longrightarrow> map w_id rows' = map w_id rows"
  by (induction rule: list_all2_induct) (auto simp: hook_step_def)

lemma background_hook_steps:
  "distinct (map w_id (webhooks d)) \<Longrightarrow>
     list_all2 hook_step (webhooks d) (webhooks (background_task (worker_batch secret) evs d))"
proof (induction "worker_batch secret" evs d rule: background_task.induct)
  case (3 t evs d)
  let ?d = "snd (worker_batch secret t d)"
  have step: "list_all2 hook_step (webhooks d) (webhooks ?d)"
    unfolding worker_batch_def by (rule process_batch_steps [OF "3.prems"])
  have "list_all2 hook_step (webhooks ?d) (webhooks (background_task (worker_batch secret) evs ?d))"
    by (rule "3.hyps") (simp add: hook_steps_ids [OF step] "3.prems")
  from list_all2_trans [OF hook_step_trans step this] show ?case by simp
qed (simp_all add: list_all2_refl)


section \<open>Burn proofs\<close>

definition completed_burn :: "i64 \<Rightarrow> burn_row \<Rightarrow> burn_row" where
  "completed_burn now b = b\<lparr>bp_status := burn_status_complete, bp_updated := now\<rparr>"

definition finished_proof :: "worker_tools \<Rightarrow> burn_row \<Rightarrow> complete_proof option" where
  \<comment> \<open>the proof of a burn whose request, assembly and file all work\<close>
  "finished_proof K b =
     (case bind_result (wk_merkle K (bp_kernel_nonce b) (bp_kernel_sig b)) (assemble_complete_proof K b) of
        Inl _ \<Rightarrow> None
      | Inr c \<Rightarrow> if wk_write_error K (proof_file_name K b) c = None then Some c else None)"

definition proof_step :: "worker_tools \<Rightarrow> burn_row \<Rightarrow> worker_state \<Rightarrow> worker_state" where
  "proof_step K b s = (case finished_proof K b of None \<Rightarrow> s
     | Some c \<Rightarrow> s\<lparr>ws_db := (ws_db s)\<lparr>burns := update_where (\<lambda>r. bp_id r = bp_id b)
           (completed_burn (x_now (wk_externals K))) (burns (ws_db s))\<rparr>,
         ws_files := (ws_files s)(proof_file_name K b \<mapsto> c)\<rparr>)"

lemma single_proof_step: "snd (process_single_proof K b s) = proof_step K b s"
  by (auto simp: process_single_proof_def proof_step_def finished_proof_def write_proof_file_def
      on_worker_db_def mark_burn_proof_complete_def completed_burn_def [abs_def] bindM_def seqM_def
      lift_result_def modify_def throw_def split: sum.splits option.splits)

lemma forM_ignore: "forM xs (\<lambda>x. ignore_error (f x)) s = (Inr (), fold (\<lambda>x s. snd (f x s)) xs s)"
  by (induction xs arbitrary: s) (simp_all add: ret_def seqM_def bindM_def ignore_error_def)

lemma find_found: "List.find P xs = Some x \<Longrightarrow> x \<in> set xs \<and> P x"
  by (auto simp: find_Some_iff)

lemma proof_step_db:
  "ws_db (proof_step K b s) = (ws_db s)\<lparr>burns := update_where (\<lambda>r. finished_proof K b \<noteq> None \<and> bp_id r = bp_id b)
     (completed_burn (x_now (wk_externals K))) (burns (ws_db s))\<rparr>"
  by (cases "finished_proof K b") (simp_all add: proof_step_def update_where_def)

lemma completed_burn_twice:
  "(\<And>r. Q (completed_burn t r) = Q r) \<Longrightarrow>
   update_where Q (completed_burn t) (update_where P (completed_burn t) rows) =
     update_where (\<lambda>r. P r \<or> Q r) (completed_burn t) rows"
  by (induction rows) (auto simp: completed_burn_def)

lemma proof_steps_db:
  "ws_db (fold (proof_step K) bs s) = (ws_db s)\<lparr>burns :=
     update_where (\<lambda>r. \<exists>b \<in> set bs. finished_proof K b \<noteq> None \<and> bp_id r = bp_id b)
       (completed_burn (x_now (wk_externals K))) (burns (ws_db s))\<rparr>"
proof (induction bs arbitrary: s)
  case Nil
  show ?case by (simp add: update_where_def)
next
  case (Cons b bs)
  have twice: "update_where (\<lambda>r. \<exists>b \<in> set bs. finished_proof K b \<noteq> None \<and> bp_id r = bp_id b) (completed_burn t)
      (update_where (\<lambda>r. finished_proof K b \<noteq> None \<and> bp_id r = bp_id b) (completed_burn t) rows) =
    update_where (\<lambda>r. \<exists>b \<in> set (b # bs). finished_proof K b \<noteq> None \<and> bp_id r = bp_id b) (completed_burn t) rows"
    for t rows by (subst completed_burn_twice) (simp_all add: completed_burn_def)
  have "ws_db (fold (proof_step K) (b # bs) s) = (ws_db s)\<lparr>burns :=
      update_where (\<lambda>r. \<exists>b \<in> set bs. finished_proof K b \<noteq> None \<and> bp_id r = bp_id b) (completed_burn (x_now (wk_externals K)))
        (update_where (\<lambda>r. finished_proof K b \<noteq> None \<and> bp_id r = bp_id b) (completed_burn (x_now (wk_externals K)))
          (burns (ws_db s)))\<rparr>"
    by (simp add: Cons.IH proof_step_db)
  then show ?case by (simp only: twice)
qed

lemma proof_steps_files:
  "distinct (map (proof_file_name K) bs) \<Longrightarrow> ws_files (fold (proof_step K) bs s) n =
     (case List.find (\<lambda>b. proof_file_name K b = n \<and> finished_proof K b \<noteq> None) bs of
        None \<Rightarrow> ws_files s n | Some b \<Rightarrow> finished_proof K b)"
proof (induction bs arbitrary: s)
  case (Cons b bs)
  have none: "List.find (\<lambda>b'. proof_file_name K b' = proof_file_name K b \<and> finished_proof K b' \<noteq> None) bs = None"
    using Cons.prems by (auto simp: find_None_iff image_iff)
  show ?case
    using Cons none by (auto simp: proof_step_def split: option.splits)
qed simp

definition awaits_merkle :: "burn_row \<Rightarrow> bool" where
  "awaits_merkle b \<longleftrightarrow> bp_status b = burn_status_pending_merkle"


lemma canonical_ok_iff: "canonical error_of label b = Inr v \<longleftrightarrow> v = b \<and> error_of b = None"
  by (auto simp: canonical_def split: option.splits)

lemma insert_burn_proof_rows:
  "insert_burn_proof X p d = (Inr i, d') \<Longrightarrow> \<exists>row. burns d' = burns d @ [row] \<and>
     (\<forall>q \<in> set (burns d). bp_hash q \<noteq> nb_hash p) \<and> bp_value row = i64_of_u64 (nb_value p) \<and>
     bp_kernel_fee row = i64_of_u64 (nb_kernel_fee p) \<and> bp_lock_height row = i64_of_u64 (nb_lock_height p) \<and>
     bp_commitment row = nb_commitment p \<and> bp_encrypted row = nb_encrypted p"
  by (auto simp: insert_burn_proof_def statement_ok_iff Let_def split: if_splits)

lemma assembled_fields:
  assumes "assemble_complete_proof K b merkle = Inr c"
  shows "cp_value c = u64_of_i64 (bp_value b)" "cp_fee c = u64_of_i64 (bp_kernel_fee b)"
    "cp_lock_height c = u64_of_i64 (bp_lock_height b)" "cp_commitment c = bp_commitment b"
    "cp_encrypted c = bp_encrypted b" "cp_merkle c = merkle"
proof -
  note parts = assms [unfolded assemble_complete_proof_def bind_result_ok_iff canonical_ok_iff]
  have "\<exists>key. c = \<lparr>cp_burn_key = key, cp_commitment = bp_commitment b,
      cp_ownership = (bp_ownership_nonce b, bp_ownership_sig b), cp_merkle = merkle, cp_version = 0,
      cp_fee = u64_of_i64 (bp_kernel_fee b), cp_lock_height = u64_of_i64 (bp_lock_height b),
      cp_excess = bp_kernel_excess b, cp_excess_sig = (bp_kernel_nonce b, bp_kernel_sig b),
      cp_value = u64_of_i64 (bp_value b), cp_offset_key = bp_offset_key b, cp_encrypted = bp_encrypted b\<rparr>"
    using parts
    apply (elim exE conjE)
    apply (drule sum.inject(2) [THEN iffD1])
    apply hypsubst
    apply (rule exI)
    apply (rule refl)
    done
  then obtain key where c: "c = \<lparr>cp_burn_key = key, cp_commitment = bp_commitment b,
      cp_ownership = (bp_ownership_nonce b, bp_ownership_sig b), cp_merkle = merkle, cp_version = 0,
      cp_fee = u64_of_i64 (bp_kernel_fee b), cp_lock_height = u64_of_i64 (bp_lock_height b),
      cp_excess = bp_kernel_excess b, cp_excess_sig = (bp_kernel_nonce b, bp_kernel_sig b),
      cp_value = u64_of_i64 (bp_value b), cp_offset_key = bp_offset_key b, cp_encrypted = bp_encrypted b\<rparr>" ..
  show "cp_value c = u64_of_i64 (bp_value b)" "cp_fee c = u64_of_i64 (bp_kernel_fee b)"
    "cp_lock_height c = u64_of_i64 (bp_lock_height b)" "cp_commitment c = bp_commitment b"
    "cp_encrypted c = bp_encrypted b" "cp_merkle c = merkle"
    by (simp_all only: c complete_proof.simps)
qed

text \<open>
  The amounts of a burn survive the signed columns of the table: the proof assembled from
  the row that is found by the output's hash carries the value, the fee and the lock height
  the burn was recorded with, for every \<open>u64\<close>.
\<close>

theorem burn_amounts_survive:
  assumes "insert_burn_proof X p d = (Inr i, d')"
    and "get_burn_proof_by_output_hash (nb_hash p) d' = (Inr (Some b), d'')"
    and "assemble_complete_proof K b merkle = Inr c"
    and "is_u64 (nb_value p)" "is_u64 (nb_kernel_fee p)" "is_u64 (nb_lock_height p)"
  shows "cp_value c = nb_value p \<and> cp_fee c = nb_kernel_fee p \<and> cp_lock_height c = nb_lock_height p \<and>
     cp_commitment c = nb_commitment p \<and> cp_encrypted c = nb_encrypted p \<and> cp_merkle c = merkle"
proof -
  have b: "bp_hash b = nb_hash p" "b \<in> set (burns d')"
    using first_row_Some [of _ "burns d'" b] assms(2) by (auto simp: get_burn_proof_by_output_hash_def gets_def)
  obtain row where d': "burns d' = burns d @ [row]" and old: "\<forall>q \<in> set (burns d). bp_hash q \<noteq> nb_hash p"
    and row: "bp_value row = i64_of_u64 (nb_value p)" "bp_kernel_fee row = i64_of_u64 (nb_kernel_fee p)"
      "bp_lock_height row = i64_of_u64 (nb_lock_height p)" "bp_commitment row = nb_commitment p"
      "bp_encrypted row = nb_encrypted p"
    using insert_burn_proof_rows [OF assms(1)] by blast
  from b d' old have "b = row" by auto
  show ?thesis
    unfolding assembled_fields [OF assms(3)] \<open>b = row\<close> row u64_of_i64_of_u64 [OF assms(4)]
      u64_of_i64_of_u64 [OF assms(5)] u64_of_i64_of_u64 [OF assms(6)] by simp
qed

section \<open>Lookups by payment reference\<close>

lemma first_row_unique:
  "r \<in> set rows \<Longrightarrow> P r \<Longrightarrow> (\<And>q. q \<in> set rows \<Longrightarrow> P q \<Longrightarrow> q = r) \<Longrightarrow> first_row P rows = Some r"
  using first_row_Some [of P rows] first_row_None [of P rows] by (metis not_None_eq)

lemma historical_found:
  assumes "recorded a i p d" "\<forall>q \<in> set (payrefs d). ph_account q = a \<and> ph_payref q = p \<longrightarrow> ph_tx q = i"
  shows "get_transaction_id_by_historical_payref a p d = (Inr (Some (u64_of_i64 i)), d)"
proof -
  let ?rows = "sort_desc ph_created (filter (\<lambda>q. ph_account q = a \<and> ph_payref q = p) (payrefs d))"
  have rows: "set ?rows = {q \<in> set (payrefs d). ph_account q = a \<and> ph_payref q = p}"
    by (simp add: sort_desc_def)
  then have "?rows \<noteq> []" using assms(1) by (force simp: recorded_def)
  then obtain q qs where q: "?rows = q # qs" by (cases ?rows) auto
  with rows have "ph_tx q = i" using assms(2) by auto
  with q show ?thesis by (simp add: get_transaction_id_by_historical_payref_def gets_def)
qed

text \<open>
  C23: A payment reference from before a reorganisation still finds its transaction: after a
  rollback that resets a mined transaction, the API answers a lookup by the reference it had
  with that transaction, completed again, without a height and without a reference.
\<close>

theorem old_payref_found_after_reorg:
  assumes run: "rollback_from_height X dh a h cfg d = (Inr info, d')"
    and account: "get_account_by_name name d' = (Inr (Some acc), d')" "a_id acc = a"
    and ids: "\<forall>q \<in> set (completeds d). is_i64 (c_id q)" "distinct (map c_id (completeds d))"
    and r: "r \<in> set (completeds d)" "mined_from a h r" "c_sent_payref r = Some p"
    and live: "\<forall>q \<in> set (completeds d). c_account q = a \<and> c_sent_payref q = Some p \<longrightarrow> q = r"
    and old: "\<forall>q \<in> set (payrefs d'). ph_account q = a \<and> ph_payref q = p \<longrightarrow> ph_tx q = c_id r"
  shows "\<exists>c. api_get_completed_transaction_by_payref A name p d' = (Inr c, d') \<and>
     cr_id c = u64_of_i64 (c_id r) \<and> cr_status c = completed_status_text TxCompleted \<and>
     cr_mined_height c = None \<and> cr_sent_payref c = None"
proof -
  note t = rollback_tables(4) [OF run]
  have rec: "recorded a (c_id r) p d'" using rollback_tables(6) [OF run ids(1)] r by blast
  have gone: "first_row (\<lambda>q. c_account q = a \<and> c_sent_payref q = Some p) (completeds d') = None"
    unfolding first_row_None
  proof
    fix q assume "q \<in> set (completeds d')"
    then obtain q0 where q0: "q0 \<in> set (completeds d)" "q = (if mined_from a h q0 then back_to_completed X q0 else q0)"
      by (auto simp: t in_set_update_where)
    show "\<not> (c_account q = a \<and> c_sent_payref q = Some p)"
    proof (cases "mined_from a h q0")
      case True
      with q0 show ?thesis by (simp add: back_to_completed_def)
    next
      case False
      with q0 live r(2) show ?thesis by auto
    qed
  qed
  have "first_row (\<lambda>q. c_id q = c_id r) (completeds d') = Some (back_to_completed X r)"
  proof (rule first_row_unique)
    show "back_to_completed X r \<in> set (completeds d')" using r by (auto simp: t in_set_update_where)
    show "q = back_to_completed X r" if q: "q \<in> set (completeds d')" "c_id q = c_id r" for q
    proof -
      obtain q0 where q0: "q0 \<in> set (completeds d)" "q = (if mined_from a h q0 then back_to_completed X q0 else q0)"
        using q(1) by (auto simp: t in_set_update_where)
      then have "c_id q0 = c_id r" using q(2) by (auto simp: back_to_completed_def split: if_splits)
      with q0 r ids(2) have "q0 = r" by (auto simp: distinct_map inj_on_def)
      with q0 r show ?thesis by simp
    qed
  qed (simp add: back_to_completed_def)
  moreover obtain tx where tx: "completed_of_row (back_to_completed X r) = Inr tx" "ct_id tx = u64_of_i64 (c_id r)"
      "ct_status tx = TxCompleted" "ct_mined_height tx = None" "ct_sent_payref tx = None"
    by (simp add: completed_of_row_def back_to_completed_def completed_codec.of_text_to_text)
  ultimately show ?thesis
    using account gone historical_found [OF rec old] ids(1) r(1) tx
    by (simp add: api_get_completed_transaction_by_payref_def with_account_def api_db_def map_error_def bindM_def
        get_completed_transaction_by_payref_def get_completed_transaction_by_id_def query_def
        optional_completed_def i64_of_u64_of_i64 completed_response_of_def ret_def)
qed

section \<open>The properties on concrete inputs\<close>

definition sample_hooks_db :: db where
  \<comment> \<open>a webhook that has failed nine times, and one that was delivered\<close>
  "sample_hooks_db = account_db\<lparr>webhooks :=
     [\<lparr>w_id = 1, w_event = None, w_type = ''t'', w_payload = ''p'', w_url = ''u'',
       w_status = webhook_status_text HookFailed, w_attempts = 9, w_next_retry = 500, w_created = 0,
       w_error = Some ''e''\<rparr>,
      \<lparr>w_id = 2, w_event = None, w_type = ''t'', w_payload = ''p'', w_url = ''u'',
       w_status = webhook_status_text HookSuccess, w_attempts = 1, w_next_retry = 0, w_created = 0,
       w_error = None\<rparr>], webhooks_seq := 2\<rparr>"

definition failing_tick :: webhook_tick where
  "failing_tick = \<lparr>wt_externals = sample_X,
     wt_sender = \<lparr>st_hmac = (\<lambda>_ _. Some [1]), st_hex = (\<lambda>_. ''01''), st_status = (\<lambda>_. ''503''),
       st_post = (\<lambda>_ _ _ _. HttpResponse 503 ''busy'')\<rparr>,
     wt_now = 1000, wt_draw = (\<lambda>_. (0, True))\<rparr>"

definition sample_worker :: webhook_worker_config where
  "sample_worker = \<lparr>ww_enabled = True, ww_secret = Some ''s'', ww_only_types = None\<rparr>"


definition sample_burn :: "i64 \<Rightarrow> bytes \<Rightarrow> burn_row" where
  "sample_burn i h = \<lparr>bp_id = i, bp_account = 1, bp_hash = h, bp_commitment = h, bp_claim_key = ''k'',
     bp_ownership_nonce = [], bp_ownership_sig = [], bp_kernel_excess = [], bp_kernel_nonce = h,
     bp_kernel_sig = [], bp_offset_key = [], bp_encrypted = [], bp_value = 5, bp_kernel_fee = 1,
     bp_lock_height = 0, bp_status = burn_status_pending_merkle, bp_created = 0, bp_updated = 0\<rparr>"

definition sample_worker_tools :: worker_tools where
  \<comment> \<open>the node knows the kernel of one burn only\<close>
  "sample_worker_tools = \<lparr>wk_externals = sample_X,
     wk_merkle = (\<lambda>nonce sig. if nonce = [65] then Inl ''not mined'' else Inr \<lparr>mk_block = [7], mk_proof = [], mk_leaf = 3\<rparr>),
     wk_point_error = (\<lambda>_. None), wk_scalar_error = (\<lambda>_. None), wk_hex_error = (\<lambda>s. s),
     wk_write_error = (\<lambda>_ _. None)\<rparr>"

definition two_burns :: worker_state where
  "two_burns = \<lparr>ws_db = account_db\<lparr>burns := [sample_burn 1 [65], sample_burn 2 [66]], burns_seq := 2\<rparr>,
     ws_files = (\<lambda>_. None)\<rparr>"


definition sample_new_burn :: new_burn_proof where
  \<comment> \<open>a value above the range of the signed column\<close>
  "sample_new_burn = \<lparr>nb_account = 1, nb_hash = [66], nb_commitment = [66], nb_claim_key = ''k'',
     nb_ownership_nonce = [], nb_ownership_sig = [], nb_kernel_excess = [], nb_kernel_nonce = [66],
     nb_kernel_sig = [], nb_offset_key = [], nb_encrypted = [], nb_value = 18446744073709551615,
     nb_kernel_fee = 1, nb_lock_height = 0\<rparr>"

theorem burn_amounts_survive_witness:
  "\<exists>b c. fst (get_burn_proof_by_output_hash [66] (snd (insert_burn_proof sample_X sample_new_burn account_db))) = Inr (Some b) \<and>
     bp_value b = -1 \<and> assemble_complete_proof sample_worker_tools b \<lparr>mk_block = [7], mk_proof = [], mk_leaf = 3\<rparr> = Inr c \<and>
     cp_value c = 18446744073709551615"
proof -
  have ins: "insert_burn_proof sample_X sample_new_burn account_db =
      (Inr 1, snd (insert_burn_proof sample_X sample_new_burn account_db))"
    by (simp add: insert_burn_proof_def statement_def account_db_def empty_db_def sample_new_burn_def
        account_exists_def sample_account_def)
  let ?d = "snd (insert_burn_proof sample_X sample_new_burn account_db)"
  obtain b where b: "get_burn_proof_by_output_hash (nb_hash sample_new_burn) ?d = (Inr (Some b), ?d)" "bp_value b = -1"
    by (simp add: insert_burn_proof_def statement_def account_db_def empty_db_def sample_new_burn_def
        account_exists_def sample_account_def get_burn_proof_by_output_hash_def gets_def first_row_def i64_of_u64_def)
  obtain c where c: "assemble_complete_proof sample_worker_tools b \<lparr>mk_block = [7], mk_proof = [], mk_leaf = 3\<rparr> = Inr c"
    by (simp add: assemble_complete_proof_def canonical_def sample_worker_tools_def sample_X_def)
  have "is_u64 (nb_value sample_new_burn)" "is_u64 (nb_kernel_fee sample_new_burn)" "is_u64 (nb_lock_height sample_new_burn)"
    by (simp_all add: sample_new_burn_def is_u64_def)
  from burn_amounts_survive [OF ins b(1) c this] have "cp_value c = nb_value sample_new_burn" by blast
  moreover have "nb_hash sample_new_burn = [66]" "nb_value sample_new_burn = 18446744073709551615"
    by (simp_all add: sample_new_burn_def)
  ultimately show ?thesis
    by (intro exI [of _ b] exI [of _ c] conjI) (use b c in simp_all)
qed

definition sample_api :: api_tools where
  "sample_api = \<lparr>ap_externals = sample_X, ap_required = 3, ap_describe_db = (\<lambda>_. ''db''),
     ap_describe_lock = (\<lambda>_. ''lock''), ap_describe_send = (\<lambda>_. ''send''),
     ap_describe_estimate = (\<lambda>_. ''estimate''), ap_panic = ''panic'',
     ap_address = (\<lambda>_ _. Inr (''a'', ''b'')), ap_hex_error = (\<lambda>s. s), ap_rfc3339 = (\<lambda>_. ''t''),
     ap_column_time = (\<lambda>_. ''t'')\<rparr>"

theorem old_payref_found_after_reorg_witness:
  "\<exists>info d' c. rollback_from_height sample_X sample_hex 1 8 None reorg_db = (Inr info, d') \<and>
     api_get_completed_transaction_by_payref sample_api ''main'' ''ref'' d' = (Inr c, d') \<and>
     cr_id c = 5 \<and> cr_status c = ''completed''"
proof -
  let ?r = "hd (completeds reorg_db)"
  have "succeeds_with (rollback_from_height sample_X sample_hex 1 8 None reorg_db) (\<lambda>info d'.
      map a_name (accounts d') = [''main''] \<and> map a_id (accounts d') = [1] \<and>
      list_all (\<lambda>q. ph_tx q = 5) (payrefs d'))" by code_simp
  then obtain info d' where run: "rollback_from_height sample_X sample_hex 1 8 None reorg_db = (Inr info, d')"
    and d': "map a_name (accounts d') = [''main'']" "map a_id (accounts d') = [1]" "list_all (\<lambda>q. ph_tx q = 5) (payrefs d')"
    unfolding with_iffs by (elim exE conjE) (rule that)
  then obtain acc where acc: "accounts d' = [acc]" "a_name acc = ''main''" "a_id acc = 1" by (auto simp: map_eq_Cons_conv)
  then have account: "get_account_by_name ''main'' d' = (Inr (Some acc), d')"
    by (simp add: get_account_by_name_def gets_def first_row_def)
  have rows: "completeds reorg_db = [?r]" "c_id ?r = 5" "mined_from 1 8 ?r" "c_sent_payref ?r = Some ''ref''"
    by code_simp+
  have ids: "\<forall>q \<in> set (completeds reorg_db). is_i64 (c_id q)" "distinct (map c_id (completeds reorg_db))"
    by code_simp+
  have r: "?r \<in> set (completeds reorg_db)" using rows(1) by (metis list.set_intros(1))
  have live: "\<forall>q \<in> set (completeds reorg_db). c_account q = 1 \<and> c_sent_payref q = Some ''ref'' \<longrightarrow> q = ?r"
    using rows(1) by (metis empty_iff empty_set set_ConsD)
  have old: "\<forall>q \<in> set (payrefs d'). ph_account q = 1 \<and> ph_payref q = ''ref'' \<longrightarrow> ph_tx q = c_id ?r"
    using d'(3) rows(2) by (simp add: list_all_iff)
  from old_payref_found_after_reorg [OF run account acc(3) ids r rows(3,4) live old, of sample_api] obtain c where
    "api_get_completed_transaction_by_payref sample_api ''main'' ''ref'' d' = (Inr c, d')"
    "cr_id c = u64_of_i64 5" "cr_status c = completed_status_text TxCompleted" unfolding rows(2) by blast
  with run show ?thesis by (auto simp: u64_of_i64_def completed_status_text.simps)
qed

end
