(* ===== verification/Http_Client.thy ===== *)
theory Http_Client
  imports Burn_Worker
begin

text \<open>
  The client of the base node: the low-level requests of \<open>http/http_client.rs\<close> with their
  errors (\<open>http/error.rs\<close>), the size check of \<open>http/utils.rs\<close>, and the calls of
  \<open>http/wallet_http_client.rs\<close>. The crates \<^verbatim>\<open>url\<close>, \<^verbatim>\<open>reqwest\<close> with its retrying middleware, and
  \<^verbatim>\<open>serde_json\<close> are the fields of \<open>http_wire\<close>. The state is the client: its base address,
  the latency of the last request, and the requests that went out.
\<close>

section \<open>Requests\<close>

datatype http_method = GetMethod | PostMethod | OtherMethod

datatype http_error =
    RequestFailed string
  | MiddlewareError string
  | ServerError nat string
  | UrlError string
  | UnsupportedMethod
  | JsonError string

record wire_response =
  wr_status :: nat
  wr_text :: "string + string"     \<comment> \<open>the body, or why it cannot be read\<close>
  wr_elapsed :: u64

record http_wire =
  hw_join :: "string \<Rightarrow> string \<Rightarrow> string + string"     \<comment> \<open>\<open>Url::join\<close>\<close>
  hw_send :: "nat \<Rightarrow> u64 \<Rightarrow> http_method \<Rightarrow> string \<Rightarrow> string option \<Rightarrow> string + wire_response"
    \<comment> \<open>one request with so many retries and that timeout: the error of the middleware or the response\<close>
  hw_status :: "nat \<Rightarrow> string"
  hw_build_error :: "string option"                 \<comment> \<open>the client cannot be built\<close>
  hw_envelope :: "bytes \<Rightarrow> string + string"           \<comment> \<open>the JSON-RPC text around a transaction\<close>

type_synonym sent_request = "http_method \<times> string \<times> string option"

record http_client =
  hc_base_url :: string
  hc_max_retries :: nat
  hc_timeout_secs :: u64
  hc_last_latency :: "u64 option"
  hc_sent :: "sent_request list"

type_synonym 'a httpm = "(http_client, http_error, 'a) run"

definition default_timeout_secs :: u64 where
  "default_timeout_secs = 30"

definition default_max_retries :: nat where
  "default_max_retries = 3"

definition http_client_with_config :: "http_wire \<Rightarrow> string \<Rightarrow> nat \<Rightarrow> u64 \<Rightarrow> string + http_client" where
  "http_client_with_config W base_url max_retries timeout = (case hw_build_error W of
      Some e \<Rightarrow> Inl e
    | None \<Rightarrow> Inr \<lparr>hc_base_url = base_url, hc_max_retries = max_retries, hc_timeout_secs = timeout,
        hc_last_latency = None, hc_sent = []\<rparr>)"

definition http_client_new :: "http_wire \<Rightarrow> string \<Rightarrow> string + http_client" where
  "http_client_new W base_url = http_client_with_config W base_url default_max_retries default_timeout_secs"

definition is_success :: "nat \<Rightarrow> bool" where
  "is_success status \<longleftrightarrow> 200 \<le> status \<and> status < 300"

definition update_latency :: "u64 \<Rightarrow> unit httpm" where
  "update_latency duration = modify (\<lambda>c. c\<lparr>hc_last_latency := Some duration\<rparr>)"

definition get_latency :: "u64 option httpm" where
  "get_latency = gets hc_last_latency"

definition request_body :: "http_method \<Rightarrow> (string + string) option \<Rightarrow> http_error + string option" where
  \<comment> \<open>a body is only sent with \<open>POST\<close>; its text may fail\<close>
  "request_body m body = (case m of
      GetMethod \<Rightarrow> Inr None
    | PostMethod \<Rightarrow> (case body of None \<Rightarrow> Inr None | Some b \<Rightarrow> map_sum JsonError Some b)
    | OtherMethod \<Rightarrow> Inl UnsupportedMethod)"

definition read_response :: "(string \<Rightarrow> string + 'a) \<Rightarrow> wire_response \<Rightarrow> http_error + 'a" where
  \<comment> \<open>the error of \<open>resp.json()\<close> is one of \<^verbatim>\<open>reqwest\<close>\<close>
  "read_response parse resp =
     (if \<not> is_success (wr_status resp)
      then Inl (ServerError (wr_status resp)
        (case wr_text resp of Inl _ \<Rightarrow> ''Failed to read response body'' | Inr body \<Rightarrow> body))
      else map_sum RequestFailed id (bind_result (wr_text resp) parse))"

definition send_request ::
  "http_wire \<Rightarrow> (string \<Rightarrow> string + 'a) \<Rightarrow> http_method \<Rightarrow> string \<Rightarrow> (string + string) option \<Rightarrow> 'a httpm" where
  "send_request W parse m path body =
     bindM (query (\<lambda>c. map_sum UrlError id (hw_join W (hc_base_url c) path))) (\<lambda>url.
     bindM (lift_result (request_body m body)) (\<lambda>b.
     seqM (modify (\<lambda>c. c\<lparr>hc_sent := hc_sent c @ [(m, url, b)]\<rparr>))
     (bindM (query (\<lambda>c. map_sum MiddlewareError id (hw_send W (hc_max_retries c) (hc_timeout_secs c) m url b))) (\<lambda>resp.
     seqM (update_latency (wr_elapsed resp)) (lift_result (read_response parse resp))))))"

definition http_error_text :: "http_wire \<Rightarrow> http_error \<Rightarrow> string" where
  "http_error_text W e = (case e of
      RequestFailed m \<Rightarrow> ''Request failed: '' @ m
    | MiddlewareError m \<Rightarrow> ''Middleware error: '' @ m
    | ServerError status body \<Rightarrow> ''Server error '' @ hw_status W status @ '': '' @ body
    | UrlError m \<Rightarrow> ''URL parse error: '' @ m
    | UnsupportedMethod \<Rightarrow> ''Unsupported HTTP method''
    | JsonError m \<Rightarrow> ''JSON serialization error: '' @ m)"

section \<open>The size of a transaction\<close>

definition rpc_max_frame_size :: nat where
  "rpc_max_frame_size = 4 * 1024 * 1024"

definition size_margin :: nat where
  "size_margin = 1024 * 10 + 2 * 1024 * 1024"

definition max_transaction_size :: nat where
  "max_transaction_size = rpc_max_frame_size - size_margin"

record transaction_too_large =
  tl_got :: nat
  tl_max_allowed :: nat

definition too_large_text :: "transaction_too_large \<Rightarrow> string" where
  "too_large_text e = ''Transaction too large: got '' @ show_nat (tl_got e) @
     '' bytes, max allowed is '' @ show_nat (tl_max_allowed e) @ '' bytes''"

definition check_transaction_size :: "string + bytes \<Rightarrow> transaction_too_large + unit" where
  \<comment> \<open>a transaction is its serialisation; one that fails counts as too large\<close>
  "check_transaction_size transaction = (case transaction of
      Inl _ \<Rightarrow> Inl \<lparr>tl_got = 0, tl_max_allowed = max_transaction_size\<rparr>
    | Inr raw \<Rightarrow>
        if length raw > max_transaction_size
        then Inl \<lparr>tl_got = length raw, tl_max_allowed = max_transaction_size\<rparr>
        else Inr ())"

section \<open>The calls of the wallet\<close>

record 'a json_rpc_response =
  jr_result :: "'a option"
  jr_error :: "string option"
  jr_id :: string

type_synonym 'a walletm = "(http_client, string, 'a) run"

definition wallet_get :: "http_wire \<Rightarrow> (string \<Rightarrow> string + 'a) \<Rightarrow> string \<Rightarrow> 'a walletm" where
  "wallet_get W parse path = map_error (http_error_text W) (send_request W parse GetMethod path None)"

definition wallet_get_tip_info :: "http_wire \<Rightarrow> (string \<Rightarrow> string + 'a) \<Rightarrow> 'a walletm" where
  "wallet_get_tip_info W parse = wallet_get W parse ''/get_tip_info''"

definition is_online :: "http_wire \<Rightarrow> (string \<Rightarrow> string + 'a) \<Rightarrow> bool walletm" where
  "is_online W parse = (\<lambda>c. case wallet_get_tip_info W parse c of (r, c') \<Rightarrow>
     (Inr (case r of Inl _ \<Rightarrow> False | Inr _ \<Rightarrow> True), c'))"

definition submit_transaction ::
  "http_wire \<Rightarrow> (string \<Rightarrow> string + 'a json_rpc_response) \<Rightarrow> string + bytes \<Rightarrow> 'a walletm" where
  "submit_transaction W parse transaction =
     seqM (lift_result (map_sum too_large_text id (check_transaction_size transaction)))
     (bindM (map_error (http_error_text W)
        (send_request W parse PostMethod ''/json_rpc'' (Some (bind_result transaction (hw_envelope W))))) (\<lambda>response.
      lift_result (case jr_result response of
          Some result \<Rightarrow> Inr result
        | None \<Rightarrow> Inl (''Transaction submission failed: '' @
            (case jr_error response of None \<Rightarrow> ''Unknown error'' | Some e \<Rightarrow> e)))))"

definition transaction_query ::
  "externals \<Rightarrow> http_wire \<Rightarrow> (string \<Rightarrow> string + 'a) \<Rightarrow> bytes \<Rightarrow> bytes \<Rightarrow> 'a walletm" where
  "transaction_query X W parse excess_sig_nonce excess_sig = wallet_get W parse
     (''/transactions?excess_sig_nonce='' @ x_hex X excess_sig_nonce @ ''&excess_sig_sig='' @ x_hex X excess_sig)"

definition get_height_at_time :: "http_wire \<Rightarrow> (string \<Rightarrow> string + u64) \<Rightarrow> u64 \<Rightarrow> u64 walletm" where
  "get_height_at_time W parse epoch_time = wallet_get W parse (''/get_height_at_time?time='' @ show_nat epoch_time)"

definition get_kernel_merkle_proof ::
  "externals \<Rightarrow> http_wire \<Rightarrow> (string \<Rightarrow> string + merkle_response) \<Rightarrow> bytes \<Rightarrow> bytes \<Rightarrow> merkle_response walletm" where
  "get_kernel_merkle_proof X W parse excess_sig_nonce excess_sig = wallet_get W parse
     (''/generate_kernel_merkle_proof?excess_sig_public_nonce='' @ x_hex X excess_sig_nonce @
      ''&excess_sig_signature='' @ x_hex X excess_sig)"

record mempool_stat =
  ms_order :: u64
  ms_min :: u64
  ms_avg :: u64
  ms_max :: u64

definition get_mempool_fee_per_gram_stats ::
  "http_wire \<Rightarrow> (string \<Rightarrow> string + mempool_stat list) \<Rightarrow> u64 \<Rightarrow> mempool_stat list walletm" where
  \<comment> \<open>the entries are copied field by field into the type of the node's crate\<close>
  "get_mempool_fee_per_gram_stats W parse count =
     wallet_get W parse (''/get_mempool_fee_per_gram_stats?count='' @ show_nat count)"

end
