(* ===== verification/Grpc_Scanner.thy ===== *)
theory Grpc_Scanner
  imports Scanner
begin

text \<open>
  The other implementation of the scanner's interface, \<open>scanning/grpc/scanner.rs\<close>: the node
  sends whole blocks in a stream, the wallet tries its keys on every output. The generated
  client is the record \<open>grpc_node\<close>: the answer to a request for blocks is an error or the
  messages of the stream in order, and a list that is used up is the end of the stream. The
  outputs of a block are tried in parallel; the model fixes their order.
\<close>

section \<open>The node\<close>

record grpc_output =
  go_hash :: bytes
  go_commitment :: bytes
  go_encrypted :: bytes
  go_offset_key :: bytes

record grpc_block =
  gb_height :: u64
  gb_hash :: bytes
  gb_timestamp :: u64
  gb_inputs :: "bytes list"         \<comment> \<open>the hashes of the outputs that are spent\<close>
  gb_outputs :: "grpc_output list"
  gb_kernels :: "bytes list"

datatype grpc_message =
    StreamError string
  | NoBlock                          \<comment> \<open>a response without a block\<close>
  | BlockMessage "string + grpc_block"  \<comment> \<open>\<open>try_into\<close> of the block\<close>

record grpc_metadata =
  gm_height :: u64
  gm_hash :: bytes
  gm_difficulty :: bytes
  gm_pruned :: u64
  gm_timestamp :: u64

record grpc_node =
  gn_tip :: "string + grpc_metadata option"
  gn_blocks :: "u64 list \<Rightarrow> string + grpc_message list"
  gn_connect :: "string \<Rightarrow> u64 \<Rightarrow> string option"    \<comment> \<open>invalid URL, or no connection in time\<close>
  gn_difficulty :: "bytes \<Rightarrow> string"                \<comment> \<open>a big-endian number in decimal\<close>

record grpc_keys =
  gk_count :: nat
  gk_recover :: "nat \<Rightarrow> grpc_output \<Rightarrow> scanner_error + (bytes \<times> u64 \<times> bytes) option"
  gk_import :: "nat \<Rightarrow> grpc_output \<Rightarrow> bytes \<times> u64 \<times> bytes \<Rightarrow> wallet_output option"

definition grpc_failed :: "string \<Rightarrow> string \<Rightarrow> scanner_error" where
  "grpc_failed label e = ConnectionFailed (label @ '' error: '' @ e)"

section \<open>The scanner\<close>

record grpc_scanner =
  gs_timeout :: u64
  gs_progress :: in_progress
  gs_threads :: nat

definition thread_count :: "nat \<Rightarrow> nat \<Rightarrow> nat" where
  \<comment> \<open>\<open>cpus\<close> is the number of processors\<close>
  "thread_count cpus threads = (if threads > 0 then threads else max (cpus - 2) 1)"

definition in_progress_new_empty :: in_progress where
  "in_progress_new_empty = \<lparr>ip_config = None, ip_header = None, ip_page = 0\<rparr>"

definition grpc_with_timeout ::
  "grpc_node \<Rightarrow> grpc_keys \<Rightarrow> nat \<Rightarrow> string \<Rightarrow> u64 \<Rightarrow> nat \<Rightarrow> scanner_error + grpc_scanner" where
  "grpc_with_timeout N K cpus base_url timeout threads =
     (if gk_count K = 0 then Inl (ConfigurationError ''At least one key manager must be specified'')
      else (case gn_connect N base_url timeout of
          Some e \<Rightarrow> Inl (ConnectionFailed e)
        | None \<Rightarrow> Inr \<lparr>gs_timeout = timeout, gs_progress = in_progress_new_empty,
            gs_threads = thread_count cpus threads\<rparr>))"

definition grpc_new :: "grpc_node \<Rightarrow> grpc_keys \<Rightarrow> nat \<Rightarrow> string \<Rightarrow> nat \<Rightarrow> scanner_error + grpc_scanner" where
  "grpc_new N K cpus base_url threads = grpc_with_timeout N K cpus base_url 30 threads"

definition create_scan_config_with_wallet_keys :: "u64 \<Rightarrow> u64 option \<Rightarrow> scan_config" where
  "create_scan_config_with_wallet_keys start_height end_height =
     \<lparr>cf_start = start_height, cf_end = end_height, cf_batch = Some 100, cf_exclude_spent = False\<rparr>"

fun grpc_recover_from ::
  "grpc_keys \<Rightarrow> grpc_output \<Rightarrow> nat list \<Rightarrow> scanner_error + (wallet_output \<times> nat) option" where
  \<comment> \<open>the first key that recovers the output decides: an import that fails finds nothing\<close>
  "grpc_recover_from K out [] = Inr None"
| "grpc_recover_from K out (i # is) = (case gk_recover K i out of
      Inl e \<Rightarrow> Inl e
    | Inr None \<Rightarrow> grpc_recover_from K out is
    | Inr (Some found) \<Rightarrow> (case gk_import K i out found of
        None \<Rightarrow> Inr None
      | Some w \<Rightarrow> Inr (Some (w, i))))"

definition grpc_scan_for_recoverable_output ::
  "grpc_keys \<Rightarrow> grpc_output \<Rightarrow> scanner_error + (wallet_output \<times> nat) option" where
  "grpc_scan_for_recoverable_output K out = grpc_recover_from K out [0..<gk_count K]"

section \<open>Single blocks\<close>

definition request_blocks :: "grpc_node \<Rightarrow> u64 list \<Rightarrow> scanner_error + grpc_message list" where
  "request_blocks N heights = map_sum (grpc_failed ''GRPC'') id (gn_blocks N heights)"

definition get_complete_block_data :: "grpc_node \<Rightarrow> u64 \<Rightarrow> scanner_error + grpc_block option" where
  \<comment> \<open>only the first message of the stream is read\<close>
  "get_complete_block_data N height = (case request_blocks N [height] of
      Inl e \<Rightarrow> Inl e
    | Inr messages \<Rightarrow> (case messages of
        [] \<Rightarrow> Inr None
      | m # _ \<Rightarrow> (case m of
          StreamError e \<Rightarrow> Inl (grpc_failed ''Stream'' e)
        | NoBlock \<Rightarrow> Inr None
        | BlockMessage b \<Rightarrow> map_sum InternalError Some b)))"

definition block_field :: "(grpc_block \<Rightarrow> 'a list) \<Rightarrow> grpc_node \<Rightarrow> u64 \<Rightarrow> scanner_error + 'a list" where
  "block_field f N height = map_sum id (\<lambda>b. case b of None \<Rightarrow> [] | Some b \<Rightarrow> f b) (get_complete_block_data N height)"

definition get_outputs_from_block :: "grpc_node \<Rightarrow> u64 \<Rightarrow> scanner_error + grpc_output list" where
  "get_outputs_from_block N height = block_field gb_outputs N height"

definition get_inputs_from_block :: "grpc_node \<Rightarrow> u64 \<Rightarrow> scanner_error + bytes list" where
  "get_inputs_from_block N height = block_field gb_inputs N height"

definition get_kernels_from_block :: "grpc_node \<Rightarrow> u64 \<Rightarrow> scanner_error + bytes list" where
  "get_kernels_from_block N height = block_field gb_kernels N height"

definition scan_block :: "grpc_node \<Rightarrow> grpc_keys \<Rightarrow> u64 \<Rightarrow> scanner_error + (wallet_output \<times> nat) list" where
  "scan_block N K height = (case get_outputs_from_block N height of
      Inl e \<Rightarrow> Inl e
    | Inr outs \<Rightarrow> map_sum id (List.map_filter id) (mapM (grpc_scan_for_recoverable_output K) outs))"

fun collect_blocks :: "grpc_message list \<Rightarrow> scanner_error + grpc_block list" where
  "collect_blocks [] = Inr []"
| "collect_blocks (m # ms) = (case m of
      StreamError e \<Rightarrow> Inl (grpc_failed ''GRPC stream'' e)
    | NoBlock \<Rightarrow> collect_blocks ms
    | BlockMessage (Inl e) \<Rightarrow> Inl (InternalError e)
    | BlockMessage (Inr b) \<Rightarrow> map_sum id (\<lambda>bs. b # bs) (collect_blocks ms))"

definition get_blocks_by_heights :: "grpc_node \<Rightarrow> u64 list \<Rightarrow> scanner_error + grpc_block list" where
  "get_blocks_by_heights N heights =
     (if heights = [] then Inr []
      else (case request_blocks N heights of Inl e \<Rightarrow> Inl e | Inr messages \<Rightarrow> collect_blocks messages))"

definition interface_get_blocks_by_heights :: "grpc_node \<Rightarrow> u64 list \<Rightarrow> scanner_error + grpc_block list" where
  \<comment> \<open>the method of the interface repeats the code of the inherent one\<close>
  "interface_get_blocks_by_heights N heights =
     (if heights = [] then Inr []
      else (case request_blocks N heights of Inl e \<Rightarrow> Inl e | Inr messages \<Rightarrow> collect_blocks messages))"

lemma interface_get_blocks: "interface_get_blocks_by_heights = get_blocks_by_heights"
  by (simp add: interface_get_blocks_by_heights_def get_blocks_by_heights_def fun_eq_iff)

definition get_block_by_height :: "grpc_node \<Rightarrow> u64 \<Rightarrow> scanner_error + grpc_block option" where
  "get_block_by_height N height = map_sum id (\<lambda>bs. case bs of [] \<Rightarrow> None | b # _ \<Rightarrow> Some b)
     (get_blocks_by_heights N [height])"

definition grpc_get_header_by_height :: "grpc_node \<Rightarrow> u64 \<Rightarrow> scanner_error + (u64 \<times> bytes \<times> u64) option" where
  "grpc_get_header_by_height N height = map_sum id (map_option (\<lambda>b. (gb_height b, gb_hash b, gb_timestamp b)))
     (get_block_by_height N height)"

section \<open>The tip\<close>

record tip_info =
  ti_height :: u64
  ti_hash :: bytes
  ti_difficulty :: string
  ti_pruned :: u64
  ti_timestamp :: u64

definition convert_tip_info :: "grpc_node \<Rightarrow> grpc_metadata option \<Rightarrow> tip_info" where
  \<comment> \<open>a hash of the wrong length becomes the zero hash\<close>
  "convert_tip_info N metadata =
     \<lparr>ti_height = (case metadata of None \<Rightarrow> 0 | Some m \<Rightarrow> gm_height m),
      ti_hash = opt_or zero_hash (fixed_hash_of (case metadata of None \<Rightarrow> [] | Some m \<Rightarrow> gm_hash m)),
      ti_difficulty = (case metadata of None \<Rightarrow> [] | Some m \<Rightarrow> gn_difficulty N (gm_difficulty m)),
      ti_pruned = (case metadata of None \<Rightarrow> 0 | Some m \<Rightarrow> gm_pruned m),
      ti_timestamp = (case metadata of None \<Rightarrow> 0 | Some m \<Rightarrow> gm_timestamp m)\<rparr>"

definition grpc_get_tip_info :: "grpc_node \<Rightarrow> scanner_error + tip_info" where
  "grpc_get_tip_info N = map_sum (grpc_failed ''GRPC'') (convert_tip_info N) (gn_tip N)"

section \<open>Scanning a range\<close>

definition update_scan_config :: "grpc_node \<Rightarrow> scan_config \<Rightarrow> grpc_scanner \<Rightarrow> scanner_error + grpc_scanner" where
  \<comment> \<open>the end height is dropped from the configuration in progress\<close>
  "update_scan_config N c s = (case cf_end c of
      Some end_height \<Rightarrow> (case grpc_get_tip_info N of
          Inl e \<Rightarrow> Inl e
        | Inr _ \<Rightarrow> Inr (s\<lparr>gs_progress := in_progress_new (c\<lparr>cf_end := None\<rparr>)\<rparr>))
    | None \<Rightarrow> Inr (s\<lparr>gs_progress := in_progress_new c\<rparr>))"

definition clear_in_progress_scan :: "grpc_scanner \<Rightarrow> grpc_scanner" where
  "clear_in_progress_scan s = s\<lparr>gs_progress := in_progress_clear (gs_progress s)\<rparr>"

definition recovered_outputs :: "grpc_keys \<Rightarrow> grpc_output list \<Rightarrow> (bytes \<times> wallet_output \<times> nat) list" where
  \<comment> \<open>the errors go into a list that nothing reads\<close>
  "recovered_outputs K outs = List.map_filter (\<lambda>out. case grpc_scan_for_recoverable_output K out of
      Inl _ \<Rightarrow> None
    | Inr found \<Rightarrow> map_option (\<lambda>(w, i). (go_hash out, w, i)) found) outs"

definition scanned_block :: "grpc_keys \<Rightarrow> grpc_block \<Rightarrow> block_scan" where
  "scanned_block K b = \<lparr>bl_height = gb_height b, bl_hash = gb_hash b,
     bl_outputs = recovered_outputs K (gb_outputs b), bl_inputs = gb_inputs b, bl_timestamp = gb_timestamp b\<rparr>"

fun grpc_stream :: "grpc_keys \<Rightarrow> grpc_message list \<Rightarrow> scan_stream" where
  \<comment> \<open>the task that reads the stream; the channel closes when it returns\<close>
  "grpc_stream K [] = []"
| "grpc_stream K (m # ms) = (case m of
      StreamError e \<Rightarrow> [Inl (GrpcError e)]
    | NoBlock \<Rightarrow> []
    | BlockMessage (Inl e) \<Rightarrow> [Inl (GrpcError e)]
    | BlockMessage (Inr b) \<Rightarrow> Inr [scanned_block K b] # grpc_stream K ms)"

definition grpc_scan_blocks ::
  "grpc_node \<Rightarrow> grpc_keys \<Rightarrow> scan_config \<Rightarrow> grpc_scanner \<Rightarrow> (scanner_error + scan_stream) \<times> grpc_scanner" where
  \<comment> \<open>the tip is requested twice when there is an end height, with the same answer here\<close>
  "grpc_scan_blocks N K c s =
     (if (case cf_end c of None \<Rightarrow> False | Some end_height \<Rightarrow> cf_start c > end_height)
      then (Inl (OperationNotSupported ''start_height cannot be greater than end_height''), s)
      else (case update_scan_config N c s of
          Inl e \<Rightarrow> (Inl e, s)
        | Inr s' \<Rightarrow> (case grpc_get_tip_info N of
            Inl e \<Rightarrow> (Inl e, s')
          | Inr tip \<Rightarrow>
              (let end_height = min (opt_or (ti_height tip) (cf_end c)) (ti_height tip)
               in (map_sum id (grpc_stream K) (request_blocks N [cf_start c..<Suc end_height]), s')))))"

section \<open>The builder\<close>

record grpc_builder =
  gu_base_url :: "string option"
  gu_timeout :: "u64 option"
  gu_threads :: nat

definition new_grpc_builder :: grpc_builder where
  "new_grpc_builder = \<lparr>gu_base_url = None, gu_timeout = None, gu_threads = 8\<rparr>"

definition with_base_url :: "string \<Rightarrow> grpc_builder \<Rightarrow> grpc_builder" where
  "with_base_url url b = b\<lparr>gu_base_url := Some url\<rparr>"

definition with_grpc_timeout :: "u64 \<Rightarrow> grpc_builder \<Rightarrow> grpc_builder" where
  "with_grpc_timeout timeout b = b\<lparr>gu_timeout := Some timeout\<rparr>"

definition with_processing_threads :: "nat \<Rightarrow> grpc_builder \<Rightarrow> grpc_builder" where
  "with_processing_threads n b = b\<lparr>gu_threads := n\<rparr>"

definition build_grpc ::
  "grpc_node \<Rightarrow> grpc_keys \<Rightarrow> nat \<Rightarrow> grpc_builder \<Rightarrow> scanner_error + grpc_scanner" where
  \<comment> \<open>the key managers that were added are \<open>K\<close>\<close>
  "build_grpc N K cpus b = (case gu_base_url b of
      None \<Rightarrow> Inl (ConfigurationError ''Base URL not specified'')
    | Some base_url \<Rightarrow>
        if gk_count K = 0 then Inl (ConfigurationError ''No Key managers not specified'')
        else (case gu_timeout b of
            Some timeout \<Rightarrow> grpc_with_timeout N K cpus base_url timeout (gu_threads b)
          | None \<Rightarrow> grpc_new N K cpus base_url (gu_threads b)))"

end
