(* ===== verification/Http_Calls.thy ===== *)
theory Http_Calls
  imports Grpc_Scanner
begin

text \<open>
  The HTTP calls under the retries of \<open>scanning/http/scanner.rs\<close>, and the making of the scanner.
  One exchange with the node is a function of the path, the query and its number among the
  retries: \<open>None\<close> when the time is up, otherwise no connection or a reply. The parsers of the
  replies belong to \<^verbatim>\<open>serde_json\<close>; \<open>sw_sync\<close> includes the conversion to the older form of the
  response. \<open>node_of_wire\<close> is the \<open>node\<close> the other definitions of the scanner take, made of these
  calls.
\<close>

section \<open>Replies\<close>

datatype http_reply = NoConnection string | Reply nat "string + string"

record http_chain_metadata =
  hm_height :: u64
  hm_hash :: bytes
  hm_difficulty :: string
  hm_pruned :: u64
  hm_timestamp :: u64

record http_block_header =
  hh_height :: u64
  hh_hash :: bytes
  hh_timestamp :: u64

record scan_wire =
  sw_get :: "string \<Rightarrow> (string \<times> string) list \<Rightarrow> nat \<Rightarrow> http_reply option"
  sw_status :: "nat \<Rightarrow> string"
  sw_sync :: "string \<Rightarrow> string + sync_response"
  sw_utxos :: "string \<Rightarrow> string + full_output list"
  sw_tip :: "string \<Rightarrow> string + http_chain_metadata"
  sw_header :: "string \<Rightarrow> string + http_block_header"

definition ok_status :: "nat \<Rightarrow> bool" where
  "ok_status status \<longleftrightarrow> 200 \<le> status \<and> status < 300"

definition reply_body :: "scan_wire \<Rightarrow> http_reply \<Rightarrow> scanner_error + (string + string)" where
  \<comment> \<open>the checks every call begins with\<close>
  "reply_body W reply = (case reply of
      NoConnection e \<Rightarrow> Inl (ConnectionFailed (''HTTP request failed: '' @ e))
    | Reply status body \<Rightarrow>
        if ok_status status then Inr body
        else Inl (ConnectionFailed (''HTTP error: '' @ sw_status W status)))"

definition parse_body :: "string \<Rightarrow> (string \<Rightarrow> string + 'a) \<Rightarrow> string + string \<Rightarrow> scanner_error + 'a" where
  \<comment> \<open>\<open>label\<close>: how a body that cannot be read is reported\<close>
  "parse_body label parse body = (case body of
      Inl e \<Rightarrow> Inl (ConnectionFailed (label @ e))
    | Inr text \<Rightarrow> map_sum (\<lambda>e. ConnectionFailed (''Failed to parse response: '' @ e)) id (parse text))"

section \<open>The four calls\<close>

definition sync_utxos_by_block_http_call :: "scan_wire \<Rightarrow> http_reply \<Rightarrow> scanner_error + sync_response" where
  "sync_utxos_by_block_http_call W reply = (case reply_body W reply of
      Inl e \<Rightarrow> Inl e
    | Inr body \<Rightarrow> parse_body ''Failed to parse response: '' (sw_sync W) body)"

definition get_utxos_by_block_http_call :: "scan_wire \<Rightarrow> http_reply \<Rightarrow> scanner_error + full_output list" where
  "get_utxos_by_block_http_call W reply = (case reply_body W reply of
      Inl e \<Rightarrow> Inl e
    | Inr body \<Rightarrow> parse_body ''Failed to read response body: '' (sw_utxos W) body)"

definition get_tip_info_http_call :: "externals \<Rightarrow> scan_wire \<Rightarrow> http_reply \<Rightarrow> scanner_error + tip_info" where
  "get_tip_info_http_call X W reply = (case reply_body W reply of
      Inl e \<Rightarrow> Inl e
    | Inr body \<Rightarrow> (case parse_body ''Failed to read response body: '' (sw_tip W) body of
        Inl e \<Rightarrow> Inl e
      | Inr m \<Rightarrow> (case fixed_hash_of (hm_hash m) of
          None \<Rightarrow> Inl (ConversionError (x_size_error X))
        | Some h \<Rightarrow> Inr \<lparr>ti_height = hm_height m, ti_hash = h, ti_difficulty = hm_difficulty m,
            ti_pruned = hm_pruned m, ti_timestamp = hm_timestamp m\<rparr>)))"

definition get_header_by_height_http_call ::
  "externals \<Rightarrow> scan_wire \<Rightarrow> http_reply \<Rightarrow> scanner_error + (u64 \<times> bytes \<times> u64) option" where
  \<comment> \<open>a header the node does not have is an answer\<close>
  "get_header_by_height_http_call X W reply =
     (if (case reply of NoConnection _ \<Rightarrow> False | Reply status _ \<Rightarrow> status = 404) then Inr None
      else (case reply_body W reply of
          Inl e \<Rightarrow> Inl e
        | Inr body \<Rightarrow> (case parse_body ''Failed to read response body: '' (sw_header W) body of
            Inl e \<Rightarrow> Inl e
          | Inr m \<Rightarrow> (case fixed_hash_of (hh_hash m) of
              None \<Rightarrow> Inl (ConversionError (x_size_error X))
            | Some h \<Rightarrow> Inr (Some (hh_height m, h, hh_timestamp m))))))"

section \<open>The node of the scanner\<close>

definition attempt_of :: "(http_reply \<Rightarrow> scanner_error + 'a) \<Rightarrow> http_reply option \<Rightarrow> 'a attempt" where
  \<comment> \<open>\<open>timeout(..)\<close> around a call\<close>
  "attempt_of call r = (case r of
      None \<Rightarrow> TimedOut
    | Some reply \<Rightarrow> (case call reply of Inl e \<Rightarrow> Failed e | Inr a \<Rightarrow> Answered a))"

definition bool_text :: "bool \<Rightarrow> string" where
  "bool_text b = (if b then ''true'' else ''false'')"

definition node_of_wire :: "externals \<Rightarrow> scan_wire \<Rightarrow> nat \<Rightarrow> u64 \<Rightarrow> node" where
  "node_of_wire X W max_retries backoff_base =
     \<lparr>nd_max_retries = max_retries, nd_backoff_base = backoff_base,
      nd_tip = (\<lambda>n. attempt_of (\<lambda>r. map_sum id ti_height (get_tip_info_http_call X W r)) (sw_get W ''/get_tip_info'' [] n)),
      nd_header = (\<lambda>h n. attempt_of (\<lambda>r. map_sum id (map_option (\<lambda>(_, hash, _). hash)) (get_header_by_height_http_call X W r))
        (sw_get W ''/get_header_by_height'' [(''height'', show_nat h)] n)),
      nd_sync = (\<lambda>start limit page_no exclude_spent n. attempt_of (sync_utxos_by_block_http_call W)
        (sw_get W ''/sync_utxos_by_block'' [(''start_header_hash'', start), (''limit'', show_nat limit),
          (''page'', show_nat page_no), (''version'', ''1''), (''exclude_spent'', bool_text exclude_spent)] n)),
      nd_utxos = (\<lambda>h n. attempt_of (get_utxos_by_block_http_call W)
        (sw_get W ''/get_utxos_by_block'' [(''header_hash'', x_hex X h)] n))\<rparr>"

section \<open>The scanner\<close>

record http_scanner =
  hs_base_url :: string
  hs_timeout :: u64
  hs_keys :: nat
  hs_progress :: in_progress
  hs_threads :: nat
  hs_max_retries :: nat
  hs_backoff_base :: u64

definition http_with_timeout ::
  "string option \<Rightarrow> bool \<Rightarrow> nat \<Rightarrow> string \<Rightarrow> u64 \<Rightarrow> nat \<Rightarrow> nat \<Rightarrow> nat \<Rightarrow> u64 \<Rightarrow> scanner_error + http_scanner" where
  \<comment> \<open>\<open>build_error\<close>: the client cannot be made; \<open>answers\<close>: the node answers the test request, with
     whatever status; \<open>keys\<close>: the number of key managers\<close>
  "http_with_timeout build_error answers cpus base_url timeout keys threads max_retries backoff_base =
     (if keys = 0 then Inl (ConfigurationError ''At least one key manager must be specified'')
      else (case build_error of
          Some e \<Rightarrow> Inl (ConnectionFailed (''Failed to create HTTP client: '' @ e))
        | None \<Rightarrow>
            if \<not> answers then Inl (ConnectionFailed (''Failed to connect to '' @ base_url))
            else Inr \<lparr>hs_base_url = base_url, hs_timeout = timeout, hs_keys = keys,
              hs_progress = in_progress_new_empty, hs_threads = thread_count cpus threads,
              hs_max_retries = max_retries, hs_backoff_base = backoff_base\<rparr>))"

definition http_new ::
  "string option \<Rightarrow> bool \<Rightarrow> nat \<Rightarrow> string \<Rightarrow> nat \<Rightarrow> nat \<Rightarrow> scanner_error + http_scanner" where
  "http_new build_error answers cpus base_url keys threads =
     http_with_timeout build_error answers cpus base_url 30 keys threads 3 2"

definition http_scan_config :: "u64 \<Rightarrow> u64 option \<Rightarrow> scan_config" where
  "http_scan_config start_height end_height =
     \<lparr>cf_start = start_height, cf_end = end_height, cf_batch = Some 50, cf_exclude_spent = False\<rparr>"

definition http_update_scan_config :: "scan_config \<Rightarrow> http_scanner \<Rightarrow> http_scanner" where
  "http_update_scan_config c s = s\<lparr>hs_progress := in_progress_new c\<rparr>"

definition http_clear_in_progress_scan :: "http_scanner \<Rightarrow> http_scanner" where
  "http_clear_in_progress_scan s = s\<lparr>hs_progress := in_progress_clear (hs_progress s)\<rparr>"

definition http_get_block_by_height :: "u64 \<Rightarrow> scanner_error + grpc_block option" where
  \<comment> \<open>there is no such request\<close>
  "http_get_block_by_height height = Inr None"

definition http_get_blocks_by_heights :: "u64 list \<Rightarrow> scanner_error + grpc_block list" where
  "http_get_blocks_by_heights heights =
     map_sum id (List.map_filter id) (mapM http_get_block_by_height heights)"

definition with_end_height :: "u64 \<Rightarrow> scan_config \<Rightarrow> scan_config" where
  "with_end_height h c = c\<lparr>cf_end := Some h\<rparr>"

definition with_start_end_heights :: "u64 \<Rightarrow> u64 \<Rightarrow> scan_config \<Rightarrow> scan_config" where
  "with_start_end_heights start end_height c = c\<lparr>cf_start := start, cf_end := Some end_height\<rparr>"

end
