(* ===== verification/Wallet_Keys.thy ===== *)
theory Wallet_Keys
  imports Accounts Tx_Building
begin

text \<open>
  The keys of an account: the encryption of \<open>utils/crypto.rs\<close>, the creation of an account
  with its encrypted wallet and the functions of \<open>AccountRow\<close> that decrypt it
  (\<open>db/accounts.rs\<close>), \<open>utils/init_wallet.rs\<close> and \<open>utils/rename_wallet.rs\<close>. A wallet is a value
  of an opaque type; the cipher, the key derivation and what the Tari libraries read from a
  wallet are the fields of \<open>cipher_tools\<close> and \<open>wallet_tools\<close>, and the random salt and nonce
  are arguments.
\<close>

section \<open>Encryption\<close>

record cipher_tools =
  ci_derive :: "string \<Rightarrow> bytes \<Rightarrow> string + bytes"           \<comment> \<open>Argon2id: password and salt\<close>
  ci_encrypt :: "bytes \<Rightarrow> bytes \<Rightarrow> bytes \<Rightarrow> string + bytes"   \<comment> \<open>key, nonce, data\<close>
  ci_decrypt :: "bytes \<Rightarrow> bytes \<Rightarrow> bytes \<Rightarrow> string + bytes"

record full_encrypted_data =
  fe_ciphertext :: bytes
  fe_nonce :: bytes
  fe_salt :: bytes

definition derive_key :: "cipher_tools \<Rightarrow> string \<Rightarrow> bytes \<Rightarrow> string + bytes" where
  "derive_key C password salt =
     map_sum (\<lambda>e. ''Key derivation failed: '' @ e) id (ci_derive C password salt)"

definition encrypt_data ::
  "cipher_tools \<Rightarrow> bytes \<Rightarrow> bytes \<Rightarrow> bytes \<Rightarrow> string \<Rightarrow> string + full_encrypted_data" where
  "encrypt_data C salt nonce data password =
     bind_result (derive_key C password salt) (\<lambda>key.
     bind_result (map_sum (\<lambda>e. ''Encryption failed: '' @ e) id (ci_encrypt C key nonce data)) (\<lambda>ciphertext.
     Inr \<lparr>fe_ciphertext = ciphertext, fe_nonce = nonce, fe_salt = salt\<rparr>))"

definition decrypt_data :: "cipher_tools \<Rightarrow> full_encrypted_data \<Rightarrow> string \<Rightarrow> string + bytes" where
  "decrypt_data C data password =
     bind_result (derive_key C password (fe_salt data)) (\<lambda>key.
       if length (fe_nonce data) \<noteq> 24 then Inl ''Nonce must be 24 bytes''
       else map_sum (\<lambda>e. ''Decryption failed: '' @ e) id
         (ci_decrypt C key (fe_nonce data) (fe_ciphertext data)))"

definition parse_key_hex ::
  "(string \<Rightarrow> string + bytes) \<Rightarrow> (bytes \<Rightarrow> string + 'k) \<Rightarrow> string \<Rightarrow> string \<Rightarrow> string + 'k" where
  "parse_key_hex unhex decode label s =
     bind_result (map_sum (\<lambda>e. ''Invalid '' @ label @ '' hex: '' @ e) id (unhex s)) (\<lambda>b.
       map_sum (\<lambda>e. ''Invalid '' @ label @ '': '' @ e) id (decode b))"

definition parse_public_key_hex ::
  "(string \<Rightarrow> string + bytes) \<Rightarrow> (bytes \<Rightarrow> string + 'k) \<Rightarrow> string \<Rightarrow> string + 'k" where
  "parse_public_key_hex unhex decode s = parse_key_hex unhex decode ''public key'' s"

definition parse_private_key_hex ::
  "(string \<Rightarrow> string + bytes) \<Rightarrow> (bytes \<Rightarrow> string + 'k) \<Rightarrow> string \<Rightarrow> string + 'k" where
  "parse_private_key_hex unhex decode s = parse_key_hex unhex decode ''private key'' s"

section \<open>Wallets\<close>

record 'w wallet_tools =
  wl_to_json :: "'w \<Rightarrow> string + bytes"
  wl_from_json :: "bytes \<Rightarrow> string + 'w"
  wl_public_spend :: "'w \<Rightarrow> bytes"
  wl_public_view :: "'w \<Rightarrow> bytes"
  wl_ledger_account :: "'w \<Rightarrow> u64 option"        \<comment> \<open>the account index of a hardware wallet\<close>
  wl_digest :: "string \<Rightarrow> bytes list \<Rightarrow> bytes"   \<comment> \<open>the domain separated hash: its label and its parts\<close>
  wl_birthday :: "'w \<Rightarrow> nat option"
  wl_address :: "'w \<Rightarrow> bytes option \<Rightarrow> string + string"  \<comment> \<open>\<open>new_dual_address\<close> with its payment id\<close>
  wl_key_manager :: "'w \<Rightarrow> string + unit"
  wl_seed_words :: "'w \<Rightarrow> (string + string list) option"  \<comment> \<open>\<open>None\<close>: not a seed word wallet\<close>
  wl_keys_hex :: "'w \<Rightarrow> string \<times> string"          \<comment> \<open>the private view key and the public spend key\<close>
  wl_of_view_keys :: "string \<Rightarrow> string \<Rightarrow> nat \<Rightarrow> string + 'w"
    \<comment> \<open>both keys from their hex and \<open>ViewWallet::new\<close>\<close>
  wl_of_seed :: "string \<Rightarrow> string + 'w"            \<comment> \<open>\<open>SeedWordsWallet::construct_new\<close>\<close>

primrec le_bytes :: "nat \<Rightarrow> u64 \<Rightarrow> bytes" where
  \<comment> \<open>\<open>to_le_bytes\<close> of a number of \<open>k\<close> bytes\<close>
  "le_bytes 0 n = []"
| "le_bytes (Suc k) n = word_of_nat (n mod 256) # le_bytes k (n div 256)"

definition calculate_fingerprint :: "'w wallet_tools \<Rightarrow> 'w \<Rightarrow> bytes" where
  "calculate_fingerprint L wallet = wl_digest L ''wallet_identity_fingerprint''
     [wl_public_spend L wallet, wl_public_view L wallet,
      le_bytes 8 (case wl_ledger_account L wallet of None \<Rightarrow> 0 | Some account \<Rightarrow> account)]"

definition create_wallet_account ::
  "cipher_tools \<Rightarrow> 'w wallet_tools \<Rightarrow> bytes \<Rightarrow> bytes \<Rightarrow> string \<Rightarrow> 'w \<Rightarrow> string \<Rightarrow> unit dbm" where
  \<comment> \<open>the whole of the function \<open>create_account\<close>; its \<^verbatim>\<open>INSERT\<close> is the definition of that name\<close>
  "create_wallet_account C L salt nonce friendly_name wallet password =
     bindM (lift_result (map_sum (\<lambda>e. Unexpected (''Serialization failed: '' @ e)) id (wl_to_json L wallet))) (\<lambda>json.
     bindM (lift_result (map_sum (\<lambda>e. Unexpected (''Encryption failed: '' @ e)) id
        (encrypt_data C salt nonce json password))) (\<lambda>data.
     create_account friendly_name (calculate_fingerprint L wallet)
       (fe_ciphertext data, fe_nonce data, fe_salt data) (int (opt_or 0 (wl_birthday L wallet)))))"

definition decrypt_wallet_type ::
  "cipher_tools \<Rightarrow> 'w wallet_tools \<Rightarrow> account_row \<Rightarrow> string \<Rightarrow> wallet_error + 'w" where
  "decrypt_wallet_type C L row password =
     bind_result (map_sum (\<lambda>_. DecryptionFailed ''Failed to decrypt wallet data'') id
       (decrypt_data C \<lparr>fe_ciphertext = a_encrypted row, fe_nonce = a_nonce row, fe_salt = a_salt row\<rparr> password))
       (\<lambda>plaintext. map_sum (\<lambda>e. Decoding (''Failed to deserialize wallet JSON: '' @ e)) id
          (wl_from_json L plaintext))"

definition get_address ::
  "cipher_tools \<Rightarrow> 'w wallet_tools \<Rightarrow> account_row \<Rightarrow> string \<Rightarrow> wallet_error + string" where
  "get_address C L row password = bind_result (decrypt_wallet_type C L row password) (\<lambda>wallet.
     map_sum (\<lambda>e. Unexpected (''Failed to generate address: '' @ e)) id (wl_address L wallet None))"

definition get_address_with_payment_id ::
  "cipher_tools \<Rightarrow> 'w wallet_tools \<Rightarrow> account_row \<Rightarrow> string \<Rightarrow> bytes \<Rightarrow> wallet_error + string" where
  "get_address_with_payment_id C L row password payment_id =
     bind_result (decrypt_wallet_type C L row password) (\<lambda>wallet.
       map_sum (\<lambda>e. Unexpected (''Failed to generate address with payment ID: '' @ e)) id
         (wl_address L wallet (Some payment_id)))"

definition get_key_manager ::
  "cipher_tools \<Rightarrow> 'w wallet_tools \<Rightarrow> account_row \<Rightarrow> string \<Rightarrow> wallet_error + 'w" where
  \<comment> \<open>a key manager is the wallet it is made from\<close>
  "get_key_manager C L row password = bind_result (decrypt_wallet_type C L row password) (\<lambda>wallet.
     map_sum (\<lambda>e. Unexpected (''Failed to create key manager: '' @ e)) (\<lambda>_. wallet) (wl_key_manager L wallet))"

definition get_seed_words ::
  "cipher_tools \<Rightarrow> 'w wallet_tools \<Rightarrow> account_row \<Rightarrow> string \<Rightarrow> wallet_error + string list option" where
  "get_seed_words C L row password = bind_result (decrypt_wallet_type C L row password) (\<lambda>wallet.
     case wl_seed_words L wallet of
       None \<Rightarrow> Inr None
     | Some words \<Rightarrow> map_sum (\<lambda>e. Unexpected (''Failed to generate mnemonic: '' @ e)) Some words)"

definition get_keys_hex ::
  "cipher_tools \<Rightarrow> 'w wallet_tools \<Rightarrow> account_row \<Rightarrow> string \<Rightarrow> wallet_error + string \<times> string" where
  "get_keys_hex C L row password = map_sum id (wl_keys_hex L) (decrypt_wallet_type C L row password)"

section \<open>Initialisation and renaming\<close>

definition save_wallet_to_db ::
  "cipher_tools \<Rightarrow> 'w wallet_tools \<Rightarrow> bytes \<Rightarrow> bytes \<Rightarrow> 'w \<Rightarrow> string \<Rightarrow> string option \<Rightarrow> unit dbm" where
  "save_wallet_to_db C L salt nonce wallet password friendly_name =
     create_wallet_account C L salt nonce (opt_or ''default'' friendly_name) wallet password"

definition rename_wallet :: "string \<Rightarrow> string \<Rightarrow> unit dbm" where
  "rename_wallet current_name new_name = transact (update_account_name current_name new_name)"

section \<open>Lemmas\<close>

lemma map_sum_ok_iff: "map_sum f g r = Inr b \<longleftrightarrow> (\<exists>a. r = Inr a \<and> b = g a)"
  by (cases r) auto

lemma le_bytes_inject: "m < 256 ^ k \<Longrightarrow> n < 256 ^ k \<Longrightarrow> le_bytes k m = le_bytes k n \<Longrightarrow> m = n"
proof (induction k arbitrary: m n)
  case (Suc k)
  then have "(word_of_nat (m mod 256) :: 8 word) = word_of_nat (n mod 256)" and "m div 256 = n div 256"
    by (auto simp: less_mult_imp_div_less mult.commute)
  then have "m mod 256 = n mod 256" by (simp add: word_of_nat_eq_iff take_bit_eq_mod)
  with \<open>m div 256 = n div 256\<close> show ?case by (metis mod_div_mult_eq)
qed simp

lemma fingerprint_identifies:
  assumes "\<And>label xs ys. wl_digest L label xs = wl_digest L label ys \<Longrightarrow> xs = ys"
    and "is_u64 (case wl_ledger_account L v of None \<Rightarrow> 0 | Some n \<Rightarrow> n)"
    and "is_u64 (case wl_ledger_account L w of None \<Rightarrow> 0 | Some n \<Rightarrow> n)"
  shows "calculate_fingerprint L v = calculate_fingerprint L w \<longleftrightarrow>
     wl_public_spend L v = wl_public_spend L w \<and> wl_public_view L v = wl_public_view L w \<and>
     (case wl_ledger_account L v of None \<Rightarrow> 0 | Some n \<Rightarrow> n) = (case wl_ledger_account L w of None \<Rightarrow> 0 | Some n \<Rightarrow> n)"
  using assms(1) le_bytes_inject [of _ 8] assms(2,3)
  unfolding calculate_fingerprint_def is_u64_def by fastforce

lemma decrypt_encrypted:
  assumes "encrypt_data C salt nonce data password = Inr enc" "length nonce = 24"
    and law: "\<And>k n p c. ci_encrypt C k n p = Inr c \<Longrightarrow> ci_decrypt C k n c = Inr p"
  shows "decrypt_data C enc password = Inr data"
proof -
  obtain k c where "ci_derive C password salt = Inr k" "ci_encrypt C k nonce data = Inr c"
    "enc = \<lparr>fe_ciphertext = c, fe_nonce = nonce, fe_salt = salt\<rparr>"
    using assms(1) by (auto simp: encrypt_data_def derive_key_def bind_result_ok_iff map_sum_ok_iff)
  with law assms(2) show ?thesis by (simp add: decrypt_data_def derive_key_def)
qed

end
