(* ===== verification/Node_Properties.thy ===== *)
theory Node_Properties
  imports Http_Client Http_Calls Wallet_Keys Scanner_Properties Reorg_Effects Samples
begin

text \<open>
  Properties of the two clients of the node and of the keys of an account: what is sent for a
  submission and what its answer becomes, what the gRPC scanner reports of a stream compared
  with the HTTP scanner, and that the wallet stored with an account is the one it was made
  with.
\<close>

section \<open>Submissions\<close>

lemma check_transaction_size_ok_iff:
  "check_transaction_size transaction = Inr u \<longleftrightarrow> (\<exists>raw. transaction = Inr raw \<and> length raw \<le> 2086912)"
  by (cases transaction)
    (auto simp: check_transaction_size_def max_transaction_size_def rpc_max_frame_size_def size_margin_def)


section \<open>The two scanners\<close>

definition output_fails :: "grpc_keys \<Rightarrow> grpc_output \<Rightarrow> bool" where
  "output_fails K out \<longleftrightarrow> isl (grpc_scan_for_recoverable_output K out)"

lemma recovered_without_failures:
  "recovered_outputs K outs = recovered_outputs K (filter (\<lambda>out. \<not> output_fails K out) outs)"
  by (induction outs) (auto simp: recovered_outputs_def List.map_filter_def output_fails_def split: sum.splits option.splits)

lemma grpc_stream_blocks:
  "grpc_stream K (map (\<lambda>b. BlockMessage (Inr b)) bs) = map (\<lambda>b. Inr [scanned_block K b]) bs"
  by (induction bs) simp_all

lemma scan_outputs_errors:
  "fst (scan_outputs X K us) = concat (map (\<lambda>u. case scanning_output K u of Inl e \<Rightarrow> [e]
     | Inr u' \<Rightarrow> (case scan_for_recoverable_output X K u' of Inl e \<Rightarrow> [e] | Inr _ \<Rightarrow> [])) us)"
proof -
  have "fst (foldl (\<lambda>(errs, found) u.
       case scanning_output K u of
         Inl e \<Rightarrow> (errs @ [e], found)
       | Inr u' \<Rightarrow> (case scan_for_recoverable_output X K u' of
           Inl e \<Rightarrow> (errs @ [e], found)
         | Inr None \<Rightarrow> (errs, found)
         | Inr (Some w) \<Rightarrow> (errs, found @ [w]))) (errs, found) us) =
      errs @ concat (map (\<lambda>u. case scanning_output K u of Inl e \<Rightarrow> [e]
     | Inr u' \<Rightarrow> (case scan_for_recoverable_output X K u' of Inl e \<Rightarrow> [e] | Inr _ \<Rightarrow> [])) us)" for errs found
    by (induction us arbitrary: errs found) (auto split: sum.splits option.splits)
  then show ?thesis by (simp add: scan_outputs_def)
qed

lemma process_http_blocks_fails:
  assumes "b \<in> set bs" "u \<in> set (bu_outputs b)" "scanning_output K u = Inr v"
    and "scan_for_recoverable_output X K v = Inl e"
  shows "isl (process_http_blocks X N K bs)"
proof -
  have "e \<in> set (fst (scan_outputs X K (bu_outputs b)))"
    unfolding scan_outputs_errors using assms(2-4) by (force split: sum.splits)
  then have "fst (scan_http_block X K b) \<noteq> []"
    by (auto simp: scan_http_block_def split: option.splits prod.splits)
  with assms(1) have "concat (map fst (map (scan_http_block X K) bs)) \<noteq> []" by auto
  then obtain e' es where "concat (map fst (map (scan_http_block X K) bs)) = e' # es"
    by (meson neq_Nil_conv)
  then show ?thesis by (simp only: process_http_blocks_def Let_def list.case sum.disc)
qed

text \<open>
  The two scanners treat an output whose recovery fails differently. Over gRPC the stream is
  the one of the same blocks without the failing outputs: nothing reports them. Over HTTP such
  an output makes the whole batch an error.
\<close>

theorem scanners_disagree_on_failures:
  "grpc_stream K (map (\<lambda>b. BlockMessage (Inr b)) bs) =
     map (\<lambda>b. Inr [scanned_block K (b\<lparr>gb_outputs := filter (\<lambda>out. \<not> output_fails K out) (gb_outputs b)\<rparr>)]) bs \<and>
   (b \<in> set pages \<and> u \<in> set (bu_outputs b) \<and> scanning_output HK u = Inr v \<and>
      scan_for_recoverable_output X HK v = Inl e \<longrightarrow> isl (process_http_blocks X N HK pages))"
proof (intro conjI impI)
  have "scanned_block K b = scanned_block K (b\<lparr>gb_outputs := filter (\<lambda>out. \<not> output_fails K out) (gb_outputs b)\<rparr>)" for b
    by (simp add: scanned_block_def recovered_without_failures [of K "gb_outputs b"])
  then show "grpc_stream K (map (\<lambda>b. BlockMessage (Inr b)) bs) =
     map (\<lambda>b. Inr [scanned_block K (b\<lparr>gb_outputs := filter (\<lambda>out. \<not> output_fails K out) (gb_outputs b)\<rparr>)]) bs"
    by (simp add: grpc_stream_blocks)
  show "isl (process_http_blocks X N HK pages)" if "b \<in> set pages \<and> u \<in> set (bu_outputs b) \<and>
      scanning_output HK u = Inr v \<and> scan_for_recoverable_output X HK v = Inl e"
    using that process_http_blocks_fails by blast
qed

section \<open>The wallet of an account\<close>

lemma first_row_new:
  "(\<And>q. q \<in> set rows \<Longrightarrow> \<not> P q) \<Longrightarrow> P r \<Longrightarrow> first_row P (rows @ [r]) = Some r"
  by (induction rows) (auto simp: first_row_def)

lemma create_account_found:
  assumes "create_account name fp enc birthday d = (Inr u, d')"
  shows "\<exists>row. get_account_by_name name d' = (Inr (Some row), d') \<and>
     a_encrypted row = fst enc \<and> a_nonce row = fst (snd enc) \<and> a_salt row = snd (snd enc)"
proof -
  obtain row where "accounts d' = accounts d @ [row]" "a_name row = name" "\<forall>r \<in> set (accounts d). a_name r \<noteq> name"
    "a_encrypted row = fst enc" "a_nonce row = fst (snd enc)" "a_salt row = snd (snd enc)"
    using assms by (auto simp: create_account_def statement_ok_iff Let_def split: if_splits)
  then show ?thesis by (simp add: get_account_by_name_def gets_def first_row_new)
qed

text \<open>
  C37: The wallet an account is created with is the wallet its password decrypts: it is found
  under the name of the account, and every function that reads the keys sees that wallet. The
  cipher is assumed to decrypt what it encrypted, and the JSON of a wallet to parse.
\<close>

theorem created_wallet_decrypts:
  assumes "create_wallet_account C L salt nonce name wallet password d = (Inr u, d')" "length nonce = 24"
    and "\<And>k n p c. ci_encrypt C k n p = Inr c \<Longrightarrow> ci_decrypt C k n c = Inr p"
    and "\<And>json. wl_to_json L wallet = Inr json \<Longrightarrow> wl_from_json L json = Inr wallet"
  shows "\<exists>row. get_account_by_name name d' = (Inr (Some row), d') \<and>
     decrypt_wallet_type C L row password = Inr wallet \<and>
     get_keys_hex C L row password = Inr (wl_keys_hex L wallet)"
proof -
  obtain json enc where json: "wl_to_json L wallet = Inr json"
    and enc: "encrypt_data C salt nonce json password = Inr enc"
    and made: "create_account name (calculate_fingerprint L wallet) (fe_ciphertext enc, fe_nonce enc, fe_salt enc)
      (int (opt_or 0 (wl_birthday L wallet))) d = (Inr u, d')"
    using assms(1) by (auto simp: create_wallet_account_def bindM_ok_iff lift_result_ok_iff map_sum_ok_iff)
  from create_account_found [OF made] obtain row where row: "get_account_by_name name d' = (Inr (Some row), d')"
    "\<lparr>fe_ciphertext = a_encrypted row, fe_nonce = a_nonce row, fe_salt = a_salt row\<rparr> = enc"
    by auto
  then have "decrypt_wallet_type C L row password = Inr wallet"
    using decrypt_encrypted [OF enc assms(2,3)] assms(4) [OF json] by (simp add: decrypt_wallet_type_def)
  with row show ?thesis by (auto simp: get_keys_hex_def)
qed

section \<open>A node without headers\<close>

definition chain_of :: "(scanner_error \<Rightarrow> string) \<Rightarrow> node \<Rightarrow> chain" where
  \<comment> \<open>the chain as the search for the fork point sees it\<close>
  "chain_of describe N h = map_sum describe id (get_header_by_height N h)"

definition never_finds_headers :: "scan_wire \<Rightarrow> bool" where
  "never_finds_headers W \<longleftrightarrow>
     (\<forall>h n. \<exists>body. sw_get W ''/get_header_by_height'' [(''height'', show_nat h)] n = Some (Reply 404 body))"

lemma headers_missing:
  assumes "never_finds_headers W"
  shows "get_header_by_height (node_of_wire X W max_retries base) h = Inr None"
proof -
  obtain body where "sw_get W ''/get_header_by_height'' [(''height'', show_nat h)] 0 = Some (Reply 404 body)"
    using assms unfolding never_finds_headers_def by blast
  then have "nd_header (node_of_wire X W max_retries base) h 0 = Answered None"
    by (simp add: node_of_wire_def attempt_of_def get_header_by_height_http_call_def)
  then show ?thesis
    by (simp add: get_header_by_height_def with_retry_def retry_loop.simps [of _ _ _ 0])
qed

text \<open>
  C26: A server that answers every request for a header with 404 makes the wallet forget an account:
  the missing headers count as a reorganisation down to height zero, every output of the
  account is deactivated and every block recorded for it is deleted, although no block was
  ever seen to differ.
\<close>

theorem missing_headers_roll_back_everything:
  assumes "never_finds_headers W"
    and "handle_reorgs X dh (chain_of describe (node_of_wire Y W max_retries base)) a cfg d = (Inr r, d')"
    and "get_scanned_tip_blocks_by_account a d = (Inr bs, d)" "bs \<noteq> []"
  shows "rr_resume r = 0 \<and>
     (\<forall>q \<in> set (outputs d'). o_account q = a \<longrightarrow> 0 \<le> o_height q \<longrightarrow> \<not> o_active q) \<and>
     filter (\<lambda>t. tip_account t = a \<and> 0 \<le> tip_height t) (tips d') = []"
proof -
  let ?chain = "chain_of describe (node_of_wire Y W max_retries base)"
  have none: "find_fork ?chain ys found = Inr (0, found \<or> ys \<noteq> [])" for ys found
    by (induction ys arbitrary: found) (simp_all add: chain_of_def headers_missing [OF assms(1)])
  have fork: "find_fork ?chain bs False = Inr (0, True)" using none [of bs False] assms(4) by simp
  obtain info where rollback: "rollback_from_height X dh a 0 cfg d = (Inr info, d')" and "rr_resume r = 0"
    using assms(2,3) fork
    by (cases bs) (auto simp: handle_reorgs_def bindM_ok_iff map_error_ok_iff transact_ok_iff ret_ok_iff assms(4)
      simp del: find_fork.simps)
  moreover have "\<not> o_active q" if "q \<in> set (outputs d')" "o_account q = a" "0 \<le> o_height q" for q
    using that unfolding rollback_tables(1) [OF rollback]
    by (auto simp: o_active_def soft_deleted_output_def from_height_def dest!: update_where_cases)
  moreover have "filter (\<lambda>t. tip_account t = a \<and> 0 \<le> tip_height t) (tips d') = []"
    by (auto simp: rollback_tables(3) [OF rollback] filter_empty_conv)
  ultimately show ?thesis by blast
qed

section \<open>The properties on concrete inputs\<close>

definition sample_wire :: http_wire where
  "sample_wire = \<lparr>hw_join = (\<lambda>base path. Inr (base @ path)),
     hw_send = (\<lambda>retries timeout m url body. Inr \<lparr>wr_status = 200, wr_text = Inr ''accepted'', wr_elapsed = 7\<rparr>),
     hw_status = show_nat, hw_build_error = None, hw_envelope = (\<lambda>raw. Inr ''envelope'')\<rparr>"

definition sample_client :: http_client where
  "sample_client = \<lparr>hc_base_url = ''http://node'', hc_max_retries = 3, hc_timeout_secs = 30,
     hc_last_latency = None, hc_sent = []\<rparr>"


definition fragile_keys :: grpc_keys where
  "fragile_keys = \<lparr>gk_count = 1,
     gk_recover = (\<lambda>i out. if go_hash out = [1] then Inl (DataError ''bad'') else Inr (Some ([], 5, []))),
     gk_import = (\<lambda>i out found. Some (sample_output (go_hash out) 5))\<rparr>"

definition grpc_sample_output :: "bytes \<Rightarrow> grpc_output" where
  "grpc_sample_output h = \<lparr>go_hash = h, go_commitment = [], go_encrypted = [], go_offset_key = []\<rparr>"

definition grpc_sample_block :: grpc_block where
  "grpc_sample_block = \<lparr>gb_height = 3, gb_hash = [9], gb_timestamp = 0, gb_inputs = [],
     gb_outputs = [grpc_sample_output [1], grpc_sample_output [2]], gb_kernels = []\<rparr>"

definition fragile_http_keys :: key_tools where
  "fragile_http_keys = \<lparr>kt_count = 1, kt_commitment = (\<lambda>_. None), kt_encrypted = (\<lambda>_. None),
     kt_offset_key = (\<lambda>_. None), kt_recover = (\<lambda>_ u. Inl (DataError ''bad'')), kt_import = (\<lambda>_ _ _. None)\<rparr>"

theorem scanners_disagree_on_failures_witness:
  "grpc_stream fragile_keys [BlockMessage (Inr grpc_sample_block)] =
     [Inr [scanned_block fragile_keys (grpc_sample_block\<lparr>gb_outputs := [grpc_sample_output [2]]\<rparr>)]] \<and>
   isl (process_http_blocks sample_X paged_node fragile_http_keys
     [\<lparr>bu_height = 3, bu_header_hash = [], bu_outputs = [\<lparr>mu_output_hash = [1], mu_commitment = [], mu_encrypted = [],
        mu_offset_key = []\<rparr>], bu_inputs = [], bu_timestamp = 0\<rparr>])"
proof -
  let ?u = "\<lparr>mu_output_hash = [1], mu_commitment = [], mu_encrypted = [], mu_offset_key = []\<rparr>"
  let ?b = "\<lparr>bu_height = 3, bu_header_hash = [], bu_outputs = [?u], bu_inputs = [], bu_timestamp = 0\<rparr>"
  have kept: "filter (\<lambda>out. \<not> output_fails fragile_keys out) (gb_outputs grpc_sample_block) = [grpc_sample_output [2]]"
    by code_simp
  have fails: "?b \<in> set [?b] \<and> ?u \<in> set (bu_outputs ?b) \<and> scanning_output fragile_http_keys ?u = Inr ?u \<and>
      scan_for_recoverable_output sample_X fragile_http_keys ?u = Inl (DataError ''bad'')"
    by (simp add: scanning_output_def fragile_http_keys_def scan_for_recoverable_output_def)
  note both = scanners_disagree_on_failures [of fragile_keys "[grpc_sample_block]" ?b "[?b]" ?u fragile_http_keys ?u sample_X
      "DataError ''bad''" paged_node]
  show ?thesis using both fails kept by simp
qed

definition plain_cipher :: cipher_tools where
  "plain_cipher = \<lparr>ci_derive = (\<lambda>password salt. Inr salt), ci_encrypt = (\<lambda>k n p. Inr (k @ p)),
     ci_decrypt = (\<lambda>k n c. Inr (drop (length k) c))\<rparr>"

definition byte_wallet :: "bytes wallet_tools" where
  "byte_wallet = \<lparr>wl_to_json = Inr, wl_from_json = Inr, wl_public_spend = (\<lambda>w. w), wl_public_view = (\<lambda>w. w),
     wl_ledger_account = (\<lambda>_. None), wl_digest = (\<lambda>label parts. concat parts), wl_birthday = (\<lambda>_. None),
     wl_address = (\<lambda>_ _. Inr ''address''), wl_key_manager = (\<lambda>_. Inr ()), wl_seed_words = (\<lambda>_. None),
     wl_keys_hex = (\<lambda>w. (''view'', ''spend'')), wl_of_view_keys = (\<lambda>_ _ _. Inr []), wl_of_seed = (\<lambda>_. Inr [])\<rparr>"

theorem created_wallet_decrypts_witness:
  "\<exists>row d'. create_wallet_account plain_cipher byte_wallet [7] (replicate 24 0) ''main'' [1, 2] ''secret'' empty_db = (Inr (), d') \<and>
     get_account_by_name ''main'' d' = (Inr (Some row), d') \<and>
     decrypt_wallet_type plain_cipher byte_wallet row ''secret'' = Inr [1, 2]"
proof -
  let ?run = "create_wallet_account plain_cipher byte_wallet [7] (replicate 24 0) ''main'' [1, 2] ''secret'' empty_db"
  have "succeeds_with ?run (\<lambda>_ _. True)" by code_simp
  then obtain d' where run: "?run = (Inr (), d')" unfolding with_iffs by auto
  have "\<And>k n p c. ci_encrypt plain_cipher k n p = Inr c \<Longrightarrow> ci_decrypt plain_cipher k n c = Inr p"
    "\<And>json. wl_to_json byte_wallet [1, 2] = Inr json \<Longrightarrow> wl_from_json byte_wallet json = Inr [1, 2]"
    by (auto simp: plain_cipher_def byte_wallet_def)
  from created_wallet_decrypts [OF run _ this] run show ?thesis by auto
qed

definition empty_server :: scan_wire where
  \<comment> \<open>a server that knows none of the paths\<close>
  "empty_server = \<lparr>sw_get = (\<lambda>path q n. Some (Reply 404 (Inr ''not found''))), sw_status = show_nat,
     sw_sync = (\<lambda>_. Inl []), sw_utxos = (\<lambda>_. Inl []), sw_tip = (\<lambda>_. Inl []), sw_header = (\<lambda>_. Inl [])\<rparr>"

theorem missing_headers_roll_back_everything_witness:
  "\<exists>r d'. handle_reorgs sample_X sample_hex (chain_of (\<lambda>_. []) (node_of_wire sample_X empty_server 3 2)) 1 None reorg_db =
       (Inr r, d') \<and>
     filter (\<lambda>t. tip_account t = 1 \<and> 0 \<le> tip_height t) (tips reorg_db) \<noteq> [] \<and>
     filter (\<lambda>t. tip_account t = 1 \<and> 0 \<le> tip_height t) (tips d') = []"
proof -
  let ?run = "handle_reorgs sample_X sample_hex (chain_of (\<lambda>_. []) (node_of_wire sample_X empty_server 3 2)) 1 None reorg_db"
  have "succeeds_with ?run (\<lambda>_ _. True)" by code_simp
  then obtain r d' where run: "?run = (Inr r, d')" unfolding with_iffs by blast
  have "succeeds_with (get_scanned_tip_blocks_by_account 1 reorg_db) (\<lambda>bs d. bs \<noteq> [])" by code_simp
  then obtain bs where bs: "get_scanned_tip_blocks_by_account 1 reorg_db = (Inr bs, reorg_db)" "bs \<noteq> []"
    unfolding with_iffs by (auto dest: get_tips_reads)
  have "never_finds_headers empty_server" by (simp add: never_finds_headers_def empty_server_def)
  from missing_headers_roll_back_everything [OF this run bs] run
  have "filter (\<lambda>t. tip_account t = 1 \<and> 0 \<le> tip_height t) (tips d') = []" by blast
  moreover have "filter (\<lambda>t. tip_account t = 1 \<and> 0 \<le> tip_height t) (tips reorg_db) \<noteq> []" by code_simp
  ultimately show ?thesis using run by blast
qed

end
