(* ===== verification/Config.thy ===== *)
theory Config
  imports Coordinator Tx_Building
begin

text \<open>
  The configuration of the wallet (\<open>config/defaults.rs\<close>, \<open>config/loader.rs\<close>) and the commands of
  its command line with their arguments (\<open>cli.rs\<close>). A network is the text of its name. The
  crate that reads and merges the sources of the configuration is the record \<open>config_sources\<close>;
  a configuration is the lookup it offers.
\<close>

type_synonym network = string

section \<open>Arguments\<close>

record security_args =
  sa_password :: string

record database_args =
  da_database_path :: "string option"

record node_args =
  na_base_url :: "string option"
  na_batch_size :: "u64 option"

record account_args =
  aa_account_name :: "string option"

record transaction_args =
  ta_idempotency_key :: "string option"
  ta_confirmation_window :: "u64 option"

record burn_args =
  ba_burn_proofs_dir :: "string option"

record daemon_args =
  dg_scan_interval_secs :: "u64 option"
  dg_api_port :: "nat option"

section \<open>The wallet configuration\<close>

record webhook_settings =
  wh_url :: "string option"
  wh_secret :: "string option"
  wh_only_types :: "string list option"

record wallet_config =
  wg_network :: network
  wg_base_url :: string
  wg_database_path :: string
  wg_batch_size :: u64
  wg_scan_interval_secs :: u64
  wg_api_port :: nat
  wg_confirmation_window :: u64
  wg_account_name :: "string option"
  wg_webhook :: webhook_settings
  wg_burn_proofs_dir :: "string option"

definition default_webhook_settings :: webhook_settings where
  "default_webhook_settings = \<lparr>wh_url = None, wh_secret = None, wh_only_types = None\<rparr>"

definition default_wallet_config :: wallet_config where
  "default_wallet_config = \<lparr>wg_network = ''mainnet'', wg_base_url = ''https://rpc.tari.com'',
     wg_database_path = ''data/wallet.db'', wg_batch_size = 25, wg_scan_interval_secs = 60,
     wg_api_port = 9000, wg_confirmation_window = 3, wg_account_name = None,
     wg_webhook = default_webhook_settings, wg_burn_proofs_dir = None\<rparr>"

definition default_burn_proofs_dir :: "string option \<Rightarrow> network \<Rightarrow> string" where
  \<comment> \<open>the first argument is the data directory of the platform\<close>
  "default_burn_proofs_dir data_dir nw = opt_or ''.'' data_dir @ ''/tari/'' @ nw @ ''/burn_proofs''"

definition effective_burn_proofs_dir :: "string option \<Rightarrow> wallet_config \<Rightarrow> string" where
  "effective_burn_proofs_dir data_dir c =
     opt_or (default_burn_proofs_dir data_dir (wg_network c)) (wg_burn_proofs_dir c)"

definition apply_database :: "database_args \<Rightarrow> wallet_config \<Rightarrow> wallet_config" where
  "apply_database args c = c\<lparr>wg_database_path := opt_or (wg_database_path c) (da_database_path args)\<rparr>"

definition apply_node :: "node_args \<Rightarrow> wallet_config \<Rightarrow> wallet_config" where
  "apply_node args c = c\<lparr>wg_base_url := opt_or (wg_base_url c) (na_base_url args),
     wg_batch_size := opt_or (wg_batch_size c) (na_batch_size args)\<rparr>"

definition apply_account :: "account_args \<Rightarrow> wallet_config \<Rightarrow> wallet_config" where
  "apply_account args c = (case aa_account_name args of None \<Rightarrow> c
     | Some name \<Rightarrow> c\<lparr>wg_account_name := Some name\<rparr>)"

definition apply_transaction :: "transaction_args \<Rightarrow> wallet_config \<Rightarrow> wallet_config" where
  "apply_transaction args c =
     c\<lparr>wg_confirmation_window := opt_or (wg_confirmation_window c) (ta_confirmation_window args)\<rparr>"

definition apply_burn :: "burn_args \<Rightarrow> wallet_config \<Rightarrow> wallet_config" where
  "apply_burn args c = (case ba_burn_proofs_dir args of None \<Rightarrow> c
     | Some dir \<Rightarrow> c\<lparr>wg_burn_proofs_dir := Some dir\<rparr>)"

definition apply_daemon :: "daemon_args \<Rightarrow> wallet_config \<Rightarrow> wallet_config" where
  "apply_daemon args c = c\<lparr>wg_scan_interval_secs := opt_or (wg_scan_interval_secs c) (dg_scan_interval_secs args),
     wg_api_port := opt_or (wg_api_port c) (dg_api_port args)\<rparr>"

section \<open>Loading\<close>

type_synonym config = "string \<Rightarrow> string + string option"   \<comment> \<open>\<open>None\<close>: not found\<close>

record config_sources =
  cs_text :: "string option"                \<comment> \<open>the file, if it exists\<close>
  cs_write_error :: "string option"
  cs_path_valid :: bool
  cs_build :: "string \<Rightarrow> string + config"    \<comment> \<open>the file merged with the environment\<close>
  cs_network :: "string \<Rightarrow> string + network"
  cs_default_network :: network
  cs_default_text :: string                 \<comment> \<open>\<open>config/config.toml\<close> of the crate\<close>

definition write_config_to :: "config_sources \<Rightarrow> string \<Rightarrow> string + string" where
  \<comment> \<open>the text the file then holds\<close>
  "write_config_to S source = (case cs_write_error S of Some e \<Rightarrow> Inl e | None \<Rightarrow> Inr (source @ [CHR 0x0A]))"

definition config_overrides :: "network \<Rightarrow> (string \<times> string) list" where
  "config_overrides nw = [(''wallet.override_from'', nw), (''wallet.network'', nw)]"

definition select_network :: "config_sources \<Rightarrow> network option \<Rightarrow> config \<Rightarrow> string + network" where
  "select_network S cli_network cfg = (case cli_network of
      Some nw \<Rightarrow> Inr nw
    | None \<Rightarrow> (case cfg ''network'' of
        Inr (Some text) \<Rightarrow> map_sum (\<lambda>_. ''Invalid network'') id (cs_network S text)
      | Inr None \<Rightarrow> Inr (cs_default_network S)
      | Inl _ \<Rightarrow> Inl ''Could not get network configuration''))"

definition load_configuration :: "config_sources \<Rightarrow> network option \<Rightarrow> string + config \<times> string" where
  \<comment> \<open>the configuration, and the text of the file afterwards\<close>
  "load_configuration S cli_network =
     bind_result (case cs_text S of Some text \<Rightarrow> Inr text
        | None \<Rightarrow> map_sum (\<lambda>_. ''Could not create default config'') id (write_config_to S (cs_default_text S))) (\<lambda>text.
     bind_result (if cs_path_valid S then Inr () else Inl ''Invalid config file path'') (\<lambda>_.
     bind_result (map_sum (\<lambda>_. ''Could not build initial config'') id (cs_build S text)) (\<lambda>cfg.
     bind_result (select_network S cli_network cfg) (\<lambda>nw.
       Inr (foldl (\<lambda>c (key, v). c(key := Inr (Some v))) cfg (config_overrides nw), text)))))"

section \<open>Commands\<close>

text \<open>
  The commands with many arguments have a record of their own, with the fields of the variant.
\<close>

record create_unsigned_args =
  cu_security :: security_args
  cu_db :: database_args
  cu_tx :: transaction_args
  cu_account_name :: string
  cu_recipient :: "string list"
  cu_output_file :: string
  cu_seconds_to_lock :: u64

record lock_funds_args =
  la_db :: database_args
  la_tx :: transaction_args
  la_account_name :: string
  la_output_file :: string
  la_amount :: u64
  la_num_outputs :: nat
  la_fee_per_gram :: u64
  la_estimated_output_size :: "nat option"
  la_seconds_to_lock_utxos :: "u64 option"

record register_args =
  ra_security :: security_args
  ra_node :: node_args
  ra_db :: database_args
  ra_tx :: transaction_args
  ra_account_name :: string
  ra_vn_public_key :: string
  ra_vn_sig_nonce :: string
  ra_vn_sig :: string
  ra_claim_public_key :: string
  ra_max_epoch :: u64
  ra_fee_per_gram :: u64
  ra_payment_id :: "string option"
  ra_sidechain_deployment_key :: "string option"
  ra_seconds_to_lock :: u64

record exit_args =
  xa_security :: security_args
  xa_node :: node_args
  xa_db :: database_args
  xa_tx :: transaction_args
  xa_account_name :: string
  xa_vn_public_key :: string
  xa_vn_sig_nonce :: string
  xa_vn_sig :: string
  xa_max_epoch :: u64
  xa_fee_per_gram :: u64
  xa_payment_id :: "string option"
  xa_sidechain_deployment_key :: "string option"
  xa_seconds_to_lock :: u64

record eviction_args =
  ea_security :: security_args
  ea_node :: node_args
  ea_db :: database_args
  ea_tx :: transaction_args
  ea_account_name :: string
  ea_proof_file :: string
  ea_fee_per_gram :: u64
  ea_payment_id :: "string option"
  ea_sidechain_deployment_key :: "string option"
  ea_seconds_to_lock :: u64

record burn_funds_args =
  bg_security :: security_args
  bg_db :: database_args
  bg_tx :: transaction_args
  bg_burn :: burn_args
  bg_node :: node_args
  bg_account_name :: string
  bg_amount :: u64
  bg_claim_public_key :: "string option"
  bg_sidechain_deployment_key :: "string option"
  bg_fee_per_gram :: u64
  bg_payment_id :: "string option"
  bg_seconds_to_lock :: u64

datatype commands =
    CreateAddress "string option" string
  | Scan security_args node_args database_args account_args u64
  | ReScan security_args node_args database_args string u64
  | DaemonCommand security_args node_args database_args "u64 option" "nat option"
  | Balance database_args account_args
  | ImportViewKey string string security_args database_args nat
  | Create security_args database_args account_args "string option"
  | ShowSeedWords security_args database_args account_args
  | ShowKeys security_args database_args account_args
  | CreateUnsignedTransaction create_unsigned_args
  | LockFunds lock_funds_args
  | RegisterValidatorNode register_args
  | SubmitValidatorNodeExit exit_args
  | SubmitValidatorEvictionProof eviction_args
  | Delete database_args account_args
  | BurnFunds burn_funds_args

record cli =
  cl_config :: string
  cl_network :: "network option"
  cl_command :: commands

end
