(* ===== verification/Cli_Commands.thy ===== *)
theory Cli_Commands
  imports Config Wallet_Keys Tx_Sender Api
begin

text \<open>
  The world a command runs in, and the commands of \<open>commands/validator_nodes.rs\<close> and
  \<open>commands/burn.rs\<close>. The world holds the databases and the output files by path, and the lines
  printed. A command opens its database (\<open>init_db\<close>), which makes an empty one where there is
  none, and runs statements on it; every statement that was executed stays, whatever fails
  after it. An error is its text; a panic is a value of its own.
\<close>

section \<open>The world\<close>

datatype cli_error = CliError string | CliPanic | CliScan scan_db_error

record wallet_data =
  \<comment> \<open>the file of \<open>create-address\<close>; the keys are encrypted when there is a nonce\<close>
  wd_address :: string
  wd_view_key :: string
  wd_spend_key :: string
  wd_seed_words :: string
  wd_nonce :: "string option"
  wd_birthday :: nat

datatype 'u file_content =
    UnsignedTransactionFile 'u
  | LockedFundsFile lock_funds_result
  | WalletFile wallet_data

record 'u cli_world =
  cw_dbs :: "string \<rightharpoonup> db"
  cw_files :: "string \<rightharpoonup> 'u file_content"
  cw_out :: "string list"

type_synonym ('u, 'a) clim = "('u cli_world, cli_error, 'a) run"

record file_tools =
  ft_open_error :: "string \<Rightarrow> wallet_error option"  \<comment> \<open>\<open>init_db\<close> or the connection fails\<close>
  ft_has_parent :: "string \<Rightarrow> bool"              \<comment> \<open>\<open>Path::parent\<close> is there\<close>
  ft_write_error :: "string \<Rightarrow> string option"    \<comment> \<open>directories, serialisation and the write\<close>
  ft_read :: "string \<Rightarrow> string + string"

definition open_db :: "(wallet_error \<Rightarrow> cli_error) \<Rightarrow> file_tools \<Rightarrow> string \<Rightarrow> ('u, unit) clim" where
  "open_db failed F path = (\<lambda>w. case ft_open_error F path of
      Some e \<Rightarrow> (Inl (failed e), w)
    | None \<Rightarrow> (Inr (), w\<lparr>cw_dbs := (cw_dbs w)(path \<mapsto> opt_or empty_db (cw_dbs w path))\<rparr>))"

definition on_conn :: "string \<Rightarrow> (db, cli_error, 'a) run \<Rightarrow> ('u, 'a) clim" where
  "on_conn path m = (\<lambda>w. case m (opt_or empty_db (cw_dbs w path)) of (r, d') \<Rightarrow>
     (r, w\<lparr>cw_dbs := (cw_dbs w)(path \<mapsto> d')\<rparr>))"

definition print_line :: "string \<Rightarrow> ('u, unit) clim" where
  "print_line text = modify (\<lambda>w. w\<lparr>cw_out := cw_out w @ [text]\<rparr>)"

definition write_output :: "file_tools \<Rightarrow> string \<Rightarrow> 'u file_content \<Rightarrow> ('u, unit) clim" where
  "write_output F path content =
     (if \<not> ft_has_parent F path then throw CliPanic
      else (case ft_write_error F path of
          Some e \<Rightarrow> throw (CliError e)
        | None \<Rightarrow> modify (\<lambda>w. w\<lparr>cw_files := (cw_files w)(path \<mapsto> content)\<rparr>)))"

definition db_failed :: "api_tools \<Rightarrow> wallet_error \<Rightarrow> cli_error" where
  "db_failed A e = CliError (ap_describe_db A e)"

definition cli_db :: "api_tools \<Rightarrow> 'a dbm \<Rightarrow> (db, cli_error, 'a) run" where
  \<comment> \<open>\<open>?\<close> on a database error\<close>
  "cli_db A m = map_error (db_failed A) m"

definition send_failed :: "api_tools \<Rightarrow> string \<Rightarrow> send_error \<Rightarrow> cli_error" where
  "send_failed A label e = (case e of
      SendPanic \<Rightarrow> CliPanic
    | SendLock LockPanic \<Rightarrow> CliPanic
    | _ \<Rightarrow> CliError (label @ ap_describe_send A e))"

definition cli_account :: "api_tools \<Rightarrow> (string \<Rightarrow> string) \<Rightarrow> string \<Rightarrow> (db, cli_error, account_row) run" where
  "cli_account A missing name = bindM (cli_db A (get_account_by_name name)) (\<lambda>found. case found of
      None \<Rightarrow> throw (CliError (missing name))
    | Some account \<Rightarrow> ret account)"

definition account_not_found :: "string \<Rightarrow> string" where
  "account_not_found name = ''Account not found: '' @ name"

definition quoted_account_not_found :: "string \<Rightarrow> string" where
  "quoted_account_not_found name = ''Account '' @ [CHR 0x27] @ name @ [CHR 0x27] @ '' not found''"

section \<open>The node\<close>

definition node_answer ::
  "string option \<Rightarrow> string + (bytes \<Rightarrow> string + submission) \<Rightarrow> bytes \<Rightarrow> cli_error + unit" where
  \<comment> \<open>\<open>WalletHttpClient::new(base_url.parse()?)?\<close> and the answer to the submission\<close>
  "node_answer url_error client transaction = (case url_error of
      Some e \<Rightarrow> Inl (CliError e)
    | None \<Rightarrow> (case client of
        Inl e \<Rightarrow> Inl (CliError e)
      | Inr submit \<Rightarrow> (case submit transaction of
          Inl e \<Rightarrow> Inl (CliError (''Broadcast failed: '' @ e))
        | Inr response \<Rightarrow>
            if sub_accepted response then Inr ()
            else Inl (CliError (''Transaction rejected by network: '' @ sub_reason response)))))"

section \<open>Validator nodes\<close>

record ('b, 'm, 'u) vn_tools =
  vt_fee_tools :: fee_tools
  vt_signing :: "vn_operation \<Rightarrow> ('b, 'm, 'u) signing_tools"
  vt_unhex :: "string \<Rightarrow> string + bytes"
  vt_public_key :: "bytes \<Rightarrow> string option"        \<comment> \<open>the error of decoding, if any\<close>
  vt_private_key :: "bytes \<Rightarrow> string option"
  vt_seed_wallet :: "account_row \<Rightarrow> string + bool"
  vt_registration_ok :: "bytes \<Rightarrow> bytes \<times> bytes \<Rightarrow> bytes \<Rightarrow> u64 \<Rightarrow> bytes option \<Rightarrow> bool"
  vt_exit_ok :: "bytes \<Rightarrow> bytes \<times> bytes \<Rightarrow> u64 \<Rightarrow> bytes option \<Rightarrow> bool"
  vt_parse_proof :: "string \<Rightarrow> string + unit"
  vt_deposit :: u64
  vt_sign :: "account_row \<Rightarrow> 'u \<Rightarrow> string + signed_transaction"
    \<comment> \<open>\<open>sign_locked_transaction\<close>\<close>
  vt_key_manager :: "account_row \<Rightarrow> string + unit"
  vt_uuid_ok :: "string \<Rightarrow> bool"
  vt_url_error :: "string option"
  vt_client :: "string + (bytes \<Rightarrow> string + submission)"

definition parse_compressed_public_key ::
  "('b, 'm, 'u) vn_tools \<Rightarrow> string \<Rightarrow> string \<Rightarrow> string + bytes" where
  "parse_compressed_public_key V hex_str field =
     bind_result (map_sum (\<lambda>e. ''Invalid '' @ field @ '' hex: '' @ e) id (vt_unhex V hex_str)) (\<lambda>b.
       case vt_public_key V b of None \<Rightarrow> Inr b | Some e \<Rightarrow> Inl (''Invalid '' @ field @ '': '' @ e))"

definition parse_vn_signature ::
  "('b, 'm, 'u) vn_tools \<Rightarrow> string \<Rightarrow> string \<Rightarrow> string \<Rightarrow> string + bytes \<times> bytes \<times> bytes" where
  "parse_vn_signature V pk_hex nonce_hex sig_hex =
     bind_result (parse_compressed_public_key V pk_hex ''vn-public-key'') (\<lambda>vn_public_key.
     bind_result (parse_compressed_public_key V nonce_hex ''vn-sig-nonce'') (\<lambda>nonce.
     bind_result (map_sum (\<lambda>e. ''Invalid vn-sig hex: '' @ e) id (vt_unhex V sig_hex)) (\<lambda>sig.
       case vt_private_key V sig of
         Some e \<Rightarrow> Inl (''Invalid vn-sig scalar: '' @ e)
       | None \<Rightarrow> Inr (vn_public_key, nonce, sig))))"

definition parse_sidechain_deployment_key ::
  "('b, 'm, 'u) vn_tools \<Rightarrow> string option \<Rightarrow> string + bytes option" where
  "parse_sidechain_deployment_key V key = (case key of None \<Rightarrow> Inr None
     | Some k \<Rightarrow> bind_result (map_sum (\<lambda>e. ''Invalid sidechain-deployment-key hex: '' @ e) id (vt_unhex V k)) (\<lambda>b.
         case vt_private_key V b of
           Some e \<Rightarrow> Inl (''Invalid sidechain-deployment-key: '' @ e)
         | None \<Rightarrow> Inr (Some b)))"

definition save_signed ::
  "api_tools \<Rightarrow> (string \<Rightarrow> bool) \<Rightarrow> account_row \<Rightarrow> string \<Rightarrow> signed_transaction \<Rightarrow> bytes \<Rightarrow> (db, cli_error, unit) run" where
  \<comment> \<open>the records of a signed transaction, when its pending transaction is still there\<close>
  "save_signed A uuid_ok account key sd serialized =
     bindM (cli_db A (find_pending_transaction_by_idempotency_key uuid_ok key (a_id account))) (\<lambda>found. case found of
         None \<Rightarrow> ret ()
       | Some pending_tx \<Rightarrow>
           seqM (cli_db A (update_pending_transaction_status (pt_id pending_tx) Completed))
             (cli_db A (create_completed_transaction (ap_externals A) (a_id account) (pt_id pending_tx)
                (first_or_empty (sd_kernels sd)) serialized
                (case sd_sent_hashes sd of [] \<Rightarrow> None | h # _ \<Rightarrow> Some (x_hex (ap_externals A) h)) (sd_tx_id sd))))"

definition sign_and_save ::
  "api_tools \<Rightarrow> ('b, 'm, 'u) vn_tools \<Rightarrow> 'u \<Rightarrow> account_row \<Rightarrow> string \<Rightarrow> string \<Rightarrow>
     (db, cli_error, signed_transaction \<times> bytes) run" where
  \<comment> \<open>\<open>sign_save_and_broadcast\<close> up to the client\<close>
  "sign_and_save A V unsigned_result account key tx_kind =
     bindM (lift_result (map_sum CliError id (vt_key_manager V account))) (\<lambda>_.
     bindM (lift_result (map_sum (\<lambda>e. CliError (''Failed to sign '' @ tx_kind @ '' transaction: '' @ e)) id
       (vt_sign V account unsigned_result))) (\<lambda>sd.
     bindM (lift_result (map_sum (\<lambda>e. CliError (''Failed to serialize transaction: '' @ e)) id (sd_serialized sd))) (\<lambda>serialized.
     seqM (save_signed A (vt_uuid_ok V) account key sd serialized) (ret (sd, serialized)))))"

definition sign_save_and_broadcast ::
  "api_tools \<Rightarrow> ('b, 'm, 'u) vn_tools \<Rightarrow> 'u \<Rightarrow> account_row \<Rightarrow> string \<Rightarrow> string \<Rightarrow> (db, cli_error, string) run" where
  \<comment> \<open>the value is the line that is printed\<close>
  "sign_save_and_broadcast A V unsigned_result account key tx_kind =
     bindM (sign_and_save A V unsigned_result account key tx_kind) (\<lambda>(sd, serialized).
     seqM (lift_result (node_answer (vt_url_error V) (vt_client V) serialized))
     (seqM (cli_db A (mark_completed_transaction_as_broadcasted (ap_externals A) (sd_tx_id sd) 1))
       (ret (tx_kind @ '' transaction broadcasted. tx_id='' @ show_nat (sd_tx_id sd)))))"

definition run_vn_command ::
  "api_tools \<Rightarrow> file_tools \<Rightarrow> ('b, 'm, 'u) vn_tools \<Rightarrow> string \<Rightarrow> string \<Rightarrow> string \<Rightarrow> string option \<Rightarrow> u64 \<Rightarrow> u64 \<Rightarrow>
     string \<Rightarrow> (account_row \<Rightarrow> string option \<Rightarrow> u64 \<Rightarrow> u64 \<Rightarrow> (db, send_error, 'u) run) \<Rightarrow> ('u, unit) clim" where
  \<comment> \<open>\<open>new_key\<close> is a random idempotency key\<close>
  "run_vn_command A F V new_key database_file account_name idempotency_key seconds_to_lock window tx_kind create_tx =
     (let key = opt_or new_key idempotency_key
      in seqM (open_db (db_failed A) F database_file)
         (bindM (on_conn database_file (bindM (cli_account A account_not_found account_name) (\<lambda>account.
            bindM (map_error (send_failed A []) (create_tx account (Some key) seconds_to_lock window)) (\<lambda>unsigned_result.
              sign_save_and_broadcast A V unsigned_result account key tx_kind)))) print_line))"

record vn_run =
  \<comment> \<open>what all three commands take, and the random values of a run\<close>
  vr_new_key :: string
  vr_fresh_key :: string
  vr_fresh_id :: string
  vr_tx_id :: u64
  vr_database_file :: string
  vr_account_name :: string
  vr_idempotency_key :: "string option"
  vr_seconds_to_lock :: u64
  vr_window :: u64
  vr_fee_per_gram :: u64
  vr_payment_id :: "string option"

definition vn_tx ::
  "api_tools \<Rightarrow> ('b, 'm, 'u) vn_tools \<Rightarrow> vn_run \<Rightarrow> vn_operation \<Rightarrow> bool \<Rightarrow>
     account_row \<Rightarrow> string option \<Rightarrow> u64 \<Rightarrow> u64 \<Rightarrow> (db, send_error, 'u) run" where
  \<comment> \<open>the closure a command passes on\<close>
  "vn_tx A V q op sig_ok account key seconds_to_lock window =
     create_validator_node_tx (ap_externals A) (vt_fee_tools V) (vt_signing V) op (vt_seed_wallet V account) sig_ok
       (vr_fresh_key q) (vr_fresh_id q) (vr_tx_id q) account (vt_deposit V) (vr_fee_per_gram q)
       (vr_payment_id q) key seconds_to_lock window"

definition vn_command ::
  "api_tools \<Rightarrow> file_tools \<Rightarrow> ('b, 'm, 'u) vn_tools \<Rightarrow> vn_run \<Rightarrow> vn_operation \<Rightarrow> bool \<Rightarrow> string \<Rightarrow> ('u, unit) clim" where
  "vn_command A F V q op sig_ok tx_kind =
     run_vn_command A F V (vr_new_key q) (vr_database_file q) (vr_account_name q) (vr_idempotency_key q)
       (vr_seconds_to_lock q) (vr_window q) tx_kind (vn_tx A V q op sig_ok)"

definition handle_register_validator_node ::
  "api_tools \<Rightarrow> file_tools \<Rightarrow> ('b, 'm, 'u) vn_tools \<Rightarrow> vn_run \<Rightarrow> string \<Rightarrow> string \<Rightarrow> string \<Rightarrow> string \<Rightarrow>
     u64 \<Rightarrow> string option \<Rightarrow> ('u, unit) clim" where
  "handle_register_validator_node A F V q vn_public_key vn_sig_nonce vn_sig claim_public_key max_epoch sidechain_key =
     bindM (lift_result (map_sum CliError id (parse_vn_signature V vn_public_key vn_sig_nonce vn_sig))) (\<lambda>(pk, sig).
     bindM (lift_result (map_sum CliError id (parse_compressed_public_key V claim_public_key ''claim-public-key''))) (\<lambda>claim.
     bindM (lift_result (map_sum CliError id (parse_sidechain_deployment_key V sidechain_key))) (\<lambda>sidechain.
       vn_command A F V q VnRegistration (vt_registration_ok V pk sig claim max_epoch sidechain) ''VN registration'')))"

definition handle_submit_validator_node_exit ::
  "api_tools \<Rightarrow> file_tools \<Rightarrow> ('b, 'm, 'u) vn_tools \<Rightarrow> vn_run \<Rightarrow> string \<Rightarrow> string \<Rightarrow> string \<Rightarrow>
     u64 \<Rightarrow> string option \<Rightarrow> ('u, unit) clim" where
  "handle_submit_validator_node_exit A F V q vn_public_key vn_sig_nonce vn_sig max_epoch sidechain_key =
     bindM (lift_result (map_sum CliError id (parse_vn_signature V vn_public_key vn_sig_nonce vn_sig))) (\<lambda>(pk, sig).
     bindM (lift_result (map_sum CliError id (parse_sidechain_deployment_key V sidechain_key))) (\<lambda>sidechain.
       vn_command A F V q VnExit (vt_exit_ok V pk sig max_epoch sidechain) ''VN exit''))"

definition handle_submit_validator_eviction_proof ::
  "api_tools \<Rightarrow> file_tools \<Rightarrow> ('b, 'm, 'u) vn_tools \<Rightarrow> vn_run \<Rightarrow> string \<Rightarrow> string option \<Rightarrow> ('u, unit) clim" where
  "handle_submit_validator_eviction_proof A F V q proof_file sidechain_key =
     bindM (lift_result (map_sum (\<lambda>e. CliError (''Failed to read proof file '' @ [CHR 0x27] @ proof_file @
        [CHR 0x27] @ '': '' @ e)) id (ft_read F proof_file))) (\<lambda>proof_json.
     bindM (lift_result (map_sum (\<lambda>e. CliError (''Failed to parse eviction proof JSON: '' @ e)) id (vt_parse_proof V proof_json))) (\<lambda>_.
     bindM (lift_result (map_sum CliError id (parse_sidechain_deployment_key V sidechain_key))) (\<lambda>_.
       vn_command A F V q VnEviction True ''VN eviction proof'')))"

section \<open>Burning funds\<close>

definition cli_parse_key :: "(string \<Rightarrow> string + 'k) \<Rightarrow> string \<Rightarrow> string option \<Rightarrow> cli_error + 'k option" where
  "cli_parse_key parse label key = (case key of None \<Rightarrow> Inr None
     | Some k \<Rightarrow> map_sum (\<lambda>e. CliError (''Invalid '' @ label @ '': '' @ e)) Some (parse k))"

record burn_command =
  bf_account_name :: string
  bf_amount :: u64
  bf_claim_public_key :: "string option"
  bf_fee_per_gram :: u64
  bf_payment_id :: "string option"
  bf_sidechain_key :: "string option"
  bf_database_file :: string
  bf_idempotency_key :: "string option"
  bf_seconds_to_lock :: u64
  bf_window :: u64

definition cli_burn ::
  "api_tools \<Rightarrow> fee_tools \<Rightarrow> burn_tools \<Rightarrow> string \<Rightarrow> string \<Rightarrow> burn_command \<Rightarrow> string \<Rightarrow> string option \<Rightarrow>
     (db, cli_error, burn_tx_result) run" where
  \<comment> \<open>from the lookup of the account to the broadcast\<close>
  "cli_burn A T B fresh_key fresh_id q key claim_key =
     bindM (cli_account A quoted_account_not_found (bf_account_name q)) (\<lambda>account.
     bindM (map_error (send_failed A ''Failed to build burn transaction: '')
        (create_burn_tx (ap_externals A) T (bu_address B) (bu_build B) fresh_key fresh_id account
          \<lparr>bt_account_id = a_id account, bt_amount = bf_amount q, bt_claim_key = claim_key,
           bt_fee_per_gram = bf_fee_per_gram q, bt_payment_id = bf_payment_id q, bt_key = Some key,
           bt_seconds = bf_seconds_to_lock q, bt_window = bf_window q\<rparr>)) (\<lambda>result.
     seqM (map_error (send_failed A []) (persist_burn_records (ap_externals A) (bu_uuid_ok B) result (a_id account) key))
     (seqM (lift_result (case br_serialized result of
          Inl e \<Rightarrow> Inl (CliError (''Broadcast failed: '' @ e))
        | Inr raw \<Rightarrow> node_answer (bu_url_error B) (bu_connect B) raw))
     (seqM (cli_db A (mark_completed_transaction_as_broadcasted (ap_externals A) (br_tx_id result) 1))
       (ret result)))))"

definition handle_burn_funds ::
  "api_tools \<Rightarrow> file_tools \<Rightarrow> fee_tools \<Rightarrow> burn_tools \<Rightarrow> string \<Rightarrow> string \<Rightarrow> string \<Rightarrow> burn_command \<Rightarrow> ('u, unit) clim" where
  "handle_burn_funds A F T B new_key fresh_key fresh_id q =
     bindM (lift_result (cli_parse_key (bu_parse_public B) ''claim-public-key'' (bf_claim_public_key q))) (\<lambda>claim_key.
     bindM (lift_result (cli_parse_key (bu_parse_private B) ''sidechain-deployment-key'' (bf_sidechain_key q))) (\<lambda>_.
     seqM (open_db (db_failed A) F (bf_database_file q))
     (bindM (on_conn (bf_database_file q)
        (cli_burn A T B fresh_key fresh_id q (opt_or new_key (bf_idempotency_key q)) claim_key)) (\<lambda>result.
      print_line (''Burn transaction broadcasted. tx_id='' @ show_nat (br_tx_id result) @ '', output_hash='' @
        x_hex (ap_externals A) (br_output_hash result))))))"

end
