(* ===== verification/Daemon.thy ===== *)
theory Daemon
  imports Coordinator Webhook_Delivery Locking
begin

text \<open>
  The daemon, \<open>daemon.rs\<close>: its configuration, the loop that scans and sleeps, and the
  background task of \<open>tasks/unlocker.rs\<close>. One turn of the loop is a \<open>daemon_cycle\<close>: whether the
  shutdown signal is there before the scan or while the daemon sleeps, and what the scan
  meets. A scan whose turns are used up is one the shutdown signal interrupts. The HTTP
  server and the start of the tasks are not modelled.
\<close>

section \<open>Configuration\<close>

record daemon =
  da_max_blocks :: u64
  da_batch_size :: u64
  da_scan_interval :: u64
  da_api_port :: nat
  da_required :: u64
  da_webhook_worker :: webhook_worker_config
  da_webhook_trigger :: "webhook_config option"

definition new_daemon ::
  "u64 \<Rightarrow> u64 \<Rightarrow> u64 \<Rightarrow> nat \<Rightarrow> u64 \<Rightarrow> string option \<Rightarrow> string option \<Rightarrow> string list option \<Rightarrow> daemon" where
  "new_daemon max_blocks batch_size scan_interval api_port required webhook_url webhook_secret only_types =
     \<lparr>da_max_blocks = max_blocks, da_batch_size = batch_size, da_scan_interval = scan_interval,
      da_api_port = api_port, da_required = required,
      da_webhook_worker = \<lparr>ww_enabled = (webhook_url \<noteq> None \<and> webhook_secret \<noteq> None),
        ww_secret = webhook_secret, ww_only_types = only_types\<rparr>,
      da_webhook_trigger = map_option (\<lambda>url. \<lparr>wc_url = url, wc_only_types = only_types\<rparr>) webhook_url\<rparr>"

section \<open>The unlocker\<close>

definition run_unlocker :: "externals task_event list \<Rightarrow> db \<Rightarrow> db" where
  \<comment> \<open>each tick brings its own clock\<close>
  "run_unlocker evs d = background_task unlock_expired_transactions evs d"

section \<open>The scan loop\<close>

record daemon_cycle =
  dc_shutdown :: bool                    \<comment> \<open>the signal comes before the scan\<close>
  dc_shutdown_sleeping :: bool           \<comment> \<open>the signal comes during the sleep after it\<close>
  dc_tools :: coord_tools                \<comment> \<open>with the clock of the cycle\<close>
  dc_connect :: "scanner_error option"
  dc_height_at :: "u64 \<Rightarrow> string + u64"
  dc_chain :: chain
  dc_turns :: "cycle_input list"

definition daemon_scanner :: "daemon \<Rightarrow> scan_builder" where
  "daemon_scanner da =
     (let s = scan_with_mode (Partial (da_max_blocks da)) (new_scan (da_batch_size da) (da_required da))
      in case da_webhook_trigger da of None \<Rightarrow> s | Some c \<Rightarrow> scan_webhook_config c s)"

definition scan_and_sleep ::
  "(account_row \<Rightarrow> string + bytes) \<Rightarrow> u64 \<Rightarrow> daemon \<Rightarrow> daemon_cycle \<Rightarrow>
     (db, scan_db_error, (wallet_event list \<times> bool) option) run" where
  "scan_and_sleep view_key genesis da c = run_internal (dc_tools c) view_key (dc_connect c)
     (dc_height_at c) genesis (dc_chain c) (daemon_scanner da) (dc_turns c)"

definition recoverable :: "scan_db_error \<Rightarrow> bool" where
  \<comment> \<open>the branches of \<open>scan_and_sleep_loop\<close> that wait for the next cycle\<close>
  "recoverable e = (case e of ScanFatal _ \<Rightarrow> False | ScanIntermittent _ \<Rightarrow> True
     | ScanDb _ \<Rightarrow> False | ScanTimeout _ \<Rightarrow> True)"

fun scan_and_sleep_loop ::
  "(account_row \<Rightarrow> string + bytes) \<Rightarrow> u64 \<Rightarrow> daemon \<Rightarrow> daemon_cycle list \<Rightarrow> (db, scan_db_error, bool) run" where
  \<comment> \<open>whether the loop has ended; a used up list is a loop that still runs\<close>
  "scan_and_sleep_loop view_key genesis da [] = ret False"
| "scan_and_sleep_loop view_key genesis da (c # cs) =
     (if dc_shutdown c then ret True
      else (\<lambda>d. case scan_and_sleep view_key genesis da c d of (r, d') \<Rightarrow> (case r of
          Inl e \<Rightarrow>
            if recoverable e
            then (if dc_shutdown_sleeping c then (Inr True, d')
                  else scan_and_sleep_loop view_key genesis da cs d')
            else (Inl e, d')
        | Inr None \<Rightarrow> (Inr True, d')
        | Inr (Some _) \<Rightarrow>
            if dc_shutdown_sleeping c then (Inr True, d')
            else scan_and_sleep_loop view_key genesis da cs d')))"

section \<open>The daemon\<close>

record daemon_start =
  ds_db_error :: "wallet_error option"
  ds_url_error :: "string option"
  ds_client_error :: "string option"
  ds_bind_error :: "string option"
  ds_task_panic :: "string option"       \<comment> \<open>what \<open>try_join!\<close> of the tasks reports\<close>

definition daemon_run ::
  "(account_row \<Rightarrow> string + bytes) \<Rightarrow> u64 \<Rightarrow> string \<Rightarrow> daemon \<Rightarrow> daemon_start \<Rightarrow> daemon_cycle list \<Rightarrow>
     (db, scan_db_error, bool) run" where
  \<comment> \<open>the start in its order, the scan loop, and the end of the tasks; an error of the loop is
     returned at once. \<open>False\<close>: the daemon still runs. What the tasks do meanwhile is the
     business of their own definitions\<close>
  "daemon_run view_key genesis base_url da s cycles = (case ds_db_error s of
      Some e \<Rightarrow> throw (ScanDb e)
    | None \<Rightarrow> (case ds_url_error s of
        Some e \<Rightarrow> throw (ScanFatal (''Invalid base URL '' @ [CHR 0x27] @ base_url @ [CHR 0x27] @ '': '' @ e))
      | None \<Rightarrow> (case ds_client_error s of
          Some e \<Rightarrow> throw (ScanFatal e)
        | None \<Rightarrow> (case ds_bind_error s of
            Some e \<Rightarrow> throw (ScanFatal (''Failed to bind API server to 0.0.0.0:'' @ show_nat (da_api_port da) @ '': '' @ e))
          | None \<Rightarrow> bindM (scan_and_sleep_loop view_key genesis da cycles) (\<lambda>ended.
              if \<not> ended then ret False
              else (case ds_task_panic s of
                  Some e \<Rightarrow> throw (ScanFatal (''A task panicked during shutdown: '' @ e))
                | None \<Rightarrow> ret True))))))"

end
