(* ===== verification/Logging.thy ===== *)
theory Logging
  imports Effects
begin

text \<open>
  The log, \<open>log/mod.rs\<close> with \<open>structured_console_encoder.rs\<close>: what it shows of private values,
  how the encoder writes a record, and the start of the logger. A string is its UTF-8 bytes: a
  continuation byte does not begin a character; \<open>len\<close> counts bytes, \<open>chars\<close> splits at the
  characters. Whether private values are revealed is read from the environment once, an
  argument here.
\<close>

definition continuation :: "char \<Rightarrow> bool" where
  "continuation c \<longleftrightarrow> (of_char c :: nat) div 64 = 2"

definition char_count :: "string \<Rightarrow> nat" where
  "char_count s = length (filter (\<lambda>c. \<not> continuation c) s)"

function chars :: "string \<Rightarrow> string list" where
  "chars [] = []"
| "chars (c # s) = (c # takeWhile continuation s) # chars (dropWhile continuation s)"
  by pat_completeness auto
termination
  by (relation "measure length") (auto simp: le_imp_less_Suc length_dropWhile_le)

definition reveal_pii :: "(string \<Rightarrow> string) \<Rightarrow> string option \<Rightarrow> bool" where
  \<comment> \<open>the value of the variable, if it is set\<close>
  "reveal_pii to_lowercase v = (case v of None \<Rightarrow> False
     | Some v \<Rightarrow> to_lowercase v = ''true'' \<or> to_lowercase v = ''1'')"

definition mask_string :: "bool \<Rightarrow> string \<Rightarrow> string" where
  "mask_string reveal s =
     (if reveal then s
      else if length s \<le> 12 then ''***''
      else concat (take 6 (chars s)) @ ''...'' @ concat (rev (take 6 (rev (chars s)))))"

definition mask_amount :: "bool \<Rightarrow> (nat \<Rightarrow> string) \<Rightarrow> nat \<Rightarrow> string" where
  "mask_amount reveal amount_text amount = (if reveal then amount_text amount else ''<REDACTED>'')"

section \<open>What a mask shows\<close>

lemma concat_chars: "concat (chars s) = s"
  by (induction s rule: chars.induct) simp_all

lemma chars_plain: "\<forall>c \<in> set s. \<not> continuation c \<Longrightarrow> chars s = map (\<lambda>c. [c]) s"
proof (induction s)
  case (Cons c s)
  then have "takeWhile continuation s = []" "dropWhile continuation s = s"
    by (cases s; simp)+
  with Cons show ?case by simp
qed simp

lemma mask_plain:
  "12 < length s \<Longrightarrow> \<forall>c \<in> set s. \<not> continuation c \<Longrightarrow>
     mask_string False s = take 6 s @ ''...'' @ drop (length s - 6) s"
  by (simp add: mask_string_def chars_plain rev_take take_map drop_map)

lemma mask_shows_all:
  \<comment> \<open>a string of at most twelve characters and more than twelve bytes is shown completely\<close>
  assumes "12 < length s" "length (chars s) \<le> 12"
  shows "\<exists>overlap. mask_string False s = concat (take 6 (chars s)) @ ''...'' @ overlap @ concat (drop 6 (chars s))"
proof -
  let ?cs = "chars s" and ?n = "length (chars s) - 6"
  have "rev (take 6 (rev ?cs)) = drop ?n ?cs" by (simp add: rev_take)
  also have "\<dots> = take (6 - ?n) (drop ?n ?cs) @ drop 6 ?cs"
    using assms(2) append_take_drop_id [of "6 - ?n" "drop ?n ?cs"] by simp
  finally show ?thesis using assms(1) by (auto simp: mask_string_def)
qed

section \<open>The encoder of the console\<close>

text \<open>
  The console is the list of what was written; \<open>dev\<close> says which write fails after which
  contents. One \<open>write!\<close> is one write. The pattern encoder is the one of \<open>log4rs\<close>; the source of
  the key-value pairs delivers its pairs in order and can end with an error of its own.
\<close>

datatype style = Default_Style | Cyan

datatype chunk = Chunk string | Set_Style style

type_synonym 'a writer = "(chunk list, string, 'a) run"

type_synonym device = "chunk list \<Rightarrow> chunk \<Rightarrow> string option"

datatype kv_error = Io_Failed string | Source_Failed string

definition put :: "device \<Rightarrow> chunk \<Rightarrow> unit writer" where
  "put dev c = (\<lambda>w. case dev w c of Some e \<Rightarrow> (Inl e, w) | None \<Rightarrow> (Inr (), w @ [c]))"

definition visit_pair :: "device \<Rightarrow> string \<times> string \<Rightarrow> unit writer" where
  "visit_pair dev = (\<lambda>(key, v).
     seqM (put dev (Set_Style Cyan))
     (seqM (put dev (Chunk ('' '' @ key @ ''='')))
     (seqM (put dev (Set_Style Default_Style)) (put dev (Chunk v)))))"

definition visit_source ::
  "device \<Rightarrow> (string \<times> string) list \<times> string option \<Rightarrow> (chunk list, kv_error, unit) run" where
  "visit_source dev source =
     seqM (map_error Io_Failed (forM (fst source) (visit_pair dev)))
       (case snd source of None \<Rightarrow> ret () | Some e \<Rightarrow> throw (Source_Failed e))"

definition encode_record ::
  "device \<Rightarrow> unit writer \<Rightarrow> (string \<times> string) list \<times> string option \<Rightarrow> unit writer" where
  "encode_record dev pattern source =
     seqM pattern (\<lambda>w. case visit_source dev source w of
         (Inr _, w') \<Rightarrow> put dev (Chunk [CHR 0x0A]) w'
       | (Inl (Io_Failed e), w') \<Rightarrow> (Inl e, w')
       | (Inl (Source_Failed e), w') \<Rightarrow>
           seqM (put dev (Chunk ('' [KV Error: '' @ e @ '']''))) (put dev (Chunk [CHR 0x0A])) w')"

definition encoder_pattern :: "string option \<Rightarrow> string" where
  \<comment> \<open>the pattern of the deserialised encoder\<close>
  "encoder_pattern config = (case config of None \<Rightarrow> ''{d} {l} {m}'' | Some p \<Rightarrow> p)"

definition pair_chunks :: "string \<times> string \<Rightarrow> chunk list" where
  "pair_chunks = (\<lambda>(key, v). [Set_Style Cyan, Chunk ('' '' @ key @ ''=''), Set_Style Default_Style, Chunk v])"

lemma put_ok_iff: "put dev c w = (Inr u, w') \<longleftrightarrow> dev w c = None \<and> w' = w @ [c]"
  by (auto simp: put_def split: option.splits)

lemma visit_pair_ok: "visit_pair dev p w = (Inr u, w') \<Longrightarrow> w' = w @ pair_chunks p"
  by (auto simp: visit_pair_def pair_chunks_def seqM_ok_iff put_ok_iff split: prod.splits)

lemma visit_pairs_ok: "forM ps (visit_pair dev) w = (Inr u, w') \<Longrightarrow> w' = w @ concat (map pair_chunks ps)"
proof (induction ps arbitrary: w)
  case (Cons p ps)
  then obtain v w1 where "visit_pair dev p w = (Inr v, w1)" and rest: "forM ps (visit_pair dev) w1 = (Inr u, w')"
    by (auto simp: seqM_ok_iff)
  with Cons.IH [OF rest] visit_pair_ok show ?case by fastforce
qed (simp add: ret_ok_iff)

text \<open>
  A record that is written without an error is the pattern, the pairs in their order and the end
  of the line; an error of the source itself only adds its text.
\<close>

lemma encode_record_ok:
  assumes "encode_record dev pattern source w = (Inr u, w')"
  shows "\<exists>w1. pattern w = (Inr (), w1) \<and> w' = w1 @ concat (map pair_chunks (fst source)) @
     (case snd source of None \<Rightarrow> [] | Some e \<Rightarrow> [Chunk ('' [KV Error: '' @ e @ '']'')]) @ [Chunk [CHR 0x0A]]"
proof -
  from assms obtain w1 where p: "pattern w = (Inr (), w1)"
    and rest: "(case visit_source dev source w1 of
         (Inr _, w') \<Rightarrow> put dev (Chunk [CHR 0x0A]) w'
       | (Inl (Io_Failed e), w') \<Rightarrow> (Inl e, w')
       | (Inl (Source_Failed e), w') \<Rightarrow>
           seqM (put dev (Chunk ('' [KV Error: '' @ e @ '']''))) (put dev (Chunk [CHR 0x0A])) w') = (Inr u, w')"
    by (auto simp: encode_record_def seqM_ok_iff)
  obtain r w2 where loop: "forM (fst source) (visit_pair dev) w1 = (r, w2)" by fastforce
  with rest obtain v where "r = Inr v"
    by (cases r) (auto simp: visit_source_def seqM_def bindM_def map_error_def)
  with visit_pairs_ok [of "fst source" dev w1 v w2] loop rest p show ?thesis
    by (auto simp: visit_source_def seqM_def bindM_def map_error_def ret_def throw_def put_ok_iff
        split: option.splits prod.splits sum.splits)
qed

section \<open>The start of the logger\<close>

record log_setup =
  \<comment> \<open>what the calls of \<open>log4rs\<close> and of the YAML parser answer\<close>
  ls_exists :: bool                       \<comment> \<open>the file \<open>log4rs.yml\<close>\<close>
  ls_init_file :: "string option"         \<comment> \<open>the error of the external configuration\<close>
  ls_parse :: "string option"             \<comment> \<open>of the embedded one\<close>
  ls_appender_errors :: "string list"
  ls_build :: "string option"
  ls_init_config :: "string option"

datatype log_source = External_Config | Embedded_Config

definition expect_none :: "string \<Rightarrow> string option \<Rightarrow> string + unit" where
  "expect_none message r = (case r of None \<Rightarrow> Inr () | Some e \<Rightarrow> Inl (message @ '': '' @ e))"

definition init_logging :: "(string list \<Rightarrow> string) \<Rightarrow> log_setup \<Rightarrow> string + log_source" where
  \<comment> \<open>\<open>Inl\<close> is a panic; \<open>debug_list\<close> is the \<open>{:?}\<close> of the errors\<close>
  "init_logging debug_list L =
     (if ls_exists L
      then (case ls_init_file L of None \<Rightarrow> Inr External_Config
        | Some e \<Rightarrow> Inl (''Failed to load external log4rs.yml: '' @ e))
      else (case expect_none ''Embedded logging configuration is invalid YAML'' (ls_parse L) of Inl p \<Rightarrow> Inl p
        | Inr _ \<Rightarrow>
            if ls_appender_errors L \<noteq> []
            then Inl (''Errors parsing embedded appenders: '' @ debug_list (ls_appender_errors L))
            else (case expect_none ''Failed to build logging config'' (ls_build L) of Inl p \<Rightarrow> Inl p
              | Inr _ \<Rightarrow> (case expect_none ''Failed to initialize logging from embedded config'' (ls_init_config L) of
                    Inl p \<Rightarrow> Inl p
                  | Inr _ \<Rightarrow> Inr Embedded_Config))))"

lemma init_logging_source:
  "init_logging dbg L = Inr src \<Longrightarrow> src = (if ls_exists L then External_Config else Embedded_Config)"
  by (auto simp: init_logging_def split: if_splits option.splits sum.splits)

end
