(* ===== verification/Cli.thy ===== *)
theory Cli
  imports Cli_Commands Daemon Logging
begin

text \<open>
  The command line, \<open>main.rs\<close>: the handlers of the commands over the modelled operations, and
  the dispatch with its overrides of the configuration. What the commands take from outside
  (keys, addresses, the chain, random values) is the record \<open>cli_tools\<close>.
\<close>

section \<open>The wallet file of a new address\<close>

text \<open>
  A string is its UTF-8 bytes: a continuation byte does not begin a character. \<open>len\<close> counts
  bytes, the padding of \<open>format!\<close> counts characters, and a slice panics unless it ends at the
  beginning of a character.
\<close>

definition is_char_boundary :: "string \<Rightarrow> nat \<Rightarrow> bool" where
  "is_char_boundary s i \<longleftrightarrow> i = length s \<or> (i < length s \<and> \<not> continuation (s ! i))"

definition pad_password :: "string \<Rightarrow> string option" where
  \<comment> \<open>\<open>None\<close>: the slice panics\<close>
  "pad_password password =
     (if length password < 32 then Some (password @ replicate (32 - char_count password) (CHR ''0''))
      else if is_char_boundary password 32 then Some (take 32 password) else None)"

definition password_key :: "string \<Rightarrow> cli_error + string" where
  "password_key password = (case pad_password password of
      None \<Rightarrow> Inl CliPanic
    | Some p \<Rightarrow> if length p = 32 then Inr p else Inl (CliError ''Password must be 32 bytes''))"

record new_address =
  \<comment> \<open>what the library makes of a random seed; the address is always one of the main network\<close>
  nw_address :: string
  nw_view_key :: bytes
  nw_spend_key :: bytes
  nw_seed_words :: bytes
  nw_birthday :: nat
  nw_nonce :: bytes

definition wallet_data_of ::
  "externals \<Rightarrow> (string \<Rightarrow> bytes \<Rightarrow> bytes \<Rightarrow> string + bytes) \<Rightarrow> new_address \<Rightarrow> string option \<Rightarrow> cli_error + wallet_data" where
  \<comment> \<open>all three texts are encrypted with the same key and the same nonce\<close>
  "wallet_data_of X encrypt n password = (case password of
      Some password \<Rightarrow> bind_result (password_key password) (\<lambda>key.
        bind_result (map_sum CliError id (encrypt key (nw_nonce n) (nw_view_key n))) (\<lambda>view_key.
        bind_result (map_sum CliError id (encrypt key (nw_nonce n) (nw_spend_key n))) (\<lambda>spend_key.
        bind_result (map_sum CliError id (encrypt key (nw_nonce n) (nw_seed_words n))) (\<lambda>seed_words.
        Inr \<lparr>wd_address = nw_address n, wd_view_key = x_hex X view_key, wd_spend_key = x_hex X spend_key,
          wd_seed_words = x_hex X seed_words, wd_nonce = Some (x_hex X (nw_nonce n)),
          wd_birthday = nw_birthday n\<rparr>))))
    | None \<Rightarrow> Inr \<lparr>wd_address = nw_address n, wd_view_key = x_hex X (nw_view_key n),
        wd_spend_key = x_hex X (nw_spend_key n), wd_seed_words = x_utf8_lossy X (nw_seed_words n),
        wd_nonce = None, wd_birthday = nw_birthday n\<rparr>)"

section \<open>The outside of a command\<close>

record scan_outside =
  so_tools :: coord_tools
  so_view_key :: "account_row \<Rightarrow> string + bytes"
  so_connect :: "scanner_error option"
  so_height_at :: "u64 \<Rightarrow> string + u64"
  so_genesis :: u64
  so_chain :: chain
  so_turns :: "cycle_input list"
  so_debug_hex :: "bytes \<Rightarrow> string"
  so_describe_reorg :: "reorg_error \<Rightarrow> string"
  so_start :: daemon_start
  so_cycles :: "daemon_cycle list"

record ('b, 'm, 'u, 'w) cli_tools =
  \<comment> \<open>keys and node depend on the configuration (network, address of the node) and the password\<close>
  ct_api :: api_tools
  ct_files :: file_tools
  ct_fee_tools :: fee_tools
  ct_signing :: "wallet_config \<Rightarrow> string \<Rightarrow> ('b, 'm, 'u) signing_tools"
  ct_vn :: "wallet_config \<Rightarrow> string \<Rightarrow> ('b, 'm, 'u) vn_tools"
  ct_burn :: "wallet_config \<Rightarrow> string \<Rightarrow> burn_tools"
  ct_cipher :: cipher_tools
  ct_wallet :: "'w wallet_tools"
  ct_salt :: bytes
  ct_nonce :: bytes
  ct_outside :: "wallet_config \<Rightarrow> string \<Rightarrow> scan_outside"
  ct_new_address :: "cli_error + new_address"
  ct_encrypt :: "string \<Rightarrow> bytes \<Rightarrow> bytes \<Rightarrow> string + bytes"
  ct_seed :: "string option \<Rightarrow> string + string"   \<comment> \<open>the given seed words or a random seed\<close>
  ct_address :: "string \<Rightarrow> string + string"        \<comment> \<open>\<open>TariAddress::from_str\<close>\<close>
  ct_amount :: "string \<Rightarrow> string + u64"            \<comment> \<open>\<open>MicroMinotari::from_str\<close>\<close>
  ct_amount_text :: "u64 \<Rightarrow> string"
  ct_date_text :: "i64 \<Rightarrow> string"
  ct_new_key :: string
  ct_fresh_key :: string
  ct_fresh_id :: string
  ct_tx_id :: u64

section \<open>Balance\<close>

definition balance_line :: "('b, 'm, 'u, 'w) cli_tools \<Rightarrow> account_balance \<Rightarrow> string" where
  "balance_line C b = ''Balance at height '' @ show_int (opt_or 0 (ab_max_height b)) @ ''('' @
     (case ab_max_date b of None \<Rightarrow> ''N/A'' | Some t \<Rightarrow> ct_date_text C t) @ ''): '' @ ct_amount_text C (ab_total b)"

definition handle_balance :: "('b, 'm, 'u, 'w) cli_tools \<Rightarrow> wallet_config \<Rightarrow> ('u, unit) clim" where
  "handle_balance C c = seqM (open_db (db_failed (ct_api C)) (ct_files C) (wg_database_path c))
     (bindM (on_conn (wg_database_path c) (cli_db (ct_api C) (get_accounts (wg_account_name c)))) (\<lambda>accs.
       forM accs (\<lambda>account.
         bindM (on_conn (wg_database_path c) (cli_db (ct_api C) (get_balance (a_id account)))) (\<lambda>b.
           print_line (balance_line C b)))))"

section \<open>Unsigned transactions and locks\<close>

fun split_colons :: "string \<Rightarrow> string list" where
  \<comment> \<open>\<open>split("::")\<close>\<close>
  "split_colons [] = [[]]"
| "split_colons [c] = [[c]]"
| "split_colons (c # d # rest) =
     (if c = CHR '':'' \<and> d = CHR '':'' then [] # split_colons rest
      else (case split_colons (d # rest) of [] \<Rightarrow> [[c]] | p # ps \<Rightarrow> (c # p) # ps))"

definition parse_recipient :: "('b, 'm, 'u, 'w) cli_tools \<Rightarrow> string \<Rightarrow> string + recipient" where
  "parse_recipient C r_str =
     (let parts = split_colons r_str
      in if length parts < 2 \<or> length parts > 3
         then Inl (''Invalid recipient format. Expected '' @ [CHR 0x27] @ ''address::amount'' @ [CHR 0x27] @
           '' or '' @ [CHR 0x27] @ ''address::amount::payment_id'' @ [CHR 0x27])
         else bind_result (ct_address C (parts ! 0)) (\<lambda>address.
              bind_result (ct_amount C (parts ! 1)) (\<lambda>amount.
              Inr \<lparr>rc_address = address, rc_amount = amount,
                rc_payment_id = (if length parts = 3 then Some (parts ! 2) else None)\<rparr>)))"

definition cli_lock_failed :: "api_tools \<Rightarrow> lock_error \<Rightarrow> cli_error" where
  "cli_lock_failed A e = (case e of LockPanic \<Rightarrow> CliPanic
     | _ \<Rightarrow> CliError (''Failed to lock funds: '' @ ap_describe_lock A e))"

definition cli_unsigned_transaction ::
  "('b, 'm, 'u, 'w) cli_tools \<Rightarrow> ('b, 'm, 'u) signing_tools \<Rightarrow> recipient list \<Rightarrow> string \<Rightarrow> string option \<Rightarrow> u64 \<Rightarrow> u64 \<Rightarrow> (db, cli_error, 'u) run" where
  \<comment> \<open>from the lookup of the account to the unsigned transaction\<close>
  "cli_unsigned_transaction C T recipients account_name idempotency_key seconds_to_lock window =
     bindM (cli_account (ct_api C) account_not_found account_name) (\<lambda>account.
     bindM (map_error (cli_lock_failed (ct_api C)) (lock_funds (ap_externals (ct_api C)) (ct_fee_tools C)
        (ct_fresh_key C) (ct_fresh_id C)
        \<lparr>lr_account = a_id account, lr_amount = sum_list (map rc_amount recipients),
         lr_outputs = length recipients, lr_fee_per_gram = 5, lr_size = None, lr_key = idempotency_key,
         lr_seconds = seconds_to_lock, lr_window = window\<rparr>)) (\<lambda>locked_funds.
     lift_result (map_sum (\<lambda>e. CliError (''Failed to create an unsigned transaction: '' @ e)) id
       (create_unsigned_transaction T (ct_tx_id C) account locked_funds recipients 5))))"

definition handle_create_unsigned_transaction ::
  "('b, 'm, 'u, 'w) cli_tools \<Rightarrow> ('b, 'm, 'u) signing_tools \<Rightarrow> string list \<Rightarrow> string \<Rightarrow> string \<Rightarrow> string option \<Rightarrow> u64 \<Rightarrow> u64 \<Rightarrow> string \<Rightarrow>
     ('u, unit) clim" where
  "handle_create_unsigned_transaction C T recipient database_file account_name idempotency_key seconds_to_lock
       window output_file =
     bindM (lift_result (map_sum CliError id (mapM (parse_recipient C) recipient))) (\<lambda>recipients.
     seqM (open_db (db_failed (ct_api C)) (ct_files C) database_file)
     (bindM (on_conn database_file
        (cli_unsigned_transaction C T recipients account_name idempotency_key seconds_to_lock window)) (\<lambda>result.
      write_output (ct_files C) output_file (UnsignedTransactionFile result))))"

definition handle_lock_funds ::
  "('b, 'm, 'u, 'w) cli_tools \<Rightarrow> string \<Rightarrow> string \<Rightarrow> string \<Rightarrow> lock_funds_request \<Rightarrow> ('u, unit) clim" where
  "handle_lock_funds C database_file account_name output_file q =
     seqM (open_db (db_failed (ct_api C)) (ct_files C) database_file)
     (bindM (on_conn database_file (bindM (cli_account (ct_api C) account_not_found account_name) (\<lambda>account.
        case (lq_num_outputs q, lq_fee_per_gram q, lq_seconds q, lq_window q) of
          (Some num_outputs, Some fee_per_gram, Some seconds, Some window) \<Rightarrow>
            map_error (cli_lock_failed (ct_api C)) (lock_funds (ap_externals (ct_api C)) (ct_fee_tools C)
              (ct_fresh_key C) (ct_fresh_id C)
              \<lparr>lr_account = a_id account, lr_amount = lq_amount q, lr_outputs = num_outputs,
               lr_fee_per_gram = fee_per_gram, lr_size = lq_size q, lr_key = lq_key q,
               lr_seconds = seconds, lr_window = window\<rparr>)
        | _ \<Rightarrow> throw CliPanic))) (\<lambda>result.
      write_output (ct_files C) output_file (LockedFundsFile result)))"

section \<open>Scanning\<close>

definition run_scanner :: "scan_outside \<Rightarrow> scan_builder \<Rightarrow> (db, scan_db_error, (wallet_event list \<times> bool) option) run" where
  "run_scanner S b = run_internal (so_tools S) (so_view_key S) (so_connect S)
     (so_height_at S) (so_genesis S) (so_chain S) b (so_turns S)"

definition trigger_of :: "webhook_settings \<Rightarrow> webhook_config option" where
  "trigger_of w = map_option (\<lambda>url. \<lparr>wc_url = url, wc_only_types = wh_only_types w\<rparr>) (wh_url w)"

definition scan_settings :: "wallet_config \<Rightarrow> u64 \<Rightarrow> string option \<Rightarrow> webhook_config option \<Rightarrow> scan_builder" where
  "scan_settings c max_blocks account_name trigger =
     (let s = scan_with_mode (Partial max_blocks) (new_scan (wg_batch_size c) (wg_confirmation_window c));
          s = (case account_name of None \<Rightarrow> s | Some name \<Rightarrow> scan_account name s)
      in case trigger of None \<Rightarrow> s | Some cfg \<Rightarrow> scan_webhook_config cfg s)"

definition cli_scan ::
  "scan_outside \<Rightarrow> wallet_config \<Rightarrow> u64 \<Rightarrow> string option \<Rightarrow>
     (db, scan_db_error, (wallet_event list \<times> bool) option) run" where
  "cli_scan S c max_blocks account_name =
     run_scanner S (scan_settings c max_blocks account_name (trigger_of (wg_webhook c)))"

definition rollback_for_rescan ::
  "api_tools \<Rightarrow> scan_outside \<Rightarrow> string \<Rightarrow> u64 \<Rightarrow> webhook_config option \<Rightarrow> (db, scan_db_error, unit) run" where
  \<comment> \<open>the blocking task; there is no transaction around the rollback\<close>
  "rollback_for_rescan A S account_name height trigger =
     bindM (map_error (\<lambda>e. ScanDb (Unexpected (''DB error querying account: '' @ ap_describe_db A e)))
        (get_account_by_name account_name)) (\<lambda>found. case found of
        None \<Rightarrow> throw (ScanDb (Unexpected (''Account not found: '' @ account_name)))
      | Some account \<Rightarrow>
          bindM (map_error (\<lambda>e. ScanDb (Unexpected (''Rollback failed: '' @ so_describe_reorg S e)))
            (rollback_from_height (ap_externals A) (so_debug_hex S) (a_id account) height trigger))
            (\<lambda>_. ret ()))"

definition rescan ::
  "api_tools \<Rightarrow> scan_outside \<Rightarrow> wallet_config \<Rightarrow> string \<Rightarrow> u64 \<Rightarrow> webhook_config option \<Rightarrow>
     (db, scan_db_error, (wallet_event list \<times> bool) option) run" where
  "rescan A S c account_name height trigger =
     seqM (rollback_for_rescan A S account_name height trigger)
       (run_scanner S (scan_settings c (2 ^ 64 - 1) (Some account_name) trigger))"

section \<open>Dispatch\<close>

definition show_account ::
  "('b, 'm, 'u, 'w) cli_tools \<Rightarrow> wallet_config \<Rightarrow> (account_row \<Rightarrow> wallet_error + string list) \<Rightarrow> ('u, unit) clim" where
  \<comment> \<open>\<open>show-seed-words\<close> and \<open>show-keys\<close>\<close>
  "show_account C c f =
     (let path = wg_database_path c
      in seqM (open_db (db_failed (ct_api C)) (ct_files C) path)
         (bindM (on_conn path (bindM (cli_account (ct_api C) quoted_account_not_found
              (opt_or ''default'' (wg_account_name c))) (\<lambda>account.
            cli_db (ct_api C) (lift_result (f account))))) (\<lambda>printed. forM printed print_line)))"

definition ruler :: string where
  "ruler = replicate 57 (CHR ''-'')"

fun join_words :: "string list \<Rightarrow> string" where
  "join_words [] = []"
| "join_words [w] = w"
| "join_words (w # ws) = w @ '' '' @ join_words ws"

definition seed_word_lines ::
  "('b, 'm, 'u, 'w) cli_tools \<Rightarrow> string \<Rightarrow> string \<Rightarrow> account_row \<Rightarrow> wallet_error + string list" where
  "seed_word_lines C password name account =
     map_sum id (\<lambda>found. case found of
         Some words \<Rightarrow> [ruler, ''Wallet: '' @ a_name account, ''Seed Words: '' @ join_words words, ruler,
           ''WARNING: Keep these words safe. Anyone with them can spend your funds.'']
       | None \<Rightarrow> [''Account '' @ [CHR 0x27] @ name @ [CHR 0x27] @
           '' does not have seed words (It might be a View-Only or Ledger wallet).''])
       (get_seed_words (ct_cipher C) (ct_wallet C) account password)"

definition key_lines :: "('b, 'm, 'u, 'w) cli_tools \<Rightarrow> string \<Rightarrow> account_row \<Rightarrow> wallet_error + string list" where
  "key_lines C password account = map_sum id (\<lambda>(view_key, spend_key).
     [ruler, ''Wallet           : '' @ a_name account, ''Private View Key : '' @ view_key,
      ''Public Spend Key : '' @ spend_key, ruler,
      ''WARNING: Keep your private view key safe. Anyone with it can see your transaction history.'']) (get_keys_hex (ct_cipher C) (ct_wallet C) account password)"

definition init_failed_context :: "wallet_error \<Rightarrow> cli_error" where
  "init_failed_context e = CliError ''Failed to initialize database''"

definition init_wallet ::
  "('b, 'm, 'u, 'w) cli_tools \<Rightarrow> string \<Rightarrow> string \<Rightarrow> string option \<Rightarrow> string + 'w \<Rightarrow> ('u, unit) clim" where
  "init_wallet C path password name wallet =
     bindM (lift_result (map_sum CliError id wallet)) (\<lambda>w.
     seqM (open_db init_failed_context (ct_files C) path) (on_conn path (cli_db (ct_api C)
       (save_wallet_to_db (ct_cipher C) (ct_wallet C) (ct_salt C) (ct_nonce C) w password name))))"

definition scan_command ::
  "('b, 'm, 'u, 'w) cli_tools \<Rightarrow> (wallet_error \<Rightarrow> wallet_error) \<Rightarrow> string \<Rightarrow> (db, scan_db_error, 'a) run \<Rightarrow>
     ('u, unit) clim" where
  \<comment> \<open>a database that cannot be opened is an error of the scan\<close>
  "scan_command C failed path m = seqM (open_db (\<lambda>e. CliScan (ScanDb (failed e))) (ct_files C) path)
     (bindM (on_conn path (map_error CliScan m)) (\<lambda>_. ret ()))"

text \<open>One definition for each arm of the dispatch; \<open>c\<close> is the loaded configuration.\<close>

definition run_create_address ::
  "('b, 'm, 'u, 'w) cli_tools \<Rightarrow> string option \<Rightarrow> string \<Rightarrow> ('u, unit) clim" where
  "run_create_address C password output_file =
     bindM (lift_result (ct_new_address C)) (\<lambda>n.
     bindM (lift_result (wallet_data_of (ap_externals (ct_api C)) (ct_encrypt C) n password)) (\<lambda>d.
       write_output (ct_files C) output_file (WalletFile d)))"

definition run_scan ::
  "('b, 'm, 'u, 'w) cli_tools \<Rightarrow> wallet_config \<Rightarrow> security_args \<Rightarrow> node_args \<Rightarrow> database_args \<Rightarrow> account_args \<Rightarrow>
     u64 \<Rightarrow> ('u, unit) clim" where
  "run_scan C c security node db account max_blocks =
     (let c = apply_account account (apply_database db (apply_node node c))
      in scan_command C id (wg_database_path c)
           (cli_scan (ct_outside C c (sa_password security)) c max_blocks (wg_account_name c)))"

definition run_rescan ::
  "('b, 'm, 'u, 'w) cli_tools \<Rightarrow> wallet_config \<Rightarrow> security_args \<Rightarrow> node_args \<Rightarrow> database_args \<Rightarrow> string \<Rightarrow>
     u64 \<Rightarrow> ('u, unit) clim" where
  "run_rescan C c security node db account_name height =
     (let c = apply_database db (apply_node node c)
      in scan_command C (\<lambda>e. Unexpected (''Failed to init db: '' @ ap_describe_db (ct_api C) e)) (wg_database_path c) (rescan (ct_api C) (ct_outside C c (sa_password security)) c
           account_name height (trigger_of (wg_webhook c))))"

definition run_daemon ::
  "('b, 'm, 'u, 'w) cli_tools \<Rightarrow> wallet_config \<Rightarrow> security_args \<Rightarrow> node_args \<Rightarrow> database_args \<Rightarrow> u64 option \<Rightarrow>
     nat option \<Rightarrow> ('u, unit) clim" where
  "run_daemon C c security node db interval port =
     (let c = apply_daemon \<lparr>dg_scan_interval_secs = interval, dg_api_port = port\<rparr> (apply_database db (apply_node node c));
          w = wg_webhook c; s = ct_outside C c (sa_password security);
          da = new_daemon (2 ^ 64 - 1) (wg_batch_size c) (wg_scan_interval_secs c) (wg_api_port c)
                 (wg_confirmation_window c) (wh_url w) (wh_secret w) (wh_only_types w)
      in scan_command C id (wg_database_path c)
           (daemon_run (so_view_key s) (so_genesis s) (wg_base_url c) da
             ((so_start s)\<lparr>ds_db_error := ft_open_error (ct_files C) (wg_database_path c)\<rparr>) (so_cycles s)))"

definition run_create_unsigned ::
  "('b, 'm, 'u, 'w) cli_tools \<Rightarrow> wallet_config \<Rightarrow> create_unsigned_args \<Rightarrow> ('u, unit) clim" where
  "run_create_unsigned C c q =
     (let c = apply_transaction (cu_tx q) (apply_database (cu_db q) c)
      in handle_create_unsigned_transaction C (ct_signing C c (sa_password (cu_security q))) (cu_recipient q)
           (wg_database_path c) (cu_account_name q) (ta_idempotency_key (cu_tx q)) (cu_seconds_to_lock q)
           (wg_confirmation_window c) (cu_output_file q))"

definition run_lock_funds ::
  "('b, 'm, 'u, 'w) cli_tools \<Rightarrow> wallet_config \<Rightarrow> lock_funds_args \<Rightarrow> ('u, unit) clim" where
  "run_lock_funds C c q =
     (let c = apply_transaction (la_tx q) (apply_database (la_db q) c);
          window = (case ta_confirmation_window (la_tx q) of Some n \<Rightarrow> Some n | None \<Rightarrow> Some (wg_confirmation_window c))
      in handle_lock_funds C (wg_database_path c) (la_account_name q) (la_output_file q)
           \<lparr>lq_amount = la_amount q, lq_num_outputs = Some (la_num_outputs q),
            lq_fee_per_gram = Some (la_fee_per_gram q), lq_size = la_estimated_output_size q,
            lq_seconds = la_seconds_to_lock_utxos q, lq_key = ta_idempotency_key (la_tx q), lq_window = window\<rparr>)"

definition vn_run_of ::
  "('b, 'm, 'u, 'w) cli_tools \<Rightarrow> wallet_config \<Rightarrow> transaction_args \<Rightarrow> string \<Rightarrow> u64 \<Rightarrow> string option \<Rightarrow> u64 \<Rightarrow> vn_run" where
  "vn_run_of C c tx account_name fee_per_gram payment_id seconds_to_lock =
     \<lparr>vr_new_key = ct_new_key C, vr_fresh_key = ct_fresh_key C, vr_fresh_id = ct_fresh_id C, vr_tx_id = ct_tx_id C,
      vr_database_file = wg_database_path c, vr_account_name = account_name,
      vr_idempotency_key = ta_idempotency_key tx, vr_seconds_to_lock = seconds_to_lock,
      vr_window = wg_confirmation_window c, vr_fee_per_gram = fee_per_gram, vr_payment_id = payment_id\<rparr>"

definition run_register ::
  "('b, 'm, 'u, 'w) cli_tools \<Rightarrow> wallet_config \<Rightarrow> register_args \<Rightarrow> ('u, unit) clim" where
  "run_register C c q =
     (let c = apply_transaction (ra_tx q) (apply_database (ra_db q) (apply_node (ra_node q) c))
      in handle_register_validator_node (ct_api C) (ct_files C) (ct_vn C c (sa_password (ra_security q)))
           (vn_run_of C c (ra_tx q) (ra_account_name q) (ra_fee_per_gram q) (ra_payment_id q) (ra_seconds_to_lock q))
           (ra_vn_public_key q) (ra_vn_sig_nonce q) (ra_vn_sig q) (ra_claim_public_key q) (ra_max_epoch q)
           (ra_sidechain_deployment_key q))"

definition run_exit ::
  "('b, 'm, 'u, 'w) cli_tools \<Rightarrow> wallet_config \<Rightarrow> exit_args \<Rightarrow> ('u, unit) clim" where
  "run_exit C c q =
     (let c = apply_transaction (xa_tx q) (apply_database (xa_db q) (apply_node (xa_node q) c))
      in handle_submit_validator_node_exit (ct_api C) (ct_files C) (ct_vn C c (sa_password (xa_security q)))
           (vn_run_of C c (xa_tx q) (xa_account_name q) (xa_fee_per_gram q) (xa_payment_id q) (xa_seconds_to_lock q))
           (xa_vn_public_key q) (xa_vn_sig_nonce q) (xa_vn_sig q) (xa_max_epoch q) (xa_sidechain_deployment_key q))"

definition run_eviction ::
  "('b, 'm, 'u, 'w) cli_tools \<Rightarrow> wallet_config \<Rightarrow> eviction_args \<Rightarrow> ('u, unit) clim" where
  "run_eviction C c q =
     (let c = apply_transaction (ea_tx q) (apply_database (ea_db q) (apply_node (ea_node q) c))
      in handle_submit_validator_eviction_proof (ct_api C) (ct_files C) (ct_vn C c (sa_password (ea_security q)))
           (vn_run_of C c (ea_tx q) (ea_account_name q) (ea_fee_per_gram q) (ea_payment_id q) (ea_seconds_to_lock q))
           (ea_proof_file q) (ea_sidechain_deployment_key q))"

definition run_delete ::
  "('b, 'm, 'u, 'w) cli_tools \<Rightarrow> wallet_config \<Rightarrow> database_args \<Rightarrow> account_args \<Rightarrow> ('u, unit) clim" where
  "run_delete C c db account =
     (let c = apply_database db c; name = opt_or ''default'' (aa_account_name account)
      in seqM (open_db init_failed_context (ct_files C) (wg_database_path c))
         (seqM (on_conn (wg_database_path c) (cli_db (ct_api C) (delete_wallet name)))
           (print_line (''Wallet account '' @ [CHR 0x27] @ name @ [CHR 0x27] @ '' deleted successfully.''))))"

definition run_burn ::
  "('b, 'm, 'u, 'w) cli_tools \<Rightarrow> wallet_config \<Rightarrow> burn_funds_args \<Rightarrow> ('u, unit) clim" where
  "run_burn C c q =
     (let c = apply_burn (bg_burn q) (apply_node (bg_node q) (apply_transaction (bg_tx q) (apply_database (bg_db q) c)))
      in handle_burn_funds (ct_api C) (ct_files C) (ct_fee_tools C) (ct_burn C c (sa_password (bg_security q)))
           (ct_new_key C) (ct_fresh_key C) (ct_fresh_id C)
           \<lparr>bf_account_name = bg_account_name q, bf_amount = bg_amount q,
            bf_claim_public_key = bg_claim_public_key q, bf_fee_per_gram = bg_fee_per_gram q,
            bf_payment_id = bg_payment_id q, bf_sidechain_key = bg_sidechain_deployment_key q,
            bf_database_file = wg_database_path c, bf_idempotency_key = ta_idempotency_key (bg_tx q),
            bf_seconds_to_lock = bg_seconds_to_lock q, bf_window = wg_confirmation_window c\<rparr>)"

fun run_command :: "('b, 'm, 'u, 'w) cli_tools \<Rightarrow> wallet_config \<Rightarrow> commands \<Rightarrow> ('u, unit) clim" where
  "run_command C c (CreateAddress password output_file) = run_create_address C password output_file"
| "run_command C c (Scan security node db account max_blocks) = run_scan C c security node db account max_blocks"
| "run_command C c (ReScan security node db account_name height) = run_rescan C c security node db account_name height"
| "run_command C c (DaemonCommand security node db interval port) = run_daemon C c security node db interval port"
| "run_command C c (Balance db account) = handle_balance C (apply_account account (apply_database db c))"
| "run_command C c (ImportViewKey view_key spend_key security db birthday) =
     (let c = apply_database db c
      in init_wallet C (wg_database_path c) (sa_password security) None
           (wl_of_view_keys (ct_wallet C) view_key spend_key birthday))"
| "run_command C c (Create security db account words) =
     (let c = apply_account account (apply_database db c)
      in init_wallet C (wg_database_path c) (sa_password security) (wg_account_name c)
           (bind_result (ct_seed C words) (wl_of_seed (ct_wallet C))))"
| "run_command C c (ShowSeedWords security db account) =
     (let c = apply_account account (apply_database db c)
      in show_account C c (seed_word_lines C (sa_password security) (opt_or ''default'' (wg_account_name c))))"
| "run_command C c (ShowKeys security db account) =
     (let c = apply_account account (apply_database db c)
      in show_account C c (key_lines C (sa_password security)))"
| "run_command C c (CreateUnsignedTransaction q) = run_create_unsigned C c q"
| "run_command C c (LockFunds q) = run_lock_funds C c q"
| "run_command C c (RegisterValidatorNode q) = run_register C c q"
| "run_command C c (SubmitValidatorNodeExit q) = run_exit C c q"
| "run_command C c (SubmitValidatorEvictionProof q) = run_eviction C c q"
| "run_command C c (Delete db account) = run_delete C c db account"
| "run_command C c (BurnFunds q) = run_burn C c q"

end
