(* ===== verification/Cli_Properties.thy ===== *)
theory Cli_Properties
  imports Cli Coordinator_Properties Service_Properties
begin

text \<open>
  What the commands do: the command that burns funds and the one that creates a transaction do
  to the database what the handlers of the API do, a rescan resumes after the newest recorded
  block below its height, the password of a wallet file becomes a key of 32 bytes in exactly
  the cases given, and a transaction the node refuses stays recorded as completed.
\<close>

section \<open>Two front ends of one operation\<close>

text \<open>
  The outcome of a run forgets which error it ended with: the value, if there is one, and the
  state that is left.
\<close>

fun outcome :: "('e + 'a) \<times> 's \<Rightarrow> 'a option \<times> 's" where
  "outcome (Inl e, s) = (None, s)"
| "outcome (Inr a, s) = (Some a, s)"

definition agree :: "('s, 'e, 'a) run \<Rightarrow> ('s, 'f, 'a) run \<Rightarrow> bool" where
  "agree m n \<longleftrightarrow> (\<forall>s. outcome (m s) = outcome (n s))"

lemma agree_refl: "agree m m"
  by (simp add: agree_def)

lemma agreeD: "agree m n \<Longrightarrow> outcome (m s) = outcome (n s)"
  by (simp add: agree_def)

lemma agree_trans: "agree m n \<Longrightarrow> agree n k \<Longrightarrow> agree m k"
  by (simp add: agree_def)

lemma agree_sym: "agree m n \<Longrightarrow> agree n m"
  by (simp add: agree_def)

lemma outcome_map_error: "outcome (map_error h m s) = outcome (m s)"
  by (cases "m s" rule: outcome.cases) (simp_all add: map_error_def)

lemma outcome_bind: "outcome (bindM m f s) = (case outcome (m s) of
    (None, s') \<Rightarrow> (None, s') | (Some a, s') \<Rightarrow> outcome (f a s'))"
  by (cases "m s" rule: outcome.cases) (simp_all add: bindM_def)

lemma agree_map_error: "agree m n \<Longrightarrow> agree (map_error h m) (map_error g n)"
  by (simp add: agree_def outcome_map_error)

lemma agree_bind: "agree m n \<Longrightarrow> (\<And>a. agree (f a) (g a)) \<Longrightarrow> agree (bindM m f) (bindM n g)"
  by (simp add: agree_def outcome_bind split: prod.splits option.splits)

lemma agree_seq: "agree m n \<Longrightarrow> agree k l \<Longrightarrow> agree (seqM m k) (seqM n l)"
  by (simp add: seqM_def agree_bind)

lemma agree_throw: "agree (throw e) (throw f)"
  by (simp add: agree_def throw_def)

lemma agree_ret: "agree (ret a) (ret a)"
  by (simp add: agree_def ret_def)

lemma agree_lift: "(case r of Inl _ \<Rightarrow> None | Inr a \<Rightarrow> Some a) = (case q of Inl _ \<Rightarrow> None | Inr a \<Rightarrow> Some a) \<Longrightarrow>
    agree (lift_result r) (lift_result q)"
  by (auto simp: agree_def lift_result_def split: sum.splits)

lemmas agree_rules = agree_bind agree_seq agree_map_error agree_throw agree_ret agree_refl

lemma account_agree:
  assumes "\<And>a. agree (f a) (g a)"
  shows "agree (bindM (cli_account A missing name) f) (with_account A name g)"
proof -
  have "bindM (cli_account A missing name) f = bindM (cli_db A (get_account_by_name name)) (\<lambda>found.
      case found of None \<Rightarrow> throw (CliError (missing name)) | Some a \<Rightarrow> f a)"
    by (auto simp: cli_account_def bindM_def throw_def ret_def fun_eq_iff split: prod.splits sum.splits option.splits)
  moreover have "agree \<dots> (with_account A name g)"
    unfolding with_account_def cli_db_def api_db_def
    by (intro agree_bind agree_map_error agree_refl) (auto intro: agree_throw assms split: option.split)
  ultimately show ?thesis by simp
qed

definition burn_request_of :: "burn_command \<Rightarrow> burn_funds_request" where
  \<comment> \<open>the request of the API with the arguments of the command\<close>
  "burn_request_of q = \<lparr>bq_amount = bf_amount q, bq_claim_key = bf_claim_public_key q,
     bq_sidechain_key = bf_sidechain_key q, bq_fee_per_gram = Some (bf_fee_per_gram q),
     bq_payment_id = bf_payment_id q, bq_key = bf_idempotency_key q,
     bq_seconds = Some (bf_seconds_to_lock q)\<rparr>"

lemma bindM_assoc: "bindM (bindM m f) g = bindM m (\<lambda>a. bindM (f a) g)"
  by (auto simp: bindM_def fun_eq_iff split: prod.splits sum.splits)

lemma bindM_throw [simp]: "bindM (throw e) f = throw e"
  by (simp add: bindM_def throw_def)

lemma bindM_ret [simp]: "bindM (ret a) f = f a"
  by (simp add: bindM_def ret_def)

lemma bindM_lift: "bindM (lift_result r) f = (case r of Inl e \<Rightarrow> throw e | Inr a \<Rightarrow> f a)"
  by (auto simp: bindM_def lift_result_def throw_def fun_eq_iff split: sum.splits)

lemma bindM_with_account: "bindM (with_account A name f) g = with_account A name (\<lambda>a. bindM (f a) g)"
  unfolding with_account_def bindM_assoc
  by (rule arg_cong [of _ _ "bindM _"]) (auto simp: fun_eq_iff split: option.split)

lemma agree_submit:
  "agree (lift_result (case br_serialized r of Inl e \<Rightarrow> Inl (CliError (''Broadcast failed: '' @ e))
      | Inr raw \<Rightarrow> node_answer (bu_url_error B) (bu_connect B) raw)) (lift_result (burn_submit B r))"
  by (intro agree_lift)
    (auto simp: burn_submit_def node_answer_def split: sum.splits option.splits)

lemma burn_agree:
  assumes "bf_window q = ap_required A"
  shows "agree (bindM (cli_burn A T B fresh_key fresh_id q key claim_key) (\<lambda>r. ret (br_tx_id r, br_output_hash r)))
     (bindM (with_account A (bf_account_name q) (\<lambda>account.
       bindM (map_error (\<lambda>e. FailedToBurnFunds (ap_describe_send A e))
         (create_burn_tx (ap_externals A) T (bu_address B) (bu_build B) fresh_key fresh_id account
           \<lparr>bt_account_id = a_id account, bt_amount = bf_amount q, bt_claim_key = claim_key,
            bt_fee_per_gram = bf_fee_per_gram q, bt_payment_id = bf_payment_id q,
            bt_key = Some key, bt_seconds = bf_seconds_to_lock q, bt_window = ap_required A\<rparr>))
         (\<lambda>result.
       seqM (map_error (\<lambda>e. ApiDbError (ap_describe_send A e))
           (persist_burn_records (ap_externals A) (bu_uuid_ok B) result (a_id account) key))
         (ret result)))) (\<lambda>result.
     seqM (lift_result (burn_submit B result))
     (seqM (api_db A (mark_completed_transaction_as_broadcasted (ap_externals A) (br_tx_id result) 1))
       (ret (br_tx_id result, br_output_hash result)))))"
  unfolding cli_burn_def bindM_with_account bindM_assoc seqM_def api_db_def cli_db_def assms bindM_ret
  by (intro account_agree agree_submit agree_rules)

definition same_result :: "('s, 'e, 'a) run \<Rightarrow> ('s, 'f, 'b) run \<Rightarrow> ('a \<Rightarrow> 'b) \<Rightarrow> bool" where
  "same_result m n h \<longleftrightarrow> agree (bindM m (\<lambda>a. ret (h a))) n"

lemma same_result_cases:
  assumes "same_result m n h"
  obtains e f s' where "m s = (Inl e, s')" "n s = (Inl f, s')"
    | a s' where "m s = (Inr a, s')" "n s = (Inr (h a), s')"
  using agreeD [OF assms [unfolded same_result_def], of s]
  by (cases "m s" rule: outcome.cases; cases "n s" rule: outcome.cases) (auto simp: bindM_def ret_def)

lemma burn_same_result:
  assumes "bf_window q = ap_required A"
    and "cli_parse_key (bu_parse_public B) ''claim-public-key'' (bf_claim_public_key q) = Inr claim_key"
    and "cli_parse_key (bu_parse_private B) ''sidechain-deployment-key'' (bf_sidechain_key q) = Inr u"
  shows "same_result (cli_burn A T B fresh_key fresh_id q (opt_or new_key (bf_idempotency_key q)) claim_key)
     (api_burn_funds A T B new_key fresh_key fresh_id (bf_account_name q) (burn_request_of q))
     (\<lambda>r. (br_tx_id r, br_output_hash r))"
proof -
  have "parse_key (bu_parse_public B) ''claim_public_key'' (bf_claim_public_key q) = Inr claim_key"
    "parse_key (bu_parse_private B) ''sidechain_deployment_key'' (bf_sidechain_key q) = Inr u"
    using assms(2,3) by (auto simp: cli_parse_key_def parse_key_def split: option.splits sum.splits)
  then show ?thesis
    using burn_agree [OF assms(1)]
    by (simp add: same_result_def api_burn_funds_def burn_prepare_def burn_request_of_def bindM_lift Let_def)
qed

lemma burn_keys_fail:
  assumes "cli_parse_key (bu_parse_public B) ''claim-public-key'' (bf_claim_public_key q) = Inl e \<or>
     cli_parse_key (bu_parse_private B) ''sidechain-deployment-key'' (bf_sidechain_key q) = Inl e"
  shows "\<exists>f. api_burn_funds A T B new_key fresh_key fresh_id name (burn_request_of q) d = (Inl f, d)"
  using assms
  by (auto simp: cli_parse_key_def parse_key_def api_burn_funds_def burn_prepare_def burn_request_of_def
      bindM_lift throw_def bindM_def lift_result_def split: option.splits sum.splits)

text \<open>
  C18: \<open>burn-funds\<close> and the API endpoint that burns funds are the same operation: with the
  same arguments, and the confirmation window of the API, one succeeds exactly if the other
  does, both leave the same database, and the command prints the transaction and the output
  the endpoint returns.
\<close>

theorem burn_command_matches_api:
  fixes q :: burn_command
  defines "path \<equiv> bf_database_file q"
  assumes "ft_open_error F path = None" "cw_dbs w path = Some d" "bf_window q = ap_required A"
  shows "outcome (handle_burn_funds A F T B new_key fresh_key fresh_id q w) =
     (case outcome (api_burn_funds A T B new_key fresh_key fresh_id (bf_account_name q) (burn_request_of q) d) of
        (None, d') \<Rightarrow> (None, w\<lparr>cw_dbs := (cw_dbs w)(path \<mapsto> d')\<rparr>)
      | (Some (tx_id, output_hash), d') \<Rightarrow> (Some (), w\<lparr>cw_dbs := (cw_dbs w)(path \<mapsto> d'),
          cw_out := cw_out w @ [''Burn transaction broadcasted. tx_id='' @ show_nat tx_id @
            '', output_hash='' @ x_hex (ap_externals A) output_hash]\<rparr>))"
proof -
  let ?api = "api_burn_funds A T B new_key fresh_key fresh_id (bf_account_name q) (burn_request_of q)"
  let ?pub = "cli_parse_key (bu_parse_public B) ''claim-public-key'' (bf_claim_public_key q)"
  let ?side = "cli_parse_key (bu_parse_private B) ''sidechain-deployment-key'' (bf_sidechain_key q)"
  have keep: "w\<lparr>cw_dbs := (cw_dbs w)(path \<mapsto> d)\<rparr> = w"
    using assms(3) by (simp add: map_upd_triv)
  show ?thesis
  proof (cases "\<exists>e. ?pub = Inl e \<or> ?side = Inl e")
    case True
    then obtain f where "?api d = (Inl f, d)" using burn_keys_fail by metis
    with True keep show ?thesis
      by (auto simp: handle_burn_funds_def bindM_lift throw_def split: sum.splits)
  next
    case False
    then obtain claim_key u where keys: "?pub = Inr claim_key" "?side = Inr u"
      by (metis sum.exhaust)
    let ?cli = "cli_burn A T B fresh_key fresh_id q (opt_or new_key (bf_idempotency_key q)) claim_key"
    have run: "handle_burn_funds A F T B new_key fresh_key fresh_id q w =
        bindM (on_conn path ?cli) (\<lambda>result. print_line (''Burn transaction broadcasted. tx_id='' @
          show_nat (br_tx_id result) @ '', output_hash='' @ x_hex (ap_externals A) (br_output_hash result))) w"
      using keys assms(2,3) keep
      by (simp add: handle_burn_funds_def bindM_lift seqM_def open_db_def path_def bindM_Inr)
    have "same_result ?cli ?api (\<lambda>r. (br_tx_id r, br_output_hash r))"
      by (rule burn_same_result [OF assms(4) keys])
    then show ?thesis
      by (rule same_result_cases [where s = d])
        (simp_all add: run on_conn_def bindM_def print_line_def modify_def assms(3))
  qed
qed

lemma agree_case: "(case r of Inl e \<Rightarrow> throw (g e) | Inr a \<Rightarrow> ret a) = lift_result (map_sum g id r)"
  by (auto simp: throw_def ret_def lift_result_def split: sum.splits)

lemma agree_lift_map: "agree (lift_result (map_sum f id r)) (lift_result (map_sum g id r))"
  by (cases r) (simp_all add: agree_def lift_result_def)

lemma unsigned_agree:
  "agree (cli_unsigned_transaction C G recipients name key seconds window)
     (api_create_unsigned_transaction (ct_api C) (ct_fee_tools C) G (ct_fresh_key C) (ct_fresh_id C) (ct_tx_id C) name
        \<lparr>cq_recipients = recipients, cq_seconds = Some seconds, cq_key = key, cq_window = Some window\<rparr>)"
  unfolding cli_unsigned_transaction_def api_create_unsigned_transaction_def agree_case
    create_transaction_request.select_convs opt_or_simps
  by (intro account_agree agree_lift_map agree_rules)

section \<open>Rescanning\<close>

definition common_heights :: "chain \<Rightarrow> i64 \<Rightarrow> u64 \<Rightarrow> db \<Rightarrow> u64 set" where
  \<comment> \<open>the heights below \<open>h\<close> at which the account has recorded the block the chain has\<close>
  "common_heights chain a h d = (\<lambda>r. nat (tip_height r)) ` {r \<in> set (tips d). tip_account r = a \<and>
     0 \<le> tip_height r \<and> tip_height r < int h \<and> chain (nat (tip_height r)) = Inr (Some (tip_hash r))}"

lemma recorded_rows:
  assumes "mapM scanned_tip_block_of_row rows = Inr bs"
  shows "(\<forall>r \<in> set rows. 0 \<le> tip_height r) \<and>
     map (\<lambda>b. (stb_height b, stb_hash b)) bs = map (\<lambda>r. (nat (tip_height r), tip_hash r)) rows"
  using assms
  by (induction rows arbitrary: bs)
    (auto simp: scanned_tip_block_of_row_def split: sum.splits if_splits)

lemma common_after_rollback:
  assumes "tips d1 = filter (\<lambda>r. \<not> (tip_account r = a \<and> tip_height r \<ge> int h)) (tips d)"
    and "get_scanned_tip_blocks_by_account a d1 = (Inr bs, d1)"
  shows "stb_height ` {b \<in> set bs. on_chain chain b} = common_heights chain a h d"
proof -
  have "mapM scanned_tip_block_of_row (tips_desc a d1) = Inr bs"
    using assms(2) by (simp add: get_scanned_tip_blocks_by_account_def query_ok_iff)
  note rows = recorded_rows [OF this]
  note rows(1) [THEN conjunct2, THEN arg_cong, of set, unfolded set_map]
  moreover have "set (tips_desc a d1) = {r \<in> set (tips d). tip_account r = a \<and> 0 \<le> tip_height r \<and> tip_height r < int h}"
    using assms(1) rows by (auto simp: not_le)
  ultimately have "(\<lambda>b. (stb_height b, stb_hash b)) ` set bs =
      (\<lambda>r. (nat (tip_height r), tip_hash r)) ` {r \<in> set (tips d). tip_account r = a \<and> 0 \<le> tip_height r \<and> tip_height r < int h}"
    by simp
  then have "fst ` {p \<in> (\<lambda>b. (stb_height b, stb_hash b)) ` set bs. chain (fst p) = Inr (Some (snd p))} =
      fst ` {p \<in> (\<lambda>r. (nat (tip_height r), tip_hash r)) ` {r \<in> set (tips d). tip_account r = a \<and> 0 \<le> tip_height r \<and> tip_height r < int h}.
        chain (fst p) = Inr (Some (snd p))}" by simp
  then show ?thesis
    unfolding common_heights_def on_chain_def by (force simp: image_iff)
qed

lemma resume_point:
  assumes "handle_reorgs X dh chain a cfg d = (Inr r, d')"
    and "get_scanned_tip_blocks_by_account a d = (Inr bs, d)"
  defines "common \<equiv> stb_height ` {b \<in> set bs. on_chain chain b}"
  shows "rr_resume r = (if common = {} then 0 else Max common + 1)"
proof -
  obtain gone rest where bs: "bs = gone @ rest" and gone: "\<forall>b \<in> set gone. \<not> on_chain chain b"
    and start: "case rest of [] \<Rightarrow> rr_resume r = 0 | b # _ \<Rightarrow> on_chain chain b \<and> rr_resume r = stb_height b + 1"
    by (rule handle_reorgs_split [OF assms(1,2)])
  have common: "common = stb_height ` {b \<in> set rest. on_chain chain b}"
    using gone by (auto simp: common_def bs)
  show ?thesis
  proof (cases rest)
    case Nil
    with start common show ?thesis by simp
  next
    case (Cons b rest')
    with start have b: "on_chain chain b" "rr_resume r = stb_height b + 1" by simp_all
    have "\<forall>y \<in> set rest'. stb_height y \<le> stb_height b"
      using recorded_blocks_desc [OF assms(2)] bs Cons by (simp add: sorted_wrt_append)
    then have "Max common = stb_height b"
      using b(1) common Cons by (intro Max_eqI) auto
    with b common Cons show ?thesis by auto
  qed
qed

lemma prepare_target_next:
  assumes "prepare_target T cfg view_key height_at genesis chain offset account d = (Inr t, d2)"
  obtains res d1 where
    "handle_reorgs (ct_externals T) (ct_debug_hex T) chain (a_id account) (cc_webhook cfg) d = (Inr res, d1)"
    and "if rr_resume res \<noteq> 0 then tg_next t = rr_resume res
      else height_at (u64_saturating_sub (u64_of_i64 (a_birthday account)) offset * 24 * 60 * 60 + genesis) = Inr (tg_next t)"
  using assms unfolding prepare_target_def bindM_ok_iff map_error_ok_iff lift_result_ok_iff
  apply (elim exE conjE)
  apply hypsubst
  apply (rule that, assumption)
  apply (auto simp: ret_ok_iff lift_result_ok_iff map_sum_ok_iff split: if_splits)
  done

text \<open>
  C24: After a rescan has rolled an account back to height \<open>h\<close>, the next block to scan is the one
  after the newest block below \<open>h\<close> that is recorded for the account and on the chain, so it
  is \<open>h\<close> exactly if the block before \<open>h\<close> is recorded; when it was pruned, the scan starts
  earlier, and without any such block at the birthday of the account.
\<close>

theorem rescan_restarts:
  assumes "rollback_for_rescan A S name h trigger d = (Inr u, d1)"
    and "get_account_by_name name d = (Inr (Some account), d)"
    and "prepare_target T cfg view_key height_at genesis chain offset account d1 = (Inr t, d2)"
    and "h < 2 ^ 63"
  defines "common \<equiv> common_heights chain (a_id account) h d"
  shows "if common = {}
     then height_at (u64_saturating_sub (u64_of_i64 (a_birthday account)) offset * 24 * 60 * 60 + genesis) = Inr (tg_next t)
     else tg_next t = Max common + 1 \<and> tg_next t \<le> h \<and> (tg_next t = h \<longleftrightarrow> h - 1 \<in> common)"
proof -
  have found: "first_row (\<lambda>r. a_name r = name) (accounts d) = Some account"
    using assms(2) by (simp add: get_account_by_name_def gets_def)
  have height: "i64_of_u64 h = int h"
    by (rule i64_of_u64_small [OF assms(4)])
  obtain info where "rollback_from_height (ap_externals A) (so_debug_hex S) (a_id account) h trigger d = (Inr info, d1)"
    using assms(1)
    by (auto simp: rollback_for_rescan_def bindM_ok_iff map_error_ok_iff get_account_by_name_def gets_ok_iff ret_ok_iff found)
  from rollback_tables(3) [OF this]
  have tips: "tips d1 = filter (\<lambda>r. \<not> (tip_account r = a_id account \<and> tip_height r \<ge> int h)) (tips d)"
    by (simp add: height)
  obtain res d3 where reorg: "handle_reorgs (ct_externals T) (ct_debug_hex T) chain (a_id account) (cc_webhook cfg) d1 = (Inr res, d3)"
    and resumed: "if rr_resume res \<noteq> 0 then tg_next t = rr_resume res
      else height_at (u64_saturating_sub (u64_of_i64 (a_birthday account)) offset * 24 * 60 * 60 + genesis) = Inr (tg_next t)"
    by (rule prepare_target_next [OF assms(3)])
  obtain bs where blocks: "get_scanned_tip_blocks_by_account (a_id account) d1 = (Inr bs, d1)"
    using reorg get_tips_reads by (auto simp: handle_reorgs_def bindM_ok_iff map_error_ok_iff)
  have resume: "rr_resume res = (if common = {} then 0 else Max common + 1)"
    using resume_point [OF reorg blocks] common_after_rollback [OF tips blocks] by (simp add: common_def)
  have below: "finite common" "\<forall>k \<in> common. k < h"
    by (auto simp: common_def common_heights_def)
  show ?thesis
  proof (cases "common = {}")
    case True
    with resumed resume show ?thesis by simp
  next
    case False
    then have top: "Max common \<in> common" "Max common < h" and "h - 1 \<in> common \<Longrightarrow> h - 1 \<le> Max common"
      using below by simp_all
    then have "Max common + 1 = h \<longleftrightarrow> h - 1 \<in> common" by force
    with False top resumed resume show ?thesis by simp
  qed
qed

section \<open>The key of a wallet file\<close>

lemma char_count_bound: "char_count s \<le> length s"
  by (simp add: char_count_def)

lemma char_count_all: "char_count s = length s \<longleftrightarrow> \<not> (\<exists>c \<in> set s. continuation c)"
  unfolding char_count_def by (metis (mono_tags, lifting) filter_True length_filter_less less_irrefl_nat)

lemma password_key_eq:
  "password_key p =
     (if length p < 32
      then (if \<exists>c \<in> set p. continuation c then Inl (CliError ''Password must be 32 bytes'')
            else Inr (p @ replicate (32 - length p) (CHR ''0'')))
      else if length p > 32 \<and> continuation (p ! 32) then Inl CliPanic else Inr (take 32 p))"
proof (cases "length p < 32")
  case True
  have "length p + (32 - char_count p) = 32 \<longleftrightarrow> char_count p = length p"
    using True char_count_bound [of p] by linarith
  with True char_count_all [of p] show ?thesis by (auto simp: password_key_def pad_password_def)
qed (auto simp: password_key_def pad_password_def is_char_boundary_def)

text \<open>
  The password of a wallet file becomes the key as it is, filled up with zeros or cut to 32
  bytes, in exactly these cases: a short one is refused when it has a character of more than
  one byte, a long one panics when byte 32 is inside a character. The zeros make a password
  and the same password followed by a zero the same key.
\<close>

theorem password_key_exact:
  "password_key p =
     (if length p < 32
      then (if \<exists>c \<in> set p. continuation c then Inl (CliError ''Password must be 32 bytes'')
            else Inr (p @ replicate (32 - length p) (CHR ''0'')))
      else if length p > 32 \<and> continuation (p ! 32) then Inl CliPanic else Inr (take 32 p)) \<and>
   (length p < 32 \<longrightarrow> (\<forall>c \<in> set p. \<not> continuation c) \<longrightarrow> password_key (p @ ''0'') = password_key p)"
proof (rule conjI [OF password_key_eq], intro impI)
  assume short: "length p < 32" and plain: "\<forall>c \<in> set p. \<not> continuation c"
  have "\<not> continuation (CHR ''0'')" by code_simp
  moreover have "replicate (32 - length p) (CHR ''0'') = CHR ''0'' # replicate (31 - length p) (CHR ''0'')"
    using short by (simp flip: replicate_Suc add: Suc_diff_le)
  ultimately show "password_key (p @ ''0'') = password_key p"
    using short plain by (auto simp: password_key_eq)
qed

section \<open>Refused by the node\<close>

lemma mapM_hit: "mapM f xs = Inr ys \<Longrightarrow> x \<in> set xs \<Longrightarrow> \<exists>y \<in> set ys. f x = Inr y"
  by (induction xs arbitrary: ys) (auto split: sum.splits)

lemma save_signed_completed:
  assumes "save_signed A uuid_ok account key sd serialized d = (Inr u, d')"
    and "find_pending_transaction_by_idempotency_key uuid_ok key (a_id account) d = (Inr (Some p), d)"
  shows "\<exists>r \<in> set (completeds d'). c_id r = i64_of_u64 (sd_tx_id sd) \<and> c_account r = a_id account \<and>
     c_status r = completed_status_text TxCompleted \<and> c_serialized r = serialized"
  using assms
  by (auto simp: save_signed_def bindM_ok_iff seqM_ok_iff cli_db_def map_error_ok_iff
      create_completed_transaction_def statement_ok_iff set_insort_key split: if_splits)

text \<open>
  C40: A validator node command whose transaction the node refuses, or that does not reach the
  node, reports an error, but the transaction is recorded as completed: the monitor finds it
  among the transactions it submits again, with the same content.
\<close>

theorem refused_transaction_submitted_later:
  assumes "sign_and_save A V prepared account key kind d = (Inr (sd, serialized), d1)"
    and "find_pending_transaction_by_idempotency_key (vt_uuid_ok V) key (a_id account) d = (Inr (Some p), d)"
    and "node_answer (vt_url_error V) (vt_client V) serialized = Inl e"
    and "get_pending_completed_transactions (a_id account) d1 = (Inr txs, d1)" "is_u64 (sd_tx_id sd)"
  shows "sign_save_and_broadcast A V prepared account key kind d = (Inl e, d1) \<and>
     (\<exists>tx \<in> set (with_status TxCompleted txs). ct_id tx = sd_tx_id sd \<and> ct_serialized tx = serialized)"
proof
  show "sign_save_and_broadcast A V prepared account key kind d = (Inl e, d1)"
    using assms(1,3) by (simp add: sign_save_and_broadcast_def bindM_Inr seqM_def bindM_lift throw_def)
  have "save_signed A (vt_uuid_ok V) account key sd serialized d = (Inr (), d1)"
    using assms(1) by (auto simp: sign_and_save_def bindM_ok_iff seqM_ok_iff lift_result_ok_iff ret_ok_iff)
  from save_signed_completed [OF this assms(2)] obtain r where r: "r \<in> set (completeds d1)"
    "c_id r = i64_of_u64 (sd_tx_id sd)" "c_account r = a_id account"
    "c_status r = completed_status_text TxCompleted" "c_serialized r = serialized" by blast
  then have "awaiting r" by (simp add: awaiting_def completed_status_text.simps)
  with r(1,3) assms(4) obtain tx where tx: "tx \<in> set txs" "completed_of_row r = Inr tx"
    by (auto simp: get_pending_completed_transactions_def query_ok_iff dest!: mapM_hit)
  with r(2,4,5) show "\<exists>tx \<in> set (with_status TxCompleted txs). ct_id tx = sd_tx_id sd \<and> ct_serialized tx = serialized"
    by (auto simp: completed_of_row_def with_status_def completed_codec.of_text_to_text
        u64_of_i64_of_u64 [OF assms(5)] split: sum.splits)
qed

section \<open>The properties on concrete inputs\<close>

definition sample_files :: file_tools where
  "sample_files = \<lparr>ft_open_error = (\<lambda>_. None), ft_has_parent = (\<lambda>_. True), ft_write_error = (\<lambda>_. None),
     ft_read = (\<lambda>_. Inl ''missing'')\<rparr>"

definition sample_burn_tools :: burn_tools where
  "sample_burn_tools = \<lparr>bu_parse_public = (\<lambda>s. Inr s), bu_parse_private = (\<lambda>_. Inr ()),
     bu_address = (\<lambda>_. Inr ''a''), bu_build = (\<lambda>_ _ _. Inr \<lparr>bb_output_hash = [8], bb_commitment = [],
       bb_offset_key = [], bb_kernels = [\<lparr>tk_burned = True, tk_excess = [1], tk_nonce = [], tk_sig = [],
         tk_fee = 3, tk_lock_height = 0\<rparr>], bb_sent_encrypted = [], bb_ownership = Inr ([], []),
       bb_serialized = Inr [7], bb_tx_id = 12\<rparr>), bu_uuid_ok = (\<lambda>_. True), bu_url_error = None,
     bu_connect = Inr (\<lambda>_. Inr \<lparr>sub_accepted = True, sub_already_mined = False, sub_reason = []\<rparr>)\<rparr>"

definition sample_burn :: burn_command where
  "sample_burn = \<lparr>bf_account_name = ''main'', bf_amount = 20, bf_claim_public_key = Some ''claim'',
     bf_fee_per_gram = 1, bf_payment_id = None, bf_sidechain_key = None, bf_database_file = ''wallet.db'',
     bf_idempotency_key = Some ''k'', bf_seconds_to_lock = 60, bf_window = 3\<rparr>"

definition sample_world :: "unit cli_world" where
  "sample_world = \<lparr>cw_dbs = [''wallet.db'' \<mapsto> two_outputs_db], cw_files = Map.empty, cw_out = []\<rparr>"

theorem burn_command_matches_api_witness:
  "\<exists>w'. outcome (handle_burn_funds sample_api sample_files first_fit_tools sample_burn_tools ''new'' ''f'' ''i''
       sample_burn sample_world) = (Some (), w') \<and>
     cw_out w' = [''Burn transaction broadcasted. tx_id=12, output_hash='' @ x_hex sample_X [8]]"
proof -
  let ?api = "api_burn_funds sample_api first_fit_tools sample_burn_tools ''new'' ''f'' ''i'' ''main''
      (burn_request_of sample_burn) two_outputs_db"
  let ?cli = "cli_burn sample_api first_fit_tools sample_burn_tools ''f'' ''i'' sample_burn ''k'' (Some ''claim'') two_outputs_db"
  have "succeeds_with ?cli (\<lambda>r d'. br_tx_id r = 12 \<and> br_output_hash r = [8])" by code_simp
  then obtain r d' where cli: "?cli = (Inr r, d')" "br_tx_id r = 12" "br_output_hash r = [8]"
    unfolding with_iffs by (elim exE conjE) (rule that)
  have open_ok: "ft_open_error sample_files (bf_database_file sample_burn) = None" by (simp add: sample_files_def)
  have world: "cw_dbs sample_world (bf_database_file sample_burn) = Some two_outputs_db"
    by (simp add: sample_world_def sample_burn_def)
  have window: "bf_window sample_burn = ap_required sample_api" by (simp add: sample_burn_def sample_api_def)
  have name: "bf_account_name sample_burn = ''main''" by (simp add: sample_burn_def)
  have "same_result (cli_burn sample_api first_fit_tools sample_burn_tools ''f'' ''i'' sample_burn ''k'' (Some ''claim''))
      (api_burn_funds sample_api first_fit_tools sample_burn_tools ''new'' ''f'' ''i'' ''main'' (burn_request_of sample_burn))
      (\<lambda>r. (br_tx_id r, br_output_hash r))"
    using burn_same_result [OF window, of sample_burn_tools "Some ''claim''" "None"]
    by (simp add: cli_parse_key_def sample_burn_tools_def sample_burn_def)
  then have api: "outcome ?api = (Some (12, [8]), d')"
    by (rule same_result_cases [where s = two_outputs_db]) (use cli in simp_all)
  have number: "show_nat 12 = ''12''" by code_simp
  from burn_command_matches_api [OF open_ok world window, of first_fit_tools sample_burn_tools "''new''" "''f''" "''i''"] api
  show ?thesis by (simp add: name number sample_world_def sample_api_def)
qed

theorem password_key_exact_witness:
  "password_key ''secret0'' = password_key ''secret''"
proof -
  have "\<forall>c \<in> set ''secret''. \<not> continuation c" by code_simp
  with password_key_exact [of "''secret''"] show ?thesis by simp
qed

definition sample_outside :: scan_outside where
  "sample_outside = \<lparr>so_tools = sample_tools, so_view_key = (\<lambda>_. Inr [5]), so_connect = None,
     so_height_at = (\<lambda>_. Inr 0), so_genesis = 0, so_chain = sample_chain, so_turns = [],
     so_debug_hex = sample_hex, so_describe_reorg = (\<lambda>_. ''reorg''),
     so_start = \<lparr>ds_db_error = None, ds_url_error = None, ds_client_error = None, ds_bind_error = None,
       ds_task_panic = None\<rparr>, so_cycles = []\<rparr>"

theorem rescan_restarts_witness:
  \<comment> \<open>block 8 is not recorded: the scan starts after block 7\<close>
  "\<exists>u d1 t d2. rollback_for_rescan sample_api sample_outside ''main'' 9 None reorg_db = (Inr u, d1) \<and>
     prepare_target sample_tools sample_config (\<lambda>_. Inr [5]) (\<lambda>_. Inr 0) 0 sample_chain 0 sample_account d1 = (Inr t, d2) \<and>
     tg_next t = 8"
proof -
  let ?run = "rollback_for_rescan sample_api sample_outside ''main'' 9 None reorg_db"
  let ?prepare = "prepare_target sample_tools sample_config (\<lambda>_. Inr [5]) (\<lambda>_. Inr 0) 0 sample_chain 0 sample_account"
  have "succeeds_with ?run (\<lambda>u d1. succeeds_with (?prepare d1) (\<lambda>t d2. True))" by code_simp
  then obtain u d1 t d2 where run: "?run = (Inr u, d1)" "?prepare d1 = (Inr t, d2)"
    unfolding with_iffs by (elim exE conjE) (rule that)
  have account: "get_account_by_name ''main'' reorg_db = (Inr (Some sample_account), reorg_db)"
    by code_simp
  have "common_heights sample_chain (a_id sample_account) 9 reorg_db = {4, 7}" by code_simp
  with rescan_restarts [OF run(1) account run(2)] have "tg_next t = 8" by simp
  with run show ?thesis by blast
qed

definition trivial_signing :: "(unit, unit, unit) signing_tools" where
  "trivial_signing = \<lparr>sg_address = (\<lambda>_. Inr ''a''), sg_one_sided = (\<lambda>_. True), sg_builder = (\<lambda>_ _. Inr ()),
     sg_with_input = (\<lambda>_ _. Inr ()), sg_memo = (\<lambda>_. Inr ()), sg_no_memo = (),
     sg_prepare = (\<lambda>_ _ _ _ _. Inr ())\<rparr>"

definition refusing_vn :: "(unit, unit, unit) vn_tools" where
  "refusing_vn = \<lparr>vt_fee_tools = first_fit_tools, vt_signing = (\<lambda>_. trivial_signing), vt_unhex = (\<lambda>_. Inr []),
     vt_public_key = (\<lambda>_. None), vt_private_key = (\<lambda>_. None), vt_seed_wallet = (\<lambda>_. Inr True),
     vt_registration_ok = (\<lambda>_ _ _ _ _. True), vt_exit_ok = (\<lambda>_ _ _ _. True), vt_parse_proof = (\<lambda>_. Inr ()),
     vt_deposit = 10, vt_sign = (\<lambda>_ _. Inr \<lparr>sd_tx_id = 6, sd_fee = 1, sd_kernels = [[3]], sd_serialized = Inr [7, 7],
       sd_sent_hashes = [], sd_outputs = [], sd_change = None\<rparr>),
     vt_key_manager = (\<lambda>_. Inr ()), vt_uuid_ok = (\<lambda>_. True), vt_url_error = None,
     vt_client = Inr (\<lambda>_. Inr \<lparr>sub_accepted = False, sub_already_mined = False, sub_reason = ''full''\<rparr>)\<rparr>"

theorem refused_transaction_submitted_later_witness:
  "\<exists>d1 txs. sign_save_and_broadcast sample_api refusing_vn () sample_account ''k'' ''VN exit'' reorg_db =
       (Inl (CliError ''Transaction rejected by network: full''), d1) \<and>
     get_pending_completed_transactions 1 d1 = (Inr txs, d1) \<and>
     (\<exists>tx \<in> set (with_status TxCompleted txs). ct_id tx = 6 \<and> ct_serialized tx = [7, 7])"
proof -
  let ?run = "sign_and_save sample_api refusing_vn () sample_account ''k'' ''VN exit'' reorg_db"
  have "succeeds_with ?run (\<lambda>(sd, raw) d1. sd_tx_id sd = 6 \<and> raw = [7, 7] \<and>
      succeeds_with (get_pending_completed_transactions 1 d1) (\<lambda>txs d2. True))" by code_simp
  then obtain sd raw d1 txs d2 where run: "?run = (Inr (sd, raw), d1)" "sd_tx_id sd = 6" "raw = [7, 7]"
    and txs: "get_pending_completed_transactions 1 d1 = (Inr txs, d2)"
    unfolding with_iffs by (auto split: prod.splits)
  have "succeeds_with (find_pending_transaction_by_idempotency_key (vt_uuid_ok refusing_vn) ''k'' 1 reorg_db)
      (\<lambda>p d. p \<noteq> None)" by code_simp
  then obtain p where p: "find_pending_transaction_by_idempotency_key (vt_uuid_ok refusing_vn) ''k'' 1 reorg_db =
      (Inr (Some p), reorg_db)"
    unfolding with_iffs by (auto simp: find_pending_transaction_by_idempotency_key_def query_ok_iff)
  have refused: "node_answer (vt_url_error refusing_vn) (vt_client refusing_vn) raw =
      Inl (CliError ''Transaction rejected by network: full'')" by (simp add: node_answer_def refusing_vn_def)
  have d2: "d2 = d1" using txs by (simp add: get_pending_completed_transactions_def query_ok_iff)
  show ?thesis
    using refused_transaction_submitted_later [OF run(1) _ refused, of p txs] p txs run d2
    by (simp add: sample_account_def is_u64_def)
qed

end
