(* ===== verification/Router.thy ===== *)
theory Router
  imports Http_Client Api
begin

text \<open>
  The routes of the HTTP API, \<open>create_router\<close> of \<open>api/mod.rs\<close>: which handler a request
  reaches. A path is the list of its decoded segments, as the router of \<^verbatim>\<open>axum\<close> sees it: a
  parameter matches one segment that is not empty (a \<^verbatim>\<open>HEAD\<close> request, which is served as a
  \<^verbatim>\<open>GET\<close>, counts as one here). The documentation pages that are merged
  into the router are left out. The handlers themselves are the definitions of Api.
\<close>

datatype endpoint =
    GetVersion
  | GetBalance string
  | GetAddress string
  | CreateAddressWithPaymentId string
  | GetScanStatus string
  | GetEvents string
  | GetCompletedTransactions string
  | GetCompletedTransactionByPayref string string
  | GetDisplayedTransactions string
  | GetDisplayedTransactionsByPayref string string
  | LockFundsEndpoint string
  | CreateUnsignedTransactionEndpoint string
  | EstimateFees string
  | BurnFundsEndpoint string

datatype routed = Routed endpoint | MethodNotAllowed | NoRoute

record app_state =
  as_network :: string
  as_password :: string
  as_required_confirmations :: u64
  as_base_node_url :: string

definition on_method :: "http_method \<Rightarrow> http_method \<Rightarrow> endpoint \<Rightarrow> routed" where
  "on_method expected m e = (if m = expected then Routed e else MethodNotAllowed)"

definition account_route :: "http_method \<Rightarrow> string \<Rightarrow> string \<Rightarrow> routed" where
  "account_route m name action =
     (if action = ''balance'' then on_method GetMethod m (GetBalance name)
      else if action = ''address'' then on_method GetMethod m (GetAddress name)
      else if action = ''address_with_payment_id'' then on_method PostMethod m (CreateAddressWithPaymentId name)
      else if action = ''scan_status'' then on_method GetMethod m (GetScanStatus name)
      else if action = ''events'' then on_method GetMethod m (GetEvents name)
      else if action = ''completed_transactions'' then on_method GetMethod m (GetCompletedTransactions name)
      else if action = ''displayed_transactions'' then on_method GetMethod m (GetDisplayedTransactions name)
      else if action = ''lock_funds'' then on_method PostMethod m (LockFundsEndpoint name)
      else if action = ''create_unsigned_transaction'' then on_method PostMethod m (CreateUnsignedTransactionEndpoint name)
      else if action = ''estimate_fees'' then on_method PostMethod m (EstimateFees name)
      else if action = ''burn'' then on_method PostMethod m (BurnFundsEndpoint name)
      else NoRoute)"

definition payref_route :: "http_method \<Rightarrow> string \<Rightarrow> string \<Rightarrow> string \<Rightarrow> routed" where
  "payref_route m name list_name payref =
     (if list_name = ''completed_transactions'' then on_method GetMethod m (GetCompletedTransactionByPayref name payref)
      else if list_name = ''displayed_transactions'' then on_method GetMethod m (GetDisplayedTransactionsByPayref name payref)
      else NoRoute)"

definition create_router :: "http_method \<Rightarrow> string list \<Rightarrow> routed" where
  "create_router m path = (case path of
      [s] \<Rightarrow> if s = ''version'' then on_method GetMethod m GetVersion else NoRoute
    | [s, name, action] \<Rightarrow>
        if s = ''accounts'' \<and> name \<noteq> [] then account_route m name action else NoRoute
    | [s, name, list_name, by, payref] \<Rightarrow>
        if s = ''accounts'' \<and> name \<noteq> [] \<and> by = ''by_payref'' \<and> payref \<noteq> []
        then payref_route m name list_name payref else NoRoute
    | _ \<Rightarrow> NoRoute)"

end
