(* ===== verification/Db_Init.thy ===== *)
theory Db_Init
  imports Models
begin

text \<open>
  Opening the database, \<open>db/mod.rs\<close>: the path, the pool, the adoption of a database that was
  managed by \<^verbatim>\<open>sqlx\<close>, and the migrations. Of the file only what decides about migrations is
  kept: the \<^verbatim>\<open>user_version\<close> and the number of rows of \<^verbatim>\<open>_sqlx_migrations\<close>, if there is such a
  table. The file system, the pool and the crate that runs the migrations are \<open>db_tools\<close>.
\<close>

record db_file =
  df_user_version :: int
  df_sqlx_migrations :: "nat option"

record db_tools =
  dt_is_relative :: "string \<Rightarrow> bool"
  dt_current_dir :: "string option"                \<comment> \<open>\<open>None\<close>: an error of the system\<close>
  dt_join :: "string \<Rightarrow> string \<Rightarrow> string"
  dt_parent :: "string \<Rightarrow> string option"
  dt_create_dirs_ok :: "string \<Rightarrow> bool"
  dt_pool_ok :: "string \<Rightarrow> bool"                 \<comment> \<open>the pool with its pragmas and a connection\<close>
  dt_to_latest :: "db_file \<Rightarrow> db_file option"      \<comment> \<open>\<open>MIGRATIONS.to_latest\<close>\<close>

definition attempt_sqlx_adoption :: "db_file \<Rightarrow> db_file" where
  "attempt_sqlx_adoption f = (case df_sqlx_migrations f of
      None \<Rightarrow> f
    | Some count \<Rightarrow>
        (if count > 0 then f\<lparr>df_user_version := int count\<rparr> else f)\<lparr>df_sqlx_migrations := None\<rparr>)"

definition connect_and_migrate :: "db_tools \<Rightarrow> string \<Rightarrow> db_file \<Rightarrow> (wallet_error + unit) \<times> db_file" where
  \<comment> \<open>an error of the adoption is ignored\<close>
  "connect_and_migrate T path f =
     (if \<not> dt_pool_ok T path then (Inl ConnectionError, f)
      else (let f = attempt_sqlx_adoption f
            in case dt_to_latest T f of
                 None \<Rightarrow> (Inl Migration, f)
               | Some f' \<Rightarrow> (Inr (), f')))"

definition init_failed :: wallet_error where
  "init_failed = Unexpected (''Unexpected error occurred. It is possibly a migration from sqlx that has failed. '' @
     ''Consider removing database file and try again'')"

definition init_db ::
  "db_tools \<Rightarrow> string \<Rightarrow> (string \<Rightarrow> db_file) \<Rightarrow> (wallet_error + string) \<times> (string \<Rightarrow> db_file)" where
  \<comment> \<open>the absolute path of the database; files that do not exist are new ones\<close>
  "init_db T db_path files =
     (case (if dt_is_relative T db_path then map_option (\<lambda>dir. dt_join T dir db_path) (dt_current_dir T)
            else Some db_path) of
        None \<Rightarrow> (Inl Io, files)
      | Some path \<Rightarrow> (case dt_parent T path of
          None \<Rightarrow> (Inl Io, files)
        | Some parent \<Rightarrow>
            if \<not> dt_create_dirs_ok T parent then (Inl Io, files)
            else (case connect_and_migrate T path (files path) of
                (Inl _, f) \<Rightarrow> (Inl init_failed, files(path := f))
              | (Inr _, f) \<Rightarrow> (Inr path, files(path := f)))))"

lemma adoption_stable: "attempt_sqlx_adoption (attempt_sqlx_adoption f) = attempt_sqlx_adoption f"
  by (simp add: attempt_sqlx_adoption_def split: option.splits)

lemma adoption_resumes:
  "df_sqlx_migrations f = Some count \<Longrightarrow> 0 < count \<Longrightarrow>
     attempt_sqlx_adoption f = \<lparr>df_user_version = int count, df_sqlx_migrations = None\<rparr>"
  by (simp add: attempt_sqlx_adoption_def)

end
