(* ===== verification/History.thy ===== *)
theory History
  imports Block_Properties Reorg_Effects
begin

text \<open>
  The composition of the block processor with the reorganisations: whatever sequence of batches,
  of its own and of other accounts, and of reorganisations an account has gone through, its
  unspent outputs are those of a scan of the blocks that survived. \<open>scans\<close> is the step relation,
  with the list of the surviving blocks; \<open>tracked\<close> its invariant, which says of every height what
  the tables below it hold, so that a rollback to that height finds it again.
\<close>

section \<open>What a block adds\<close>

lemma process_output_inputs: "process_output X block a k st item d = (Inr st', d') \<Longrightarrow> inputs d' = inputs d"
  by (cases item) (metis process_output_found process_output_skipped)

definition new_inputs_at :: "db \<Rightarrow> i64 \<Rightarrow> i64 \<Rightarrow> db \<Rightarrow> bool" where
  \<comment> \<open>every input that is not in \<open>d0\<close> belongs to the account and to the height\<close>
  "new_inputs_at d0 a n d \<longleftrightarrow>
     (\<forall>i \<in> set (inputs d). i \<in> set (inputs d0) \<or> in_account i = a \<and> in_height i = n)"

lemma new_inputs_same: "inputs d' = inputs d \<Longrightarrow> new_inputs_at d0 a n d' = new_inputs_at d0 a n d"
  by (simp add: new_inputs_at_def)

lemma process_input_new:
  assumes run: "process_input X block a bk h d = (Inr bk', d')"
    and old: "new_inputs_at d0 a (i64_of_u64 (bl_height block)) d"
  shows "new_inputs_at d0 a (i64_of_u64 (bl_height block)) d'"
proof -
  obtain found where found: "get_output_info_by_hash_for_account a h d = (Inr found, d)"
    using run by (auto simp: process_input_def ok_simps get_output_info_by_hash_for_account_def)
  show ?thesis
  proof (cases found)
    case None
    with process_input_none [OF run] found old show ?thesis by simp
  next
    case (Some info)
    obtain oid i out where info: "info = (oid, i, out)" by (cases info)
    from process_input_some [OF run found [unfolded Some info]] obtain iid d1 cid d2 u where
      ins: "insert_input X a oid (bl_height block) (bl_hash block) (bl_timestamp block) d = (Inr iid, d1)"
      and ch: "insert_balance_change (input_balance_change X a iid (wo_value out) block) d1 = (Inr cid, d2)"
      and st: "update_output_status oid Spent d2 = (Inr u, d')"
      by blast
    have "inputs d' = inputs d1"
      using rows_keep_ledger [OF insert_balance_change_ledger_only [OF ch]] rows_keep_output_ops(1) [OF st]
      by (simp add: rows_keep_def)
    then show ?thesis
      using insert_input_cases [OF ins] old by (auto simp: new_inputs_at_def)
  qed
qed

interpretation output_inputs: run_invariant "process_output X block a k" "\<lambda>_ d. inputs d = rows"
  for X block a k rows
  by unfold_locales (simp add: process_output_inputs)

interpretation input_inputs: run_invariant "process_input X block a"
  "\<lambda>_ d. new_inputs_at d0 a (i64_of_u64 (bl_height block)) d" for X block a d0
  by unfold_locales (rule process_input_new)

lemma process_block_new_inputs:
  assumes "process_block X ds block a bk d = (Inr bk', d')"
  shows "new_inputs_at d a (i64_of_u64 (bl_height block)) d'"
proof -
  from assms obtain k bk0 bk1 d1 bk2 d2 u d3 bk3 d4 where
    outs: "process_outputs X block a k bk0 d = (Inr bk1, d1)"
    and ins: "process_inputs X block a bk1 d1 = (Inr bk2, d2)"
    and tip: "record_scanned_block X block a d2 = (Inr u, d3)"
    and conf: "process_confirmations X block a bk2 d3 = (Inr bk3, d4)"
    and fin: "finish_block X ds block a k bk3 d4 = (Inr bk', d')"
    by (rule process_block_phases)
  from outs obtain st e v where
    loop: "foldM (process_output X block a k) (bk0, []) (bl_outputs block) d = (Inr st, e)"
    and trig: "trigger_all X a (bk_webhook (fst st)) (snd st) e = (Inr v, d1)"
    by (auto simp: process_outputs_def ok_simps split: prod.splits)
  have "inputs d1 = inputs d"
    using output_inputs.loop_keeps [OF loop refl] rows_keep_trigger [OF trig] by (simp add: rows_keep_def)
  then have "new_inputs_at d a (i64_of_u64 (bl_height block)) d1" by (simp add: new_inputs_at_def)
  then have "new_inputs_at d a (i64_of_u64 (bl_height block)) d2"
    by (rule input_inputs.loop_keeps [OF ins [unfolded process_inputs_def]])
  moreover have "inputs d' = inputs d2"
    using rows_keep_tip [OF tip] rows_keep_confirmations [OF conf] rows_keep_finish [OF fin]
    by (simp add: rows_keep_def)
  ultimately show ?thesis using new_inputs_same by blast
qed

section \<open>The invariant\<close>

definition ascending :: "block_scan list \<Rightarrow> bool" where
  "ascending bs \<longleftrightarrow> sorted (map bl_height bs) \<and> (\<forall>b \<in> set bs. bl_height b < 2 ^ 63)"

definition kept_blocks :: "(i64 \<Rightarrow> bool) \<Rightarrow> block_scan list \<Rightarrow> block_scan list" where
  "kept_blocks P bs = filter (\<lambda>b. P (int (bl_height b))) bs"

definition downward :: "(i64 \<Rightarrow> bool) \<Rightarrow> bool" where
  "downward P \<longleftrightarrow> (\<forall>m n. m \<le> n \<longrightarrow> P n \<longrightarrow> P m)"

definition tracked :: "i64 list \<Rightarrow> i64 \<Rightarrow> block_scan list \<Rightarrow> db \<Rightarrow> bool" where
  "tracked owners a bs d \<longleftrightarrow> tables_ok d \<and> ascending bs \<and>
     (\<forall>i \<in> set (inputs d). in_active i \<and> in_account i = a \<longrightarrow> (\<exists>b \<in> set bs. in_height i = int (bl_height b))) \<and>
     (\<forall>P. downward (P a) \<longrightarrow> unspent_where P d a = fold (block_step owners a) (kept_blocks (P a) bs) {})"

lemma trackedD:
  assumes "tracked owners a bs d"
  shows "tables_ok d" "ascending bs" "downward (P a) \<Longrightarrow> unspent_where P d a = fold (block_step owners a) (kept_blocks (P a) bs) {}"
    and "i \<in> set (inputs d) \<Longrightarrow> in_active i \<Longrightarrow> in_account i = a \<Longrightarrow> \<exists>b \<in> set bs. in_height i = int (bl_height b)"
  using assms by (auto simp: tracked_def)

lemma ascending_last: "ascending (bs @ [b]) \<Longrightarrow> x \<in> set bs \<Longrightarrow> bl_height x \<le> bl_height b"
  by (auto simp: ascending_def sorted_append)

lemma ascending_prefix: "ascending (bs @ cs) \<Longrightarrow> ascending bs"
  by (auto simp: ascending_def sorted_append)

lemma tracked_block:
  assumes run: "process_block X ds block a bk d = (Inr bk', d')" and t: "tracked (bk_accounts bk) a bs d"
    and asc: "ascending (bs @ [block])"
  shows "tracked (bk_accounts bk) a (bs @ [block]) d'"
proof -
  have height: "i64_of_u64 (bl_height block) = int (bl_height block)"
    using asc by (intro i64_of_u64_small) (simp add: ascending_def)
  have "tables_ok d'" by (rule process_block_refines_step(1) [OF run trackedD(1) [OF t]])
  moreover have "\<exists>b \<in> set (bs @ [block]). in_height i = int (bl_height b)"
    if "i \<in> set (inputs d')" "in_active i" "in_account i = a" for i
    using process_block_new_inputs [OF run] trackedD(4) [OF t] that by (force simp: new_inputs_at_def height)
  moreover have "unspent_where P d' a = fold (block_step (bk_accounts bk) a) (kept_blocks (P a) (bs @ [block])) {}"
    if down: "downward (P a)" for P
  proof -
    have "covers P (i64_of_u64 (bl_height block)) a d"
      using trackedD(4) [OF t] ascending_last [OF asc] down
      unfolding covers_def height downward_def by (metis of_nat_le_iff)
    with process_block_refines(2) [OF run trackedD(1) [OF t]] trackedD(3) [where P = P, OF t down] show ?thesis
      by (simp add: account_step_def kept_blocks_def height)
  qed
  ultimately show ?thesis using asc by (simp add: tracked_def)
qed

lemma tracked_same:
  assumes t: "tracked owners a bs d" and ok: "tables_ok d'"
    and new: "\<forall>i \<in> set (inputs d'). in_account i = a \<longrightarrow> i \<in> set (inputs d)"
    and same: "\<And>P. unspent_where P d' a = unspent_where P d a"
  shows "tracked owners a bs d'"
  using t new ok by (auto simp: tracked_def same)

lemma tracked_other_block:
  assumes run: "process_block X ds block b bk d = (Inr bk', d')" and t: "tracked owners a bs d" and "b \<noteq> a"
  shows "tracked owners a bs d'"
proof (rule tracked_same [OF t])
  show "tables_ok d'" by (rule process_block_refines_step(1) [OF run trackedD(1) [OF t]])
  show "\<forall>i \<in> set (inputs d'). in_account i = a \<longrightarrow> i \<in> set (inputs d)"
    using process_block_new_inputs [OF run] \<open>b \<noteq> a\<close> by (auto simp: new_inputs_at_def)
  fix P :: "i64 \<Rightarrow> i64 \<Rightarrow> bool"
  let ?Q = "P(b := \<lambda>_. True)"
  have at: "unspent_where ?Q s a = unspent_where P s a" for s
    using \<open>b \<noteq> a\<close> by (simp add: unspent_where_def)
  have "covers ?Q (i64_of_u64 (bl_height block)) b d" by (simp add: covers_def)
  from process_block_refines(2) [OF run trackedD(1) [OF t] this]
  have "unspent_where ?Q d' a = unspent_where ?Q d a" using \<open>b \<noteq> a\<close> by (simp add: account_step_def)
  then show "unspent_where P d' a = unspent_where P d a" by (simp add: at)
qed

section \<open>Batches\<close>

lemma tracked_batch:
  "foldM (batch_body X ds db a next) bk blocks d = (Inr bk', d') \<Longrightarrow> tracked (bk_accounts bk) a bs d \<Longrightarrow>
     ascending (bs @ in_batch next blocks) \<Longrightarrow> tracked (bk_accounts bk) a (bs @ in_batch next blocks) d'"
proof (induction blocks arbitrary: bk d bs)
  case Nil
  then show ?case by (simp add: ret_ok_iff in_batch_def)
next
  case (Cons block blocks)
  then obtain bk1 d1 where one: "batch_body X ds db a next bk block d = (Inr bk1, d1)"
    and rest: "foldM (batch_body X ds db a next) bk1 blocks d1 = (Inr bk', d')"
    by (auto simp: bindM_ok_iff)
  show ?case
  proof (cases "bl_height block < next")
    case True
    with one Cons.IH [OF rest] Cons.prems show ?thesis by (simp add: batch_body_ok_iff in_batch_def)
  next
    case False
    with one have b: "process_block X ds block a bk d = (Inr bk1, d1)" by (simp add: batch_body_ok_iff)
    have split: "in_batch next (block # blocks) = block # in_batch next blocks"
      using False by (simp add: in_batch_def)
    have owners: "bk_accounts bk1 = bk_accounts bk" using settings_block [OF b] by (simp add: settings_def)
    have "ascending ((bs @ [block]) @ in_batch next blocks)" using Cons.prems(3) by (simp add: split)
    with Cons.IH [OF rest, of "bs @ [block]"] tracked_block [OF b Cons.prems(2)] ascending_prefix
    show ?thesis by (simp add: owners split)
  qed
qed

interpretation other_batch: run_invariant "batch_body X ds db b next"
  "\<lambda>_ d. b \<noteq> a \<and> tracked owners a bs d" for X ds db b "next" owners a bs
  by unfold_locales (auto simp: batch_body_ok_iff split: if_splits intro: tracked_other_block)

section \<open>Reorganisations\<close>

lemma rollback_unique:
  assumes "outputs d' = update_where (from_height b h) (soft_deleted_output X h) (outputs d)" "hashes_unique d"
  shows "hashes_unique d'"
proof -
  have "\<exists>x \<in> set (outputs d). o_active x \<and> o_hash x = o_hash r \<and> o_id x = o_id r"
    if "r \<in> set (outputs d')" "o_active r" for r
    using that unfolding assms(1)
    by (auto simp: soft_deleted_output_def o_active_def dest!: update_where_cases)
  with assms(2) show ?thesis unfolding hashes_unique_def by metis
qed

lemma active_input_after:
  "in_active i \<and> i \<in> set (update_where (in_from_height b h) (soft_deleted_input X h) rows) \<longleftrightarrow>
     in_active i \<and> i \<in> set rows \<and> \<not> in_from_height b h i"
  by (auto simp: del_facts intro: update_where_kept dest!: update_where_cases)

lemma active_output_after:
  "o_active r \<and> r \<in> set (update_where (from_height b h) (soft_deleted_output X h) rows) \<longleftrightarrow>
     o_active r \<and> r \<in> set rows \<and> \<not> from_height b h r"
  by (auto simp: soft_deleted_output_def o_active_def intro: update_where_kept dest!: update_where_cases)

lemma owner_of_input:
  assumes "tables_ok d" "i \<in> set (inputs d)" "r \<in> set (outputs d)" "in_output i = o_id r"
  shows "in_account i = o_account r"
proof -
  from assms(1,2) obtain x where "x \<in> set (outputs d)" "o_id x = in_output i" "o_account x = in_account i"
    by (auto simp: tables_ok_def store_ok_def inputs_ok_def)
  moreover have "distinct (map o_id (outputs d))"
    using assms(1) by (simp add: tables_ok_def store_ok_def outputs_ok_def)
  ultimately show ?thesis using assms(3,4) by (auto simp: distinct_map inj_on_def)
qed

lemma spent_after:
  assumes "inputs d' = update_where (in_from_height b h) (soft_deleted_input X h) (inputs d)"
    and "tables_ok d" "r \<in> set (outputs d)"
  shows "spent_where Q (inputs d') (o_id r) \<longleftrightarrow>
      (if o_account r = b then spent_where (\<lambda>m. Q m \<and> m < i64_of_u64 h) (inputs d) (o_id r)
       else spent_where Q (inputs d) (o_id r))"
proof -
  have "spent_where Q (inputs d') (o_id r) \<longleftrightarrow>
      (\<exists>i. (in_active i \<and> i \<in> set (inputs d')) \<and> in_output i = o_id r \<and> Q (in_height i))"
    by (auto simp: spent_where_def)
  also have "\<dots> \<longleftrightarrow> (\<exists>i. (in_active i \<and> i \<in> set (inputs d) \<and> \<not> in_from_height b h i) \<and>
      in_output i = o_id r \<and> Q (in_height i))"
    unfolding assms(1) active_input_after ..
  finally show ?thesis
    using owner_of_input [OF assms(2) _ assms(3)] by (auto simp: spent_where_def in_from_height_def)
qed

lemma unspent_after:
  assumes "outputs d' = update_where (from_height b h) (soft_deleted_output X h) (outputs d)"
  shows "unspent_where P d' c = o_hash ` {r \<in> set (outputs d). o_account r = c \<and> o_active r \<and>
      \<not> from_height b h r \<and> P c (o_height r) \<and> \<not> spent_where (P c) (inputs d') (o_id r)}"
proof -
  have "unspent_where P d' c = o_hash ` {r. (o_active r \<and> r \<in> set (outputs d')) \<and> o_account r = c \<and>
      P c (o_height r) \<and> \<not> spent_where (P c) (inputs d') (o_id r)}"
    by (auto simp: unspent_where_def)
  also have "\<dots> = o_hash ` {r. (o_active r \<and> r \<in> set (outputs d) \<and> \<not> from_height b h r) \<and> o_account r = c \<and>
      P c (o_height r) \<and> \<not> spent_where (P c) (inputs d') (o_id r)}"
    unfolding assms active_output_after ..
  also have "\<dots> = o_hash ` {r \<in> set (outputs d). o_account r = c \<and> o_active r \<and>
      \<not> from_height b h r \<and> P c (o_height r) \<and> \<not> spent_where (P c) (inputs d') (o_id r)}"
    by (rule arg_cong [where f = "image o_hash"]) blast
  finally show ?thesis .
qed

lemma rollback_unspent:
  assumes run: "rollback_from_height X dh b h cfg d = (Inr info, d')" and ok: "tables_ok d"
  shows "tables_ok d'"
    and "unspent_where P d' b = unspent_where (\<lambda>c m. P c m \<and> m < i64_of_u64 h) d b"
    and "a \<noteq> b \<Longrightarrow> unspent_where P d' a = unspent_where P d a"
proof -
  note t = rollback_tables(1,2) [OF run]
  have "store_ok d'" using rollback_keeps_balance [OF run] ok by (simp add: tables_ok_def)
  with rollback_unique [OF t(1)] ok show "tables_ok d'" by (simp add: tables_ok_def)
  note rows = unspent_after [OF t(1)] and spent = spent_after [OF t(2) ok]
  show "unspent_where P d' b = unspent_where (\<lambda>c m. P c m \<and> m < i64_of_u64 h) d b"
    unfolding rows unfolding unspent_where_def set_filter
    by (rule arg_cong [where f = "image o_hash"], rule Collect_cong) (auto simp: spent from_height_def)
  show "unspent_where P d' a = unspent_where P d a" if "a \<noteq> b"
    unfolding rows unfolding unspent_where_def set_filter
    by (rule arg_cong [where f = "image o_hash"], rule Collect_cong) (use that in \<open>auto simp: spent from_height_def\<close>)
qed

lemma kept_conj: "kept_blocks (\<lambda>m. P m \<and> m < int h) bs = kept_blocks P (filter (\<lambda>b. bl_height b < h) bs)"
  by (simp add: kept_blocks_def conj_commute)

lemma ascending_filter: "ascending bs \<Longrightarrow> ascending (filter Q bs)"
  by (auto simp: ascending_def intro: sorted_filter)

lemma tracked_rollback:
  assumes run: "rollback_from_height X dh a h cfg d = (Inr info, d')" and t: "tracked owners a bs d"
    and h: "h < 2 ^ 63"
  shows "tracked owners a (filter (\<lambda>b. bl_height b < h) bs) d'"
proof -
  have height: "i64_of_u64 h = int h" by (rule i64_of_u64_small [OF h])
  note r = rollback_unspent [OF run trackedD(1) [OF t]]
  have "\<exists>b \<in> set (filter (\<lambda>b. bl_height b < h) bs). in_height i = int (bl_height b)"
    if i: "i \<in> set (inputs d')" "in_active i" "in_account i = a" for i
  proof -
    have "i \<in> set (inputs d) \<and> \<not> in_from_height a h i"
      using i active_input_after unfolding rollback_tables(2) [OF run] by blast
    then show ?thesis using trackedD(4) [OF t, of i] i by (auto simp: in_from_height_def height)
  qed
  moreover have "unspent_where P d' a = fold (block_step owners a)
      (kept_blocks (P a) (filter (\<lambda>b. bl_height b < h) bs)) {}" if down: "downward (P a)" for P
  proof -
    let ?P = "\<lambda>c m. P c m \<and> m < int h"
    have "downward (?P a)" using down by (auto simp: downward_def)
    from trackedD(3) [where P = ?P, OF t this] show ?thesis by (simp add: r(2) height kept_conj)
  qed
  ultimately show ?thesis
    using r(1) ascending_filter [OF trackedD(2) [OF t]] by (simp add: tracked_def)
qed

lemma tracked_other_rollback:
  assumes run: "rollback_from_height X dh b h cfg d = (Inr info, d')" and t: "tracked owners a bs d" and "a \<noteq> b"
  shows "tracked owners a bs d'"
proof (rule tracked_same [OF t])
  note r = rollback_unspent [OF run trackedD(1) [OF t]]
  show "tables_ok d'" by (rule r(1))
  show "unspent_where P d' a = unspent_where P d a" for P using r(3) \<open>a \<noteq> b\<close> .
  show "\<forall>i \<in> set (inputs d'). in_account i = a \<longrightarrow> i \<in> set (inputs d)"
    using \<open>a \<noteq> b\<close> unfolding rollback_tables(2) [OF run]
    by (auto simp: in_from_height_def soft_deleted_input_def dest!: update_where_cases)
qed

lemma handle_reorgs_cases:
  assumes "handle_reorgs X dh chain a cfg d = (Inr r, d')"
  shows "rr_information r = None \<and> d' = d \<or>
    (\<exists>info. rr_information r = Some info \<and> rollback_from_height X dh a (rr_resume r) cfg d = (Inr info, d'))"
proof -
  from assms obtain bs where "get_scanned_tip_blocks_by_account a d = (Inr bs, d)"
    by (auto simp: handle_reorgs_def bindM_ok_iff map_error_ok_iff dest: get_tips_reads)
  with assms show ?thesis
    by (cases bs) (auto simp: handle_reorgs_def bindM_ok_iff map_error_ok_iff ret_ok_iff transact_ok_iff
        simp del: find_fork.simps split: sum.splits if_splits)
qed

section \<open>Histories\<close>

inductive scans :: "i64 list \<Rightarrow> i64 \<Rightarrow> db \<Rightarrow> block_scan list \<Rightarrow> db \<Rightarrow> bool" for owners a d0 where
  start: "scans owners a d0 [] d0"
| batch: "scans owners a d0 (bs @ in_batch n blocks) d'"
    if "scans owners a d0 bs d"
      "process_blocks X ds db blocks a p cfg n (Some bk, d) = (Inr evs, handler, d')"
      "bk_accounts bk = owners" "ascending (bs @ in_batch n blocks)"
| other_batch: "scans owners a d0 bs d'"
    if "scans owners a d0 bs d" "b \<noteq> a"
      "process_blocks X ds db blocks b p cfg n (Some bk, d) = (Inr evs, handler, d')"
| reorg: "scans owners a d0 (if rr_information r = None then bs
      else filter (\<lambda>b. bl_height b < rr_resume r) bs) d'"
    if "scans owners a d0 bs d" "handle_reorgs X dh chain a cfg d = (Inr r, d')" "rr_resume r < 2 ^ 63"
| other_reorg: "scans owners a d0 bs d'"
    if "scans owners a d0 bs d" "b \<noteq> a" "handle_reorgs X dh chain b cfg d = (Inr r, d')"
| aside: "scans owners a d0 bs d'"
    if "scans owners a d0 bs d" "rows_keep d d'" "quiet d d'"
  \<comment> \<open>locks, confirmations and everything else that leaves the keys of the rows\<close>

lemmas scans_output_ops = scans.aside [OF _ rows_keep_output_ops(1) quiet_output_ops(1)]
  scans.aside [OF _ rows_keep_output_ops(3) quiet_output_ops(3)]
  scans.aside [OF _ rows_keep_output_ops(4) quiet_output_ops(4)]

definition new_account :: "i64 \<Rightarrow> db \<Rightarrow> bool" where
  "new_account a d \<longleftrightarrow> (\<forall>r \<in> set (outputs d). o_account r \<noteq> a)"

lemma tracked_start:
  assumes "tables_ok d" "new_account a d"
  shows "tracked owners a [] d"
proof -
  have "in_account i \<noteq> a" if i: "i \<in> set (inputs d)" for i
  proof -
    from assms(1) i obtain r where "r \<in> set (outputs d)" "o_account r = in_account i"
      by (auto simp: tables_ok_def store_ok_def inputs_ok_def)
    with assms(2) show ?thesis by (auto simp: new_account_def)
  qed
  then show ?thesis
    using assms by (auto simp: tracked_def ascending_def kept_blocks_def unspent_where_def new_account_def)
qed

lemma scans_tracked:
  assumes "scans owners a d0 bs d" "tables_ok d0" "new_account a d0"
  shows "tracked owners a bs d"
  using assms(1)
proof induction
  case start
  then show ?case using tracked_start assms(2,3) .
next
  case (batch bs d X ds db blocks p cfg n bk evs handler d')
  from process_blocks_ok [OF batch.hyps(2)] obtain bk' where
    loop: "foldM (batch_body X ds db a n) (bk\<lparr>bk_pending_outbound := p, bk_webhook := cfg\<rparr>) blocks d = (Inr bk', d')"
    by blast
  have "tracked (bk_accounts (bk\<lparr>bk_pending_outbound := p, bk_webhook := cfg\<rparr>)) a bs d"
    using batch.IH batch.hyps(3) by simp
  from tracked_batch [OF loop this batch.hyps(4)] batch.hyps(3) show ?case by simp
next
  case (other_batch bs d b X ds db blocks p cfg n bk evs handler d')
  from process_blocks_ok [OF other_batch.hyps(3)] obtain bk' where
    loop: "foldM (batch_body X ds db b n) (bk\<lparr>bk_pending_outbound := p, bk_webhook := cfg\<rparr>) blocks d = (Inr bk', d')"
    by blast
  have "b \<noteq> a \<and> tracked owners a bs d" using other_batch.IH other_batch.hyps(2) by blast
  from other_batch.loop_keeps [OF loop this] show ?case by blast
next
  case (reorg bs d X dh chain cfg r d')
  from handle_reorgs_cases [OF reorg.hyps(2)] show ?case
  proof (elim disjE exE conjE)
    fix info
    assume "rr_information r = Some info" and run: "rollback_from_height X dh a (rr_resume r) cfg d = (Inr info, d')"
    with tracked_rollback [OF run reorg.IH reorg.hyps(3)] show ?thesis by simp
  qed (use reorg.IH in simp)
next
  case (other_reorg bs d b X dh chain cfg r d')
  from handle_reorgs_cases [OF other_reorg.hyps(3)] show ?case
  proof (elim disjE exE conjE)
    fix info
    assume run: "rollback_from_height X dh b (rr_resume r) cfg d = (Inr info, d')"
    have "a \<noteq> b" using other_reorg.hyps(2) by simp
    then show ?thesis by (rule tracked_other_rollback [OF run other_reorg.IH])
  qed (use other_reorg.IH in simp)
next
  case (aside bs d d')
  have "tables_ok d'"
    using aside.hyps(2,3) trackedD(1) [OF aside.IH] by (auto simp: tables_ok_def quiet_def rows_keep_unique)
  moreover have "inputs d' = inputs d" using aside.hyps(2) by (simp add: rows_keep_def)
  ultimately show ?case
    using tracked_same [OF aside.IH] rows_keep_unspent_where [OF aside.hyps(2)] by simp
qed

lemma tracked_unspent:
  assumes "tracked owners a bs d"
  shows "unspent d a = fold (block_step owners a) bs {}"
proof -
  have "downward (\<lambda>_. True)" by (simp add: downward_def)
  then show ?thesis
    using trackedD(3) [OF assms, of "\<lambda>_ _. True"] by (simp add: unspent_where_all kept_blocks_def)
qed

text \<open>
  C3: However an account got here, by batches of its own and of other accounts, by reorganisations
  and by operations that leave the keys of its rows, its unspent outputs are those of one scan of the
  blocks that survived: the blocks before a reorganisation below its fork point, then those that came
  after it. Nothing of an abandoned branch is left, and nothing of the common part is lost.
\<close>

theorem history_refines:
  assumes "scans owners a d0 bs d" "tables_ok d0" "new_account a d0"
  shows "unspent d a = fold (block_step owners a) bs {}"
  by (rule tracked_unspent [OF scans_tracked [OF assms]])

section \<open>The property on a concrete history\<close>

definition plain_block :: "u64 \<Rightarrow> bytes \<Rightarrow> bytes list \<Rightarrow> bytes list \<Rightarrow> block_scan" where
  "plain_block h hash outs ins = \<lparr>bl_height = h, bl_hash = hash,
     bl_outputs = map (\<lambda>out. (out, sample_output out 60, 0)) outs, bl_inputs = ins, bl_timestamp = 0\<rparr>"

definition first_branch :: "block_scan list" where
  \<comment> \<open>the account receives an output at height 7, which is spent at height 9\<close>
  "first_branch = [plain_block 7 [7] [[1]] [], plain_block 9 [90] [] [[1]]]"

definition second_branch :: "block_scan list" where
  \<comment> \<open>on the chain, block 9 is another one\<close>
  "second_branch = [plain_block 9 [99] [[3]] []]"

definition scan_branch :: "block_scan list \<Rightarrow> u64 \<Rightarrow> db \<Rightarrow>
    (scan_db_error + wallet_event list) \<times> block_processor option \<times> db" where
  "scan_branch blocks n d = process_blocks sample_X (\<lambda>_. []) (\<lambda>_. []) blocks 1 False None n (Some sample_bk, d)"

definition after_first :: db where
  "after_first = snd (snd (scan_branch first_branch 0 account_db))"

definition after_reorg :: db where
  "after_reorg = snd (handle_reorgs sample_X sample_hex sample_chain 1 None after_first)"

lemma sample_history:
  "\<exists>e h. scan_branch first_branch 0 account_db = (Inr e, h, after_first)"
  "\<exists>r. handle_reorgs sample_X sample_hex sample_chain 1 None after_first = (Inr r, after_reorg) \<and>
     rr_resume r = 8 \<and> rr_information r \<noteq> None"
  "\<exists>e h d. scan_branch second_branch 8 after_reorg = (Inr e, h, d)"
proof -
  have "succeeds_with (scan_branch first_branch 0 account_db) (\<lambda>_ _. True)"
    by code_simp
  then show "\<exists>e h. scan_branch first_branch 0 account_db = (Inr e, h, after_first)"
    unfolding with_iffs by (auto simp: after_first_def)
  have "succeeds_with (handle_reorgs sample_X sample_hex sample_chain 1 None after_first) (\<lambda>r d2.
      rr_resume r = 8 \<and> \<not> Option.is_none (rr_information r))"
    by code_simp
  then show "\<exists>r. handle_reorgs sample_X sample_hex sample_chain 1 None after_first = (Inr r, after_reorg) \<and>
      rr_resume r = 8 \<and> rr_information r \<noteq> None"
    unfolding with_iffs by (auto simp: after_reorg_def Option.is_none_def)
  have "succeeds_with (scan_branch second_branch 8 after_reorg) (\<lambda>_ _. True)"
    by code_simp
  then show "\<exists>e h d. scan_branch second_branch 8 after_reorg = (Inr e, h, d)"
    unfolding with_iffs by auto
qed

theorem history_refines_witness:
  "\<exists>e1 h1 d1 r d2 e2 h2 d3. scan_branch first_branch 0 account_db = (Inr e1, h1, d1) \<and>
     handle_reorgs sample_X sample_hex sample_chain 1 None d1 = (Inr r, d2) \<and>
     scan_branch second_branch 8 d2 = (Inr e2, h2, d3) \<and> unspent d3 1 = {[1], [3]}"
proof -
  obtain e1 h1 d1 r d2 e2 h2 d3 where run: "scan_branch first_branch 0 account_db = (Inr e1, h1, d1)"
    "handle_reorgs sample_X sample_hex sample_chain 1 None d1 = (Inr r, d2)" "rr_resume r = 8"
    "rr_information r \<noteq> None" "scan_branch second_branch 8 d2 = (Inr e2, h2, d3)"
    using sample_history by metis
  let ?kept = "filter (\<lambda>b. bl_height b < 8) (in_batch 0 first_branch)"
  have "ascending ([] @ in_batch 0 first_branch)" "ascending (?kept @ in_batch 8 second_branch)"
    "bk_accounts sample_bk = [1]"
    by (simp_all add: ascending_def in_batch_def first_branch_def second_branch_def plain_block_def sample_bk_def
        with_event_sender_def)
  note asc = this
  have one: "scans [1] 1 account_db ([] @ in_batch 0 first_branch) d1"
    by (rule scans.batch [OF scans.start run(1) [unfolded scan_branch_def] asc(3,1)])
  have two: "scans [1] 1 account_db ?kept d2"
    using scans.reorg [OF one run(2)] run(3,4) by simp
  have "scans [1] 1 account_db (?kept @ in_batch 8 second_branch) d3"
    by (rule scans.batch [OF two run(5) [unfolded scan_branch_def] asc(3,2)])
  moreover have "tables_ok account_db" "new_account 1 account_db" by code_simp+
  ultimately have "unspent d3 1 = fold (block_step [1] 1) (?kept @ in_batch 8 second_branch) {}"
    by (rule history_refines)
  also have "\<dots> = {[1], [3]}" by code_simp
  finally show ?thesis using run by blast
qed

end
