(* ===== verification/Stream_Reorgs.thy ===== *)
theory Stream_Reorgs
  imports Coordinator_Properties History
begin

text \<open>
  A reorganisation that is found between two batches of a stream. The rollback sets the next block
  of the target to the fork point, but the scanner goes on with the batches it has, and the next of
  them moves the target past the gap.
\<close>

section \<open>The batch that finds it\<close>

lemma check_reorg_ok:
  assumes "check_reorg T cfg chain a s = (Inr u, s')"
  obtains r where "handle_reorgs (ct_externals T) (ct_debug_hex T) chain a (cc_webhook cfg) (co_db s) = (Inr r, co_db s')"
    "co_handler s' = co_handler s" "co_since s' = co_since s"
    "co_targets s' = (if rr_information r = None then co_targets s
       else update_target a (\<lambda>t. t\<lparr>tg_next := rr_resume r\<rparr>) (co_targets s))"
    "co_sent s' = co_sent s @ (case rr_information r of None \<Rightarrow> [] | Some info \<Rightarrow> [ReorgDetected a (rr_resume r) info])"
proof -
  obtain res d where run: "handle_reorgs (ct_externals T) (ct_debug_hex T) chain a (cc_webhook cfg) (co_db s) = (res, d)"
    by fastforce
  with assms obtain r where "res = Inr r"
    by (cases res) (auto simp: check_reorg_def bindM_def map_error_def on_co_db_def)
  with assms run that [of r] show ?thesis
    by (auto simp: check_reorg_def bindM_def map_error_def on_co_db_def send_event_to_def set_next_def
        seqM_def modify_def ret_def split: option.splits)
qed

definition found_reorg :: "coord_event \<Rightarrow> bool" where
  "found_reorg ev \<longleftrightarrow> (case ev of ReorgDetected _ _ _ \<Rightarrow> True | _ \<Rightarrow> False)"

lemma batch_due:
  assumes run: "process_scanned_batch T cfg limit chain g [a] bs s = (Inr u, s')"
    and bk: "co_handler s = Some bk" and ne: "bs \<noteq> []"
    and due: "cc_reorg_interval cfg \<le> co_since s + length bs" and t: "co_targets s = [t]" "tg_account t = a"
  obtains evs and s1 :: coord and r where
    "process_blocks (ct_externals T) (ct_describe T) (ct_describe_block T) bs a (tg_pending t)
       (cc_webhook cfg) (tg_next t) (Some bk, co_db s) = (Inr evs, co_handler s1, co_db s1)"
    "handle_reorgs (ct_externals T) (ct_debug_hex T) chain a (cc_webhook cfg) (co_db s1) = (Inr r, co_db s')"
    "co_targets s' = [t\<lparr>tg_next := (if rr_information r = None then bl_height (last bs) + 1 else rr_resume r)\<rparr>]"
    "co_sent s' = co_sent s @ MoreBlocksAvailable a (u64_saturating_sub g 1) #
       (case rr_information r of None \<Rightarrow> [] | Some info \<Rightarrow> [ReorgDetected a (rr_resume r) info])"
    "co_since s' = 0" "\<exists>bk'. co_handler s' = Some bk' \<and> bk_accounts bk' = bk_accounts bk"
proof -
  from batch_processed [OF run bk ne] obtain t1 evs s1 where
    t1: "find_target a (co_targets s) = Inr t1"
    and blocks: "process_blocks (ct_externals T) (ct_describe T) (ct_describe_block T) bs a (tg_pending t1)
       (cc_webhook cfg) (tg_next t1) (Some bk, co_db s) = (Inr evs, co_handler s1, co_db s1)"
    and since: "co_since s1 = co_since s + length bs"
    and next1: "co_targets s1 = update_target a (\<lambda>t. t\<lparr>tg_next := bl_height (last bs) + 1\<rparr>) (co_targets s)"
    and sent: "co_sent s1 = co_sent s @ [MoreBlocksAvailable a (u64_saturating_sub g 1)]"
    and rest: "whenM (co_since s1 \<ge> cc_reorg_interval cfg)
       (seqM (check_global_reorgs T cfg chain) (modify (\<lambda>s. s\<lparr>co_since := 0\<rparr>))) s1 = (Inr u, s')" .
  have "t1 = t" using t t1 by (simp add: find_target_def)
  have targets: "co_targets s1 = [t\<lparr>tg_next := bl_height (last bs) + 1\<rparr>]" by (simp add: next1 update_target_def t)
  have "whenM True (seqM (check_global_reorgs T cfg chain) (modify (\<lambda>s. s\<lparr>co_since := 0\<rparr>))) s1 = (Inr u, s')"
    using rest due since by simp
  then obtain v s2 where check: "check_reorg T cfg chain a s1 = (Inr v, s2)" and s': "s' = s2\<lparr>co_since := 0\<rparr>"
    using t(2) by (auto simp: whenM_def seqM_ok_iff bindM_ok_iff gets_ok_iff modify_ok_iff ret_ok_iff
        check_global_reorgs_def targets)
  from check obtain r where r:
    "handle_reorgs (ct_externals T) (ct_debug_hex T) chain a (cc_webhook cfg) (co_db s1) = (Inr r, co_db s2)"
    "co_handler s2 = co_handler s1" "co_since s2 = co_since s1"
    "co_targets s2 = (if rr_information r = None then co_targets s1
       else update_target a (\<lambda>t. t\<lparr>tg_next := rr_resume r\<rparr>) (co_targets s1))"
    "co_sent s2 = co_sent s1 @ (case rr_information r of None \<Rightarrow> [] | Some info \<Rightarrow> [ReorgDetected a (rr_resume r) info])"
    by (rule check_reorg_ok)
  show ?thesis
  proof (rule that)
    show "process_blocks (ct_externals T) (ct_describe T) (ct_describe_block T) bs a (tg_pending t)
       (cc_webhook cfg) (tg_next t) (Some bk, co_db s) = (Inr evs, co_handler s1, co_db s1)"
      using blocks by (simp add: \<open>t1 = t\<close>)
    show "handle_reorgs (ct_externals T) (ct_debug_hex T) chain a (cc_webhook cfg) (co_db s1) = (Inr r, co_db s')"
      using r(1) by (simp add: s')
    show "co_targets s' = [t\<lparr>tg_next := (if rr_information r = None then bl_height (last bs) + 1 else rr_resume r)\<rparr>]"
      using r(4) t(2) by (simp add: s' targets update_target_def)
    show "\<exists>bk'. co_handler s' = Some bk' \<and> bk_accounts bk' = bk_accounts bk"
      using handler_kept [OF blocks] r(2) by (simp add: s')
  qed (use r(5) sent in \<open>simp_all add: s'\<close>)
qed

section \<open>The rest of the stream\<close>

lemma stream_sends:
  "process_stream T cfg limit chain g [a] (map Inr bss @ [Inr []]) s = (Inr stopped, s') \<Longrightarrow> [] \<notin> set bss \<Longrightarrow>
     co_handler s = Some bk \<Longrightarrow> co_since s + length (concat bss) < cc_reorg_interval cfg \<Longrightarrow>
     co_sent s' = co_sent s @ replicate (length bss) (MoreBlocksAvailable a (u64_saturating_sub g 1))"
proof (induction bss arbitrary: s bk)
  case (Cons bs bss)
  then have ne: "bs \<noteq> []" by auto
  from Cons.prems(1) ne obtain v s1 where
    one: "process_scanned_batch T cfg limit chain g [a] bs s = (Inr v, s1)"
    and rest: "process_stream T cfg limit chain g [a] (map Inr bss @ [Inr []]) s1 = (Inr stopped, s')"
    by (auto simp: seqM_ok_iff)
  from batch_ok [OF one _ Cons.prems(3) ne] Cons.prems(4)
  have "co_since s1 = co_since s + length bs" "co_sent s1 = co_sent s @ [MoreBlocksAvailable a (u64_saturating_sub g 1)]"
    "\<exists>bk'. co_handler s1 = Some bk'"
    using handler_kept by fastforce+
  with Cons.IH [OF rest] Cons.prems(2,4) show ?case by auto
qed (simp add: ret_ok_iff)

text \<open>
  C16: A reorganisation that is found between two batches loses blocks. The rollback takes away what
  the account has from the fork point \<open>h\<close> on and sets its next block to \<open>h\<close>; the batches that follow
  in the stream start later, and they move the next block to the one after the last of them. What
  the account holds then is what the blocks below \<open>h\<close> and the later batches give: the blocks
  of the new branch in between are not scanned, and the next block of the target is past them.
\<close>

theorem midstream_reorg_skips_blocks:
  assumes "process_stream T cfg limit chain g [a] (Inr bs # map Inr bss @ [Inr []]) s = (Inr stopped, s')"
    and "bs \<noteq> []" "bss \<noteq> []" "[] \<notin> set bss" "sorted_wrt (<) (map bl_height (concat bss))"
    and "co_targets s = [t]" "tg_account t = a" "co_handler s = Some bk"
    and "cc_reorg_interval cfg \<le> co_since s + length bs" "length (concat bss) < cc_reorg_interval cfg"
    and "tables_ok d0" "new_account a d0" "scans (bk_accounts bk) a d0 old (co_db s)"
    and "ascending (old @ in_batch (tg_next t) bs)"
    and "ReorgDetected a h info \<in> set (co_sent s')" "list_all (\<lambda>ev. \<not> found_reorg ev) (co_sent s)"
    and "list_all (\<lambda>b. h \<le> bl_height b) (concat bss)" "h < 2 ^ 63"
  shows "unspent (co_db s') a = fold (block_step (bk_accounts bk) a)
       (filter (\<lambda>b. bl_height b < h) (old @ in_batch (tg_next t) bs) @ concat bss) {} \<and>
     (\<exists>t'. find_target a (co_targets s') = Inr t' \<and> tg_next t' = bl_height (last (concat bss)) + 1)"
proof -
  from assms(1,2) obtain v s1 where
    one: "process_scanned_batch T cfg limit chain g [a] bs s = (Inr v, s1)"
    and rest: "process_stream T cfg limit chain g [a] (map Inr bss @ [Inr []]) s1 = (Inr stopped, s')"
    by (auto simp: seqM_ok_iff)
  from batch_due [OF one assms(8,2,9,6,7)] obtain evs r and s0 :: coord where
    blocks: "process_blocks (ct_externals T) (ct_describe T) (ct_describe_block T) bs a (tg_pending t)
       (cc_webhook cfg) (tg_next t) (Some bk, co_db s) = (Inr evs, co_handler s0, co_db s0)"
    and reorg: "handle_reorgs (ct_externals T) (ct_debug_hex T) chain a (cc_webhook cfg) (co_db s0) = (Inr r, co_db s1)"
    and target: "co_targets s1 = [t\<lparr>tg_next := (if rr_information r = None then bl_height (last bs) + 1 else rr_resume r)\<rparr>]"
    and sent: "co_sent s1 = co_sent s @ MoreBlocksAvailable a (u64_saturating_sub g 1) #
       (case rr_information r of None \<Rightarrow> [] | Some info \<Rightarrow> [ReorgDetected a (rr_resume r) info])"
    and since: "co_since s1 = 0" and "\<exists>bk'. co_handler s1 = Some bk' \<and> bk_accounts bk' = bk_accounts bk" .
  then obtain bk' where bk': "co_handler s1 = Some bk'" "bk_accounts bk' = bk_accounts bk" by blast
  have short: "co_since s1 + length (concat bss) < cc_reorg_interval cfg" using since assms(10) by simp
  have "ReorgDetected a h info \<notin> set (co_sent s)" using assms(16) by (auto simp: list_all_iff found_reorg_def)
  then have res: "rr_information r = Some info" "rr_resume r = h"
    using assms(15) unfolding stream_sends [OF rest assms(4) bk'(1) short] sent by (auto split: option.splits)
  let ?kept = "filter (\<lambda>b. bl_height b < h) (old @ in_batch (tg_next t) bs)"
  have "scans (bk_accounts bk) a d0 ?kept (co_db s1)"
    using scans.reorg [OF scans.batch [OF assms(13) blocks refl assms(14)] reorg] res assms(18) by simp
  note now = scans_tracked [OF this assms(11,12)]
  have "find_target a (co_targets s1) = Inr (t\<lparr>tg_next := h\<rparr>)"
    using target assms(7) by (simp add: res find_target_def)
  from stream_refines [OF rest assms(4,5) this _ bk' trackedD(1) [OF now] short] assms(3,17)
  show ?thesis using tracked_unspent [OF now] by simp
qed

section \<open>The property on a concrete stream\<close>

text \<open>
  The stream was opened on the branch with block 9 of hash \<open>90\<close>. The node is on the other branch by
  the time of the check; its block 9 receives \<open>[3]\<close> and is not in the stream.
\<close>

definition stream_config :: coord_config where
  "stream_config = sample_config\<lparr>cc_reorg_interval := 2\<rparr>"

definition later_batches :: "block_scan list list" where
  "later_batches = [[plain_block 10 [10] [[4]] []]]"

definition stream_start :: coord where
  "stream_start = new_coord 3 [target_at 1 7] account_db"

definition stream_run :: "(scan_db_error + bool) \<times> coord" where
  "stream_run = process_stream sample_tools stream_config None sample_chain 7 [1]
     (Inr first_branch # map Inr later_batches @ [Inr []]) stream_start"

definition reorg_at :: "u64 \<Rightarrow> coord_event \<Rightarrow> bool" where
  "reorg_at h ev \<longleftrightarrow> (case ev of ReorgDetected b n _ \<Rightarrow> b = 1 \<and> n = h | _ \<Rightarrow> False)"

lemma reorg_atD: "reorg_at h ev \<Longrightarrow> \<exists>info. ev = ReorgDetected 1 h info"
  by (cases ev) (simp_all add: reorg_at_def)

theorem midstream_reorg_skips_blocks_witness:
  "\<exists>stopped s'. stream_run = (Inr stopped, s') \<and> unspent (co_db s') 1 = {[1], [4]} \<and>
     (\<exists>t. find_target 1 (co_targets s') = Inr t \<and> tg_next t = 11)"
proof -
  let ?bk = "with_event_sender [(1, [5])] False 3"
  have "succeeds_with stream_run (\<lambda>_ s. list_ex (reorg_at 8) (co_sent s))" by code_simp
  then obtain stopped s' info where run: "stream_run = (Inr stopped, s')" and found: "ReorgDetected 1 8 info \<in> set (co_sent s')"
    by (auto simp: with_iffs list_ex_iff dest!: reorg_atD)
  have start: "co_targets stream_start = [target_at 1 7]" "tg_account (target_at 1 7) = 1" "co_handler stream_start = Some ?bk"
    "co_sent stream_start = []" "co_db stream_start = account_db" "co_since stream_start = 0"
    by (simp_all add: stream_start_def new_coord_def target_at_def)
  have shape: "first_branch \<noteq> []" "later_batches \<noteq> []" "[] \<notin> set later_batches"
    "sorted_wrt (<) (map bl_height (concat later_batches))"
    "cc_reorg_interval stream_config \<le> co_since stream_start + length first_branch"
    "length (concat later_batches) < cc_reorg_interval stream_config"
    "ascending ([] @ in_batch (tg_next (target_at 1 7)) first_branch)"
    "list_all (\<lambda>ev. \<not> found_reorg ev) (co_sent stream_start)"
    "list_all (\<lambda>b. 8 \<le> bl_height b) (concat later_batches)"
    by (simp_all add: first_branch_def later_batches_def plain_block_def stream_config_def sample_config_def start
        ascending_def in_batch_def target_at_def)
  have db: "tables_ok account_db" "new_account 1 account_db" by code_simp+
  have past: "scans (bk_accounts ?bk) 1 account_db [] (co_db stream_start)" by (simp add: start scans.start)
  have "unspent (co_db s') 1 = fold (block_step (bk_accounts ?bk) 1)
       (filter (\<lambda>b. bl_height b < 8) ([] @ in_batch (tg_next (target_at 1 7)) first_branch) @ concat later_batches) {} \<and>
     (\<exists>t'. find_target 1 (co_targets s') = Inr t' \<and> tg_next t' = bl_height (last (concat later_batches)) + 1)"
    by (rule midstream_reorg_skips_blocks [OF run [unfolded stream_run_def] shape(1-4) start(1-3) shape(5,6) db past
      shape(7) found shape(8,9)]) simp
  moreover have "fold (block_step (bk_accounts ?bk) 1)
       (filter (\<lambda>b. bl_height b < 8) ([] @ in_batch (tg_next (target_at 1 7)) first_branch) @ concat later_batches) {} =
     {[1], [4]}" "bl_height (last (concat later_batches)) + 1 = 11" by code_simp+
  ultimately show ?thesis using run by auto
qed

end
