(* ===== verification/Spec2Isabelle.thy ===== *)
theory Spec2Isabelle
  imports Block_Properties Reorg_Effects Locking Burn_Proofs Monitor_Properties Sender_Properties
    Scanner_Properties Coordinator_Properties Service_Properties Node_Properties Cli_Properties
    Router Db_Init History Stream_Reorgs Logging
begin

text \<open>
  \<^bold>\<open>The minotari wallet daemon: a verification development of its core\<close>

  \<^bold>\<open>The program.\<close> The wallet (crate \<^verbatim>\<open>minotari\<close>) scans the blocks of a Tari chain for outputs
  that belong to its accounts and keeps everything it finds in a SQLite database. The scan
  coordinator fetches batches of scanned blocks (crate \<^verbatim>\<open>minotari-scanning\<close>), the batch handler
  runs the block processor over them inside one database transaction, a reorganisation rolls an
  account back to the last common block, the fund locker reserves outputs for an outgoing
  transaction, and background tasks release expired locks and deliver webhooks.

  \<^bold>\<open>The database as a value.\<close> The state of the model is the record \<open>db\<close> of theory Store: for each
  table the list of its rows in insertion order and the counter of its autoincrement key. A
  database function of the code becomes a computation \<open>db \<Rightarrow> (error + value) \<times> db\<close> (theory
  Effects): statements keep their effect when a later one fails, \<open>transact\<close> restores the state at
  an error, as a transaction dropped without commit does. Unique indexes, foreign keys,
  \<^verbatim>\<open>INSERT OR IGNORE\<close>, \<^verbatim>\<open>ON CONFLICT\<close>, \<^verbatim>\<open>ORDER BY\<close>, \<^verbatim>\<open>LIMIT\<close> and the overflow of \<^verbatim>\<open>SUM\<close> are written
  out where a statement uses them. JSON columns hold the decoded value, \<open>None\<close> one that does not
  parse. Amounts and heights are \<open>u64\<close> (natural numbers) and \<open>i64\<close> (integers); every cast the code
  writes is \<open>i64_of_u64\<close> or \<open>u64_of_i64\<close>, which wrap as the machine does, and the saturating
  operations are their own functions. Plain additions of amounts are exact: the total supply of
  the chain is far below \<open>2 ^ 64\<close>.

  \<^bold>\<open>The theories, in the order of the code.\<close>

  \<^item> Prelude and Effects: machine integers, decimal text, the monad, loops over it, SQL on row
    lists, and the locale \<open>text_codec\<close> of an enumeration stored as text. Refinement: the
    contracts of a loop as locales, \<open>run_invariant\<close> (the body keeps an invariant),
    \<open>run_refinement\<close> (and refines a step on an abstraction) and \<open>frame\<close> (what a run may touch,
    whether it succeeds or not); the loops of the block processor and of the monitor are
    interpretations.
  \<^item> Models, Display_Types and Store: the structs of \<^verbatim>\<open>models/\<close>, of the displayed transactions
    with their builder, and the rows of all tables. Models interprets \<open>text_codec\<close> on the four
    status enumerations.
  \<^item> One theory for each file of \<^verbatim>\<open>db/\<close>, with every operation of the file: Ledger
    (\<^verbatim>\<open>balance_changes.rs\<close>), Outputs, Inputs, Tip_Blocks, Events, Accounts, Pending_Txs,
    Completed_Txs, Displayed_Txs, Payref_History, Burn_Proofs; Webhooks holds the queue together
    with the trigger and the batch of the delivery worker of \<^verbatim>\<open>webhooks/\<close>.
  \<^item> Holdings: the first abstraction. \<open>held d a\<close> is what the active outputs of an account are
    worth less what its active inputs spend, \<open>booked d a\<close> what the ledger says; an account is
    \<open>balanced\<close> when they agree. \<open>store_ok\<close> is the well-formedness of the two tables. The lemmas
    give the effect of every operation on both sums.
  \<^item> Locking: \<^verbatim>\<open>transactions/input_selector.rs\<close>, \<^verbatim>\<open>fund_locker.rs\<close>, \<^verbatim>\<open>fee_estimator.rs\<close> and
    \<^verbatim>\<open>tasks/unlocker.rs\<close>. The locale \<open>lock_table\<close> states the laws of a table of exclusive locks,
    its interpretation \<open>output_locks\<close> proves them of the lock columns of the outputs table. The
    fee calculation and the branch-and-bound search belong to another crate and are the fields
    of \<open>fee_tools\<close>; the locking properties assume of the search only that it returns candidates
    it was given.
  \<^item> Subset_Search and Display_Processor: \<^verbatim>\<open>displayed_transaction_processor/processor.rs\<close> and
    \<^verbatim>\<open>scan/block_event_accumulator.rs\<close>. The recursion of the subset search has the measure
    \<open>length vals - step\<close>.
  \<^item> Block_Processor: \<^verbatim>\<open>scan/block_processor.rs\<close> and the batch transaction of
    \<^verbatim>\<open>scan/scan_db_handler.rs\<close>. Block_Effects, Unspent_Set, Block_Refinement and
    Block_Properties hold what a block and a batch do: to both balances, and to the second
    abstraction \<open>unspent d a\<close>, the set of the hashes of the unspent outputs, on which a block
    refines the step \<open>block_step\<close>.
  \<^item> Reorg and Reorg_Effects: \<^verbatim>\<open>scan/reorg.rs\<close>, the fork point and the rollback, table by table.
  \<^item> History: the composition of both. The step relation \<open>scans\<close> is any sequence of batches, of
    reorganisations and of statements that leave the keys of the rows, with the list of the
    surviving blocks; its invariant \<open>tracked\<close> says of every height what the tables below it hold,
    so that a rollback finds the state of that height again. Stream_Reorgs adds the coordinator:
    a reorganisation in the middle of a stream.
  \<^item> Monitor: \<^verbatim>\<open>transactions/monitor.rs\<close>, the cycle that broadcasts completed transactions, finds
    the mined ones and confirms them. Monitor_Effects states what a statement may touch
    (\<open>always\<close>, \<open>moves\<close>) and the life cycle \<open>next_status\<close>, which orders the states
    (\<open>completed_status\<close> is an instance of \<open>order\<close>, and no sequence of cycles steps back in it);
    Monitor_Properties holds the properties.
  \<^item> Tx_Building: \<^verbatim>\<open>transactions/one_sided_transaction.rs\<close>, \<^verbatim>\<open>validator_node/\<close> and \<^verbatim>\<open>burn/\<close>, the
    order of the checks, locks and calls; Tx_Sender: \<^verbatim>\<open>transactions/manager.rs\<close>, the preparation
    and the finalisation of a payment with their clean-up. Sender_Properties holds the properties.
  \<^item> Scanner: the crate \<^verbatim>\<open>minotari-scanning\<close> over HTTP. The retry loop has the measure
    \<open>(max_retries - timeouts) + (max_retries - errors)\<close>; the download of a range trusts the node to
    make progress, so it is a partial function, and Scanner_Properties proves that it returns when
    the node serves a chain (\<open>serves\<close>). One HTTP call is a function of its number among the
    retries; Http_Calls makes these functions (\<open>node_of_wire\<close>) from the replies of a server,
    with the checks of status and body. The two senders of the result
    channel are interleaved by an argument.
  \<^item> Coordinator: \<^verbatim>\<open>scan/coordinator.rs\<close>, \<^verbatim>\<open>scanner_state_manager.rs\<close>, \<^verbatim>\<open>config.rs\<close> and \<^verbatim>\<open>builder.rs\<close>.
    The loop consumes one \<open>cycle_input\<close> for each turn: what the token, the scanner and the chain
    show in it; a list that is used up is a scan that still runs. Coordinator_Properties composes
    the scanner, the coordinator and the block processor.
  \<^item> The services around the core: Webhook_Delivery (\<^verbatim>\<open>webhooks/sender.rs\<close>, the loop of \<^verbatim>\<open>worker.rs\<close>,
    and \<open>background_task\<close>, the shape of every polling task), Burn_Worker
    (\<^verbatim>\<open>tasks/burn_proof_worker.rs\<close>, over the database and the proof files), Tx_History
    (\<^verbatim>\<open>transactions/transaction_history.rs\<close>), Api (\<^verbatim>\<open>api/\<close>: every handler over the modelled
    operations, with its defaults, limits and status codes) and Daemon (\<^verbatim>\<open>daemon.rs\<close>: the loop
    that scans and sleeps). Service_Properties holds the properties of the services.
  \<^item> Http_Client (\<^verbatim>\<open>http/\<close>: requests, their errors and latency, the size check and the calls to
    the node), Router (the routes of \<^verbatim>\<open>api/mod.rs\<close>), Grpc_Scanner (the other implementation of
    the scanner), Wallet_Keys (\<^verbatim>\<open>utils/crypto.rs\<close>, \<^verbatim>\<open>fingerprint.rs\<close>, \<^verbatim>\<open>init_wallet.rs\<close> and what
    \<^verbatim>\<open>db/accounts.rs\<close> reads from a decrypted wallet), Db_Init (\<^verbatim>\<open>db/mod.rs\<close>, the opening of a
    database) and Logging (\<^verbatim>\<open>log/\<close>: the masks, the console encoder, the start). Node_Properties holds the properties of
    the client, of the two scanners and of the keys.
  \<^item> The command line: Config (\<^verbatim>\<open>cli.rs\<close> and \<^verbatim>\<open>config/\<close>), Cli_Commands (\<^verbatim>\<open>commands/\<close>) and Cli
    (\<^verbatim>\<open>main.rs\<close>). A command is a run over \<open>cli_world\<close>: the databases and the files by path and the
    lines printed; \<open>run_command\<close> is the dispatch, with one definition for each larger arm.
    Cli_Properties holds the properties of the commands; it compares the command line with the
    API by the relation \<open>agree\<close>, which forgets what an error says.
  \<^item> Samples: the concrete states the witnesses run on.

  \<^bold>\<open>What the properties show.\<close> A committed batch is the sequence of abstract steps of its blocks
  and keeps ledger and outputs in step; whatever batches and reorganisations an account went
  through, it owns what one scan of the surviving blocks gives; a rollback removes exactly what was mined from its height
  on, keeps the books consistent and saves the payment references; the fork point is the newest
  recorded block the chain still has; errors leave no trace; locks are exclusive and expired ones
  are released; the new transactions of a block show every balance change exactly once, and the
  subset search behind them is sound, complete and never uses an input twice. The download
  delivers the chain without a gap, the stream of a turn takes the abstract step of every block,
  requests end within a bounded time, the range of a turn is valid and the buffer of a continuous
  scan is bounded. The monitor only moves transactions forward and confirms the deep ones; a
  payment whose preparation or finalisation fails releases its funds. A webhook is delivered at
  most ten times, the burn worker completes exactly what can be completed and loses no amount, and
  a payment reference from before a reorganisation still finds its transaction over the API. The
  command that burns funds is the operation of the API, a transaction goes to the node once and
  only within the limit, and a created wallet is read again from its account with its password.

  \<^bold>\<open>What they show to go wrong.\<close> An output whose spend is rolled back stays spent; the other locks
  of a cancelled transaction are never released; two interleaved requests can both be given the
  same output; a tip block that is processed again debits its inputs again, or fails when it holds
  an output of the wallet; the scan never runs the monitor; an account that is scanned apart from
  the others loses its outputs; the end of the stream can overtake the batches; a reorganisation
  found between two batches of a stream leaves a gap of blocks that are never scanned; an unreachable
  node rejects a payment; a payment whose locks were released is still submitted, and so is a
  validator node transaction whose command failed at the node. A rescan from a height whose
  predecessor was pruned scans blocks again that it did not roll back, a server that knows no
  header rolls an account back to zero, and the two scanners disagree on a block with an output
  that cannot be recovered.

  \<^bold>\<open>Parameters.\<close> Functions of other crates are the fields of the record \<open>externals\<close> (payment
  reference, deterministic transaction id, date conversion, hex, JSON texts) and nothing is
  assumed of them; the clock is its field \<open>x_now\<close>, so that one run sees one time. The chain is a
  function from heights to the answer of the node, the fresh identifiers of the fund locker, the
  jitter of the webhook worker and the delivery are arguments. Where the code sorts unstably or
  iterates over a hash map or a hash set, the model fixes one order.

  \<^bold>\<open>Not modelled.\<close> The transport of a request, file access and the parsing of arguments, JSON,
  addresses and keys (arguments of the definitions that use them), the cipher and the
  cryptographic scan of an output, the pattern encoder of the log, the thread hand-over between tasks,
  the migrations of the database, the OpenAPI schemas, and the integration tests.
\<close>

end
